(* ===== verification/Go_Prelude.thy ===== *)
theory Go_Prelude
  imports Main "HOL-Library.AList" "HOL-Library.Char_ord" "HOL-Library.List_Lexorder"
    "HOL-Library.Product_Lexorder" "HOL-Library.Multiset"
begin

text \<open>
  Shared vocabulary of the development: the parts of Go and of its standard library that the
  controller's source relies on. Instants, errors and their wrapping, 64-bit arithmetic,
  association lists for Go maps, the \<open>strings\<close> functions the validators call and the ordering
  that \<open>slices.SortFunc\<close> and \<open>sort.Slice\<close> are called with.
\<close>

section \<open>Collections of rewrite rules\<close>

named_theorems go_simps "equations of the Go standard library model"

section \<open>Time\<close>

text \<open>
  A \<open>time.Time\<close> is the number of nanoseconds since Go's zero instant, so \<open>IsZero\<close> is a comparison
  with 0; a \<open>time.Duration\<close> is a number of nanoseconds. \<open>Time.Sub\<close> saturates at the bounds of
  \<open>int64\<close>, as the standard library documents.
\<close>

type_synonym time = int
type_synonym duration = int

definition Second :: duration where
  "Second = 1000000000"

definition Minute :: duration where
  "Minute = 60 * Second"

definition Hour :: duration where
  "Hour = 60 * Minute"

lemmas duration_defs = Hour_def Minute_def Second_def

definition max_int64 :: int where
  "max_int64 = 9223372036854775807"

definition min_int64 :: int where
  "min_int64 = - 9223372036854775808"

definition time_IsZero :: "time \<Rightarrow> bool" where
  [go_simps]: "time_IsZero t \<longleftrightarrow> t = 0"

definition time_Before :: "time \<Rightarrow> time \<Rightarrow> bool" where
  [go_simps]: "time_Before t u \<longleftrightarrow> t < u"

definition time_After :: "time \<Rightarrow> time \<Rightarrow> bool" where
  [go_simps]: "time_After t u \<longleftrightarrow> t > u"

definition time_Add :: "time \<Rightarrow> duration \<Rightarrow> time" where
  [go_simps]: "time_Add t d = t + d"

definition time_Sub :: "time \<Rightarrow> time \<Rightarrow> duration" where
  "time_Sub t u = max min_int64 (min max_int64 (t - u))"

text \<open>Saturation never changes a comparison with a representable bound.\<close>

lemma time_Sub_gt [go_simps]: "min_int64 \<le> d \<Longrightarrow> d < max_int64 \<Longrightarrow> time_Sub t u > d \<longleftrightarrow> t - u > d"
  by (auto simp: time_Sub_def)

lemma time_Sub_less [go_simps]: "min_int64 < d \<Longrightarrow> d \<le> max_int64 \<Longrightarrow> time_Sub t u < d \<longleftrightarrow> t - u < d"
  by (auto simp: time_Sub_def)

section \<open>Errors\<close>

text \<open>
  An \<open>error\<close> value is the list of sentinel errors that \<open>errors.Is\<close> finds in its chain and the text
  that \<open>Error()\<close> prints. The sentinels are the package-level error values of the source and the
  Kubernetes status reasons that \<open>apierrors\<close> classifies.
\<close>

datatype sentinel =
    ErrIncomplete | ErrExhausted
  | ErrConflict | ErrCapacity | ErrNoEffect
  | ErrOverlayAddressesExhausted
  | ErrAttemptNotFound | ErrRerunRejected
  | ErrUnsupported | ErrChanged | ErrCheckpointOwnership | ErrBindingChange
  | StatusNotFound | StatusConflict | StatusAlreadyExists

datatype err = Err (err_is: "sentinel list") (err_text: string)

definition errors_New :: "string \<Rightarrow> err" where
  "errors_New s = Err [] s"

definition errors_Is :: "err \<Rightarrow> sentinel \<Rightarrow> bool" where
  [go_simps]: "errors_Is e s \<longleftrightarrow> s \<in> set (err_is e)"

lemma err_is_New [simp]: "err_is (errors_New s) = []"
  by (simp add: errors_New_def)

lemma err_text_New [simp]: "err_text (errors_New s) = s"
  by (simp add: errors_New_def)

text \<open>
  The verb \<open>%q\<close> of the error texts; the escapes it uses for control characters are left out, since
  no decision depends on the text of an error.
\<close>

definition fmt_q :: "string \<Rightarrow> string" where
  "fmt_q s = [CHR 0x22] @ s @ [CHR 0x22]"

text \<open>\<open>errors.Is\<close> on a possibly nil error.\<close>

definition opt_Is :: "err option \<Rightarrow> sentinel \<Rightarrow> bool" where
  [go_simps]: "opt_Is e s \<longleftrightarrow> (case e of None \<Rightarrow> False | Some x \<Rightarrow> errors_Is x s)"

fun join_text :: "string list \<Rightarrow> string" where
  "join_text [] = []"
| "join_text [s] = s"
| "join_text (s # ss) = s @ [CHR 0x0A] @ join_text ss"

definition errors_Join :: "err list \<Rightarrow> err option" where
  "errors_Join es = (if es = [] then None
     else Some (Err (concat (map err_is es)) (join_text (map err_text es))))"

lemma errors_Join_None [simp]: "errors_Join es = None \<longleftrightarrow> es = []"
  by (simp add: errors_Join_def)

section \<open>64-bit integers\<close>

text \<open>
  Go's \<open>int\<close> and \<open>int64\<close> are integers; where a computed value is not bounded by an earlier check the
  wrap-around of two's complement is written out with \<open>wrap64\<close>. Division truncates towards zero.
\<close>

definition wrap64 :: "int \<Rightarrow> int" where
  "wrap64 x = (x + 9223372036854775808) mod 18446744073709551616 - 9223372036854775808"

lemma wrap64_id: "min_int64 \<le> x \<Longrightarrow> x \<le> max_int64 \<Longrightarrow> wrap64 x = x"
  by (simp add: wrap64_def min_int64_def max_int64_def)

lemma wrap64_range: "min_int64 \<le> wrap64 x \<and> wrap64 x \<le> max_int64"
proof -
  have "0 \<le> (x + 9223372036854775808) mod 18446744073709551616"
    and "(x + 9223372036854775808) mod 18446744073709551616 < 18446744073709551616"
    by simp_all
  then show ?thesis
    by (simp add: wrap64_def min_int64_def max_int64_def)
qed

definition go_div :: "int \<Rightarrow> int \<Rightarrow> int" where
  "go_div a b = sgn a * sgn b * (\<bar>a\<bar> div \<bar>b\<bar>)"

lemma go_div_nonneg: "0 \<le> a \<Longrightarrow> 0 < b \<Longrightarrow> go_div a b = a div b"
  by (cases "a = 0") (simp_all add: go_div_def)

section \<open>Maps\<close>

text \<open>
  A Go map is an association list; the list order is the order in which one particular \<open>range\<close>
  loop visits the entries. Lookup is \<open>map_of\<close>, assignment \<open>AList.update\<close>, \<open>delete\<close> is
  \<open>AList.delete\<close>. A nil map and an empty map read the same and are both \<open>[]\<close>.
\<close>

type_synonym ('k, 'v) gomap = "('k \<times> 'v) list"

abbreviation keys :: "('k, 'v) gomap \<Rightarrow> 'k list" where
  "keys m \<equiv> map fst m"

definition map_get :: "'v \<Rightarrow> ('k, 'v) gomap \<Rightarrow> 'k \<Rightarrow> 'v" where
  "map_get d m k = (case map_of m k of None \<Rightarrow> d | Some v \<Rightarrow> v)"

abbreviation map_true :: "('k, bool) gomap \<Rightarrow> 'k \<Rightarrow> bool" where
  "map_true m k \<equiv> map_get False m k"

abbreviation has_key :: "('k, 'v) gomap \<Rightarrow> 'k \<Rightarrow> bool" where
  "has_key m k \<equiv> map_of m k \<noteq> None"

lemma map_get_update [simp]:
  "map_get d (AList.update k v m) k' = (if k' = k then v else map_get d m k')"
  by (simp add: map_get_def update_conv')

lemma map_get_Nil [simp]: "map_get d [] k = d"
  by (simp add: map_get_def)

lemma map_of_AList_update [simp]:
  "map_of (AList.update k v m) k' = (if k' = k then Some v else map_of m k')"
  by (simp add: update_conv')

lemma map_of_AList_delete [simp]:
  "map_of (AList.delete k m) k' = (if k' = k then None else map_of m k')"
  by (simp add: delete_conv')

lemma keys_update: "set (keys (AList.update k v m)) = insert k (set (keys m))"
  by (simp add: dom_update)

lemma distinct_keys_update: "distinct (keys m) \<Longrightarrow> distinct (keys (AList.update k v m))"
  by (rule distinct_update)

section \<open>Strings\<close>

text \<open>
  A Go string is a list of bytes. \<open>strings.Trim s cut = \"\"\<close> holds exactly when every byte of
  \<open>s\<close> is in the (ASCII) cut set. \<open>strings.TrimSpace\<close> removes the white space of Unicode at both
  ends; the table lists the UTF-8 encodings of the code points for which \<open>unicode.IsSpace\<close> holds.
\<close>

definition strip_prefix_of :: "string list \<Rightarrow> string \<Rightarrow> string option" where
  "strip_prefix_of encs s =
     (case find (\<lambda>e. e \<noteq> [] \<and> take (length e) s = e) encs of
        None \<Rightarrow> None | Some e \<Rightarrow> Some (drop (length e) s))"

lemma strip_prefix_of_shorter:
  assumes "strip_prefix_of encs s = Some s'"
  shows "length s' < length s"
proof -
  from assms obtain e where "find (\<lambda>e. e \<noteq> [] \<and> take (length e) s = e) encs = Some e"
    and s': "s' = drop (length e) s"
    by (auto simp: strip_prefix_of_def split: option.splits)
  then have e: "e \<noteq> []" "take (length e) s = e"
    by (auto simp: find_Some_iff)
  then have "length e \<le> length s"
    by (metis length_take min.cobounded1)
  with e s' show ?thesis by (cases e) auto
qed

function trim_left_of :: "string list \<Rightarrow> string \<Rightarrow> string" where
  "trim_left_of encs s =
     (case strip_prefix_of encs s of None \<Rightarrow> s | Some s' \<Rightarrow> trim_left_of encs s')"
  by pat_completeness auto
termination
  by (relation "measure (\<lambda>(encs, s). length s)") (auto dest: strip_prefix_of_shorter)

declare trim_left_of.simps [simp del]

definition byte_range :: "nat \<Rightarrow> nat \<Rightarrow> char list" where
  "byte_range a b = map char_of [a ..< Suc b]"

definition space_encodings :: "string list" where
  "space_encodings =
     [[CHR 0x09], [CHR 0x0A], [CHR 0x0B], [CHR 0x0C], [CHR 0x0D], [CHR 0x20],
      [CHR 0xC2, CHR 0x85], [CHR 0xC2, CHR 0xA0], [CHR 0xE1, CHR 0x9A, CHR 0x80]]
     @ map (\<lambda>b. [CHR 0xE2, CHR 0x80, b]) (byte_range 128 138)
     @ [[CHR 0xE2, CHR 0x80, CHR 0xA8], [CHR 0xE2, CHR 0x80, CHR 0xA9],
        [CHR 0xE2, CHR 0x80, CHR 0xAF], [CHR 0xE2, CHR 0x81, CHR 0x9F],
        [CHR 0xE3, CHR 0x80, CHR 0x80]]"

definition strings_TrimSpace :: "string \<Rightarrow> string" where
  "strings_TrimSpace s =
     rev (trim_left_of (map rev space_encodings) (rev (trim_left_of space_encodings s)))"

definition strings_Trim_empty :: "string \<Rightarrow> string \<Rightarrow> bool" where
  "strings_Trim_empty s cutset \<longleftrightarrow> list_all (\<lambda>c. List.member cutset c) s"

definition strings_ContainsAny :: "string \<Rightarrow> string \<Rightarrow> bool" where
  "strings_ContainsAny s cs \<longleftrightarrow> list_ex (\<lambda>c. List.member cs c) s"

definition strings_HasPrefix :: "string \<Rightarrow> string \<Rightarrow> bool" where
  "strings_HasPrefix s p \<longleftrightarrow> take (length p) s = p"

fun strings_Contains :: "string \<Rightarrow> string \<Rightarrow> bool" where
  "strings_Contains [] p \<longleftrightarrow> p = []"
| "strings_Contains (c # s) p \<longleftrightarrow> strings_HasPrefix (c # s) p \<or> strings_Contains s p"

text \<open>\<open>strings.Split\<close> at a one-byte separator: never empty, and joining gives the text back.\<close>

fun strings_Split :: "string \<Rightarrow> char \<Rightarrow> string list" where
  "strings_Split [] sep = [[]]"
| "strings_Split (c # s) sep =
     (if c = sep then [] # strings_Split s sep
      else case strings_Split s sep of [] \<Rightarrow> [[c]] | part # parts \<Rightarrow> (c # part) # parts)"

lemma strings_Split_nonempty [simp]: "strings_Split s sep \<noteq> []"
  by (cases s) (auto split: list.splits)

lemma strings_Split_parts: "part \<in> set (strings_Split s sep) \<Longrightarrow> sep \<notin> set part"
  by (induction s arbitrary: part) (auto split: if_splits list.splits)

fun join_on :: "char \<Rightarrow> string list \<Rightarrow> string" where
  "join_on sep [] = []"
| "join_on sep [part] = part"
| "join_on sep (part # parts) = part @ [sep] @ join_on sep parts"

lemma join_on_Cons: "parts \<noteq> [] \<Longrightarrow> join_on sep (part # parts) = part @ [sep] @ join_on sep parts"
  by (cases parts) simp_all

lemma join_strings_Split: "join_on sep (strings_Split s sep) = s"
proof (induction s)
  case (Cons c s)
  then show ?case
    by (cases "strings_Split s sep"; cases "tl (strings_Split s sep)")
      (auto simp: join_on_Cons)
qed simp

section \<open>Sorting\<close>

text \<open>
  \<open>slices.SortFunc\<close> and \<open>sort.Slice\<close> order by a key; the callers only sort lists whose keys are
  pairwise distinct, so the order of the result is fixed by the elements alone.
\<close>

lemma sort_key_perm_unique:
  assumes "mset xs = mset ys" and "inj_on f (set xs)"
  shows "sort_key f xs = sort_key f ys"
proof (rule sort_key_inj_key_eq)
  show "mset xs = mset (sort_key f ys)"
    using assms by simp
  show "inj_on f (set xs)"
    by (rule assms(2))
  show "sorted (map f (sort_key f ys))"
    by simp
qed

text \<open>The first element of a list sorted by a key that tells its elements apart.\<close>

definition is_least :: "('a \<Rightarrow> 'k::linorder) \<Rightarrow> 'a \<Rightarrow> 'a set \<Rightarrow> bool" where
  "is_least k x A \<longleftrightarrow> x \<in> A \<and> (\<forall>y \<in> A. k x \<le> k y)"

lemma hd_sort_key_least:
  assumes "xs \<noteq> []"
  shows "is_least k (hd (sort_key k xs)) (set xs)"
proof -
  obtain y ys where ys: "sort_key k xs = y # ys"
    using assms by (cases "sort_key k xs") (auto dest: arg_cong [of _ _ length])
  have "sorted (map k (y # ys))" and "set (y # ys) = set xs"
    unfolding ys [symmetric] by simp_all
  then show ?thesis
    by (auto simp: is_least_def ys)
qed

lemma is_least_unique:
  "is_least k x A \<Longrightarrow> is_least k y A \<Longrightarrow> inj_on k A \<Longrightarrow> x = y"
  unfolding is_least_def by (metis inj_onD order.antisym)

lemma hd_sort_key_eq:
  assumes "xs \<noteq> []" "inj_on k (set xs)"
  shows "hd (sort_key k xs) = x \<longleftrightarrow> is_least k x (set xs)"
  using hd_sort_key_least [OF assms(1), of k] is_least_unique [OF _ _ assms(2)] by blast

end
