(* ===== verification/Placement.thy ===== *)
theory Placement
  imports Go_Prelude
begin

text \<open>
  \<open>internal/placement/placement.go\<close>: choosing one offering from a price snapshot. The records and
  \<open>Validate\<close>, \<open>eligible\<close> and \<open>Choose\<close> follow the source; the lemmas show that a chosen offering
  satisfies every hard limit, is the cheapest of its class, and that on-demand capacity is reached
  only after every eligible spot pool was definitively rejected.
\<close>

section \<open>Data\<close>

record requirements =
  req_CPU :: int
  req_MemoryMiB :: int
  req_Architecture :: string
  req_Vendor :: string
  req_Capabilities :: "string list"
  req_Providers :: "string list"
  req_Regions :: "string list"
  req_MaxPriceMicros :: int
  req_AllowOnDemand :: bool
  req_Policy :: string

record gcp_sku_refs =
  sku_CoreSkuID :: string
  sku_RamSkuID :: string

record offering =
  off_ID :: string
  off_Provider :: string
  off_Region :: string
  off_Zone :: string
  off_Machine :: string
  off_Image :: string
  off_CPU :: int
  off_MemoryMiB :: int
  off_Architecture :: string
  off_Vendor :: string
  off_Capabilities :: "string list"
  off_Spot :: bool
  off_PriceMicros :: int
  off_Currency :: string
  off_ObservedAt :: time
  off_GCPSkuRefs :: "gcp_sku_refs option"

record catalog =
  cat_Offerings :: "offering list"
  cat_Complete :: "(string, bool) gomap"

text \<open>
  \<open>Outcome\<close> is a string type; the empty string (also what a missing map entry reads as) is
  \<open>NoOutcome\<close>, and any value other than the three constants is kept as it is.
\<close>

datatype outcome = NoOutcome | CapacityRejected | Unknown | CoolingDown | OtherOutcome string

definition outcome_of :: "(string, outcome) gomap \<Rightarrow> string \<Rightarrow> outcome" where
  "outcome_of m k = map_get NoOutcome m k"

definition MaxPriceAge :: duration where
  "MaxPriceAge = 5 * Minute"

definition maxPriceMicrosCeiling :: int where
  "maxPriceMicrosCeiling = 100000000000"

definition ErrIncomplete_error :: err where
  "ErrIncomplete_error = Err [ErrIncomplete] ''catalog or spot search incomplete''"

definition ErrExhausted_error :: err where
  "ErrExhausted_error = Err [ErrExhausted] ''eligible capacity exhausted''"

section \<open>Validation and eligibility\<close>

definition Requirements_Validate :: "requirements \<Rightarrow> err option" where
  "Requirements_Validate r =
     (if req_CPU r < 1 \<or> req_MemoryMiB r < 1 \<or> req_MaxPriceMicros r < 1
         \<or> req_MaxPriceMicros r > maxPriceMicrosCeiling
      then Some (errors_New ''positive cpu, memoryMiB and maxPriceMicros required, maxPriceMicros must not exceed 100000000000'')
      else if req_Architecture r \<noteq> ''amd64'' \<and> req_Architecture r \<noteq> ''arm64''
      then Some (errors_New ''architecture must be amd64 or arm64'')
      else if req_Providers r = [] \<or> req_Regions r = []
      then Some (errors_New ''explicit provider and region scope required'')
      else if req_Policy r \<noteq> ''lowest-price''
      then Some (errors_New ''unsupported policy'')
      else None)"

definition in_scope :: "offering \<Rightarrow> requirements \<Rightarrow> bool" where
  "in_scope o' r \<longleftrightarrow> List.member (req_Providers r) (off_Provider o')
     \<and> List.member (req_Regions r) (off_Region o')"

definition eligible :: "offering \<Rightarrow> requirements \<Rightarrow> bool" where
  "eligible o' r =
     (if \<not> in_scope o' r \<or> off_CPU o' < req_CPU r \<or> off_MemoryMiB o' < req_MemoryMiB r
         \<or> off_Architecture o' \<noteq> req_Architecture r \<or> off_PriceMicros o' > req_MaxPriceMicros r
      then False
      else if req_Vendor r \<noteq> [] \<and> off_Vendor o' \<noteq> req_Vendor r then False
      else list_all (\<lambda>c. List.member (off_Capabilities o') c) (req_Capabilities r))"

text \<open>The condition under which the loop refuses an in-scope offering as invalid or stale.\<close>

definition invalid_or_stale :: "time \<Rightarrow> offering \<Rightarrow> bool" where
  "invalid_or_stale now o' \<longleftrightarrow>
     off_CPU o' < 1 \<or> off_MemoryMiB o' < 1 \<or> off_Image o' = [] \<or> off_Machine o' = []
     \<or> off_Zone o' = [] \<or> off_PriceMicros o' < 0 \<or> off_Currency o' \<noteq> ''USD''
     \<or> time_IsZero (off_ObservedAt o') \<or> time_Before now (off_ObservedAt o')
     \<or> time_Sub now (off_ObservedAt o') > MaxPriceAge"

section \<open>Choose\<close>

record choose_state =
  cs_seen :: "(string, bool) gomap"
  cs_spot :: "offering list"
  cs_ondemand :: "offering list"
  cs_blocked :: bool
  cs_onDemandBlocked :: bool

definition choose_init :: choose_state where
  "choose_init = \<lparr>cs_seen = [], cs_spot = [], cs_ondemand = [], cs_blocked = False,
     cs_onDemandBlocked = False\<rparr>"

text \<open>The two \<open>switch outcomes[o.ID]\<close> statements at the end of the loop body.\<close>

definition choose_classify ::
    "(string, outcome) gomap \<Rightarrow> offering \<Rightarrow> choose_state \<Rightarrow> choose_state" where
  "choose_classify outcomes o' s =
     (if \<not> off_Spot o' then
        (case outcome_of outcomes (off_ID o') of
           NoOutcome \<Rightarrow> s\<lparr>cs_ondemand := cs_ondemand s @ [o']\<rparr>
         | CapacityRejected \<Rightarrow> s
         | _ \<Rightarrow> s\<lparr>cs_onDemandBlocked := True\<rparr>)
      else
        (case outcome_of outcomes (off_ID o') of
           NoOutcome \<Rightarrow> s\<lparr>cs_spot := cs_spot s @ [o']\<rparr>
         | CapacityRejected \<Rightarrow> s
         | _ \<Rightarrow> s\<lparr>cs_blocked := True\<rparr>))"

fun choose_loop ::
    "time \<Rightarrow> requirements \<Rightarrow> (string, outcome) gomap \<Rightarrow> choose_state \<Rightarrow> offering list
     \<Rightarrow> err + choose_state" where
  "choose_loop now r outcomes s [] = Inr s"
| "choose_loop now r outcomes s (o' # os) =
     (if off_ID o' = [] \<or> map_true (cs_seen s) (off_ID o')
      then Inl (errors_New ''missing or duplicate pool identity'')
      else let s = s\<lparr>cs_seen := AList.update (off_ID o') True (cs_seen s)\<rparr> in
        if \<not> in_scope o' r then choose_loop now r outcomes s os
        else if invalid_or_stale now o'
        then Inl (Err [ErrIncomplete]
               (''catalog or spot search incomplete: invalid or stale pool '' @ off_ID o'))
        else if \<not> eligible o' r then choose_loop now r outcomes s os
        else choose_loop now r outcomes (choose_classify outcomes o' s) os)"

definition rank_key :: "offering \<Rightarrow> int \<times> string" where
  "rank_key o' = (off_PriceMicros o', off_ID o')"

definition Choose ::
    "time \<Rightarrow> requirements \<Rightarrow> catalog \<Rightarrow> (string, outcome) gomap \<Rightarrow> err + offering" where
  "Choose now r c outcomes =
     (case Requirements_Validate r of Some e \<Rightarrow> Inl e | None \<Rightarrow>
      if \<not> list_all (\<lambda>p. map_true (cat_Complete c) p) (req_Providers r)
      then Inl ErrIncomplete_error
      else case choose_loop now r outcomes choose_init (cat_Offerings c) of
        Inl e \<Rightarrow> Inl e
      | Inr s \<Rightarrow>
          if cs_spot s \<noteq> [] then Inr (hd (sort_key rank_key (cs_spot s)))
          else if cs_blocked s then Inl ErrIncomplete_error
          else if req_AllowOnDemand r \<and> cs_ondemand s \<noteq> []
          then Inr (hd (sort_key rank_key (cs_ondemand s)))
          else if req_AllowOnDemand r \<and> cs_onDemandBlocked s then Inl ErrIncomplete_error
          else Inl ErrExhausted_error)"

section \<open>What the loop computes\<close>

text \<open>
  The specification vocabulary: the pools still open, and those whose last attempt was neither
  definitively rejected nor never made.
\<close>

definition open_pool :: "requirements \<Rightarrow> (string, outcome) gomap \<Rightarrow> bool \<Rightarrow> offering \<Rightarrow> bool" where
  "open_pool r outcomes spot o' \<longleftrightarrow> eligible o' r \<and> off_Spot o' = spot
     \<and> outcome_of outcomes (off_ID o') = NoOutcome"

definition undecided_pool :: "requirements \<Rightarrow> (string, outcome) gomap \<Rightarrow> bool \<Rightarrow> offering \<Rightarrow> bool" where
  "undecided_pool r outcomes spot o' \<longleftrightarrow> eligible o' r \<and> off_Spot o' = spot
     \<and> outcome_of outcomes (off_ID o') \<notin> {NoOutcome, CapacityRejected}"

definition admissible_catalog :: "time \<Rightarrow> requirements \<Rightarrow> offering list \<Rightarrow> bool" where
  "admissible_catalog now r os \<longleftrightarrow> distinct (map off_ID os) \<and> [] \<notin> off_ID ` set os
     \<and> (\<forall>o' \<in> set os. in_scope o' r \<longrightarrow> \<not> invalid_or_stale now o')"

lemma eligible_in_scope: "eligible o' r \<Longrightarrow> in_scope o' r"
  by (auto simp: eligible_def split: if_splits)

lemma classify_seen [simp]: "cs_seen (choose_classify outcomes o' s) = cs_seen s"
  by (simp add: choose_classify_def split: outcome.splits)

lemma classify_fields:
  assumes "eligible o' r"
  shows "cs_spot (choose_classify outcomes o' s)
           = cs_spot s @ filter (open_pool r outcomes True) [o']"
    and "cs_ondemand (choose_classify outcomes o' s)
           = cs_ondemand s @ filter (open_pool r outcomes False) [o']"
    and "cs_blocked (choose_classify outcomes o' s)
           \<longleftrightarrow> cs_blocked s \<or> undecided_pool r outcomes True o'"
    and "cs_onDemandBlocked (choose_classify outcomes o' s)
           \<longleftrightarrow> cs_onDemandBlocked s \<or> undecided_pool r outcomes False o'"
  using assms
  by (auto simp: choose_classify_def open_pool_def undecided_pool_def split: outcome.splits)

lemma not_eligible_pools:
  "\<not> eligible o' r \<Longrightarrow> \<not> open_pool r outcomes b o'"
  "\<not> eligible o' r \<Longrightarrow> \<not> undecided_pool r outcomes b o'"
  by (auto simp: open_pool_def undecided_pool_def)

definition loop_result :: "requirements \<Rightarrow> (string, outcome) gomap \<Rightarrow> choose_state \<Rightarrow> offering list
    \<Rightarrow> choose_state \<Rightarrow> bool" where
  "loop_result r outcomes s os s' \<longleftrightarrow>
     cs_spot s' = cs_spot s @ filter (open_pool r outcomes True) os
     \<and> cs_ondemand s' = cs_ondemand s @ filter (open_pool r outcomes False) os
     \<and> (cs_blocked s' \<longleftrightarrow> cs_blocked s \<or> (\<exists>o' \<in> set os. undecided_pool r outcomes True o'))
     \<and> (cs_onDemandBlocked s' \<longleftrightarrow>
          cs_onDemandBlocked s \<or> (\<exists>o' \<in> set os. undecided_pool r outcomes False o'))"

text \<open>One iteration that keeps the state's four answers or classifies the offering.\<close>

lemma loop_result_step:
  assumes "loop_result r outcomes s1 os s'"
    and "s1 = (if eligible o' r then choose_classify outcomes o' s0 else s0)"
    and "s0 = s\<lparr>cs_seen := m\<rparr>"
  shows "loop_result r outcomes s (o' # os) s'"
  using assms classify_fields [of o' r outcomes s0] not_eligible_pools [of o' r outcomes]
  by (cases "eligible o' r") (auto simp: loop_result_def)

text \<open>The state after the guards of one iteration, and the iteration itself without its errors.\<close>

abbreviation choose_next ::
    "requirements \<Rightarrow> (string, outcome) gomap \<Rightarrow> choose_state \<Rightarrow> offering \<Rightarrow> choose_state" where
  "choose_next r outcomes s o' \<equiv>
     (let s0 = s\<lparr>cs_seen := AList.update (off_ID o') True (cs_seen s)\<rparr>
      in if eligible o' r then choose_classify outcomes o' s0 else s0)"

lemma choose_loop_Cons_Inr:
  "choose_loop now r outcomes s (o' # os) = Inr t \<longleftrightarrow>
     off_ID o' \<noteq> [] \<and> \<not> map_true (cs_seen s) (off_ID o')
     \<and> (in_scope o' r \<longrightarrow> \<not> invalid_or_stale now o')
     \<and> choose_loop now r outcomes (choose_next r outcomes s o') os = Inr t"
  using eligible_in_scope [of o' r] by (auto simp: Let_def)

lemma choose_loop_result:
  "choose_loop now r outcomes s os = Inr s' \<Longrightarrow> loop_result r outcomes s os s'"
proof (induction os arbitrary: s)
  case Nil
  then show ?case by (simp add: loop_result_def)
next
  case (Cons o' os)
  then have "loop_result r outcomes (choose_next r outcomes s o') os s'"
    unfolding choose_loop_Cons_Inr by blast
  then show ?case
    by (rule loop_result_step) (simp_all add: Let_def)
qed

lemma choose_loop_ok_iff:
  "(\<exists>s'. choose_loop now r outcomes s os = Inr s') \<longleftrightarrow>
     admissible_catalog now r os \<and> (\<forall>o' \<in> set os. \<not> map_true (cs_seen s) (off_ID o'))"
proof (induction os arbitrary: s)
  case Nil
  show ?case by (simp add: admissible_catalog_def)
next
  case (Cons o' os)
  have seen: "(\<forall>p \<in> set os. \<not> map_true (cs_seen (choose_next r outcomes s o')) (off_ID p)) \<longleftrightarrow>
      off_ID o' \<notin> off_ID ` set os \<and> (\<forall>p \<in> set os. \<not> map_true (cs_seen s) (off_ID p))"
    by (auto simp: Let_def image_iff)
  show ?case
    unfolding choose_loop_Cons_Inr ex_simps Cons.IH seen by (auto simp: admissible_catalog_def)
qed

lemma choose_init_loop:
  "choose_loop now r outcomes choose_init os = Inr s' \<longleftrightarrow>
     admissible_catalog now r os \<and> choose_loop now r outcomes choose_init os = Inr s'
     \<and> cs_spot s' = filter (open_pool r outcomes True) os
     \<and> cs_ondemand s' = filter (open_pool r outcomes False) os
     \<and> (cs_blocked s' \<longleftrightarrow> (\<exists>o' \<in> set os. undecided_pool r outcomes True o'))
     \<and> (cs_onDemandBlocked s' \<longleftrightarrow> (\<exists>o' \<in> set os. undecided_pool r outcomes False o'))"
  using choose_loop_result [of now r outcomes choose_init os s']
    choose_loop_ok_iff [of now r outcomes choose_init os]
  by (auto simp: loop_result_def choose_init_def)

text \<open>Every error of the loop is a malformed identity or an incomplete catalog.\<close>

lemma choose_loop_error:
  "choose_loop now r outcomes s os = Inl e \<Longrightarrow> \<not> errors_Is e ErrExhausted"
  by (induction now r outcomes s os rule: choose_loop.induct)
    (auto simp: errors_New_def errors_Is_def Let_def split: if_splits)

section \<open>Correctness of \<open>Choose\<close>\<close>

text \<open>The offerings of a class, as sets: the specification ignores the order of the catalog.\<close>

definition open_pools :: "requirements \<Rightarrow> (string, outcome) gomap \<Rightarrow> bool \<Rightarrow> offering list \<Rightarrow> offering set" where
  "open_pools r outcomes spot os = {o' \<in> set os. open_pool r outcomes spot o'}"

definition undecided_pools :: "requirements \<Rightarrow> (string, outcome) gomap \<Rightarrow> bool \<Rightarrow> offering list \<Rightarrow> offering set" where
  "undecided_pools r outcomes spot os = {o' \<in> set os. undecided_pool r outcomes spot o'}"

definition covered_search :: "time \<Rightarrow> requirements \<Rightarrow> catalog \<Rightarrow> bool" where
  "covered_search now r c \<longleftrightarrow> Requirements_Validate r = None
     \<and> set (req_Providers r) \<subseteq> {p. map_true (cat_Complete c) p}
     \<and> admissible_catalog now r (cat_Offerings c)"

lemma filter_open_pools: "set (filter (open_pool r outcomes b) os) = open_pools r outcomes b os"
  by (auto simp: open_pools_def)

lemma filter_open_pools_Nil: "filter (open_pool r outcomes b) os = [] \<longleftrightarrow> open_pools r outcomes b os = {}"
  by (metis filter_open_pools set_empty)

lemma rank_key_inj:
  assumes "admissible_catalog now r os"
  shows "inj_on rank_key (open_pools r outcomes b os)"
proof (rule inj_onI)
  fix x y
  assume "x \<in> open_pools r outcomes b os" "y \<in> open_pools r outcomes b os" "rank_key x = rank_key y"
  then have "x \<in> set os" "y \<in> set os" "off_ID x = off_ID y"
    by (simp_all add: open_pools_def rank_key_def)
  with assms show "x = y"
    by (auto simp: admissible_catalog_def distinct_map dest: inj_onD)
qed

text \<open>\<open>Choose\<close> after its guards, over the sets of open and undecided pools.\<close>

lemma Choose_covered:
  assumes "covered_search now r c"
  shows "Choose now r c outcomes =
    (let os = cat_Offerings c in
     if open_pools r outcomes True os \<noteq> {}
     then Inr (hd (sort_key rank_key (filter (open_pool r outcomes True) os)))
     else if undecided_pools r outcomes True os \<noteq> {} then Inl ErrIncomplete_error
     else if req_AllowOnDemand r \<and> open_pools r outcomes False os \<noteq> {}
     then Inr (hd (sort_key rank_key (filter (open_pool r outcomes False) os)))
     else if req_AllowOnDemand r \<and> undecided_pools r outcomes False os \<noteq> {}
     then Inl ErrIncomplete_error else Inl ErrExhausted_error)"
proof -
  have "\<exists>s. choose_loop now r outcomes choose_init (cat_Offerings c) = Inr s"
    unfolding choose_loop_ok_iff using assms by (simp add: covered_search_def choose_init_def)
  then obtain s where loop: "choose_loop now r outcomes choose_init (cat_Offerings c) = Inr s"
    by blast
  note s = iffD1 [OF choose_init_loop loop]
  have guards: "Requirements_Validate r = None"
    "list_all (\<lambda>p. map_true (cat_Complete c) p) (req_Providers r)"
    using assms by (auto simp: covered_search_def list_all_iff)
  have blocked: "cs_blocked s \<longleftrightarrow> undecided_pools r outcomes True (cat_Offerings c) \<noteq> {}"
    "cs_onDemandBlocked s \<longleftrightarrow> undecided_pools r outcomes False (cat_Offerings c) \<noteq> {}"
    using s by (auto simp: undecided_pools_def)
  have lists: "cs_spot s = filter (open_pool r outcomes True) (cat_Offerings c)"
    "cs_ondemand s = filter (open_pool r outcomes False) (cat_Offerings c)"
    using s by blast+
  show ?thesis
    unfolding Choose_def loop Let_def
    by (simp only: guards option.case sum.case not_True_eq_False if_False blocked lists
        filter_open_pools_Nil simp_thms)
qed

lemma Choose_uncovered:
  assumes "\<not> covered_search now r c"
  obtains e where "Choose now r c outcomes = Inl e" "\<not> errors_Is e ErrExhausted"
proof (cases "Requirements_Validate r = None
    \<and> list_all (\<lambda>p. map_true (cat_Complete c) p) (req_Providers r)")
  case True
  then have "\<not> admissible_catalog now r (cat_Offerings c)"
    using assms by (auto simp: covered_search_def list_all_iff)
  then have "\<nexists>s. choose_loop now r outcomes choose_init (cat_Offerings c) = Inr s"
    unfolding choose_loop_ok_iff by blast
  then obtain e where "choose_loop now r outcomes choose_init (cat_Offerings c) = Inl e"
    by (cases "choose_loop now r outcomes choose_init (cat_Offerings c)") auto
  with True choose_loop_error [OF this] that show ?thesis
    by (simp add: Choose_def)
next
  case False
  then show ?thesis
    using that
    by (auto simp: Choose_def Requirements_Validate_def ErrIncomplete_error_def errors_Is_def
        errors_New_def split: if_splits)
qed

lemma Choose_uncovered_Inl:
  assumes "\<not> covered_search now r c"
  shows "Choose now r c outcomes \<noteq> Inr o'"
    and "\<not> (\<exists>e. Choose now r c outcomes = Inl e \<and> errors_Is e ErrExhausted)"
  using Choose_uncovered [OF assms, of outcomes] by (metis Inl_Inr_False, metis Inl_inject)

lemma Choose_success:
  "Choose now r c outcomes = Inr o' \<longleftrightarrow> covered_search now r c \<and>
     (is_least rank_key o' (open_pools r outcomes True (cat_Offerings c))
      \<or> open_pools r outcomes True (cat_Offerings c) = {}
        \<and> undecided_pools r outcomes True (cat_Offerings c) = {}
        \<and> req_AllowOnDemand r
        \<and> is_least rank_key o' (open_pools r outcomes False (cat_Offerings c)))"
proof (cases "covered_search now r c")
  case True
  let ?os = "cat_Offerings c"
  have inj: "inj_on rank_key (set (filter (open_pool r outcomes b) ?os))" for b
    unfolding filter_open_pools using True by (auto intro: rank_key_inj simp: covered_search_def)
  have least: "hd (sort_key rank_key (filter (open_pool r outcomes b) ?os)) = o'
      \<longleftrightarrow> is_least rank_key o' (open_pools r outcomes b ?os)"
    if "open_pools r outcomes b ?os \<noteq> {}" for b
    using hd_sort_key_eq [OF _ inj] that by (simp only: filter_open_pools filter_open_pools_Nil)
  have empty: "\<not> is_least rank_key o' {}"
    by (simp add: is_least_def)
  show ?thesis
    unfolding Choose_covered [OF True] Let_def
    by (cases "open_pools r outcomes True ?os = {}"; cases "open_pools r outcomes False ?os = {}")
      (simp_all add: True least empty)
next
  case False
  then show ?thesis
    by (simp add: Choose_uncovered_Inl)
qed

text \<open>
  Claim C4 (\<open>Choose\<close>, success). \<open>Choose\<close> returns an offering exactly when the requirements are valid,
  every provider's catalog is complete, the catalog has distinct non-empty identities with fresh
  in-scope prices, and the offering is the cheapest open eligible spot pool (ties broken by identity);
  or no open and no undecided eligible spot pool is left, on-demand is allowed, and it is the
  cheapest open eligible on-demand pool.
\<close>

theorem Choose_Inr_iff:
  "Choose now r c outcomes = Inr o' \<longleftrightarrow> covered_search now r c \<and>
     (is_least rank_key o' (open_pools r outcomes True (cat_Offerings c))
      \<or> open_pools r outcomes True (cat_Offerings c) = {}
        \<and> undecided_pools r outcomes True (cat_Offerings c) = {}
        \<and> req_AllowOnDemand r
        \<and> is_least rank_key o' (open_pools r outcomes False (cat_Offerings c)))"
  by (rule Choose_success)

text \<open>
  Claim C5 (\<open>Choose\<close>, exhaustion). \<open>Choose\<close> reports \<open>ErrExhausted\<close>, the error after which the
  lifecycle gives an allocation up, exactly when the search was covered and every eligible spot pool
  was definitively rejected, as well as every eligible on-demand pool when those are allowed: an
  unknown or cooling-down outcome, or a pool not tried yet, never counts as exhaustion.
\<close>

theorem Choose_exhausted_iff:
  "(\<exists>e. Choose now r c outcomes = Inl e \<and> errors_Is e ErrExhausted) \<longleftrightarrow>
     covered_search now r c \<and>
     {o' \<in> set (cat_Offerings c). eligible o' r \<and> (off_Spot o' \<or> req_AllowOnDemand r)}
       \<subseteq> {o'. outcome_of outcomes (off_ID o') = CapacityRejected}"
proof (cases "covered_search now r c")
  case True
  let ?os = "cat_Offerings c" and ?rejected = "{o'. outcome_of outcomes (off_ID o') = CapacityRejected}"
  have pools: "open_pools r outcomes b ?os = {} \<and> undecided_pools r outcomes b ?os = {} \<longleftrightarrow>
      {o' \<in> set ?os. eligible o' r \<and> off_Spot o' = b} \<subseteq> ?rejected" for b
    by (auto simp: open_pools_def undecided_pools_def open_pool_def undecided_pool_def)
  have exhausted: "(\<exists>e. Choose now r c outcomes = Inl e \<and> errors_Is e ErrExhausted) \<longleftrightarrow>
      (open_pools r outcomes True ?os = {} \<and> undecided_pools r outcomes True ?os = {})
      \<and> (req_AllowOnDemand r \<longrightarrow>
          open_pools r outcomes False ?os = {} \<and> undecided_pools r outcomes False ?os = {})"
    unfolding Choose_covered [OF True] Let_def
    by (simp add: ErrIncomplete_error_def ErrExhausted_error_def errors_Is_def)
  show ?thesis
    unfolding exhausted pools using True by auto
next
  case False
  then show ?thesis
    by (simp add: Choose_uncovered_Inl(2) del: not_ex)
qed

text \<open>
  Claim C6 (\<open>Choose\<close>, determinism). The order in which the catalog lists its offerings does not
  matter: with the same offerings in another order \<open>Choose\<close> returns the same offering, although the
  source sorts with an unstable sort.
\<close>

theorem Choose_order_irrelevant:
  assumes "mset os = mset (cat_Offerings c)"
  shows "Choose now r (c\<lparr>cat_Offerings := os\<rparr>) outcomes = Inr o' \<longleftrightarrow> Choose now r c outcomes = Inr o'"
proof -
  have sets: "set os = set (cat_Offerings c)"
    using assms by (rule mset_eq_setD)
  have "distinct (map off_ID os) = distinct (map off_ID (cat_Offerings c))"
    using assms by (intro mset_eq_imp_distinct_iff) simp
  with sets have "admissible_catalog now r os = admissible_catalog now r (cat_Offerings c)"
    by (simp add: admissible_catalog_def)
  with sets show ?thesis
    by (simp add: Choose_success covered_search_def open_pools_def undecided_pools_def)
qed

text \<open>A snapshot with a cheap spot pool, a dearer one and an on-demand pool, priced a minute ago.\<close>

definition demo_now :: time where
  "demo_now = 1000 * Hour"

definition demo_offering :: "string \<Rightarrow> bool \<Rightarrow> int \<Rightarrow> offering" where
  "demo_offering name spot price = \<lparr>off_ID = name, off_Provider = ''aws'', off_Region = ''us-east-1'',
     off_Zone = ''us-east-1a'', off_Machine = ''m7i.large'', off_Image = ''ami-1'', off_CPU = 2,
     off_MemoryMiB = 8192, off_Architecture = ''amd64'', off_Vendor = ''intel'',
     off_Capabilities = [''kvm''], off_Spot = spot, off_PriceMicros = price, off_Currency = ''USD'',
     off_ObservedAt = demo_now - Minute, off_GCPSkuRefs = None\<rparr>"

definition demo_requirements :: requirements where
  "demo_requirements = \<lparr>req_CPU = 2, req_MemoryMiB = 4096, req_Architecture = ''amd64'',
     req_Vendor = [], req_Capabilities = [''kvm''], req_Providers = [''aws''],
     req_Regions = [''us-east-1''], req_MaxPriceMicros = 90000, req_AllowOnDemand = True,
     req_Policy = ''lowest-price''\<rparr>"

definition demo_catalog :: catalog where
  "demo_catalog = \<lparr>cat_Offerings = [demo_offering ''b'' True 40000, demo_offering ''a'' True 30000,
       demo_offering ''c'' False 80000], cat_Complete = [(''aws'', True)]\<rparr>"

theorem Choose_order_irrelevant_witness:
  "mset (rev (cat_Offerings demo_catalog)) = mset (cat_Offerings demo_catalog) \<and>
   Choose demo_now demo_requirements (demo_catalog\<lparr>cat_Offerings := rev (cat_Offerings demo_catalog)\<rparr>) []
     = Inr (demo_offering ''a'' True 30000)"
proof -
  have "Choose demo_now demo_requirements demo_catalog [] = Inr (demo_offering ''a'' True 30000)"
    by code_simp
  then show ?thesis
    by (simp add: Choose_order_irrelevant)
qed

lemma demo_fallback:
  "Choose demo_now demo_requirements demo_catalog [(''a'', CapacityRejected), (''b'', Unknown)]
     = Inl ErrIncomplete_error"
  "Choose demo_now demo_requirements demo_catalog [(''a'', CapacityRejected), (''b'', CapacityRejected)]
     = Inr (demo_offering ''c'' False 80000)"
  by code_simp+

end
