(* ===== verification/Resources.thy ===== *)
theory Resources
  imports Go_Prelude
begin

text \<open>
  \<open>internal/lifecycle/resources.go\<close>: the merge of the cloud dependencies an allocation already
  records with those a provider just observed. The main lemma is a complete characterisation of a
  successful merge: nothing recorded is ever dropped, generations never change, and the result is
  the union in a canonical order.
\<close>

section \<open>References\<close>

record resource_reference =
  res_Kind :: string
  res_ID :: string
  res_UID :: string

definition res_key :: "resource_reference \<Rightarrow> string \<times> string" where
  "res_key r = (res_Kind r, res_ID r)"

definition kind_alphabet :: string where
  "kind_alphabet = ''abcdefghijklmnopqrstuvwxyz0123456789-./''"

definition control_bytes :: string where
  "control_bytes = [CHR 0x00, CHR 0x0D, CHR 0x0A, CHR 0x09]"

definition invalid_reference :: "resource_reference \<Rightarrow> bool" where
  "invalid_reference r \<longleftrightarrow>
     res_Kind r = [] \<or> length (res_Kind r) > 64 \<or> \<not> strings_Trim_empty (res_Kind r) kind_alphabet
     \<or> res_ID r = [] \<or> length (res_ID r) > 2048 \<or> strings_TrimSpace (res_ID r) \<noteq> res_ID r
     \<or> strings_ContainsAny (res_ID r) control_bytes
     \<or> length (res_UID r) > 256 \<or> strings_TrimSpace (res_UID r) \<noteq> res_UID r
     \<or> strings_ContainsAny (res_UID r) control_bytes"

section \<open>MergeResources\<close>

text \<open>
  The loop over both groups. \<open>set\<close> is the Go set of references (its keys, each once) and
  \<open>identities\<close> the UID seen for each kind and ID.
\<close>

fun merge_loop ::
    "resource_reference list \<Rightarrow> (string \<times> string, string) gomap \<Rightarrow> resource_reference list
     \<Rightarrow> err + resource_reference list" where
  "merge_loop acc identities [] = Inr acc"
| "merge_loop acc identities (r # rs) =
     (if invalid_reference r then Inl (errors_New ''invalid cloud dependency reference'')
      else if has_key identities (res_key r) \<and> map_of identities (res_key r) \<noteq> Some (res_UID r)
      then Inl (errors_New ''cloud dependency generation changed or discarded'')
      else let identities = AList.update (res_key r) (res_UID r) identities;
               acc = List.insert r acc
           in if length acc > 64 then Inl (errors_New ''cloud dependency reference limit exceeded'')
              else merge_loop acc identities rs)"

definition MergeResources ::
    "resource_reference list \<Rightarrow> resource_reference list \<Rightarrow> err + (resource_reference list \<times> bool)" where
  "MergeResources current observed =
     (case merge_loop [] [] (current @ observed) of
        Inl e \<Rightarrow> Inl e
      | Inr acc \<Rightarrow> let merged = sort_key res_key acc in Inr (merged, current \<noteq> merged))"

section \<open>Characterisation\<close>

definition mergeable :: "resource_reference set \<Rightarrow> bool" where
  "mergeable A \<longleftrightarrow> (\<forall>r \<in> A. \<not> invalid_reference r) \<and> inj_on res_key A \<and> card A \<le> 64"

definition merge_inv :: "resource_reference list \<Rightarrow> (string \<times> string, string) gomap \<Rightarrow> bool" where
  "merge_inv acc identities \<longleftrightarrow> distinct acc \<and> mergeable (set acc)
     \<and> (\<forall>k u. map_of identities k = Some u \<longleftrightarrow> (\<exists>r \<in> set acc. res_key r = k \<and> res_UID r = u))"

lemma resource_reference_eqI:
  "res_key r = res_key s \<Longrightarrow> res_UID r = res_UID s \<Longrightarrow> r = (s :: resource_reference)"
  by (simp add: res_key_def)

lemma mergeable_mono: "mergeable B \<Longrightarrow> A \<subseteq> B \<Longrightarrow> finite B \<Longrightarrow> mergeable A"
  by (auto simp: mergeable_def intro: inj_on_subset dest: card_mono)

lemma merge_inv_lookup:
  "merge_inv acc identities \<Longrightarrow>
     map_of identities k = Some u \<longleftrightarrow> (\<exists>r \<in> set acc. res_key r = k \<and> res_UID r = u)"
  unfolding merge_inv_def by blast

lemma merge_clash:
  assumes "merge_inv acc identities"
  shows "has_key identities (res_key r) \<and> map_of identities (res_key r) \<noteq> Some (res_UID r)
    \<longleftrightarrow> (\<exists>s \<in> set acc. res_key s = res_key r \<and> s \<noteq> r)"
proof
  assume "has_key identities (res_key r) \<and> map_of identities (res_key r) \<noteq> Some (res_UID r)"
  then obtain u where "map_of identities (res_key r) = Some u" "u \<noteq> res_UID r"
    by auto
  then show "\<exists>s \<in> set acc. res_key s = res_key r \<and> s \<noteq> r"
    using iffD1 [OF merge_inv_lookup [OF assms]] by fastforce
next
  assume "\<exists>s \<in> set acc. res_key s = res_key r \<and> s \<noteq> r"
  then obtain s where s: "s \<in> set acc" "res_key s = res_key r" "s \<noteq> r"
    by blast
  then have "res_UID s \<noteq> res_UID r"
    using resource_reference_eqI by blast
  moreover have "map_of identities (res_key r) = Some (res_UID s)"
    unfolding merge_inv_lookup [OF assms] using s by blast
  ultimately show "has_key identities (res_key r) \<and> map_of identities (res_key r) \<noteq> Some (res_UID r)"
    by simp
qed

lemma merge_guard:
  assumes "merge_inv acc identities"
  shows "\<not> invalid_reference r
      \<and> \<not> (has_key identities (res_key r) \<and> map_of identities (res_key r) \<noteq> Some (res_UID r))
      \<and> \<not> length (List.insert r acc) > 64 \<longleftrightarrow> mergeable (insert r (set acc))"
proof -
  have acc: "distinct acc" "mergeable (set acc)"
    using assms by (simp_all add: merge_inv_def)
  have size: "length (List.insert r acc) = card (insert r (set acc))"
    using acc(1) by (metis distinct_card distinct_insert set_insert)
  have "inj_on res_key (insert r (set acc)) \<longleftrightarrow> \<not> (\<exists>s \<in> set acc. res_key s = res_key r \<and> s \<noteq> r)"
    using acc(2) unfolding mergeable_def inj_on_def by (metis insert_iff)
  then show ?thesis
    unfolding merge_clash [OF assms] size using acc(2) by (auto simp: mergeable_def)
qed

lemma merge_inv_step:
  assumes "merge_inv acc identities" "mergeable (insert r (set acc))"
  shows "merge_inv (List.insert r acc) (AList.update (res_key r) (res_UID r) identities)"
proof -
  have same: "res_UID s = res_UID r" if "s \<in> set acc" "res_key s = res_key r" for s
    using assms(2) that by (auto simp: mergeable_def inj_on_def)
  show ?thesis
    using assms same unfolding merge_inv_def by (auto; metis)
qed

lemma merge_loop_iff:
  "merge_inv acc identities \<Longrightarrow>
   merge_loop acc identities rs = Inr acc' \<longleftrightarrow>
     mergeable (set acc \<union> set rs) \<and> acc' = fold List.insert rs acc"
proof (induction rs arbitrary: acc identities)
  case Nil
  then show ?case by (auto simp: merge_inv_def)
next
  case (Cons r rs)
  show ?case
  proof (cases "mergeable (insert r (set acc))")
    case True
    then show ?thesis
      using merge_guard [OF Cons.prems, of r] Cons.IH [OF merge_inv_step [OF Cons.prems True]]
      by (auto simp: Let_def insert_commute Un_insert_right)
  next
    case False
    then have "\<not> mergeable (set acc \<union> set (r # rs))"
      using mergeable_mono [of "set acc \<union> set (r # rs)" "insert r (set acc)"] by auto
    with False show ?thesis
      using merge_guard [OF Cons.prems, of r] by (auto simp: Let_def)
  qed
qed

lemma merge_inv_init: "merge_inv [] []"
  by (simp add: merge_inv_def mergeable_def)

text \<open>The strictly sorted lists of references, by kind and ID, are canonical forms of their sets.\<close>

abbreviation canonical :: "resource_reference list \<Rightarrow> bool" where
  "canonical rs \<equiv> sorted_wrt (\<lambda>r s. res_key r < res_key s) rs"

lemma canonical_iff: "canonical rs \<longleftrightarrow> sorted (map res_key rs) \<and> distinct (map res_key rs)"
  by (metis sorted_wrt_map strict_sorted_iff)

lemma canonical_unique:
  assumes "canonical rs" "canonical ss" "set rs = set ss"
  shows "rs = ss"
proof (rule map_sorted_distinct_set_unique)
  show "inj_on res_key (set rs \<union> set ss)"
    using assms by (simp add: canonical_iff distinct_map)
qed (use assms in \<open>auto simp: canonical_iff\<close>)

lemma canonical_sort_key:
  assumes "inj_on res_key (set rs)" "distinct rs"
  shows "canonical (sort_key res_key rs)"
  unfolding canonical_iff using assms by (simp add: distinct_map)

lemma fold_insert: "set (fold List.insert rs acc) = set acc \<union> set rs"
    "distinct acc \<Longrightarrow> distinct (fold List.insert rs acc)"
  by (induction rs arbitrary: acc) auto

lemma MergeResources_success:
  "MergeResources current observed = Inr (merged, changed) \<longleftrightarrow>
     mergeable (set current \<union> set observed) \<and> set merged = set current \<union> set observed
     \<and> canonical merged \<and> changed = (current \<noteq> merged)"
proof (cases "mergeable (set current \<union> set observed)")
  case True
  let ?acc = "fold List.insert (current @ observed) []"
  have loop: "merge_loop [] [] (current @ observed) = Inr ?acc"
    unfolding merge_loop_iff [OF merge_inv_init] using True by simp
  have set: "set (sort_key res_key ?acc) = set current \<union> set observed"
    using fold_insert(1) [of "current @ observed" "[]"] by simp
  have canonical: "canonical (sort_key res_key ?acc)"
    using True set fold_insert(2) [of "[]" "current @ observed"]
    by (intro canonical_sort_key) (simp_all add: mergeable_def)
  show ?thesis
  proof
    assume "MergeResources current observed = Inr (merged, changed)"
    then have "merged = sort_key res_key ?acc" "changed = (current \<noteq> merged)"
      unfolding MergeResources_def loop by (auto simp only: sum.case Let_def sum.inject prod.inject)
    with True set canonical show "mergeable (set current \<union> set observed)
        \<and> set merged = set current \<union> set observed \<and> canonical merged \<and> changed = (current \<noteq> merged)"
      by metis
  next
    assume merged: "mergeable (set current \<union> set observed)
        \<and> set merged = set current \<union> set observed \<and> canonical merged \<and> changed = (current \<noteq> merged)"
    then have "sort_key res_key ?acc = merged"
      using canonical_unique [OF canonical] set by metis
    with merged show "MergeResources current observed = Inr (merged, changed)"
      unfolding MergeResources_def loop by (simp only: sum.case Let_def)
  qed
next
  case False
  then have "\<nexists>acc. merge_loop [] [] (current @ observed) = Inr acc"
    by (simp add: merge_loop_iff [OF merge_inv_init])
  with False show ?thesis
    unfolding MergeResources_def by (cases "merge_loop [] [] (current @ observed)") auto
qed

text \<open>
  Claim C7 (\<open>MergeResources\<close>). A merge succeeds exactly when every reference is well formed, no kind
  and ID occurs with two UIDs, and at most 64 distinct references result; the merged list is then
  the union of both inputs, strictly sorted by kind and ID, and the changed flag tells whether it
  differs from the current list. Nothing recorded is ever discarded.
\<close>

theorem MergeResources_iff:
  "MergeResources current observed = Inr (merged, changed) \<longleftrightarrow>
     mergeable (set current \<union> set observed) \<and> set merged = set current \<union> set observed
     \<and> canonical merged \<and> changed = (current \<noteq> merged)"
  by (rule MergeResources_success)

text \<open>Consequences the lifecycle relies on.\<close>

text \<open>The errors of a merge are plain: they carry none of the sentinels.\<close>

lemma merge_loop_plain: "merge_loop seen kept rs = Inl e \<Longrightarrow> err_is e = []"
  by (induction seen kept rs rule: merge_loop.induct) (auto simp: Let_def split: if_splits option.splits)

lemma MergeResources_plain: "MergeResources current observed = Inl e \<Longrightarrow> err_is e = []"
  by (auto simp: MergeResources_def Let_def dest: merge_loop_plain split: sum.splits)

lemma MergeResources_keeps:
  "MergeResources current observed = Inr (merged, changed) \<Longrightarrow> set current \<subseteq> set merged"
  by (simp add: MergeResources_success)

lemma MergeResources_covers:
  "MergeResources current observed = Inr (merged, changed) \<Longrightarrow> set observed \<subseteq> set merged"
  by (simp add: MergeResources_success)

lemma MergeResources_wf:
  "MergeResources current observed = Inr (merged, changed) \<Longrightarrow> canonical merged \<and> mergeable (set merged)"
  by (simp add: MergeResources_success)

lemma MergeResources_unchanged:
  "canonical current \<Longrightarrow> mergeable (set current) \<Longrightarrow> set observed \<subseteq> set current \<Longrightarrow>
   MergeResources current observed = Inr (current, False)"
  by (simp add: MergeResources_success Un_absorb2)

lemma MergeResources_commute:
  "MergeResources xs ys = Inr (m, b) \<Longrightarrow> \<exists>b'. MergeResources ys xs = Inr (m, b')"
  by (simp add: MergeResources_success Un_commute)

end
