(* ===== verification/Lifecycle.thy ===== *)
theory Lifecycle
  imports Placement Resources
begin

text \<open>
  \<open>internal/lifecycle/lifecycle.go\<close>: the durable allocation state machine. \<open>Controller.Step\<close> is
  modelled over an arbitrary world \<open>'w\<close>: the Go interfaces \<open>Store\<close>, \<open>Provider\<close> (with its optional
  \<open>ResourceCreator\<close> and \<open>CreationReconciler\<close> extensions) and \<open>RunnerDeregistrar\<close> are records of
  operations that answer and change the world in any way they like. A Go result pair whose value
  matters even beside an error is a pair here; one whose value is unused on error is a sum.
\<close>

section \<open>Data\<close>

type_synonym bytes = "char list"

datatype phase = Pending | Creating | Running | Deleting | Deleted | TimedOut | UnknownPhase string

record allocation =
  al_Resources :: "resource_reference list"
  al_RejectedAt :: "(string, time) gomap"
  al_Completed :: bool
  al_ID :: string
  al_Revision :: string
  al_Phase :: phase
  al_Deadline :: time
  al_Attempts :: int
  al_MaxAttempts :: int
  al_Offering :: offering
  al_Outcomes :: "(string, outcome) gomap"
  al_Catalog :: catalog
  al_Requirements :: requirements
  al_ResourceID :: string
  al_Ready :: bool
  al_Retire :: bool
  al_Condition :: string
  al_RunID :: int
  al_Owner :: string
  al_Repo :: string
  al_ScaleSetJobID :: string
  al_RetryProcessed :: bool
  al_NetworkProfile :: string
  al_WireGuardPublicKey :: bytes
  al_WireGuardOverlayAddress :: string
  al_WireGuardEndpoint :: string
  al_WireGuardPollTokenHash :: bytes
  al_TerminalAt :: time

record observation =
  ob_Resources :: "resource_reference list"
  ob_Exists :: bool
  ob_Known :: bool
  ob_Interrupted :: bool
  ob_ResourceID :: string

record creation =
  cr_ResourceID :: string
  cr_Resources :: "resource_reference list"
  cr_WireGuardPublicKey :: bytes
  cr_WireGuardPollTokenHash :: bytes
  cr_WireGuardEndpoint :: string

definition creation_zero :: creation where
  "creation_zero = \<lparr>cr_ResourceID = [], cr_Resources = [], cr_WireGuardPublicKey = [],
     cr_WireGuardPollTokenHash = [], cr_WireGuardEndpoint = []\<rparr>"

section \<open>Interfaces\<close>

record 'w store_ops =
  st_Load :: "string \<Rightarrow> 'w \<Rightarrow> (err + allocation) \<times> 'w"
  st_Save :: "allocation \<Rightarrow> string \<Rightarrow> 'w \<Rightarrow> (err + allocation) \<times> 'w"

record 'w provider_ops =
  pr_CreateWithResources :: "(allocation \<Rightarrow> 'w \<Rightarrow> (creation \<times> err option) \<times> 'w) option"
  pr_ReconcileCreation :: "(allocation \<Rightarrow> 'w \<Rightarrow> (observation \<times> err option) \<times> 'w) option"
  pr_Create :: "allocation \<Rightarrow> 'w \<Rightarrow> (string \<times> err option) \<times> 'w"
  pr_Observe :: "allocation \<Rightarrow> 'w \<Rightarrow> (observation \<times> err option) \<times> 'w"
  pr_Delete :: "allocation \<Rightarrow> 'w \<Rightarrow> err option \<times> 'w"

record 'w controller =
  ctl_Cooldowns :: "(string, time) gomap"
  ctl_Store :: "'w store_ops"
  ctl_Providers :: "(string, 'w provider_ops) gomap"
  ctl_Now :: "'w \<Rightarrow> time"
  ctl_Runners :: "(string \<Rightarrow> 'w \<Rightarrow> err option \<times> 'w) option"

definition deregister :: "'w controller \<Rightarrow> string \<Rightarrow> 'w \<Rightarrow> err option \<times> 'w" where
  "deregister c name w = (case ctl_Runners c of None \<Rightarrow> (None, w) | Some f \<Rightarrow> f name w)"

text \<open>The closure \<open>save\<close> of \<open>Step\<close>, and its use before an error is returned.\<close>

definition save :: "'w controller \<Rightarrow> allocation \<Rightarrow> 'w \<Rightarrow> err option \<times> 'w" where
  "save c a w =
     (case st_Save (ctl_Store c) a (al_Revision a) w of
        (Inl e, w) \<Rightarrow> (Some e, w)
      | (Inr _, w) \<Rightarrow> (None, w))"

definition save_then_fail :: "'w controller \<Rightarrow> allocation \<Rightarrow> err \<Rightarrow> 'w \<Rightarrow> err option \<times> 'w" where
  "save_then_fail c a e w =
     (case save c a w of (Some e', w) \<Rightarrow> (Some e', w) | (None, w) \<Rightarrow> (Some e, w))"

definition rememberResources ::
    "'w controller \<Rightarrow> allocation \<Rightarrow> resource_reference list \<Rightarrow> 'w \<Rightarrow> (err + allocation) \<times> 'w" where
  "rememberResources c a resources w =
     (case MergeResources (al_Resources a) resources of
        Inl e \<Rightarrow> (Inl e, w)
      | Inr (merged, changed) \<Rightarrow>
          if \<not> changed then (Inr a, w)
          else st_Save (ctl_Store c) (a\<lparr>al_Resources := merged\<rparr>) (al_Revision a) w)"

section \<open>The Pending phase\<close>

text \<open>Outcomes extended with the cooldowns still running; a Go map, so the order is irrelevant.\<close>

definition cooled_outcomes ::
    "time \<Rightarrow> (string, time) gomap \<Rightarrow> (string, outcome) gomap \<Rightarrow> (string, outcome) gomap" where
  "cooled_outcomes now cooldowns outcomes =
     fold (\<lambda>(pool, until) m. if time_Before now until \<and> outcome_of m pool = NoOutcome
                             then AList.update pool CoolingDown m else m) cooldowns outcomes"

definition create_call ::
    "'w provider_ops \<Rightarrow> allocation \<Rightarrow> 'w \<Rightarrow> (creation \<times> err option) \<times> 'w" where
  "create_call p a w =
     (case pr_CreateWithResources p of
        Some f \<Rightarrow> f a w
      | None \<Rightarrow> (case pr_Create p a w of
                  ((rid, e), w) \<Rightarrow> ((creation_zero\<lparr>cr_ResourceID := rid\<rparr>, e), w)))"

definition record_creation :: "allocation \<Rightarrow> creation \<Rightarrow> allocation" where
  "record_creation a cr =
     (let a = (if cr_ResourceID cr \<noteq> [] then a\<lparr>al_ResourceID := cr_ResourceID cr\<rparr> else a);
          a = (if cr_WireGuardPublicKey cr \<noteq> [] then a\<lparr>al_WireGuardPublicKey := cr_WireGuardPublicKey cr\<rparr> else a);
          a = (if cr_WireGuardPollTokenHash cr \<noteq> []
               then a\<lparr>al_WireGuardPollTokenHash := cr_WireGuardPollTokenHash cr\<rparr> else a)
      in if cr_WireGuardEndpoint cr \<noteq> [] then a\<lparr>al_WireGuardEndpoint := cr_WireGuardEndpoint cr\<rparr> else a)"

definition reject_capacity :: "allocation \<Rightarrow> string \<Rightarrow> time \<Rightarrow> allocation" where
  "reject_capacity a pool now = a\<lparr>al_Phase := Pending,
     al_Outcomes := AList.update pool CapacityRejected (al_Outcomes a),
     al_RejectedAt := AList.update pool now (al_RejectedAt a),
     al_Condition := ''CapacityRejected''\<rparr>"

text \<open>What \<open>Step\<close> does with the answer of the create call; \<open>a\<close> is the record saved before it.\<close>

definition step_created ::
    "'w controller \<Rightarrow> time \<Rightarrow> string \<Rightarrow> allocation \<Rightarrow> creation \<Rightarrow> err option \<Rightarrow> 'w \<Rightarrow> err option \<times> 'w" where
  "step_created c now pool a cr e w =
     (let empty = (cr_ResourceID cr = [] \<and> cr_Resources cr = []) in
      if opt_Is e ErrNoEffect \<and> empty then
        save c (a\<lparr>al_Phase := Pending,
                  al_Condition := ''CreatePreparationFailed: '' @ err_text (the e)\<rparr>) w
      else if opt_Is e ErrCapacity \<and> empty then save c (reject_capacity a pool now) w
      else
        let a = record_creation a cr in
        case MergeResources (al_Resources a) (cr_Resources cr) of
          Inl referenceError \<Rightarrow> save_then_fail c a referenceError w
        | Inr (resources, _) \<Rightarrow>
            let a = a\<lparr>al_Resources := resources\<rparr> in
            if e \<noteq> None \<or> cr_ResourceID cr = [] then
              let a = (case e of Some e \<Rightarrow> a\<lparr>al_Condition := ''CreateCommitmentUnknown: '' @ err_text e\<rparr>
                       | None \<Rightarrow> a);
                  failure = errors_New (''create commitment unknown for '' @ al_ID a)
              in if \<not> empty \<or> al_Condition a \<noteq> ''CreateCommitmentUnknown''
                 then save_then_fail c a failure w else (Some failure, w)
            else save c (a\<lparr>al_Phase := Running, al_Condition := ''VMCreated''\<rparr>) w)"

definition step_Pending ::
    "'w controller \<Rightarrow> time \<Rightarrow> bool \<Rightarrow> allocation \<Rightarrow> 'w \<Rightarrow> err option \<times> 'w" where
  "step_Pending c now expired a w =
     (if al_ResourceID a \<noteq> [] \<or> al_Resources a \<noteq> []
      then (Some (errors_New ''pending allocation retains cloud resources''), w)
      else if al_Retire a \<or> expired \<or> al_Attempts a \<ge> al_MaxAttempts a then
        (case deregister c (al_ID a) w of
           (Some e, w) \<Rightarrow> (Some e, w)
         | (None, w) \<Rightarrow> save c (a\<lparr>al_Phase := TimedOut, al_Condition := ''LocalProvisioningTimeout'',
                                  al_TerminalAt := now\<rparr>) w)
      else
        case Choose now (al_Requirements a) (al_Catalog a)
               (cooled_outcomes now (ctl_Cooldowns c) (al_Outcomes a)) of
          Inl e \<Rightarrow> save c (a\<lparr>al_Condition := err_text e\<rparr>) w
        | Inr o' \<Rightarrow>
            (case map_of (ctl_Providers c) (off_Provider o') of
               None \<Rightarrow> (Some (errors_New ''provider configuration unavailable''), w)
             | Some p \<Rightarrow>
                 (case st_Save (ctl_Store c) (a\<lparr>al_Offering := o', al_Attempts := al_Attempts a + 1,
                         al_Phase := Creating, al_Condition := ''CreateCommitmentUnknown''\<rparr>)
                         (al_Revision a) w of
                    (Inl e, w) \<Rightarrow> (Some e, w)
                  | (Inr a, w) \<Rightarrow>
                      (case create_call p a w of
                         ((cr, e), w) \<Rightarrow> step_created c now (off_ID o') a cr e w))))"

section \<open>The other phases\<close>

definition step_absent ::
    "'w controller \<Rightarrow> time \<Rightarrow> allocation \<Rightarrow> string \<Rightarrow> 'w \<Rightarrow> err option \<times> 'w" where
  "step_absent c now a condition w =
     (case deregister c (al_ID a) w of
        (Some e, w) \<Rightarrow> (Some e, w)
      | (None, w) \<Rightarrow> save c (a\<lparr>al_Phase := Deleted, al_Condition := condition, al_TerminalAt := now\<rparr>) w)"

definition cause_text :: "string \<Rightarrow> err option \<Rightarrow> string" where
  "cause_text unknown e = (case e of None \<Rightarrow> unknown | Some e \<Rightarrow> err_text e)"

definition creation_observation ::
    "'w controller \<Rightarrow> 'w provider_ops \<Rightarrow> allocation \<Rightarrow> 'w
     \<Rightarrow> (err + (allocation \<times> observation \<times> err option)) \<times> 'w" where
  "creation_observation c p a w =
     (case pr_ReconcileCreation p of
        Some recover \<Rightarrow>
          (case st_Save (ctl_Store c) a (al_Revision a) w of
             (Inl e, w) \<Rightarrow> (Inl e, w)
           | (Inr a, w) \<Rightarrow> (case recover a w of ((ob, e), w) \<Rightarrow> (Inr (a, ob, e), w)))
      | None \<Rightarrow> (case pr_Observe p a w of ((ob, e), w) \<Rightarrow> (Inr (a, ob, e), w)))"

definition step_Creating ::
    "'w controller \<Rightarrow> 'w provider_ops \<Rightarrow> time \<Rightarrow> bool \<Rightarrow> allocation \<Rightarrow> 'w \<Rightarrow> err option \<times> 'w" where
  "step_Creating c p now expired a w =
     (case creation_observation c p a w of
        (Inl e, w) \<Rightarrow> (Some e, w)
      | (Inr (a, ob, e), w) \<Rightarrow>
          (case rememberResources c a (ob_Resources ob) w of
             (Inl e, w) \<Rightarrow> (Some e, w)
           | (Inr a, w) \<Rightarrow>
               if e \<noteq> None \<or> \<not> ob_Known ob then
                 save_then_fail c (a\<lparr>al_Condition := ''CreateReconciliationUnknown: ''
                     @ cause_text ''provider returned unknown create reconciliation'' e\<rparr>)
                   (errors_New ''create reconciliation unknown'') w
               else if \<not> ob_Exists ob then step_absent c now a ''CreateConfirmedAbsent'' w
               else
                 let a = a\<lparr>al_ResourceID := ob_ResourceID ob, al_Phase := Running\<rparr>;
                     a = (if al_Retire a \<or> (expired \<and> \<not> al_Ready a)
                          then a\<lparr>al_Phase := Deleting,
                                 al_Condition := ''LocalProvisioningTimeoutCleanupPending''\<rparr> else a)
                 in save c a w))"

definition step_Running ::
    "'w controller \<Rightarrow> 'w provider_ops \<Rightarrow> time \<Rightarrow> bool \<Rightarrow> allocation \<Rightarrow> 'w \<Rightarrow> err option \<times> 'w" where
  "step_Running c p now expired a w =
     (if al_Retire a \<or> (expired \<and> \<not> al_Ready a)
      then save c (a\<lparr>al_Phase := Deleting, al_Condition := ''CleanupPending''\<rparr>) w
      else
        case pr_Observe p a w of ((ob, e), w) \<Rightarrow>
          if e \<noteq> None \<or> \<not> ob_Known ob then
            save_then_fail c (a\<lparr>al_Condition := ''ResourceObservationUnknown: ''
                @ cause_text ''provider returned unknown resource observation'' e\<rparr>)
              (errors_New ''resource observation unknown'') w
          else
            (case rememberResources c a (ob_Resources ob) w of
               (Inl e, w) \<Rightarrow> (Some e, w)
             | (Inr a, w) \<Rightarrow>
                 if \<not> ob_Exists ob then
                   step_absent c now a
                     (if ob_Interrupted ob then ''ResourceAbsentConfirmedInterruption''
                      else ''ResourceAbsentInterruptionUnproven'') w
                 else (None, w)))"

definition step_Deleting ::
    "'w controller \<Rightarrow> 'w provider_ops \<Rightarrow> time \<Rightarrow> allocation \<Rightarrow> 'w \<Rightarrow> err option \<times> 'w" where
  "step_Deleting c p now a w =
     (case pr_Observe p a w of ((ob, e), w) \<Rightarrow>
        if e \<noteq> None \<or> \<not> ob_Known ob then
          save_then_fail c (a\<lparr>al_Condition := ''CleanupObservationUnknown: ''
              @ cause_text ''provider returned unknown cleanup observation'' e\<rparr>)
            (errors_New ''cleanup observation unknown'') w
        else
          (case rememberResources c a (ob_Resources ob) w of
             (Inl e, w) \<Rightarrow> (Some e, w)
           | (Inr a, w) \<Rightarrow>
               if \<not> ob_Exists ob then step_absent c now a ''CleanupConfirmed'' w
               else
                 (case pr_Delete p a w of
                    (Some e, w) \<Rightarrow>
                      save_then_fail c (a\<lparr>al_Condition := ''CleanupUnconfirmed: '' @ err_text e\<rparr>)
                        (errors_New ''delete not confirmed; cleanup retained'') w
                  | (None, w) \<Rightarrow> (None, w))))"

section \<open>Step\<close>

definition persisted_valid :: "allocation \<Rightarrow> bool" where
  "persisted_valid a \<longleftrightarrow> \<not> (al_ID a = [] \<or> time_IsZero (al_Deadline a)
     \<or> al_MaxAttempts a < 1 \<or> al_MaxAttempts a > 10)"

definition step_loaded :: "'w controller \<Rightarrow> allocation \<Rightarrow> 'w \<Rightarrow> err option \<times> 'w" where
  "step_loaded c a w =
     (let now = ctl_Now c w in
      if \<not> persisted_valid a then (Some (errors_New ''invalid persisted allocation''), w)
      else
        let expired = \<not> time_Before now (al_Deadline a) in
        if al_Phase a = Deleted \<or> al_Phase a = TimedOut then (None, w)
        else if al_Phase a = Pending then step_Pending c now expired a w
        else
          case map_of (ctl_Providers c) (off_Provider (al_Offering a)) of
            None \<Rightarrow> (Some (errors_New ''provider configuration unavailable; cleanup retained''), w)
          | Some p \<Rightarrow>
              (case al_Phase a of
                 Creating \<Rightarrow> step_Creating c p now expired a w
               | Running \<Rightarrow> step_Running c p now expired a w
               | Deleting \<Rightarrow> step_Deleting c p now a w
               | _ \<Rightarrow> (Some (errors_New ''unknown allocation phase''), w)))"

definition Step :: "'w controller \<Rightarrow> string \<Rightarrow> 'w \<Rightarrow> err option \<times> 'w" where
  "Step c name w =
     (case st_Load (ctl_Store c) name w of
        (Inl e, w) \<Rightarrow> (Some e, w)
      | (Inr a, w) \<Rightarrow> step_loaded c a w)"

section \<open>Observing the effects of a step\<close>

text \<open>
  Instrumentation: the same operations over a world paired with the list of calls made so far, each
  with its answer. \<open>Step\<close> cannot see the list, so what is proved of the calls of an instrumented
  step holds of every step, whatever the store, the clouds and GitHub answer.
\<close>

datatype event =
    EvLoad string "err + allocation"
  | EvSave allocation string "err + allocation"
  | EvCreate allocation creation "err option"
  | EvReconcile allocation observation "err option"
  | EvObserve allocation observation "err option"
  | EvDelete allocation "err option"
  | EvDeregister string "err option"

definition logged :: "('r \<Rightarrow> event) \<Rightarrow> ('w \<Rightarrow> 'r \<times> 'w) \<Rightarrow> 'w \<times> event list \<Rightarrow> 'r \<times> ('w \<times> event list)" where
  "logged ev f wt = (case f (fst wt) of (r, w) \<Rightarrow> (r, (w, snd wt @ [ev r])))"

definition traced_store :: "'w store_ops \<Rightarrow> ('w \<times> event list) store_ops" where
  "traced_store s = \<lparr>
     st_Load = (\<lambda>name. logged (EvLoad name) (st_Load s name)),
     st_Save = (\<lambda>a rev. logged (EvSave a rev) (st_Save s a rev))\<rparr>"

definition traced_provider :: "'w provider_ops \<Rightarrow> ('w \<times> event list) provider_ops" where
  "traced_provider p = \<lparr>
     pr_CreateWithResources = map_option (\<lambda>f a. logged (\<lambda>(cr, e). EvCreate a cr e) (f a)) (pr_CreateWithResources p),
     pr_ReconcileCreation = map_option (\<lambda>f a. logged (\<lambda>(ob, e). EvReconcile a ob e) (f a)) (pr_ReconcileCreation p),
     pr_Create = (\<lambda>a. logged (\<lambda>(rid, e). EvCreate a (creation_zero\<lparr>cr_ResourceID := rid\<rparr>) e) (pr_Create p a)),
     pr_Observe = (\<lambda>a. logged (\<lambda>(ob, e). EvObserve a ob e) (pr_Observe p a)),
     pr_Delete = (\<lambda>a. logged (EvDelete a) (pr_Delete p a))\<rparr>"

definition traced :: "'w controller \<Rightarrow> ('w \<times> event list) controller" where
  "traced c = \<lparr>
     ctl_Cooldowns = ctl_Cooldowns c,
     ctl_Store = traced_store (ctl_Store c),
     ctl_Providers = map (\<lambda>(k, p). (k, traced_provider p)) (ctl_Providers c),
     ctl_Now = (\<lambda>wt. ctl_Now c (fst wt)),
     ctl_Runners = map_option (\<lambda>f name. logged (EvDeregister name) (f name)) (ctl_Runners c)\<rparr>"

end
