(* ===== verification/Lifecycle_Calls.thy ===== *)
theory Lifecycle_Calls
  imports Lifecycle
begin

text \<open>
  The sequences of calls a lifecycle step can make. A small calculus (\<open>emits\<close>) derives, phase by
  phase, an inductive description of every possible sequence of store, provider and deregistration
  calls with their answers; it is the relational specification \<open>Step\<close> refines, and the safety
  properties of the state machine are read off it.
\<close>

section \<open>Computations that only append calls\<close>

definition emits ::
    "('w \<times> event list \<Rightarrow> 'r \<times> ('w \<times> event list)) \<Rightarrow> ('r \<Rightarrow> event list \<Rightarrow> bool) \<Rightarrow> bool" where
  "emits m Q \<longleftrightarrow> (\<forall>w tr. \<exists>r w' es. m (w, tr) = (r, (w', tr @ es)) \<and> Q r es)"

lemma emitsI: "(\<And>w tr. \<exists>r w' es. m (w, tr) = (r, (w', tr @ es)) \<and> Q r es) \<Longrightarrow> emits m Q"
  by (simp add: emits_def)

lemma emits_return: "Q r [] \<Longrightarrow> emits (\<lambda>wt. (r, wt)) Q"
  by (auto simp: emits_def)

lemma emits_logged: "(\<And>r. Q r [ev r]) \<Longrightarrow> emits (logged ev f) Q"
  by (auto simp: emits_def logged_def split: prod.split)

lemma emits_bind:
  assumes "emits m Q" "\<And>r es. Q r es \<Longrightarrow> emits (k r) (\<lambda>r' es'. Q' r' (es @ es'))"
  shows "emits (\<lambda>wt. case m wt of (r, wt') \<Rightarrow> k r wt') Q'"
proof (rule emitsI)
  fix w tr
  obtain r w1 es where m: "m (w, tr) = (r, (w1, tr @ es))" "Q r es"
    using assms(1) unfolding emits_def by blast
  then obtain r' w2 es' where "k r (w1, tr @ es) = (r', (w2, (tr @ es) @ es'))" "Q' r' (es @ es')"
    using assms(2) unfolding emits_def by blast
  with m show "\<exists>r w' es. (case m (w, tr) of (r, wt') \<Rightarrow> k r wt') = (r, (w', tr @ es)) \<and> Q' r es"
    by auto
qed

lemma emits_mono: "emits m Q \<Longrightarrow> (\<And>r es. Q r es \<Longrightarrow> Q' r es) \<Longrightarrow> emits m Q'"
  unfolding emits_def by blast

lemma emits_sum:
  assumes "\<And>e. x = Inl e \<Longrightarrow> emits (f e) Q" "\<And>a. x = Inr a \<Longrightarrow> emits (g a) Q"
  shows "emits (\<lambda>wt. case x of Inl e \<Rightarrow> f e wt | Inr a \<Rightarrow> g a wt) Q"
  using assms by (cases x) auto

lemma emits_option:
  assumes "x = None \<Longrightarrow> emits f Q" "\<And>a. x = Some a \<Longrightarrow> emits (g a) Q"
  shows "emits (\<lambda>wt. case x of None \<Rightarrow> f wt | Some a \<Rightarrow> g a wt) Q"
  using assms by (cases x) auto

lemma emits_if:
  assumes "b \<Longrightarrow> emits f Q" "\<not> b \<Longrightarrow> emits g Q"
  shows "emits (\<lambda>wt. if b then f wt else g wt) Q"
  using assms by (cases b) auto

lemma emits_prod:
  assumes "\<And>a b. x = (a, b) \<Longrightarrow> emits (f a b) Q"
  shows "emits (\<lambda>wt. case x of (a, b) \<Rightarrow> f a b wt) Q"
  using assms by (cases x) auto

lemmas emits_rules = emits_if emits_sum emits_option emits_prod emits_return

lemma traced_selectors [simp]:
  "ctl_Cooldowns (traced c) = ctl_Cooldowns c"
  "st_Load (ctl_Store (traced c)) name = logged (EvLoad name) (st_Load (ctl_Store c) name)"
  "st_Save (ctl_Store (traced c)) a rv = logged (EvSave a rv) (st_Save (ctl_Store c) a rv)"
  "ctl_Now (traced c) wt = ctl_Now c (fst wt)"
  "map_of (ctl_Providers (traced c)) k = map_option traced_provider (map_of (ctl_Providers c) k)"
  by (simp_all add: traced_def traced_store_def map_of_map)

section \<open>Calls of the building blocks\<close>

inductive save_calls :: "allocation \<Rightarrow> err option \<Rightarrow> event list \<Rightarrow> bool" for a where
  saved: "save_calls a None [EvSave a (al_Revision a) (Inr b)]"
| save_failed: "save_calls a (Some e) [EvSave a (al_Revision a) (Inl e)]"

text \<open>The calls of \<open>deregister\<close>; the flag says whether a deregistrar is configured.\<close>

inductive deregister_calls :: "bool \<Rightarrow> string \<Rightarrow> err option \<Rightarrow> event list \<Rightarrow> bool" where
  no_runners: "deregister_calls False name None []"
| deregistered: "deregister_calls True name r [EvDeregister name r]"

inductive remember_calls ::
    "allocation \<Rightarrow> resource_reference list \<Rightarrow> err + allocation \<Rightarrow> event list \<Rightarrow> bool" for a obs where
  merge_refused: "MergeResources (al_Resources a) obs = Inl e \<Longrightarrow> remember_calls a obs (Inl e) []"
| merge_unchanged: "MergeResources (al_Resources a) obs = Inr (m, False) \<Longrightarrow>
    remember_calls a obs (Inr a) []"
| merge_saved: "MergeResources (al_Resources a) obs = Inr (m, True) \<Longrightarrow>
    remember_calls a obs ans [EvSave (a\<lparr>al_Resources := m\<rparr>) (al_Revision a) ans]"

abbreviation deleted_record :: "allocation \<Rightarrow> string \<Rightarrow> time \<Rightarrow> allocation" where
  "deleted_record a condition now \<equiv>
     a\<lparr>al_Phase := Deleted, al_Condition := condition, al_TerminalAt := now\<rparr>"

inductive absent_calls ::
    "bool \<Rightarrow> time \<Rightarrow> allocation \<Rightarrow> string \<Rightarrow> err option \<Rightarrow> event list \<Rightarrow> bool" for runners now a condition where
  absent_kept: "deregister_calls runners (al_ID a) (Some e) ds \<Longrightarrow>
    absent_calls runners now a condition (Some e) ds"
| absent_saved: "deregister_calls runners (al_ID a) None ds \<Longrightarrow>
    save_calls (deleted_record a condition now) r ss \<Longrightarrow>
    absent_calls runners now a condition r (ds @ ss)"

lemma emits_save: "emits (save (traced c) a) (save_calls a)"
  unfolding save_def [abs_def] traced_selectors
  by (rule emits_bind [OF emits_logged, of "\<lambda>r es. es = [EvSave a (al_Revision a) r]"], simp)
    (auto intro!: emits_rules save_calls.intros)

lemma emits_save_then_fail:
  "emits (save_then_fail (traced c) a e) (\<lambda>r es. r \<noteq> None \<and> (\<exists>r'. save_calls a r' es))"
  unfolding save_then_fail_def [abs_def]
  by (rule emits_bind [OF emits_save]) (auto intro!: emits_rules)

lemma emits_deregister:
  "emits (deregister (traced c) name) (deregister_calls (ctl_Runners c \<noteq> None) name)"
  unfolding deregister_def [abs_def]
  by (cases "ctl_Runners c")
    (auto simp: traced_def intro!: emits_return emits_logged deregister_calls.intros)

lemma emits_remember:
  "emits (rememberResources (traced c) a obs) (remember_calls a obs)"
  unfolding rememberResources_def [abs_def] traced_selectors
  by (intro emits_rules emits_logged) (auto intro: remember_calls.intros)

lemma emits_absent:
  "emits (step_absent (traced c) now a condition) (absent_calls (ctl_Runners c \<noteq> None) now a condition)"
  unfolding step_absent_def [abs_def]
proof (rule emits_bind [OF emits_deregister], rule emits_option, goal_cases)
  case (1 r es)
  then show ?case
    by (auto intro: emits_mono [OF emits_save] absent_saved)
next
  case (2 r es e)
  then show ?case
    by (auto intro!: emits_return absent_kept)
qed

section \<open>Calls of the phases\<close>

text \<open>After the create call: \<open>a\<close> is the committed record, \<open>cr\<close> and \<open>e\<close> the provider's answer.\<close>

abbreviation creation_empty :: "creation \<Rightarrow> bool" where
  "creation_empty cr \<equiv> cr_ResourceID cr = [] \<and> cr_Resources cr = []"

inductive created_calls ::
    "time \<Rightarrow> string \<Rightarrow> allocation \<Rightarrow> creation \<Rightarrow> err option \<Rightarrow> err option \<Rightarrow> event list \<Rightarrow> bool"
  for now pool a cr e where
  no_effect: "opt_Is e ErrNoEffect \<Longrightarrow> creation_empty cr \<Longrightarrow>
    save_calls (a\<lparr>al_Phase := Pending, al_Condition := condition\<rparr>) r es \<Longrightarrow>
    created_calls now pool a cr e r es"
| capacity: "opt_Is e ErrCapacity \<Longrightarrow> creation_empty cr \<Longrightarrow>
    save_calls (reject_capacity a pool now) r es \<Longrightarrow> created_calls now pool a cr e r es"
| bad_reference: "MergeResources (al_Resources a) (cr_Resources cr) = Inl f \<Longrightarrow>
    save_calls (record_creation a cr) r' es \<Longrightarrow> created_calls now pool a cr e (Some f') es"
| ambiguous: "e \<noteq> None \<or> cr_ResourceID cr = [] \<Longrightarrow>
    MergeResources (al_Resources a) (cr_Resources cr) = Inr (m, changed) \<Longrightarrow>
    save_calls ((record_creation a cr)\<lparr>al_Resources := m, al_Condition := condition\<rparr>) r' es \<Longrightarrow>
    created_calls now pool a cr e (Some f) es"
| ambiguous_silent: "e = None \<Longrightarrow> creation_empty cr \<Longrightarrow> created_calls now pool a cr e (Some f) []"
| running: "e = None \<Longrightarrow> cr_ResourceID cr \<noteq> [] \<Longrightarrow>
    MergeResources (al_Resources a) (cr_Resources cr) = Inr (m, changed) \<Longrightarrow>
    save_calls ((record_creation a cr)\<lparr>al_Resources := m, al_Phase := Running,
      al_Condition := ''VMCreated''\<rparr>) r es \<Longrightarrow>
    created_calls now pool a cr e r es"

abbreviation creating_record :: "allocation \<Rightarrow> offering \<Rightarrow> allocation" where
  "creating_record a o' \<equiv> a\<lparr>al_Offering := o', al_Attempts := al_Attempts a + 1,
     al_Phase := Creating, al_Condition := ''CreateCommitmentUnknown''\<rparr>"

inductive pending_calls ::
    "'w controller \<Rightarrow> time \<Rightarrow> bool \<Rightarrow> allocation \<Rightarrow> err option \<Rightarrow> event list \<Rightarrow> bool"
  for c now expired a where
  pending_refused: "pending_calls c now expired a (Some e) []"
| timeout_kept: "deregister_calls (ctl_Runners c \<noteq> None) (al_ID a) (Some e) ds \<Longrightarrow>
    pending_calls c now expired a (Some e) ds"
| timed_out: "al_ResourceID a = [] \<Longrightarrow> al_Resources a = [] \<Longrightarrow>
    al_Retire a \<or> expired \<or> al_Attempts a \<ge> al_MaxAttempts a \<Longrightarrow>
    deregister_calls (ctl_Runners c \<noteq> None) (al_ID a) None ds \<Longrightarrow>
    save_calls (a\<lparr>al_Phase := TimedOut, al_Condition := ''LocalProvisioningTimeout'',
      al_TerminalAt := now\<rparr>) r ss \<Longrightarrow>
    pending_calls c now expired a r (ds @ ss)"
| no_choice: "save_calls (a\<lparr>al_Condition := condition\<rparr>) r es \<Longrightarrow> pending_calls c now expired a r es"
| uncommitted: "al_Attempts a < al_MaxAttempts a \<Longrightarrow>
    pending_calls c now expired a (Some e) [EvSave (creating_record a o') (al_Revision a) (Inl e)]"
| committed: "al_ResourceID a = [] \<Longrightarrow> al_Resources a = [] \<Longrightarrow>
    \<not> al_Retire a \<Longrightarrow> \<not> expired \<Longrightarrow> al_Attempts a < al_MaxAttempts a \<Longrightarrow>
    Choose now (al_Requirements a) (al_Catalog a)
      (cooled_outcomes now (ctl_Cooldowns c) (al_Outcomes a)) = Inr o' \<Longrightarrow>
    created_calls now (off_ID o') b cr e r es \<Longrightarrow>
    pending_calls c now expired a r
      (EvSave (creating_record a o') (al_Revision a) (Inr b) # EvCreate b cr e # es)"

text \<open>The answer of a definitive observation, and the events that carry one.\<close>

abbreviation definitive :: "observation \<Rightarrow> err option \<Rightarrow> bool" where
  "definitive ob e \<equiv> e = None \<and> ob_Known ob"

inductive resolved_calls ::
    "'w controller \<Rightarrow> time \<Rightarrow> bool \<Rightarrow> allocation \<Rightarrow> observation \<Rightarrow> err option \<Rightarrow> err option \<Rightarrow> event list \<Rightarrow> bool"
  for c now expired a ob e where
  resolve_refused: "remember_calls a (ob_Resources ob) (Inl f) rs \<Longrightarrow>
    resolved_calls c now expired a ob e (Some f) rs"
| resolve_unknown: "\<not> definitive ob e \<Longrightarrow> remember_calls a (ob_Resources ob) (Inr b) rs \<Longrightarrow>
    save_calls (b\<lparr>al_Condition := condition\<rparr>) r' ss \<Longrightarrow>
    resolved_calls c now expired a ob e (Some f) (rs @ ss)"
| resolve_absent: "definitive ob e \<Longrightarrow> \<not> ob_Exists ob \<Longrightarrow> remember_calls a (ob_Resources ob) (Inr b) rs \<Longrightarrow>
    absent_calls (ctl_Runners c \<noteq> None) now b ''CreateConfirmedAbsent'' r as \<Longrightarrow>
    resolved_calls c now expired a ob e r (rs @ as)"
| resolve_deleting: "definitive ob e \<Longrightarrow> ob_Exists ob \<Longrightarrow> remember_calls a (ob_Resources ob) (Inr b) rs \<Longrightarrow>
    al_Retire b \<or> expired \<and> \<not> al_Ready b \<Longrightarrow>
    save_calls (b\<lparr>al_ResourceID := ob_ResourceID ob, al_Phase := Deleting,
      al_Condition := ''LocalProvisioningTimeoutCleanupPending''\<rparr>) r ss \<Longrightarrow>
    resolved_calls c now expired a ob e r (rs @ ss)"
| resolve_running: "definitive ob e \<Longrightarrow> ob_Exists ob \<Longrightarrow> remember_calls a (ob_Resources ob) (Inr b) rs \<Longrightarrow>
    \<not> (al_Retire b \<or> expired \<and> \<not> al_Ready b) \<Longrightarrow>
    save_calls (b\<lparr>al_ResourceID := ob_ResourceID ob, al_Phase := Running\<rparr>) r ss \<Longrightarrow>
    resolved_calls c now expired a ob e r (rs @ ss)"

inductive creating_calls ::
    "'w controller \<Rightarrow> time \<Rightarrow> bool \<Rightarrow> allocation \<Rightarrow> err option \<Rightarrow> event list \<Rightarrow> bool"
  for c now expired a where
  fence_lost: "creating_calls c now expired a (Some e) [EvSave a (al_Revision a) (Inl e)]"
| fenced: "resolved_calls c now expired b ob e r es \<Longrightarrow>
    creating_calls c now expired a r
      (EvSave a (al_Revision a) (Inr b) # EvReconcile b ob e # es)"
| observed: "resolved_calls c now expired a ob e r es \<Longrightarrow>
    creating_calls c now expired a r (EvObserve a ob e # es)"

inductive running_calls ::
    "'w controller \<Rightarrow> time \<Rightarrow> bool \<Rightarrow> allocation \<Rightarrow> err option \<Rightarrow> event list \<Rightarrow> bool"
  for c now expired a where
  run_retired: "al_Retire a \<or> expired \<and> \<not> al_Ready a \<Longrightarrow>
    save_calls (a\<lparr>al_Phase := Deleting, al_Condition := ''CleanupPending''\<rparr>) r ss \<Longrightarrow>
    running_calls c now expired a r ss"
| run_unknown: "\<not> definitive ob e \<Longrightarrow> save_calls (a\<lparr>al_Condition := condition\<rparr>) r' ss \<Longrightarrow>
    running_calls c now expired a (Some f) (EvObserve a ob e # ss)"
| run_refused: "definitive ob e \<Longrightarrow> remember_calls a (ob_Resources ob) (Inl f) rs \<Longrightarrow>
    running_calls c now expired a (Some f) (EvObserve a ob e # rs)"
| run_absent: "definitive ob e \<Longrightarrow> \<not> ob_Exists ob \<Longrightarrow> remember_calls a (ob_Resources ob) (Inr b) rs \<Longrightarrow>
    absent_calls (ctl_Runners c \<noteq> None) now b
      (if ob_Interrupted ob then ''ResourceAbsentConfirmedInterruption''
       else ''ResourceAbsentInterruptionUnproven'') r as \<Longrightarrow>
    running_calls c now expired a r (EvObserve a ob e # rs @ as)"
| run_present: "definitive ob e \<Longrightarrow> ob_Exists ob \<Longrightarrow> remember_calls a (ob_Resources ob) (Inr b) rs \<Longrightarrow>
    running_calls c now expired a None (EvObserve a ob e # rs)"

inductive deleting_calls ::
    "'w controller \<Rightarrow> time \<Rightarrow> allocation \<Rightarrow> err option \<Rightarrow> event list \<Rightarrow> bool"
  for c now a where
  del_unknown: "\<not> definitive ob e \<Longrightarrow> save_calls (a\<lparr>al_Condition := condition\<rparr>) r' ss \<Longrightarrow>
    deleting_calls c now a (Some f) (EvObserve a ob e # ss)"
| del_refused: "definitive ob e \<Longrightarrow> remember_calls a (ob_Resources ob) (Inl f) rs \<Longrightarrow>
    deleting_calls c now a (Some f) (EvObserve a ob e # rs)"
| del_absent: "definitive ob e \<Longrightarrow> \<not> ob_Exists ob \<Longrightarrow> remember_calls a (ob_Resources ob) (Inr b) rs \<Longrightarrow>
    absent_calls (ctl_Runners c \<noteq> None) now b ''CleanupConfirmed'' r as \<Longrightarrow>
    deleting_calls c now a r (EvObserve a ob e # rs @ as)"
| del_failed: "definitive ob e \<Longrightarrow> ob_Exists ob \<Longrightarrow> remember_calls a (ob_Resources ob) (Inr b) rs \<Longrightarrow>
    save_calls (b\<lparr>al_Condition := condition\<rparr>) r' ss \<Longrightarrow>
    deleting_calls c now a (Some f) (EvObserve a ob e # rs @ EvDelete b (Some g) # ss)"
| del_requested: "definitive ob e \<Longrightarrow> ob_Exists ob \<Longrightarrow> remember_calls a (ob_Resources ob) (Inr b) rs \<Longrightarrow>
    deleting_calls c now a None (EvObserve a ob e # rs @ [EvDelete b None])"

section \<open>Every step makes one of these sequences\<close>

lemma emits_save_weak: "(\<And>r es. save_calls a r es \<Longrightarrow> Q r es) \<Longrightarrow> emits (save (traced c) a) Q"
  by (rule emits_mono [OF emits_save])

lemma emits_fail_weak:
  "(\<And>r f es. save_calls a r es \<Longrightarrow> Q (Some f) es) \<Longrightarrow> emits (save_then_fail (traced c) a e) Q"
  by (rule emits_mono [OF emits_save_then_fail]) auto

lemma emits_created:
  "emits (step_created (traced c) now pool a cr e) (created_calls now pool a cr e)"
  unfolding step_created_def [abs_def] Let_def
proof (intro emits_if emits_sum emits_prod emits_save_weak emits_fail_weak emits_return, goal_cases)
  case (1 r es)
  then show ?case by (blast intro: no_effect)
next
  case (2 r es)
  then show ?case by (blast intro: capacity)
next
  case (3 f r f' es)
  then have "al_Resources (record_creation a cr) = al_Resources a"
    by (simp add: record_creation_def Let_def)
  with 3 show ?case by (auto intro: bad_reference)
next
  case (4 p m changed r f es)
  then have "al_Resources (record_creation a cr) = al_Resources a"
    by (simp add: record_creation_def Let_def)
  with 4 show ?case
    using ambiguous [where condition = "al_Condition (record_creation a cr)"]
    by (cases e) (auto intro: ambiguous)
next
  case (5 p m changed)
  then show ?case by (auto intro: ambiguous_silent split: option.splits)
next
  case (6 p m changed r es)
  then have "al_Resources (record_creation a cr) = al_Resources a"
    by (simp add: record_creation_def Let_def)
  with 6 show ?case by (auto intro: running)
qed

lemma emits_create_call:
  "emits (create_call (traced_provider p) a) (\<lambda>(cr, e) es. es = [EvCreate a cr e])"
proof (cases "pr_CreateWithResources p")
  case None
  then show ?thesis
    by (auto simp: create_call_def traced_provider_def emits_def logged_def split: prod.splits)
next
  case (Some f)
  then show ?thesis
    by (auto simp: create_call_def [abs_def] traced_provider_def intro!: emits_logged)
qed

lemma emits_pending:
  "emits (step_Pending (traced c) now expired a) (pending_calls c now expired a)"
  unfolding step_Pending_def [abs_def] traced_selectors
proof (rule emits_if, goal_cases)
  case 1
  show ?case by (rule emits_return) (rule pending_refused)
next
  case 2
  then have clean: "al_ResourceID a = []" "al_Resources a = []"
    by simp_all
  show ?case
  proof (rule emits_if, goal_cases)
    case due: 1
    show ?case
    proof (rule emits_bind [OF emits_deregister], rule emits_option, goal_cases)
      case (1 r ds)
      then have "deregister_calls (ctl_Runners c \<noteq> None) (al_ID a) None ds"
        by blast
      then show ?case
        by (rule emits_save_weak [OF timed_out [OF clean due]])
    next
      case (2 r ds e)
      then show ?case by (auto intro!: emits_return timeout_kept)
    qed
  next
    case 2
    then have open': "\<not> al_Retire a" "\<not> expired" "al_Attempts a < al_MaxAttempts a"
      by simp_all
    show ?case
    proof (rule emits_sum, goal_cases)
      case (1 e)
      show ?case by (rule emits_save_weak) (rule no_choice)
    next
      case choice: (2 o')
      show ?case
      proof (cases "map_of (ctl_Providers c) (off_Provider o')")
        case None
        then show ?thesis
          by (auto intro!: emits_return pending_refused)
      next
        case (Some p)
        let ?b = "creating_record a o'"
        have "emits (\<lambda>w. case logged (EvSave ?b (al_Revision a))
              (st_Save (ctl_Store c) ?b (al_Revision a)) w of
            (Inl e, w) \<Rightarrow> (Some e, w)
          | (Inr a, w) \<Rightarrow> (case create_call (traced_provider p) a w of
              ((cr, e), w) \<Rightarrow> step_created (traced c) now (off_ID o') a cr e w))
          (pending_calls c now expired a)"
        proof (rule emits_bind [OF emits_logged, of "\<lambda>r es. es = [EvSave ?b (al_Revision a) r]"],
            simp, rule emits_sum, goal_cases)
          case (1 r es e)
          then show ?case
            using open' by (auto intro!: emits_return uncommitted)
        next
          case (2 r es b)
          show ?case
          proof (rule emits_bind [OF emits_create_call], rule emits_prod, goal_cases)
            case (1 r' es' cr e)
            with 2 show ?case
              using committed [OF clean open' choice] by (auto intro!: emits_mono [OF emits_created])
          qed
        qed
        with Some show ?thesis by simp
      qed
    qed
  qed
qed

lemma traced_observe:
  "emits (pr_Observe (traced_provider p) a) (\<lambda>(ob, e) es. es = [EvObserve a ob e])"
  by (auto simp: traced_provider_def intro!: emits_logged)

lemma traced_delete:
  "emits (pr_Delete (traced_provider p) a) (\<lambda>e es. es = [EvDelete a e])"
  by (auto simp: traced_provider_def intro!: emits_logged)

lemma emits_absent_weak:
  "(\<And>r es. absent_calls (ctl_Runners c \<noteq> None) now a condition r es \<Longrightarrow> Q r es) \<Longrightarrow>
   emits (step_absent (traced c) now a condition) Q"
  by (rule emits_mono [OF emits_absent])

lemma emits_resolved:
  "emits (\<lambda>w. case rememberResources (traced c) a (ob_Resources ob) w of
       (Inl e, w) \<Rightarrow> (Some e, w)
     | (Inr a, w) \<Rightarrow>
         if e \<noteq> None \<or> \<not> ob_Known ob then
           save_then_fail (traced c) (a\<lparr>al_Condition := ''CreateReconciliationUnknown: ''
               @ cause_text ''provider returned unknown create reconciliation'' e\<rparr>)
             (errors_New ''create reconciliation unknown'') w
         else if \<not> ob_Exists ob then step_absent (traced c) now a ''CreateConfirmedAbsent'' w
         else
           let a = a\<lparr>al_ResourceID := ob_ResourceID ob, al_Phase := Running\<rparr>;
               a = (if al_Retire a \<or> (expired \<and> \<not> al_Ready a)
                    then a\<lparr>al_Phase := Deleting,
                           al_Condition := ''LocalProvisioningTimeoutCleanupPending''\<rparr> else a)
           in save (traced c) a w)
   (resolved_calls c now expired a ob e)"
  unfolding Let_def
proof (rule emits_bind [OF emits_remember],
    intro emits_if emits_sum emits_save_weak emits_fail_weak emits_absent_weak emits_return, goal_cases)
  case (1 r es e)
  then show ?case by (auto intro: resolve_refused)
next
  case (2 r es b r' f ss)
  then show ?case by (auto intro: resolve_unknown)
next
  case (3 r es b r' as)
  then have "definitive ob e" "\<not> ob_Exists ob" "remember_calls a (ob_Resources ob) (Inr b) es"
    by simp_all
  then show ?case using 3(5) by (rule resolve_absent)
next
  case (4 r es b r' ss)
  then have *: "definitive ob e" "ob_Exists ob" "remember_calls a (ob_Resources ob) (Inr b) es"
    by simp_all
  show ?case
  proof (cases "al_Retire b \<or> expired \<and> \<not> al_Ready b")
    case True
    with 4(5) show ?thesis by (intro resolve_deleting [OF *]) simp_all
  next
    case False
    with 4(5) show ?thesis by (intro resolve_running [OF *]) simp_all
  qed
qed

lemma emits_creation_observation:
  "emits (creation_observation (traced c) (traced_provider p) a) (\<lambda>x es. case x of
       Inl e \<Rightarrow> es = [EvSave a (al_Revision a) (Inl e)]
     | Inr (b, ob, e) \<Rightarrow> b = a \<and> es = [EvObserve a ob e]
         \<or> es = [EvSave a (al_Revision a) (Inr b), EvReconcile b ob e])"
proof (cases "pr_ReconcileCreation p")
  case None
  then have "creation_observation (traced c) (traced_provider p) a =
      (\<lambda>w. case pr_Observe (traced_provider p) a w of (x, w) \<Rightarrow>
         (case x of (ob, e) \<Rightarrow> \<lambda>w. (Inr (a, ob, e), w)) w)"
    by (auto simp: creation_observation_def traced_provider_def fun_eq_iff split: prod.split)
  then show ?thesis
    by (auto intro!: emits_bind [OF traced_observe] emits_return split: prod.split)
next
  case (Some f)
  then show ?thesis
    unfolding creation_observation_def
    by (auto simp: traced_provider_def emits_def logged_def split: prod.split sum.split)
qed

lemma emits_creating:
  "emits (step_Creating (traced c) (traced_provider p) now expired a) (creating_calls c now expired a)"
  unfolding step_Creating_def [abs_def]
proof (rule emits_bind [OF emits_creation_observation], rule emits_sum, goal_cases)
  case (1 x es e)
  then show ?case by (auto intro!: emits_return fence_lost)
next
  case (2 x es y)
  obtain b ob e where y: "y = (b, ob, e)"
    by (cases y)
  with 2 have "b = a \<and> es = [EvObserve a ob e]
      \<or> es = [EvSave a (al_Revision a) (Inr b), EvReconcile b ob e]"
    by simp
  then show ?case
    unfolding y prod.case
    by (auto intro!: emits_mono [OF emits_resolved] intro: fenced observed)
qed

lemma emits_running:
  "emits (step_Running (traced c) (traced_provider p) now expired a) (running_calls c now expired a)"
  unfolding step_Running_def [abs_def]
proof (rule emits_if, goal_cases)
  case 1
  then show ?case by (rule emits_save_weak [OF run_retired])
next
  case 2
  show ?case
  proof (rule emits_bind [OF traced_observe], rule emits_prod, rule emits_if, goal_cases)
    case (1 x es ob e)
    then show ?case by (auto intro!: emits_fail_weak run_unknown)
  next
    case (2 x es ob e)
    then have def': "definitive ob e" and es: "es = [EvObserve a ob e]"
      by simp_all
    show ?case
      unfolding es
    proof (rule emits_bind [OF emits_remember],
        intro emits_sum emits_if emits_absent_weak emits_return, goal_cases)
      case (1 r rs f)
      with def' show ?case by (auto intro: run_refused)
    next
      case (2 r rs b r' as)
      then show ?case using run_absent [OF def', of a b rs] by simp
    next
      case (3 r rs b)
      with def' show ?case by (auto intro: run_present)
    qed
  qed
qed

lemma emits_deleting:
  "emits (step_Deleting (traced c) (traced_provider p) now a) (deleting_calls c now a)"
  unfolding step_Deleting_def [abs_def]
proof (rule emits_bind [OF traced_observe], rule emits_prod, rule emits_if, goal_cases)
  case (1 x es ob e)
  then show ?case by (auto intro!: emits_fail_weak del_unknown)
next
  case (2 x es ob e)
  then have def': "definitive ob e" and es: "es = [EvObserve a ob e]"
    by simp_all
  show ?case
    unfolding es
  proof (rule emits_bind [OF emits_remember],
      intro emits_sum emits_if emits_absent_weak emits_return, goal_cases)
    case (1 r rs f)
    with def' show ?case by (auto intro: del_refused)
  next
    case (2 r rs b r' as)
    then show ?case using del_absent [OF def', of a b rs] by simp
  next
    case (3 r rs b)
    then have *: "ob_Exists ob" "remember_calls a (ob_Resources ob) (Inr b) rs"
      by simp_all
    show ?case
      by (rule emits_bind [OF traced_delete], intro emits_option emits_fail_weak emits_return)
        (auto intro: del_failed [OF def' *] del_requested [OF def' *])
  qed
qed

inductive step_calls ::
    "'w controller \<Rightarrow> time \<Rightarrow> allocation \<Rightarrow> err option \<Rightarrow> event list \<Rightarrow> bool" for c now a where
  step_refused: "step_calls c now a (Some e) []"
| step_terminal: "persisted_valid a \<Longrightarrow> al_Phase a \<in> {Deleted, TimedOut} \<Longrightarrow> step_calls c now a None []"
| step_pending: "persisted_valid a \<Longrightarrow> al_Phase a = Pending \<Longrightarrow>
    pending_calls c now (\<not> time_Before now (al_Deadline a)) a r es \<Longrightarrow> step_calls c now a r es"
| step_creating: "persisted_valid a \<Longrightarrow> al_Phase a = Creating \<Longrightarrow>
    creating_calls c now (\<not> time_Before now (al_Deadline a)) a r es \<Longrightarrow> step_calls c now a r es"
| step_running: "persisted_valid a \<Longrightarrow> al_Phase a = Running \<Longrightarrow>
    running_calls c now (\<not> time_Before now (al_Deadline a)) a r es \<Longrightarrow> step_calls c now a r es"
| step_deleting: "persisted_valid a \<Longrightarrow> al_Phase a = Deleting \<Longrightarrow>
    deleting_calls c now a r es \<Longrightarrow> step_calls c now a r es"

lemma emits_apply:
  assumes "emits m Q" "m (w, tr) = (r, (w', tr'))"
  obtains es where "tr' = tr @ es" "Q r es"
  using assms unfolding emits_def by (metis prod.inject)

lemma step_loaded_calls:
  assumes "step_loaded (traced c) a (w, tr) = (r, (w', tr'))"
  obtains es where "tr' = tr @ es" "step_calls c (ctl_Now c w) a r es"
proof -
  let ?now = "ctl_Now c w" and ?expired = "\<not> time_Before (ctl_Now c w) (al_Deadline a)"
  note step = assms [unfolded step_loaded_def Let_def traced_selectors fst_conv]
  show thesis
  proof (cases "persisted_valid a")
    case False
    with step have "tr' = tr @ []" "\<exists>e. r = Some e"
      by auto
    then show ?thesis using that step_refused by blast
  next
    case valid: True
    consider (terminal) "al_Phase a \<in> {Deleted, TimedOut}" | (pending) "al_Phase a = Pending"
      | (missing) "al_Phase a \<notin> {Deleted, TimedOut, Pending}"
          "map_of (ctl_Providers c) (off_Provider (al_Offering a)) = None"
      | (other) p where "al_Phase a \<notin> {Deleted, TimedOut, Pending}"
          "map_of (ctl_Providers c) (off_Provider (al_Offering a)) = Some p"
      by fastforce
    then show ?thesis
    proof cases
      case terminal
      with step valid have "tr' = tr @ []" "r = None"
        by auto
      with that terminal valid step_terminal show ?thesis by blast
    next
      case pending
      with step valid have "step_Pending (traced c) ?now ?expired a (w, tr) = (r, (w', tr'))"
        by simp
      with that pending valid show ?thesis
        by (auto elim: emits_apply [OF emits_pending] intro: step_pending)
    next
      case missing
      with step valid have "tr' = tr @ []" "\<exists>e. r = Some e"
        by auto
      then show ?thesis using that step_refused by blast
    next
      case other
      show ?thesis
      proof (cases "al_Phase a")
        case Creating
        with step valid other have
          "step_Creating (traced c) (traced_provider p) ?now ?expired a (w, tr) = (r, (w', tr'))"
          by simp
        with that Creating valid show ?thesis
          by (auto elim: emits_apply [OF emits_creating] intro: step_creating)
      next
        case Running
        with step valid other have
          "step_Running (traced c) (traced_provider p) ?now ?expired a (w, tr) = (r, (w', tr'))"
          by simp
        with that Running valid show ?thesis
          by (auto elim: emits_apply [OF emits_running] intro: step_running)
      next
        case Deleting
        with step valid other have
          "step_Deleting (traced c) (traced_provider p) ?now a (w, tr) = (r, (w', tr'))"
          by simp
        with that Deleting valid show ?thesis
          by (auto elim: emits_apply [OF emits_deleting] intro: step_deleting)
      next
        case (UnknownPhase x)
        with step valid other have "tr' = tr @ []" "\<exists>e. r = Some e"
          by auto
        then show ?thesis using that step_refused by blast
      qed (use other in simp_all)
    qed
  qed
qed

text \<open>The calls of a whole step: a failed load, or a load and then the calls of its phase.\<close>

lemma Step_calls:
  assumes "Step (traced c) name (w, tr) = (r, (w', tr'))"
  obtains (load_failed) e where "r = Some e" "tr' = tr @ [EvLoad name (Inl e)]"
  | (loaded) a now es where "tr' = tr @ EvLoad name (Inr a) # es" "step_calls c now a r es"
proof -
  obtain x w1 where load: "st_Load (ctl_Store c) name w = (x, w1)"
    by (cases "st_Load (ctl_Store c) name w")
  note step = assms [unfolded Step_def traced_selectors logged_def fst_conv load prod.case snd_conv]
  show thesis
  proof (cases x)
    case (Inl e)
    with step load_failed show ?thesis by auto
  next
    case (Inr a)
    with step have "step_loaded (traced c) a (w1, tr @ [EvLoad name (Inr a)]) = (r, (w', tr'))"
      by simp
    then show ?thesis
      by (rule step_loaded_calls) (auto intro: loaded)
  qed
qed

section \<open>The instrumentation changes nothing\<close>

text \<open>The recorded answers of the store are answers of the store.\<close>

definition genuine :: "'w controller \<Rightarrow> event \<Rightarrow> bool" where
  "genuine c ev = (case ev of
     EvLoad name r \<Rightarrow> \<exists>w. r = fst (st_Load (ctl_Store c) name w)
   | EvSave a rv r \<Rightarrow> \<exists>w. r = fst (st_Save (ctl_Store c) a rv w)
   | _ \<Rightarrow> True)"

lemma genuine_SaveI: "st_Save (ctl_Store c) a rv w = (r, w') \<Longrightarrow> genuine c (EvSave a rv r)"
  unfolding genuine_def by (auto intro!: exI [of _ w])

lemma genuine_simps [simp]:
  "genuine c (EvCreate a cr e)" "genuine c (EvReconcile a ob e)" "genuine c (EvObserve a ob e)"
  "genuine c (EvDelete a e)" "genuine c (EvDeregister name e)"
  "genuine c (EvLoad name (fst (st_Load (ctl_Store c) name w)))"
  "genuine c (EvSave a rv (fst (st_Save (ctl_Store c) a rv w)))"
  by (auto simp: genuine_def)

definition erases :: "'c controller \<Rightarrow>
    ('w \<times> event list \<Rightarrow> 'r \<times> ('w \<times> event list)) \<Rightarrow> ('w \<Rightarrow> 'r \<times> 'w) \<Rightarrow> bool" where
  "erases c m m' \<longleftrightarrow> (\<forall>w tr. \<exists>es. m (w, tr) = (fst (m' w), (snd (m' w), tr @ es)) \<and> list_all (genuine c) es)"

lemma erases_return: "erases c (\<lambda>wt. (r, wt)) (\<lambda>w. (r, w))"
  by (simp add: erases_def)

lemma erases_logged: "(\<And>w. genuine c (ev (fst (f w)))) \<Longrightarrow> erases c (logged ev f) f"
  by (auto simp: erases_def logged_def case_prod_beta)

lemma erases_bind:
  assumes "erases c m m'" "\<And>r. erases c (k r) (k' r)"
  shows "erases c (\<lambda>wt. case m wt of (r, wt') \<Rightarrow> k r wt') (\<lambda>w. case m' w of (r, w') \<Rightarrow> k' r w')"
  unfolding erases_def
proof (intro allI)
  fix w tr
  obtain es where es: "m (w, tr) = (fst (m' w), (snd (m' w), tr @ es))" "list_all (genuine c) es"
    using assms(1) unfolding erases_def by blast
  obtain es' where "k (fst (m' w)) (snd (m' w), tr @ es)
      = (fst (k' (fst (m' w)) (snd (m' w))), (snd (k' (fst (m' w)) (snd (m' w))), (tr @ es) @ es'))"
    "list_all (genuine c) es'"
    using assms(2) unfolding erases_def by blast
  with es show "\<exists>es. (case m (w, tr) of (r, wt') \<Rightarrow> k r wt') =
      (fst (case m' w of (r, w') \<Rightarrow> k' r w'), (snd (case m' w of (r, w') \<Rightarrow> k' r w'), tr @ es))
      \<and> list_all (genuine c) es"
    by (auto simp: case_prod_beta intro: exI [of _ "es @ es'"])
qed

lemma erases_sum:
  assumes "\<And>e. erases c (f e) (f' e)" "\<And>a. erases c (g a) (g' a)"
  shows "erases c (\<lambda>wt. case x of Inl e \<Rightarrow> f e wt | Inr a \<Rightarrow> g a wt)
    (\<lambda>w. case x of Inl e \<Rightarrow> f' e w | Inr a \<Rightarrow> g' a w)"
  using assms by (cases x) auto

lemma erases_option:
  assumes "erases c f f'" "\<And>a. erases c (g a) (g' a)"
  shows "erases c (\<lambda>wt. case x of None \<Rightarrow> f wt | Some a \<Rightarrow> g a wt)
    (\<lambda>w. case x of None \<Rightarrow> f' w | Some a \<Rightarrow> g' a w)"
  using assms by (cases x) auto

lemma erases_if:
  assumes "erases c f f'" "erases c g g'"
  shows "erases c (\<lambda>wt. if b then f wt else g wt) (\<lambda>w. if b then f' w else g' w)"
  using assms by (cases b) auto

lemma erases_prod:
  assumes "\<And>a b. erases c (f a b) (f' a b)"
  shows "erases c (\<lambda>wt. case x of (a, b) \<Rightarrow> f a b wt) (\<lambda>w. case x of (a, b) \<Rightarrow> f' a b w)"
  using assms by (cases x) auto

lemmas erases_rules = erases_bind erases_sum erases_option erases_if erases_prod erases_logged
  erases_return

lemma erases_deregister: "erases c (deregister (traced c) name) (deregister c name)"
  by (cases "ctl_Runners c")
    (auto simp: deregister_def [abs_def] traced_def intro!: erases_return erases_logged)

lemma erases_save: "erases c (save (traced c) a) (save c a)"
  unfolding save_def [abs_def] traced_selectors by (intro erases_rules genuine_simps)

lemma erases_fail: "erases c (save_then_fail (traced c) a e) (save_then_fail c a e)"
  unfolding save_then_fail_def [abs_def] by (intro erases_rules genuine_simps erases_save)

lemma erases_remember: "erases c (rememberResources (traced c) a rs) (rememberResources c a rs)"
  unfolding rememberResources_def [abs_def] traced_selectors by (intro erases_rules genuine_simps)

lemma erases_absent: "erases c (step_absent (traced c) now a cond) (step_absent c now a cond)"
  unfolding step_absent_def [abs_def] by (intro erases_rules genuine_simps erases_deregister erases_save)

lemmas erases_blocks = erases_deregister erases_save erases_fail erases_remember erases_absent

lemma erases_created: "erases c (step_created (traced c) now pool a cr e) (step_created c now pool a cr e)"
  unfolding step_created_def [abs_def] Let_def by (intro erases_rules genuine_simps erases_blocks)

lemma erases_provider:
  "erases c (create_call (traced_provider p) a) (create_call p a)"
  "erases c (pr_Observe (traced_provider p) a) (pr_Observe p a)"
  "erases c (pr_Delete (traced_provider p) a) (pr_Delete p a)"
  by (auto simp: create_call_def [abs_def] traced_provider_def erases_def logged_def
      split: option.split prod.split)

lemma erases_creation_observation:
  "erases c (creation_observation (traced c) (traced_provider p) a) (creation_observation c p a)"
  by (auto simp: creation_observation_def traced_provider_def erases_def logged_def
      dest: genuine_SaveI split: option.split prod.split sum.split)

lemma erases_phases:
  "erases c (step_Creating (traced c) (traced_provider p) now expired a) (step_Creating c p now expired a)"
  "erases c (step_Running (traced c) (traced_provider p) now expired a) (step_Running c p now expired a)"
  "erases c (step_Deleting (traced c) (traced_provider p) now a) (step_Deleting c p now a)"
  unfolding step_Creating_def [abs_def] step_Running_def [abs_def] step_Deleting_def [abs_def] Let_def
  by (intro erases_rules genuine_simps erases_blocks erases_provider erases_creation_observation)+

lemma erases_pending: "erases c (step_Pending (traced c) now expired a) (step_Pending c now expired a)"
proof -
  have lookup: "erases c (\<lambda>w. case map_option traced_provider x of None \<Rightarrow> f w | Some p \<Rightarrow> g p w)
      (\<lambda>w. case x of None \<Rightarrow> f' w | Some p \<Rightarrow> g' p w)"
    if "erases c f f'" "\<And>p. erases c (g (traced_provider p)) (g' p)" for x f f' g g'
    using that by (cases x) auto
  show ?thesis
    unfolding step_Pending_def [abs_def] traced_selectors
    by (intro erases_rules genuine_simps erases_blocks erases_provider erases_created lookup)
qed

lemma erases_loaded: "erases c (step_loaded (traced c) a) (step_loaded c a)"
  using erases_pending [of c] erases_phases [of c]
  unfolding erases_def
  by (auto simp: step_loaded_def Let_def split: option.split phase.split)

lemma erases_Step: "erases c (Step (traced c) name) (Step c name)"
  unfolding Step_def [abs_def] traced_selectors by (intro erases_rules genuine_simps erases_loaded)

text \<open>Every run of \<open>Step\<close> is the erasure of exactly one instrumented run.\<close>

lemma Step_traced:
  obtains es where "Step (traced c) name (w, tr) = (fst (Step c name w), (snd (Step c name w), tr @ es))"
    "list_all (genuine c) es"
  using erases_Step [of c name] unfolding erases_def by blast

end
