(* ===== verification/Lifecycle_Safety.thy ===== *)
theory Lifecycle_Safety
  imports Lifecycle_Calls
begin

text \<open>
  Safety of the allocation state machine, for every store that answers a save with the record it was
  given (the contract \<open>allocation_store\<close>) and for providers and a deregistrar that answer anything:
  the write-ahead discipline, the single mutation per step, what justifies a terminal record, and
  the refinement of the phase machine.
\<close>

section \<open>The store contract\<close>

text \<open>
  A successful save answers with the record it was given, at a new revision and with the same
  resources in canonical order.
\<close>

definition echo_of :: "allocation \<Rightarrow> allocation \<Rightarrow> bool" where
  "echo_of a b \<longleftrightarrow> (\<exists>rs rv. b = a\<lparr>al_Resources := rs, al_Revision := rv\<rparr> \<and> set rs = set (al_Resources a))"

lemma echo_of_revision [simp]: "echo_of a (a\<lparr>al_Revision := rv\<rparr>)"
  unfolding echo_of_def by (rule exI [of _ "al_Resources a"], rule exI [of _ rv]) simp

lemma echo_of_resources:
  assumes "echo_of a b"
  shows "set (al_Resources b) = set (al_Resources a)"
proof -
  from assms obtain rs rv where "b = a\<lparr>al_Resources := rs, al_Revision := rv\<rparr>" "set rs = set (al_Resources a)"
    unfolding echo_of_def by blast
  then show ?thesis by simp
qed

lemma echo_of_fields:
  assumes "echo_of a b"
  shows "al_Phase b = al_Phase a \<and> al_ID b = al_ID a \<and> al_ResourceID b = al_ResourceID a
    \<and> (al_Resources b = [] \<longleftrightarrow> al_Resources a = [])"
proof -
  from assms obtain rs rv where "b = a\<lparr>al_Resources := rs, al_Revision := rv\<rparr>" "set rs = set (al_Resources a)"
    unfolding echo_of_def by blast
  then show ?thesis by (simp flip: set_empty)
qed

locale allocation_store =
  fixes s :: "'w store_ops"
  assumes save_echo: "st_Save s a rv w = (Inr b, w') \<Longrightarrow> echo_of a b"

definition echoed :: "event \<Rightarrow> bool" where
  "echoed ev = (case ev of EvSave a rv (Inr b) \<Rightarrow> echo_of a b | _ \<Rightarrow> True)"

lemma echoed_simps [simp]:
  "echoed (EvSave a rv (Inr b)) \<longleftrightarrow> echo_of a b"
  "echoed (EvSave a rv (Inl e))" "echoed (EvLoad name r)" "echoed (EvCreate a cr x)"
  "echoed (EvReconcile a ob x)" "echoed (EvObserve a ob x)" "echoed (EvDelete a x)"
  "echoed (EvDeregister name x)"
  by (simp_all add: echoed_def)

context allocation_store
begin

lemma genuine_echoed:
  assumes "ctl_Store c = s" "genuine c ev"
  shows "echoed ev"
proof (cases ev)
  case (EvSave a rv r)
  then obtain w where "r = fst (st_Save s a rv w)"
    using assms by (auto simp: genuine_def)
  then show ?thesis
    using save_echo [of a rv w _ "snd (st_Save s a rv w)"] EvSave
    by (auto simp: echoed_def prod_eq_iff split: sum.split)
qed simp_all

lemma traced_echoed:
  assumes "ctl_Store c = s" "Step (traced c) name (w, tr) = (r, (w', tr @ es))"
  shows "list_all echoed es"
proof (rule Step_traced [of c name w tr])
  fix fs
  assume "Step (traced c) name (w, tr) = (fst (Step c name w), (snd (Step c name w), tr @ fs))"
    "list_all (genuine c) fs"
  with assms show ?thesis
    by (auto simp: list_all_iff genuine_echoed)
qed

end

section \<open>Call disciplines\<close>

text \<open>Every create or creation recovery directly follows a successful save of a Creating record.\<close>

definition commits :: "event option \<Rightarrow> allocation \<Rightarrow> bool" where
  "commits prev a = (case prev of
     Some (EvSave b rv (Inr a')) \<Rightarrow> a' = a \<and> al_Phase b = Creating | _ \<Rightarrow> False)"

fun write_ahead :: "event option \<Rightarrow> event list \<Rightarrow> bool" where
  "write_ahead prev [] \<longleftrightarrow> True"
| "write_ahead prev (ev # es) \<longleftrightarrow>
     (case ev of EvCreate a _ _ \<Rightarrow> commits prev a | EvReconcile a _ _ \<Rightarrow> commits prev a | _ \<Rightarrow> True)
     \<and> write_ahead (Some ev) es"

text \<open>The calls that may change the cloud, and all provider calls.\<close>

definition mutates :: "event \<Rightarrow> bool" where
  "mutates ev = (case ev of EvCreate _ _ _ \<Rightarrow> True | EvReconcile _ _ _ \<Rightarrow> True | EvDelete _ _ \<Rightarrow> True | _ \<Rightarrow> False)"

definition observes :: "event \<Rightarrow> bool" where
  "observes ev = (case ev of EvObserve _ _ _ \<Rightarrow> True | _ \<Rightarrow> False)"

lemma call_kind_simps [simp]:
  "mutates (EvCreate a cr e)" "mutates (EvReconcile a ob e)" "mutates (EvDelete a e)"
  "\<not> mutates (EvSave a rv r)" "\<not> mutates (EvLoad name l)" "\<not> mutates (EvObserve a ob e)"
  "\<not> mutates (EvDeregister name e)"
  "observes (EvObserve a ob e)"
  "\<not> observes (EvCreate a cr e)" "\<not> observes (EvReconcile a ob e)" "\<not> observes (EvDelete a e)"
  "\<not> observes (EvSave a rv r)" "\<not> observes (EvLoad name l)" "\<not> observes (EvDeregister name e)"
  by (simp_all add: mutates_def observes_def)

lemma commits_simps [simp]:
  "commits (Some (EvSave b rv (Inr a'))) a \<longleftrightarrow> a' = a \<and> al_Phase b = Creating"
  by (simp add: commits_def)

text \<open>
  What justifies a terminal record. \<open>absent\<close>: the last answer of the provider in this step is a
  definitive absence; \<open>free\<close>: the runner registration of the record was confirmed gone (or no
  deregistrar is configured).
\<close>

fun justified :: "bool \<Rightarrow> bool \<Rightarrow> bool \<Rightarrow> allocation \<Rightarrow> event list \<Rightarrow> bool" where
  "justified runners absent free start [] \<longleftrightarrow> True"
| "justified runners absent free start (ev # es) \<longleftrightarrow>
     (case ev of
        EvSave b _ _ \<Rightarrow>
          (al_Phase b = Deleted \<longrightarrow> absent \<and> (runners \<longrightarrow> free))
          \<and> (al_Phase b = TimedOut \<longrightarrow> al_Phase start = Pending \<and> al_Resources b = []
               \<and> al_ResourceID b = [] \<and> (runners \<longrightarrow> free))
          \<and> justified runners absent free start es
      | EvObserve _ ob e \<Rightarrow> justified runners (definitive ob e \<and> \<not> ob_Exists ob) False start es
      | EvReconcile _ ob e \<Rightarrow> justified runners (definitive ob e \<and> \<not> ob_Exists ob) False start es
      | EvDeregister name e \<Rightarrow> justified runners absent (e = None \<and> name = al_ID start) start es
      | EvLoad _ _ \<Rightarrow> justified runners absent free start es
      | _ \<Rightarrow> justified runners False False start es)"

section \<open>The phase machine\<close>

definition phase_moves :: "(phase \<times> phase) list" where
  "phase_moves = [(Pending, Pending), (Pending, Creating), (Pending, TimedOut),
     (Creating, Creating), (Creating, Pending), (Creating, Running), (Creating, Deleting), (Creating, Deleted),
     (Running, Running), (Running, Deleting), (Running, Deleted),
     (Deleting, Deleting), (Deleting, Deleted)]"

text \<open>The fields no step of the machine ever changes.\<close>

definition same_identity :: "allocation \<Rightarrow> allocation \<Rightarrow> bool" where
  "same_identity a b \<longleftrightarrow> al_ID b = al_ID a \<and> al_Deadline b = al_Deadline a
     \<and> al_MaxAttempts b = al_MaxAttempts a \<and> al_Catalog b = al_Catalog a
     \<and> al_Requirements b = al_Requirements a \<and> al_Ready b = al_Ready a \<and> al_Retire b = al_Retire a
     \<and> al_Completed b = al_Completed a \<and> al_RunID b = al_RunID a \<and> al_Owner b = al_Owner a
     \<and> al_Repo b = al_Repo a \<and> al_ScaleSetJobID b = al_ScaleSetJobID a
     \<and> al_RetryProcessed b = al_RetryProcessed a \<and> al_NetworkProfile b = al_NetworkProfile a
     \<and> al_WireGuardOverlayAddress b = al_WireGuardOverlayAddress a"

definition terminal :: "phase \<Rightarrow> bool" where
  "terminal p \<longleftrightarrow> p = Deleted \<or> p = TimedOut"

definition transition :: "allocation \<Rightarrow> allocation \<Rightarrow> bool" where
  "transition a b \<longleftrightarrow> (al_Phase a, al_Phase b) \<in> set phase_moves \<and> same_identity a b
     \<and> set (al_Resources a) \<subseteq> set (al_Resources b)
     \<and> (al_Attempts b =
          (if al_Phase a = Pending \<and> al_Phase b = Creating then al_Attempts a + 1 else al_Attempts a))
     \<and> (al_Phase b = Creating \<longrightarrow> al_Attempts b \<le> max (al_Attempts a) (al_MaxAttempts a))
     \<and> (al_TerminalAt b = al_TerminalAt a \<or> terminal (al_Phase b) \<and> \<not> terminal (al_Phase a))
     \<and> (al_Phase b = Pending \<longrightarrow> al_Resources b = al_Resources a \<and> al_ResourceID b = al_ResourceID a)"

text \<open>
  The saves of a call sequence form a chain: each is a compare-and-swap against the revision of the
  last record seen (loaded, or answered by the previous save) and makes a transition from it.
\<close>

fun save_chain :: "(allocation \<Rightarrow> allocation \<Rightarrow> bool) \<Rightarrow> allocation \<Rightarrow> event list \<Rightarrow> bool" where
  "save_chain R a [] \<longleftrightarrow> True"
| "save_chain R a (ev # es) \<longleftrightarrow>
     (case ev of
        EvSave b rv r \<Rightarrow> rv = al_Revision a \<and> R a b \<and> save_chain R (case r of Inr b \<Rightarrow> b | Inl _ \<Rightarrow> a) es
      | _ \<Rightarrow> save_chain R a es)"

section \<open>Reading the disciplines off the call sequences\<close>

lemmas block_calls = save_calls.simps deregister_calls.simps remember_calls.simps absent_calls.simps

lemma record_creation_fields [simp]:
  "al_Phase (record_creation a cr) = al_Phase a" "al_Resources (record_creation a cr) = al_Resources a"
  "al_Attempts (record_creation a cr) = al_Attempts a" "al_Revision (record_creation a cr) = al_Revision a"
  "al_TerminalAt (record_creation a cr) = al_TerminalAt a" "al_ID (record_creation a cr) = al_ID a"
  "same_identity x (record_creation a cr) = same_identity x a"
  by (simp_all add: record_creation_def same_identity_def Let_def)

lemma step_write_ahead:
  assumes "step_calls c now a r es"
  shows "write_ahead p es"
  using assms
proof (cases rule: step_calls.cases)
  case step_pending
  from this(3) show ?thesis
    by (cases rule: pending_calls.cases)
      (auto simp: block_calls elim!: created_calls.cases)
next
  case step_creating
  from this(3,2) show ?thesis
    by (cases rule: creating_calls.cases)
      (auto simp: block_calls elim!: resolved_calls.cases)
next
  case step_running
  from this(3) show ?thesis
    by (cases rule: running_calls.cases) (auto simp: block_calls)
next
  case step_deleting
  from this(3) show ?thesis
    by (cases rule: deleting_calls.cases) (auto simp: block_calls)
qed simp_all

lemma step_call_counts:
  assumes "step_calls c now a r es"
  shows "length (filter mutates es) \<le> 1 \<and> length (filter observes es) \<le> 1
    \<and> (filter mutates es = [] \<or> filter observes es = [] \<or> al_Phase a = Deleting)"
  using assms
proof (cases rule: step_calls.cases)
  case step_pending
  from this(3) show ?thesis
    by (cases rule: pending_calls.cases) (auto simp: block_calls elim!: created_calls.cases)
next
  case step_creating
  from this(3) show ?thesis
    by (cases rule: creating_calls.cases) (auto simp: block_calls elim!: resolved_calls.cases)
next
  case step_running
  from this(3) show ?thesis
    by (cases rule: running_calls.cases) (auto simp: block_calls)
next
  case step_deleting
  from this(3,2) show ?thesis
    by (cases rule: deleting_calls.cases) (auto simp: block_calls)
qed simp_all

text \<open>With a store that echoes, the record a step goes on with is the one it saved.\<close>

lemma remember_result:
  assumes "remember_calls a obs (Inr b) rs" "list_all echoed rs"
  obtains (unchanged) "rs = []" "b = a"
  | (merged) m m' rv where "MergeResources (al_Resources a) obs = Inr (m, True)"
      "b = a\<lparr>al_Resources := m', al_Revision := rv\<rparr>" "set m' = set m"
      "rs = [EvSave (a\<lparr>al_Resources := m\<rparr>) (al_Revision a) (Inr b)]"
  using assms by (cases rule: remember_calls.cases) (auto simp: echo_of_def)

lemma remember_justified:
  assumes "remember_calls a obs x rs" "\<not> terminal (al_Phase a)"
  shows "justified runners absent free start (rs @ es) \<longleftrightarrow> justified runners absent free start es"
  using assms by (cases rule: remember_calls.cases) (auto simp: terminal_def)

lemma save_justified:
  assumes "save_calls b r ss" "\<not> terminal (al_Phase b)"
  shows "justified runners absent free start ss"
  using assms by (cases rule: save_calls.cases) (auto simp: terminal_def)

lemma absent_justified:
  assumes "absent_calls runners now b condition r as" "al_ID b = al_ID start"
  shows "justified runners True free start as"
  using assms by (auto simp: absent_calls.simps deregister_calls.simps save_calls.simps)

lemma remember_keeps:
  assumes "remember_calls a obs (Inr b) rs" "list_all echoed rs"
  shows "al_Phase b = al_Phase a \<and> al_ID b = al_ID a"
  using assms by (cases rule: remember_calls.cases) (auto dest!: echo_of_fields)

lemma resolved_justified:
  assumes "resolved_calls c now expired a ob e r es" "list_all echoed es" "al_Phase a = Creating"
    "al_ID a = al_ID start"
  shows "justified (ctl_Runners c \<noteq> None) (definitive ob e \<and> \<not> ob_Exists ob) free start es"
  using assms(1)
proof (cases rule: resolved_calls.cases)
  case (resolve_refused f)
  then show ?thesis
    using remember_justified [OF resolve_refused(2), of _ _ _ _ "[]"] assms(3) by (simp add: terminal_def)
next
  case (resolve_unknown b rs condition r' ss f)
  then have "al_Phase b = Creating"
    using remember_keeps [OF resolve_unknown(4)] assms by simp
  then show ?thesis
    using resolve_unknown assms(3) by (simp add: remember_justified save_justified terminal_def)
next
  case (resolve_absent b rs as)
  then have "al_ID b = al_ID start"
    using remember_keeps [OF resolve_absent(4)] assms by simp
  then show ?thesis
    using resolve_absent assms(3) absent_justified [OF resolve_absent(5)]
    by (simp add: remember_justified terminal_def del: not_None_eq)
next
  case (resolve_deleting b rs ss)
  then show ?thesis
    using assms(3) save_justified [OF resolve_deleting(6)] by (simp add: remember_justified terminal_def)
next
  case (resolve_running b rs ss)
  then show ?thesis
    using assms(3) save_justified [OF resolve_running(6)] by (simp add: remember_justified terminal_def)
qed

lemma running_justified:
  assumes "running_calls c now expired a r es" "list_all echoed es" "al_Phase a = Running"
  shows "justified (ctl_Runners c \<noteq> None) False False a es"
  using assms(1)
proof (cases rule: running_calls.cases)
  case run_retired
  then show ?thesis
    using save_justified [OF run_retired(2)] by (simp add: terminal_def)
next
  case (run_unknown ob e condition r' ss f)
  then show ?thesis
    using assms(3) save_justified [OF run_unknown(4)] by (simp add: terminal_def)
next
  case (run_refused ob e f rs)
  then show ?thesis
    using remember_justified [OF run_refused(4), of _ _ _ _ "[]"] assms(3) by (simp add: terminal_def)
next
  case (run_absent ob e b rs as)
  then have "al_ID b = al_ID a"
    using remember_keeps [OF run_absent(4)] assms by simp
  then show ?thesis
    using run_absent assms(3) absent_justified [OF run_absent(5)]
    by (simp add: remember_justified terminal_def del: not_None_eq)
next
  case (run_present ob e b rs)
  then show ?thesis
    using remember_justified [OF run_present(5), of _ _ _ _ "[]"] assms(3) by (simp add: terminal_def)
qed

lemma deleting_justified:
  assumes "deleting_calls c now a r es" "list_all echoed es" "al_Phase a = Deleting"
  shows "justified (ctl_Runners c \<noteq> None) False False a es"
  using assms(1)
proof (cases rule: deleting_calls.cases)
  case (del_unknown ob e condition r' ss f)
  then show ?thesis
    using assms(3) save_justified [OF del_unknown(4)] by (simp add: terminal_def)
next
  case (del_refused ob e f rs)
  then show ?thesis
    using remember_justified [OF del_refused(4), of _ _ _ _ "[]"] assms(3) by (simp add: terminal_def)
next
  case (del_absent ob e b rs as)
  then have "al_ID b = al_ID a"
    using remember_keeps [OF del_absent(4)] assms by simp
  then show ?thesis
    using del_absent assms(3) absent_justified [OF del_absent(5)]
    by (simp add: remember_justified terminal_def del: not_None_eq)
next
  case (del_failed ob e b rs condition r' ss f g)
  then have "al_Phase b = Deleting"
    using remember_keeps [OF del_failed(5)] assms by simp
  then show ?thesis
    using del_failed assms(3) save_justified [OF del_failed(6)] by (simp add: remember_justified terminal_def)
next
  case (del_requested ob e b rs)
  then show ?thesis
    using assms(3) by (simp add: remember_justified terminal_def)
qed

lemma step_justified:
  assumes "step_calls c now a r es" "list_all echoed es"
  shows "justified (ctl_Runners c \<noteq> None) False False a es"
  using assms
proof (cases rule: step_calls.cases)
  case step_pending
  from this(3) assms(2) this(2) show ?thesis
    by (cases rule: pending_calls.cases)
      (auto simp: block_calls reject_capacity_def dest!: echo_of_fields elim!: created_calls.cases)
next
  case step_creating
  from this(3) show ?thesis
  proof (cases rule: creating_calls.cases)
    case (fenced b ob e es')
    then have "al_Phase b = Creating" "al_ID b = al_ID a"
      using assms(2) step_creating(2) by (auto dest!: echo_of_fields)
    with fenced step_creating(2) assms(2) show ?thesis
      using resolved_justified [OF fenced(2)] by simp
  next
    case (observed ob e es')
    with step_creating(2) assms(2) show ?thesis
      using resolved_justified [OF observed(2)] by simp
  qed (use step_creating(2) in simp)
next
  case step_running
  from this(3,2) show ?thesis by (rule running_justified [OF _ assms(2)])
next
  case step_deleting
  from this(3,2) show ?thesis by (rule deleting_justified [OF _ assms(2)])
qed simp_all

text \<open>Transitions: from a record to one that keeps the phase, or moves it.\<close>

lemma transition_refl_update:
  "al_Phase a \<in> {Pending, Creating, Running, Deleting} \<Longrightarrow> al_Attempts a \<le> max (al_Attempts a) (al_MaxAttempts a) \<Longrightarrow>
   transition a (a\<lparr>al_Condition := x\<rparr>)"
  by (auto simp: transition_def phase_moves_def same_identity_def)

lemma transition_remember:
  assumes "MergeResources (al_Resources a) obs = Inr (m, b)" "al_Phase a \<in> {Creating, Running, Deleting}"
  shows "transition a (a\<lparr>al_Resources := m\<rparr>)"
  using assms MergeResources_keeps [OF assms(1)]
  by (auto simp: transition_def phase_moves_def same_identity_def)

lemma created_chain:
  assumes "created_calls now pool b cr e r es" "list_all echoed es" "al_Phase b = Creating"
    "al_Resources b = []" "al_ResourceID b = []"
  shows "save_chain transition b es"
  using assms
  by (cases rule: created_calls.cases)
    (auto simp: save_calls.simps transition_def phase_moves_def same_identity_def terminal_def
      reject_capacity_def record_creation_def Let_def)

lemma remember_refused_chain:
  assumes "remember_calls a obs (Inl e) rs" "al_Phase a \<in> {Creating, Running, Deleting}"
  shows "save_chain transition a rs"
  using assms(1) transition_remember [OF _ assms(2)] by (cases rule: remember_calls.cases) auto

lemma remember_chain:
  assumes "remember_calls a obs (Inr b) rs" "list_all echoed rs"
    "al_Phase a \<in> {Creating, Running, Deleting}" "save_chain transition b es"
  shows "save_chain transition a (rs @ es)"
  using assms(1,2)
proof (cases rule: remember_result)
  case (merged m m' rv)
  then show ?thesis
    using assms(4) transition_remember [OF merged(1) assms(3)] by simp
qed (use assms in simp)

lemma absent_chain:
  assumes "absent_calls runners now b condition r es" "al_Phase b \<in> {Creating, Running, Deleting}"
  shows "save_chain transition b es"
  using assms
  by (auto simp: absent_calls.simps deregister_calls.simps save_calls.simps transition_def phase_moves_def
      same_identity_def terminal_def)

lemma remember_phase:
  "remember_calls a obs (Inr b) rs \<Longrightarrow> list_all echoed rs \<Longrightarrow> al_Phase b = al_Phase a"
  by (auto elim: remember_result)

lemma save_transition_chain:
  "save_calls b r es \<Longrightarrow> al_Revision b = al_Revision a \<Longrightarrow> transition a b \<Longrightarrow> save_chain transition a es"
  by (auto simp: save_calls.simps)

lemmas chain_simps = transition_def phase_moves_def same_identity_def terminal_def

lemma save_condition_chain:
  assumes "save_calls (b\<lparr>al_Condition := condition\<rparr>) r es" "al_Phase b \<in> {Pending, Creating, Running, Deleting}"
  shows "save_chain transition b es"
  using save_transition_chain [OF assms(1)] assms(2) by (simp add: transition_refl_update)

lemma resolved_chain:
  assumes "resolved_calls c now expired a ob e r es" "list_all echoed es" "al_Phase a = Creating"
  shows "save_chain transition a es"
  using assms(1)
proof (cases rule: resolved_calls.cases)
  case (resolve_refused f)
  then show ?thesis
    using assms by (auto intro: remember_refused_chain)
next
  case (resolve_unknown b rs condition r' ss f)
  with assms have "al_Phase b = Creating" by (auto dest: remember_phase)
  with save_condition_chain [OF resolve_unknown(5)] resolve_unknown assms show ?thesis
    by (auto intro!: remember_chain)
next
  case (resolve_absent b rs as)
  with assms have "al_Phase b = Creating" by (auto dest: remember_phase)
  with absent_chain [OF resolve_absent(5)] resolve_absent assms show ?thesis
    by (auto intro!: remember_chain)
next
  case (resolve_deleting b rs ss)
  with assms have "al_Phase b = Creating" by (auto dest: remember_phase)
  with save_transition_chain [OF resolve_deleting(6), of b] resolve_deleting assms show ?thesis
    by (auto intro!: remember_chain simp: chain_simps)
next
  case (resolve_running b rs ss)
  with assms have "al_Phase b = Creating" by (auto dest: remember_phase)
  with save_transition_chain [OF resolve_running(6), of b] resolve_running assms show ?thesis
    by (auto intro!: remember_chain simp: chain_simps)
qed

lemma pending_chain:
  assumes "pending_calls c now expired a r es" "list_all echoed es" "al_Phase a = Pending"
  shows "save_chain transition a es"
  using assms(1)
proof (cases rule: pending_calls.cases)
  case (committed o' b cr e es')
  then obtain rv where b: "b = (creating_record a o')\<lparr>al_Resources := [], al_Revision := rv\<rparr>"
    using assms(2) by (auto simp: echo_of_def)
  have "save_chain transition b es'"
    using committed(8) by (rule created_chain) (use assms(2) committed b in simp_all)
  with committed b assms(3) show ?thesis
    by (auto simp: chain_simps)
next
  case (no_choice condition)
  with assms(3) show ?thesis by (auto intro: save_condition_chain)
qed (use assms in \<open>auto simp: chain_simps deregister_calls.simps save_calls.simps\<close>)

lemma creating_chain:
  assumes "creating_calls c now expired a r es" "list_all echoed es" "al_Phase a = Creating"
  shows "save_chain transition a es"
  using assms(1)
proof (cases rule: creating_calls.cases)
  case (fenced b ob e es')
  then obtain rs rv where b: "b = a\<lparr>al_Resources := rs, al_Revision := rv\<rparr>"
    using assms(2) by (auto simp: echo_of_def)
  have "save_chain transition b es'"
    using fenced(2) by (rule resolved_chain) (use assms fenced b in simp_all)
  with fenced b assms(3) show ?thesis
    by (auto simp: chain_simps)
next
  case (observed ob e es')
  with assms show ?thesis by (auto intro: resolved_chain)
qed (use assms in \<open>auto simp: chain_simps\<close>)

lemma running_chain:
  assumes "running_calls c now expired a r es" "list_all echoed es" "al_Phase a = Running"
  shows "save_chain transition a es"
  using assms(1)
proof (cases rule: running_calls.cases)
  case run_retired
  with assms(3) show ?thesis
    by (auto intro: save_transition_chain simp: chain_simps)
next
  case (run_unknown ob e condition r' ss f)
  with assms(3) show ?thesis by (auto intro: save_condition_chain)
next
  case (run_refused ob e f rs)
  with assms(3) show ?thesis by (auto intro: remember_refused_chain)
next
  case (run_absent ob e b rs as)
  with assms have "al_Phase b = Running" by (auto dest: remember_phase)
  with absent_chain [OF run_absent(5)] run_absent assms show ?thesis
    by (auto intro!: remember_chain)
next
  case (run_present ob e b rs)
  with remember_chain [OF run_present(5), of "[]"] assms show ?thesis by simp
qed

lemma deleting_chain:
  assumes "deleting_calls c now a r es" "list_all echoed es" "al_Phase a = Deleting"
  shows "save_chain transition a es"
  using assms(1)
proof (cases rule: deleting_calls.cases)
  case (del_unknown ob e condition r' ss f)
  with assms(3) show ?thesis by (auto intro: save_condition_chain)
next
  case (del_refused ob e f rs)
  with assms(3) show ?thesis by (auto intro: remember_refused_chain)
next
  case (del_absent ob e b rs as)
  with assms have "al_Phase b = Deleting" by (auto dest: remember_phase)
  with absent_chain [OF del_absent(5)] del_absent assms show ?thesis
    by (auto intro!: remember_chain)
next
  case (del_failed ob e b rs condition r' ss f g)
  with assms have "al_Phase b = Deleting" by (auto dest: remember_phase)
  with save_condition_chain [OF del_failed(6)] del_failed assms show ?thesis
    by (auto intro!: remember_chain)
next
  case (del_requested ob e b rs)
  with remember_chain [OF del_requested(5), of "[EvDelete b None]"] assms show ?thesis by simp
qed

lemma step_chain:
  assumes "step_calls c now a r es" "list_all echoed es"
  shows "save_chain transition a es"
  using assms(1)
  by (cases rule: step_calls.cases)
    (use assms(2) in \<open>auto intro: pending_chain creating_chain running_chain deleting_chain\<close>)

section \<open>Properties of every step\<close>

text \<open>
  Claim C1 (write-ahead). Whatever the store, the clouds and GitHub answer, a step asks a provider to
  create a machine, or to recover a creation, only directly after a successful save of a record in
  phase Creating, and passes exactly the record that save returned: a crash or an ambiguous answer
  always leaves a durable Creating intent behind.
\<close>

theorem Step_write_ahead:
  "write_ahead None (snd (snd (Step (traced c) name (w, []))))"
proof -
  obtain r w' tr where step: "Step (traced c) name (w, []) = (r, (w', tr))"
    by (metis prod.exhaust)
  then show ?thesis
    by (cases rule: Step_calls) (use step step_write_ahead in auto)
qed

text \<open>
  Claim C10 (one mutation per step). A step makes at most one provider call that may change the cloud
  (create, recover a creation, delete) and at most one plain observation; both happen in one step
  only for a record in phase Deleting, which is observed before its delete is requested.
\<close>

theorem Step_one_mutation:
  "let tr = snd (snd (Step (traced c) name (w, []))) in
     length (filter mutates tr) \<le> 1 \<and> length (filter observes tr) \<le> 1 \<and>
     (filter mutates tr = [] \<or> filter observes tr = [] \<or>
      (\<exists>a es. tr = EvLoad name (Inr a) # es \<and> al_Phase a = Deleting))"
proof -
  obtain r w' tr where step: "Step (traced c) name (w, []) = (r, (w', tr))"
    by (metis prod.exhaust)
  then show ?thesis
    by (cases rule: Step_calls) (use step step_call_counts in \<open>fastforce simp: Let_def\<close>)+
qed

text \<open>
  Claim C2 (terminal records are justified). With a store that echoes what it saved: a record is
  saved as Deleted only when, within the same step, the provider's last answer was a definitive
  absence and the runner registration was then confirmed gone (if a deregistrar is configured); it
  is saved as TimedOut only from Pending, with no cloud resource on record, after the same
  confirmation.
\<close>

theorem Step_terminal_justified:
  assumes "allocation_store (ctl_Store c)"
    and "Step (traced c) name (w, []) = (r, (w', EvLoad name (Inr a) # es))"
  shows "justified (ctl_Runners c \<noteq> None) False False a es"
  using assms(2)
proof (cases rule: Step_calls)
  case (loaded a' now es')
  have "list_all echoed (EvLoad name (Inr a) # es)"
    by (rule allocation_store.traced_echoed [OF assms(1) refl, of name w "[]"]) (simp add: assms(2))
  then have "list_all echoed es"
    by simp
  moreover have "step_calls c now a r es"
    using loaded by simp
  ultimately show ?thesis
    by (rule step_justified [rotated])
qed simp

text \<open>
  Claim C3 (refinement of the phase machine). With a store that echoes what it saved, the saves of a
  step form a chain of compare-and-swaps, each against the revision last seen, and each moves along
  the phase machine: identity, deadline, catalog, requirements and job fields never change, recorded
  resources are never dropped, the attempt count grows by one exactly when a creation is committed
  and stays within the limit, and the terminal time is set only on entering a terminal phase.
\<close>

theorem Step_refines_phases:
  assumes "allocation_store (ctl_Store c)"
    and "Step (traced c) name (w, []) = (r, (w', EvLoad name (Inr a) # es))"
  shows "save_chain transition a es"
  using assms(2)
proof (cases rule: Step_calls)
  case (loaded a' now es')
  have "list_all echoed (EvLoad name (Inr a) # es)"
    by (rule allocation_store.traced_echoed [OF assms(1) refl, of name w "[]"]) (simp add: assms(2))
  with loaded show ?thesis
    by (auto intro: step_chain)
qed simp

text \<open>
  Claim C11 (terminal phases absorb). Once a valid record is Deleted or TimedOut, a step loads it and
  does nothing else: no save, no provider call, no deregistration, and no error.
\<close>

theorem Step_terminal_absorbs:
  assumes "st_Load (ctl_Store c) name w = (Inr a, w')" "persisted_valid a" "terminal (al_Phase a)"
  shows "Step (traced c) name (w, []) = (None, (w', [EvLoad name (Inr a)]))"
  using assms by (auto simp: Step_def step_loaded_def logged_def terminal_def Let_def)

section \<open>A concrete run\<close>

text \<open>A world with one record and one machine, a store over it, and a provider that can see both.\<close>

record demo_world =
  dw_record :: allocation
  dw_machine :: bool

definition demo_store :: "demo_world store_ops" where
  "demo_store = \<lparr>
     st_Load = (\<lambda>name w. (if al_ID (dw_record w) = name then Inr (dw_record w)
                          else Inl (errors_New ''not found''), w)),
     st_Save = (\<lambda>a rv w. if al_Revision (dw_record w) = rv
                         then let b = a\<lparr>al_Revision := CHR ''r'' # rv\<rparr> in (Inr b, w\<lparr>dw_record := b\<rparr>)
                         else (Inl (Err [ErrConflict] ''state revision conflict''), w))\<rparr>"

definition demo_observation :: "demo_world \<Rightarrow> observation" where
  "demo_observation w = \<lparr>ob_Resources = [], ob_Exists = dw_machine w, ob_Known = True,
     ob_Interrupted = False, ob_ResourceID = ''i-1''\<rparr>"

definition demo_provider :: "demo_world provider_ops" where
  "demo_provider = \<lparr>pr_CreateWithResources = None, pr_ReconcileCreation = None,
     pr_Create = (\<lambda>a w. ((''i-1'', None), w\<lparr>dw_machine := True\<rparr>)),
     pr_Observe = (\<lambda>a w. ((demo_observation w, None), w)),
     pr_Delete = (\<lambda>a w. (None, w\<lparr>dw_machine := False\<rparr>))\<rparr>"

definition demo_controller :: "demo_world controller" where
  "demo_controller = \<lparr>ctl_Cooldowns = [], ctl_Store = demo_store,
     ctl_Providers = [(''aws'', demo_provider)], ctl_Now = (\<lambda>w. demo_now),
     ctl_Runners = Some (\<lambda>name w. (None, w))\<rparr>"

definition demo_allocation :: "phase \<Rightarrow> allocation" where
  "demo_allocation p = \<lparr>al_Resources = [], al_RejectedAt = [], al_Completed = False, al_ID = ''a1'',
     al_Revision = ''1'', al_Phase = p, al_Deadline = demo_now + Hour, al_Attempts = 0,
     al_MaxAttempts = 3, al_Offering = demo_offering ''a'' True 30000, al_Outcomes = [],
     al_Catalog = demo_catalog, al_Requirements = demo_requirements, al_ResourceID = [],
     al_Ready = False, al_Retire = False, al_Condition = [], al_RunID = 0, al_Owner = [], al_Repo = [],
     al_ScaleSetJobID = [], al_RetryProcessed = False, al_NetworkProfile = [],
     al_WireGuardPublicKey = [], al_WireGuardOverlayAddress = [], al_WireGuardEndpoint = [],
     al_WireGuardPollTokenHash = [], al_TerminalAt = 0\<rparr>"

definition demo_run :: "phase \<Rightarrow> err option \<times> demo_world \<times> event list" where
  "demo_run p = Step (traced demo_controller) ''a1'' (\<lparr>dw_record = demo_allocation p, dw_machine = False\<rparr>, [])"

lemma demo_store_echoes: "allocation_store (ctl_Store demo_controller)"
  by unfold_locales (auto simp: demo_controller_def demo_store_def Let_def split: if_splits)

lemma demo_run_loads:
  assumes "p = Pending \<or> p = Deleting \<or> p = Deleted"
  shows "demo_run p = (fst (demo_run p), (fst (snd (demo_run p)),
    EvLoad ''a1'' (Inr (demo_allocation p)) # tl (snd (snd (demo_run p)))))"
proof -
  have "hd (snd (snd (demo_run p))) = EvLoad ''a1'' (Inr (demo_allocation p)) \<and> snd (snd (demo_run p)) \<noteq> []"
    using assms by (elim disjE; hypsubst; code_simp)
  then show ?thesis
    by (metis list.collapse prod.collapse)
qed

theorem Step_terminal_justified_witness:
  "length (tl (snd (snd (demo_run Deleting)))) = 3 \<and>
   justified True False False (demo_allocation Deleting) (tl (snd (snd (demo_run Deleting))))"
proof
  show "length (tl (snd (snd (demo_run Deleting)))) = 3"
    by code_simp
  have "ctl_Runners demo_controller \<noteq> None"
    by (simp add: demo_controller_def)
  then show "justified True False False (demo_allocation Deleting) (tl (snd (snd (demo_run Deleting))))"
    using Step_terminal_justified [OF demo_store_echoes demo_run_loads [of Deleting, unfolded demo_run_def]]
    by (simp add: demo_run_def)
qed

theorem Step_refines_phases_witness:
  "length (filter mutates (snd (snd (demo_run Pending)))) = 1 \<and>
   al_Phase (dw_record (fst (snd (demo_run Pending)))) = Running \<and>
   save_chain transition (demo_allocation Pending) (tl (snd (snd (demo_run Pending))))"
proof (intro conjI)
  show "length (filter mutates (snd (snd (demo_run Pending)))) = 1"
    by code_simp
  show "al_Phase (dw_record (fst (snd (demo_run Pending)))) = Running"
    by code_simp
  show "save_chain transition (demo_allocation Pending) (tl (snd (snd (demo_run Pending))))"
    using Step_refines_phases [OF demo_store_echoes demo_run_loads [of Pending, unfolded demo_run_def]]
    by (simp add: demo_run_def)
qed

theorem Step_terminal_absorbs_witness:
  "demo_run Deleted = (None, (\<lparr>dw_record = demo_allocation Deleted, dw_machine = False\<rparr>,
     [EvLoad ''a1'' (Inr (demo_allocation Deleted))]))"
  unfolding demo_run_def
proof (rule Step_terminal_absorbs)
  show "st_Load (ctl_Store demo_controller) ''a1'' \<lparr>dw_record = demo_allocation Deleted, dw_machine = False\<rparr>
      = (Inr (demo_allocation Deleted), \<lparr>dw_record = demo_allocation Deleted, dw_machine = False\<rparr>)"
    by code_simp
  show "persisted_valid (demo_allocation Deleted)" "terminal (al_Phase (demo_allocation Deleted))"
    by code_simp+
qed

end
