(* ===== verification/Kube.thy ===== *)
theory Kube
  imports Go_Prelude
begin

text \<open>
  What the sources use of the Kubernetes ConfigMap client and of \<open>encoding/json\<close>. The API server is
  not part of the repository: its operations are a parameter (\<open>maps_ops\<close>), and what the code relies
  on is the named hypothesis \<open>kube_contract\<close>, the documented optimistic-concurrency behaviour of
  \<open>resourceVersion\<close>. A text stored in a ConfigMap is represented by what decoding it with
  \<open>DisallowUnknownFields\<close> and a second \<open>Decode\<close> for trailing data finds in it.
\<close>

section \<open>JSON texts by their decoding\<close>

datatype 'a json = JsonOf 'a | JsonTrailing 'a | JsonBad err

text \<open>The strict decoding every reader of durable state performs.\<close>

definition json_decode :: "string \<Rightarrow> 'a json \<Rightarrow> err + 'a" where
  "json_decode trailing t = (case t of
     JsonBad e \<Rightarrow> Inl e | JsonTrailing _ \<Rightarrow> Inl (errors_New trailing) | JsonOf x \<Rightarrow> Inr x)"

text \<open>\<open>time.Time\<close> marshals only in the years 0 to 9999.\<close>

definition json_time_ok :: "time \<Rightarrow> bool" where
  "json_time_ok t \<longleftrightarrow> - (366 * 24 * Hour) \<le> t \<and> t < 3652059 * 24 * Hour"

section \<open>ConfigMaps\<close>

record 'd config_map =
  cm_Name :: string
  cm_ResourceVersion :: string
  cm_Labels :: "(string, string) gomap"
  cm_Data :: "(string, 'd) gomap"

record ('w, 'd) maps_ops =
  mp_Get :: "string \<Rightarrow> 'w \<Rightarrow> (err + 'd config_map) \<times> 'w"
  mp_Create :: "'d config_map \<Rightarrow> 'w \<Rightarrow> (err + 'd config_map) \<times> 'w"
  mp_Update :: "'d config_map \<Rightarrow> 'w \<Rightarrow> (err + 'd config_map) \<times> 'w"
  mp_Delete :: "string \<Rightarrow> 'w \<Rightarrow> err option \<times> 'w"
  mp_List :: "(string \<times> string) list \<Rightarrow> 'w \<Rightarrow> (err + 'd config_map list) \<times> 'w"

text \<open>
  The server's contract. \<open>obj\<close> is the object stored under a name; \<open>later\<close> relates two instants
  between which other clients may have acted. A version never changes content while it is current;
  a successful update replaced exactly the version it names, a successful create found nothing, and
  both store what they were given at a new version.
\<close>

definition versions_stable :: "('w \<Rightarrow> string \<Rightarrow> 'd config_map option) \<Rightarrow> ('w \<Rightarrow> 'w \<Rightarrow> bool) \<Rightarrow> bool" where
  "versions_stable obj later \<longleftrightarrow> (\<forall>w w' n x y. later w w' \<longrightarrow> obj w n = Some x \<longrightarrow> obj w' n = Some y \<longrightarrow>
     cm_ResourceVersion x = cm_ResourceVersion y \<longrightarrow> x = y)"

definition get_contract ::
    "('w, 'd) maps_ops \<Rightarrow> ('w \<Rightarrow> string \<Rightarrow> 'd config_map option) \<Rightarrow> ('w \<Rightarrow> 'w \<Rightarrow> bool) \<Rightarrow> bool" where
  "get_contract m obj later \<longleftrightarrow> (\<forall>n w cm w'. mp_Get m n w = (Inr cm, w') \<longrightarrow>
     later w w' \<and> cm_Name cm = n \<and> obj w' n = Some cm)"

definition update_contract ::
    "('w, 'd) maps_ops \<Rightarrow> ('w \<Rightarrow> string \<Rightarrow> 'd config_map option) \<Rightarrow> ('w \<Rightarrow> 'w \<Rightarrow> bool) \<Rightarrow> bool" where
  "update_contract m obj later \<longleftrightarrow> (\<forall>cm w out w'. mp_Update m cm w = (Inr out, w') \<longrightarrow>
     (\<exists>w1 old. later w w1 \<and> obj w1 (cm_Name cm) = Some old
        \<and> cm_ResourceVersion old = cm_ResourceVersion cm
        \<and> obj w' = (obj w1)(cm_Name cm \<mapsto> out)
        \<and> (\<exists>rv. out = cm\<lparr>cm_ResourceVersion := rv\<rparr> \<and> rv \<noteq> cm_ResourceVersion cm \<and> rv \<noteq> [])))"

definition create_contract ::
    "('w, 'd) maps_ops \<Rightarrow> ('w \<Rightarrow> string \<Rightarrow> 'd config_map option) \<Rightarrow> ('w \<Rightarrow> 'w \<Rightarrow> bool) \<Rightarrow> bool" where
  "create_contract m obj later \<longleftrightarrow> (\<forall>cm w out w'. mp_Create m cm w = (Inr out, w') \<longrightarrow>
     (\<exists>w1. later w w1 \<and> obj w1 (cm_Name cm) = None \<and> obj w' = (obj w1)(cm_Name cm \<mapsto> out)
        \<and> (\<exists>rv. out = cm\<lparr>cm_ResourceVersion := rv\<rparr> \<and> rv \<noteq> [])))"

definition kube_contract ::
    "('w, 'd) maps_ops \<Rightarrow> ('w \<Rightarrow> string \<Rightarrow> 'd config_map option) \<Rightarrow> ('w \<Rightarrow> 'w \<Rightarrow> bool) \<Rightarrow> bool" where
  "kube_contract m obj later \<longleftrightarrow> transp later \<and> versions_stable obj later \<and> get_contract m obj later
     \<and> update_contract m obj later \<and> create_contract m obj later"

lemma kube_get:
  assumes "kube_contract m obj later" "mp_Get m n w = (Inr cm, w')"
  shows "cm_Name cm = n" "obj w' n = Some cm" "later w w'"
  using assms unfolding kube_contract_def get_contract_def by blast+

lemma kube_update:
  assumes "kube_contract m obj later" "mp_Update m cm w = (Inr out, w')"
  obtains w1 old rv where "later w w1" "obj w1 (cm_Name cm) = Some old"
    "cm_ResourceVersion old = cm_ResourceVersion cm" "obj w' = (obj w1)(cm_Name cm \<mapsto> out)"
    "out = cm\<lparr>cm_ResourceVersion := rv\<rparr>" "rv \<noteq> cm_ResourceVersion cm" "rv \<noteq> []"
proof -
  have "update_contract m obj later"
    using assms(1) by (simp add: kube_contract_def)
  from this [unfolded update_contract_def, rule_format, OF assms(2)] that show thesis
    by blast
qed

lemma kube_create:
  assumes "kube_contract m obj later" "mp_Create m cm w = (Inr out, w')"
  obtains w1 rv where "later w w1" "obj w1 (cm_Name cm) = None" "obj w' = (obj w1)(cm_Name cm \<mapsto> out)"
    "out = cm\<lparr>cm_ResourceVersion := rv\<rparr>" "rv \<noteq> []"
proof -
  have "create_contract m obj later"
    using assms(1) by (simp add: kube_contract_def)
  from this [unfolded create_contract_def, rule_format, OF assms(2)] that show thesis
    by blast
qed

lemma kube_later: "kube_contract m obj later \<Longrightarrow> later u v \<Longrightarrow> later v w \<Longrightarrow> later u w"
  by (auto simp: kube_contract_def dest: transpD)

lemma kube_version:
  assumes "kube_contract m obj later" "later w w'" "obj w n = Some x" "obj w' n = Some y"
    "cm_ResourceVersion x = cm_ResourceVersion y"
  shows "x = y"
  using assms unfolding kube_contract_def versions_stable_def by blast

section \<open>A reference server\<close>

text \<open>An in-memory server that satisfies the contract: the objects and the last version used.\<close>

record 'd memory_server =
  ms_objects :: "(string, 'd config_map) gomap"
  ms_version :: nat

definition version_text :: "nat \<Rightarrow> string" where
  "version_text n = replicate (Suc n) (CHR ''v'')"

definition memory_put :: "'d config_map \<Rightarrow> 'd memory_server \<Rightarrow> (err + 'd config_map) \<times> 'd memory_server" where
  "memory_put cm w =
     (let n = Suc (ms_version w); out = cm\<lparr>cm_ResourceVersion := version_text n\<rparr>
      in (Inr out, \<lparr>ms_objects = AList.update (cm_Name cm) out (ms_objects w), ms_version = n\<rparr>))"

definition memory_maps :: "('d memory_server, 'd) maps_ops" where
  "memory_maps = \<lparr>
     mp_Get = (\<lambda>n w. (case map_of (ms_objects w) n of
         None \<Rightarrow> Inl (Err [StatusNotFound] ''not found'')
       | Some cm \<Rightarrow> if cm_Name cm = n then Inr cm else Inl (errors_New ''corrupt server''), w)),
     mp_Create = (\<lambda>cm w. case map_of (ms_objects w) (cm_Name cm) of
         None \<Rightarrow> memory_put cm w
       | Some _ \<Rightarrow> (Inl (Err [StatusAlreadyExists] ''already exists''), w)),
     mp_Update = (\<lambda>cm w. case map_of (ms_objects w) (cm_Name cm) of
         None \<Rightarrow> (Inl (Err [StatusNotFound] ''not found''), w)
       | Some old \<Rightarrow>
           if cm_ResourceVersion old = cm_ResourceVersion cm \<and> length (cm_ResourceVersion old) \<le> Suc (ms_version w)
           then memory_put cm w
           else (Inl (Err [StatusConflict] ''conflict''), w)),
     mp_Delete = (\<lambda>n w. case map_of (ms_objects w) n of
         None \<Rightarrow> (Some (Err [StatusNotFound] ''not found''), w)
       | Some _ \<Rightarrow> (None, w\<lparr>ms_objects := AList.delete n (ms_objects w)\<rparr>)),
     mp_List = (\<lambda>selector w. (Inr (filter
         (\<lambda>cm. list_all (\<lambda>(k, v). map_of (cm_Labels cm) k = Some v) selector)
         (map snd (ms_objects w))), w))\<rparr>"

lemma memory_contract: "kube_contract memory_maps (\<lambda>w. map_of (ms_objects w)) (=)"
proof -
  have versions: "version_text (Suc n) \<noteq> rv" if "length rv \<le> Suc n" for n rv
    using that by (auto simp: version_text_def)
  have "version_text n \<noteq> []" for n
    by (simp add: version_text_def)
  with versions show ?thesis
    unfolding kube_contract_def versions_stable_def get_contract_def update_contract_def
      create_contract_def memory_maps_def
    by (auto simp: memory_put_def Let_def fun_eq_iff split: option.splits if_splits)
qed

end
