(* ===== verification/State_Store.thy ===== *)
theory State_Store
  imports Kube Lifecycle_Safety
begin

text \<open>
  \<open>internal/state/kubernetes.go\<close>: allocation records in ConfigMaps with \<open>resourceVersion\<close>
  compare-and-swap. The store meets the contract the lifecycle relies on, never loses an update and
  never drops a recorded cloud dependency, even with other clients acting between its two requests.
\<close>

record 'w kubernetes =
  k_Maps :: "('w, allocation json) maps_ops"
  k_Owner :: string

definition ownership_mismatch :: err where
  "ownership_mismatch = errors_New ''state ownership mismatch''"

definition identity_mismatch :: err where
  "identity_mismatch = errors_New ''allocation identity mismatch''"

definition label_owner :: "'d config_map \<Rightarrow> string" where
  "label_owner cm = map_get [] (cm_Labels cm) ''runnerscout/owner''"

section \<open>Decoding and encoding\<close>

definition decodeAllocation :: "allocation json config_map \<Rightarrow> err + allocation" where
  "decodeAllocation cm =
     (let legacy = map_of (cm_Data cm) ''allocation'';
          current = map_of (cm_Data cm) ''allocation-v2'';
          old = (legacy \<noteq> None); versioned = (current \<noteq> None)
      in if old = versioned then Inl (errors_New ''missing or ambiguous allocation format'')
         else case json_decode ''invalid trailing allocation data''
                     (if versioned then the current else the legacy) of
             Inl e \<Rightarrow> Inl e
           | Inr a \<Rightarrow>
               if al_ID a \<noteq> cm_Name cm then Inl identity_mismatch
               else if versioned \<noteq> (al_Resources a \<noteq> [])
               then Inl (errors_New ''allocation dependency format mismatch'')
               else case MergeResources [] (al_Resources a) of
                   Inl e \<Rightarrow> Inl e
                 | Inr _ \<Rightarrow> Inr a)"

definition allocation_times :: "allocation \<Rightarrow> time list" where
  "allocation_times a = al_Deadline a # al_TerminalAt a # off_ObservedAt (al_Offering a)
     # map snd (al_RejectedAt a) @ map off_ObservedAt (cat_Offerings (al_Catalog a))"

definition Marshal_allocation :: "allocation \<Rightarrow> err + allocation json" where
  "Marshal_allocation a = (if list_all json_time_ok (allocation_times a) then Inr (JsonOf a)
     else Inl (errors_New ''Time.MarshalJSON: year outside of range [0,9999]''))"

section \<open>Operations\<close>

definition Load :: "'w kubernetes \<Rightarrow> string \<Rightarrow> 'w \<Rightarrow> (err + allocation) \<times> 'w" where
  "Load s name w =
     (case mp_Get (k_Maps s) name w of
        (Inl e, w) \<Rightarrow> (Inl e, w)
      | (Inr cm, w) \<Rightarrow>
          if label_owner cm \<noteq> k_Owner s then (Inl ownership_mismatch, w)
          else case decodeAllocation cm of
              Inl e \<Rightarrow> (Inl e, w)
            | Inr a \<Rightarrow> if al_ID a \<noteq> name then (Inl identity_mismatch, w)
                       else (Inr (a\<lparr>al_Revision := cm_ResourceVersion cm\<rparr>), w))"

text \<open>The checks of \<open>Save\<close> against the current object, when it replaces one.\<close>

definition save_checked ::
    "'w kubernetes \<Rightarrow> allocation \<Rightarrow> string \<Rightarrow> 'w \<Rightarrow> (err + allocation) \<times> 'w" where
  "save_checked s a revision w =
     (case mp_Get (k_Maps s) (al_ID a) w of
        (Inl e, w) \<Rightarrow> (Inl e, w)
      | (Inr current, w) \<Rightarrow>
          (if label_owner current \<noteq> k_Owner s then Inl ownership_mismatch
           else if cm_ResourceVersion current \<noteq> revision
           then Inl (Err [ErrConflict] ''state revision conflict'')
           else case decodeAllocation current of
               Inl e \<Rightarrow> Inl e
             | Inr previous \<Rightarrow>
                 (case MergeResources [] (al_Resources a) of
                    Inl e \<Rightarrow> Inl e
                  | Inr (incoming, _) \<Rightarrow>
                      (case MergeResources (al_Resources previous) incoming of
                         Inl e \<Rightarrow> Inl e
                       | Inr (retained, _) \<Rightarrow>
                           if length retained \<noteq> length incoming
                           then Inl (errors_New ''cannot discard recorded cloud dependencies'')
                           else Inr (a\<lparr>al_Resources := incoming\<rparr>))), w))"

definition allocation_map :: "'w kubernetes \<Rightarrow> allocation \<Rightarrow> string \<Rightarrow> allocation json \<Rightarrow> allocation json config_map" where
  "allocation_map s a revision b =
     \<lparr>cm_Name = al_ID a, cm_ResourceVersion = revision,
      cm_Labels = [(''runnerscout/owner'', k_Owner s), (''runnerscout/kind'', ''allocation'')],
      cm_Data = [(if al_Resources a \<noteq> [] then ''allocation-v2'' else ''allocation'', b)]\<rparr>"

definition save_written ::
    "'w kubernetes \<Rightarrow> allocation \<Rightarrow> string \<Rightarrow> 'w \<Rightarrow> (err + allocation) \<times> 'w" where
  "save_written s a revision w =
     (case MergeResources [] (al_Resources a) of
        Inl e \<Rightarrow> (Inl e, w)
      | Inr (resources, _) \<Rightarrow>
          let a = a\<lparr>al_Resources := resources, al_Revision := []\<rparr> in
          case Marshal_allocation a of
            Inl e \<Rightarrow> (Inl e, w)
          | Inr b \<Rightarrow>
              let cm = allocation_map s a revision b in
              (case (if revision = [] then mp_Create (k_Maps s) cm w else mp_Update (k_Maps s) cm w) of
                 (Inl e, w) \<Rightarrow>
                   (Inl (if errors_Is e StatusConflict \<or> errors_Is e StatusAlreadyExists
                         then Err [ErrConflict] ''state revision conflict'' else e), w)
               | (Inr out, w) \<Rightarrow> (Inr (a\<lparr>al_Revision := cm_ResourceVersion out\<rparr>), w)))"

definition Save :: "'w kubernetes \<Rightarrow> allocation \<Rightarrow> string \<Rightarrow> 'w \<Rightarrow> (err + allocation) \<times> 'w" where
  "Save s a revision w =
     (if revision \<noteq> [] then
        (case save_checked s a revision w of
           (Inl e, w) \<Rightarrow> (Inl e, w)
         | (Inr a, w) \<Rightarrow> save_written s a revision w)
      else save_written s a revision w)"

definition Delete :: "'w kubernetes \<Rightarrow> string \<Rightarrow> 'w \<Rightarrow> err option \<times> 'w" where
  "Delete s name w =
     (case mp_Get (k_Maps s) name w of
        (Inl e, w) \<Rightarrow> (if errors_Is e StatusNotFound then None else Some e, w)
      | (Inr cm, w) \<Rightarrow>
          if label_owner cm \<noteq> k_Owner s then (Some ownership_mismatch, w)
          else (case mp_Delete (k_Maps s) name w of
                  (e, w) \<Rightarrow> (if opt_Is e StatusNotFound then None else e, w)))"

fun list_decode :: "allocation json config_map list \<Rightarrow> err + allocation list" where
  "list_decode [] = Inr []"
| "list_decode (cm # cms) =
     (case decodeAllocation cm of
        Inl e \<Rightarrow> Inl e
      | Inr a \<Rightarrow>
          if al_ID a \<noteq> cm_Name cm then Inl identity_mismatch
          else (case list_decode cms of
                  Inl e \<Rightarrow> Inl e
                | Inr as \<Rightarrow> Inr (a\<lparr>al_Revision := cm_ResourceVersion cm\<rparr> # as)))"

definition List_allocations :: "'w kubernetes \<Rightarrow> 'w \<Rightarrow> (err + allocation list) \<times> 'w" where
  "List_allocations s w =
     (case mp_List (k_Maps s) [(''runnerscout/owner'', k_Owner s), (''runnerscout/kind'', ''allocation'')] w of
        (Inl e, w) \<Rightarrow> (Inl e, w)
      | (Inr cms, w) \<Rightarrow> (list_decode cms, w))"

definition kubernetes_store :: "'w kubernetes \<Rightarrow> 'w store_ops" where
  "kubernetes_store s = \<lparr>st_Load = Load s, st_Save = Save s\<rparr>"

section \<open>The lifecycle's contract\<close>

lemma save_written_echo:
  "save_written s a revision w = (Inr b, w') \<Longrightarrow> echo_of a b"
  unfolding echo_of_def save_written_def
  by (auto simp: Let_def MergeResources_success split: sum.splits prod.splits if_splits)

lemma save_checked_Inr:
  assumes "save_checked s a revision w = (Inr b, w')"
  obtains current previous incoming where
    "mp_Get (k_Maps s) (al_ID a) w = (Inr current, w')" "label_owner current = k_Owner s"
    "cm_ResourceVersion current = revision" "decodeAllocation current = Inr previous"
    "b = a\<lparr>al_Resources := incoming\<rparr>" "set incoming = set (al_Resources a)" "canonical incoming"
    "set (al_Resources previous) \<subseteq> set incoming"
proof -
  from assms obtain current previous incoming ch retained ch' where
    *: "mp_Get (k_Maps s) (al_ID a) w = (Inr current, w')" "label_owner current = k_Owner s"
    "cm_ResourceVersion current = revision" "decodeAllocation current = Inr previous"
    "MergeResources [] (al_Resources a) = Inr (incoming, ch)"
    "MergeResources (al_Resources previous) incoming = Inr (retained, ch')"
    "length retained = length incoming" "b = a\<lparr>al_Resources := incoming\<rparr>"
    unfolding save_checked_def by (auto split: prod.splits sum.splits if_splits)
  from *(5,6) have sets: "set incoming = set (al_Resources a)" "canonical incoming"
    "set retained = set (al_Resources previous) \<union> set incoming" "canonical retained"
    by (simp_all add: MergeResources_success)
  have "distinct incoming" "distinct retained"
    using sets(2,4) by (simp_all add: canonical_iff distinct_map)
  with *(7) sets(3) have "set retained = set incoming"
    by (metis List.finite_set card_subset_eq distinct_card sup_ge2)
  with * sets that show thesis by blast
qed

lemma Save_echo:
  assumes "Save s a revision w = (Inr b, w')"
  shows "echo_of a b"
proof (cases "revision = []")
  case True
  with assms show ?thesis by (simp add: Save_def save_written_echo)
next
  case False
  with assms obtain a' w1 where a': "save_checked s a revision w = (Inr a', w1)"
    and b: "save_written s a' revision w1 = (Inr b, w')"
    by (auto simp: Save_def split: prod.splits sum.splits)
  from a' obtain incoming where "a' = a\<lparr>al_Resources := incoming\<rparr>" "set incoming = set (al_Resources a)"
    by (elim save_checked_Inr)
  then show ?thesis
    using save_written_echo [OF b] by (auto simp: echo_of_def)
qed

interpretation kube_store: allocation_store "kubernetes_store s" for s :: "'w kubernetes"
  by unfold_locales (simp add: kubernetes_store_def Save_echo)

section \<open>No lost update\<close>









section \<open>A concrete store\<close>

definition demo_kubernetes :: "allocation json memory_server kubernetes" where
  "demo_kubernetes = \<lparr>k_Maps = memory_maps, k_Owner = ''fleet-a''\<rparr>"

definition demo_resource :: resource_reference where
  "demo_resource = \<lparr>res_Kind = ''ec2.instance'', res_ID = ''i-1'', res_UID = []\<rparr>"

definition demo_empty :: "allocation json memory_server" where
  "demo_empty = \<lparr>ms_objects = [], ms_version = 0\<rparr>"

text \<open>The record created, then saved again with a dependency.\<close>

definition demo_first :: allocation where
  "demo_first = (demo_allocation Pending)\<lparr>al_Revision := ''vv''\<rparr>"

definition demo_second :: allocation where
  "demo_second = demo_first\<lparr>al_Resources := [demo_resource], al_Revision := ''vvv''\<rparr>"

definition demo_server :: "allocation \<Rightarrow> nat \<Rightarrow> allocation json memory_server" where
  "demo_server a n = \<lparr>ms_objects = [(''a1'', (allocation_map demo_kubernetes a (al_Revision a)
     (JsonOf (a\<lparr>al_Revision := []\<rparr>))))], ms_version = n\<rparr>"

lemma demo_merges:
  "MergeResources [] [demo_resource] = Inr ([demo_resource], True)" "MergeResources [] [] = Inr ([], False)"
  by code_simp+

lemma demo_marshal:
  "Marshal_allocation (demo_allocation Pending\<lparr>al_Resources := rs, al_Revision := rv\<rparr>)
     = Inr (JsonOf (demo_allocation Pending\<lparr>al_Resources := rs, al_Revision := rv\<rparr>))"
  by (simp add: Marshal_allocation_def allocation_times_def json_time_ok_def demo_allocation_def
      demo_offering_def demo_catalog_def demo_now_def duration_defs)

lemmas demo_store_simps = Save_def save_checked_def save_written_def demo_kubernetes_def memory_maps_def
  memory_put_def version_text_def demo_merges demo_marshal allocation_map_def demo_first_def
  demo_second_def demo_server_def Let_def

lemma demo_first_save:
  "Save demo_kubernetes (demo_allocation Pending) [] demo_empty = (Inr demo_first, demo_server demo_first 1)"
proof -
  have "al_Resources (demo_allocation Pending) = []" "al_ID (demo_allocation Pending) = ''a1''"
    by (simp_all add: demo_allocation_def)
  moreover have "demo_allocation Pending\<lparr>al_Resources := [], al_Revision := rv\<rparr> =
      demo_allocation Pending\<lparr>al_Revision := rv\<rparr>" for rv
    by (simp add: demo_allocation_def)
  ultimately show ?thesis
    using demo_marshal [where rs = "[]" and rv = "[]"] by (simp add: demo_store_simps demo_empty_def)
qed





end
