(* ===== verification/Provider_Config.thy ===== *)
theory Provider_Config
  imports Go_Prelude
begin

text \<open>
  The configuration part of \<open>internal/provider/command.go\<close>: \<open>Config\<close>, \<open>Command.Validate\<close> and the
  name grammar shared by every adapter.
\<close>

record provider_config =
  pc_AccountID :: string
  pc_Subscription :: string
  pc_ResourceGroup :: string
  pc_SSHPublicKey :: string
  pc_Kind :: string
  pc_Project :: string
  pc_Profile :: string
  pc_Subnet :: string
  pc_SecurityGroup :: string
  pc_Owner :: string
  pc_WireGuardControllerURL :: string
  pc_AzureDiskControllerType :: string

definition name_alphabet :: string where
  "name_alphabet = ''abcdefghijklmnopqrstuvwxyz0123456789-''"

definition ValidateName :: "string \<Rightarrow> err option" where
  "ValidateName s =
     (if length s < 1 \<or> length s > 63 \<or> \<not> strings_Trim_empty s name_alphabet
         \<or> hd s < CHR ''a'' \<or> hd s > CHR ''z''
      then Some (errors_New ''invalid provider-safe name'') else None)"

definition Command_Validate :: "provider_config \<Rightarrow> err option" where
  "Command_Validate c =
     (case ValidateName (pc_Owner c) of Some e \<Rightarrow> Some e | None \<Rightarrow>
      if pc_Owner c = [] \<or> pc_Subnet c = [] then Some (errors_New ''owner and isolated subnet required'')
      else if pc_Kind c = ''aws'' \<and> pc_SecurityGroup c \<noteq> [] \<and> length (pc_AccountID c) = 12
              \<and> strings_Trim_empty (pc_AccountID c) ''0123456789'' then None
      else if pc_Kind c = ''azure'' \<and> pc_Subscription c \<noteq> [] \<and> pc_ResourceGroup c \<noteq> []
              \<and> pc_SecurityGroup c \<noteq> [] \<and> strings_HasPrefix (pc_SSHPublicKey c) ''ssh-'' then None
      else if pc_Kind c = ''gcp'' \<and> pc_Project c \<noteq> [] then None
      else Some (errors_New ''aws requires securityGroup and 12-digit accountID; gcp requires project; azure requires subscription, resourceGroup, securityGroup and SSH public key''))"

lemma ValidateName_nonempty: "ValidateName s = None \<Longrightarrow> s \<noteq> []"
  by (auto simp: ValidateName_def split: if_splits)

text \<open>A validated configuration names one of the three clouds.\<close>

lemma Command_Validate_kind:
  "Command_Validate c = None \<Longrightarrow> pc_Kind c \<in> {''aws'', ''azure'', ''gcp''} \<and> pc_Owner c \<noteq> [] \<and> pc_Subnet c \<noteq> []"
  by (auto simp: Command_Validate_def split: option.splits if_splits)

end
