(* ===== verification/Recovery.thy ===== *)
theory Recovery
  imports Go_Prelude
begin

text \<open>
  \<open>internal/recovery/recovery.go\<close>: when a confirmed spot interruption may be answered by a fresh
  execution of the job. \<open>Eligible\<close> is characterised completely: both what an eligible job implies
  and that nothing else is refused.
\<close>

record retry_policy =
  pol_Enabled :: bool
  pol_MaxRetries :: int
  pol_AcknowledgeRepeatedEffects :: bool

record rest_job =
  job_ID :: int
  job_RunID :: int
  job_Attempt :: int
  job_RunnerName :: string
  job_Status :: string
  job_Conclusion :: string

record evidence =
  ev_ScaleSetJobID :: string
  ev_RunnerName :: string
  ev_RunID :: int
  ev_Attempt :: int
  ev_ProviderInterrupted :: bool
  ev_Jobs :: "rest_job list"
  ev_RetriesUsed :: int
  ev_RequestPending :: bool

definition job_matches :: "evidence \<Rightarrow> rest_job \<Rightarrow> bool" where
  "job_matches e j \<longleftrightarrow> job_RunnerName j = ev_RunnerName e \<and> job_RunID j = ev_RunID e
     \<and> job_Attempt j = ev_Attempt e"

definition Eligible :: "retry_policy \<Rightarrow> evidence \<Rightarrow> err + rest_job" where
  "Eligible p e =
     (if \<not> pol_Enabled p then Inl (errors_New ''spot retries disabled'')
      else if \<not> pol_AcknowledgeRepeatedEffects p \<or> pol_MaxRetries p < 1 \<or> pol_MaxRetries p > 3
      then Inl (errors_New ''retry policy requires acknowledgment and a 1..3 limit'')
      else if ev_RetriesUsed e < 0 \<or> ev_RetriesUsed e \<ge> pol_MaxRetries p \<or> ev_RequestPending e
      then Inl (errors_New ''retry budget exhausted or commitment unknown'')
      else if \<not> ev_ProviderInterrupted e \<or> ev_RunnerName e = [] \<or> ev_RunID e \<le> 0 \<or> ev_Attempt e < 1
      then Inl (errors_New ''interruption or identity evidence missing'')
      else case filter (job_matches e) (ev_Jobs e) of
          [j] \<Rightarrow> if job_ID j \<le> 0 \<or> job_Status j \<noteq> ''completed'' \<or> job_Conclusion j \<noteq> ''failure''
                 then Inl (errors_New ''job is not a terminal failure'') else Inr j
        | _ \<Rightarrow> Inl (errors_New ''REST identity is not unique''))"

definition policy_valid :: "retry_policy \<Rightarrow> bool" where
  "policy_valid p \<longleftrightarrow> pol_Enabled p \<and> pol_AcknowledgeRepeatedEffects p
     \<and> 1 \<le> pol_MaxRetries p \<and> pol_MaxRetries p \<le> 3"

lemma list_singleton_case:
  "(case xs of [x] \<Rightarrow> f x | _ \<Rightarrow> Inl e) = Inr y \<longleftrightarrow> (\<exists>x. xs = [x] \<and> f x = Inr y)"
  by (auto split: list.splits)

lemma Eligible_iff:
  "Eligible p e = Inr j \<longleftrightarrow>
     policy_valid p \<and> 0 \<le> ev_RetriesUsed e \<and> ev_RetriesUsed e < pol_MaxRetries p
     \<and> \<not> ev_RequestPending e \<and> ev_ProviderInterrupted e
     \<and> ev_RunnerName e \<noteq> [] \<and> 0 < ev_RunID e \<and> 1 \<le> ev_Attempt e
     \<and> filter (job_matches e) (ev_Jobs e) = [j]
     \<and> 0 < job_ID j \<and> job_Status j = ''completed'' \<and> job_Conclusion j = ''failure''"
  unfolding Eligible_def
  by (auto simp: list_singleton_case policy_valid_def errors_New_def split: if_splits)

end
