(* ===== verification/Admission.thy ===== *)
theory Admission
  imports Go_Prelude "HOL-Library.Word"
begin

text \<open>
  \<open>internal/admission/admission.go\<close>: absolute demand to bounded admission slots. The cohort is a
  \<open>uint64\<close> that wraps; the other quantities are bounded by the guard, so that no sum overflows.
\<close>

record admission_state =
  as_Cohort :: "64 word"
  as_Admitted :: int
  as_ResetObserved :: bool

definition admission_zero :: admission_state where
  "admission_zero = \<lparr>as_Cohort = 0, as_Admitted = 0, as_ResetObserved = False\<rparr>"

text \<open>The zero-demand rebaseline, and the number of slots \<open>Reconcile\<close> then grants.\<close>

definition rebaseline :: "admission_state \<Rightarrow> int \<Rightarrow> int \<Rightarrow> bool \<Rightarrow> admission_state" where
  "rebaseline s demand active cleanupConfirmed =
     (let s = (if demand = 0 then s\<lparr>as_ResetObserved := True\<rparr> else s)
      in if as_ResetObserved s \<and> cleanupConfirmed \<and> active = 0
         then s\<lparr>as_Cohort := as_Cohort s + 1, as_Admitted := 0, as_ResetObserved := False\<rparr> else s)"

definition granted :: "int \<Rightarrow> int \<Rightarrow> int \<Rightarrow> int \<Rightarrow> int" where
  "granted demand active limit admitted =
     (let desired = min demand limit in min (max 0 (desired - admitted)) (max 0 (max 0 (limit - active))))"

definition admission_Reconcile ::
    "admission_state \<Rightarrow> int \<Rightarrow> int \<Rightarrow> int \<Rightarrow> bool \<Rightarrow> (err + int) \<times> admission_state" where
  "admission_Reconcile s demand active limit cleanupConfirmed =
     (if demand < 0 \<or> active < 0 \<or> limit < 1 \<or> limit > 100 \<or> active > 100
         \<or> as_Admitted s < 0 \<or> as_Admitted s > 100
      then (Inl (errors_New ''invalid admission bounds''), s)
      else
        let s = rebaseline s demand active cleanupConfirmed;
            n = granted demand active limit (as_Admitted s)
        in (Inr n, s\<lparr>as_Admitted := as_Admitted s + n\<rparr>))"

section \<open>Bounds\<close>

definition admission_wf :: "admission_state \<Rightarrow> bool" where
  "admission_wf s \<longleftrightarrow> 0 \<le> as_Admitted s \<and> as_Admitted s \<le> 100"

lemma rebaseline_admitted:
  "as_Admitted (rebaseline s demand active ok) =
     (if (as_ResetObserved s \<or> demand = 0) \<and> ok \<and> active = 0 then 0 else as_Admitted s)"
  by (simp add: rebaseline_def Let_def)

lemma granted_bounds:
  "0 \<le> granted demand active limit admitted"
  "active + granted demand active limit admitted \<le> max active limit"
  "admitted + granted demand active limit admitted \<le> max admitted (min demand limit)"
  by (auto simp: granted_def Let_def)

text \<open>
  Claim C12 (admission bounds). A successful reconciliation grants a non-negative number of slots,
  never takes the active count above the larger of itself and the limit, never admits beyond the
  larger of what was admitted and the bounded demand, and keeps the admitted count in 0..100. A
  slot is withheld only when the bounded demand is already admitted or the limit is reached.
\<close>

theorem admission_bounds:
  assumes "admission_Reconcile s demand active limit ok = (Inr n, s')"
  shows "0 \<le> n \<and> active + n \<le> max active limit \<and>
    as_Admitted s' \<le> max (as_Admitted s) (min demand limit) \<and> admission_wf s' \<and>
    (as_Admitted s' \<ge> min demand limit \<or> active + n \<ge> limit)"
proof -
  let ?s = "rebaseline s demand active ok"
  from assms have guard: "0 \<le> demand" "0 \<le> active" "1 \<le> limit" "limit \<le> 100" "active \<le> 100" "admission_wf s"
    and n: "n = granted demand active limit (as_Admitted ?s)"
    and s': "as_Admitted s' = as_Admitted ?s + n"
    by (auto simp: admission_Reconcile_def admission_wf_def Let_def split: if_splits)
  have base: "0 \<le> as_Admitted ?s" "as_Admitted ?s \<le> as_Admitted s"
    using guard(6) by (auto simp: rebaseline_admitted admission_wf_def)
  have full: "as_Admitted ?s + n \<ge> min demand limit \<or> active + n \<ge> limit"
    using guard unfolding n granted_def Let_def by linarith
  show ?thesis
    using granted_bounds [where demand = demand and active = active and limit = limit and admitted = "as_Admitted ?s"]
      base guard full
    unfolding s' n [symmetric] admission_wf_def by linarith
qed

theorem admission_bounds_witness:
  "admission_Reconcile admission_zero 7 2 5 False =
     (Inr 3, admission_zero\<lparr>as_Admitted := 3\<rparr>) \<and>
   0 \<le> (3 :: int) \<and> (2 :: int) + 3 \<le> max 2 5 \<and> admission_wf (admission_zero\<lparr>as_Admitted := 3\<rparr>)"
proof -
  have run: "admission_Reconcile admission_zero 7 2 5 False = (Inr 3, admission_zero\<lparr>as_Admitted := 3\<rparr>)"
    by (simp add: admission_Reconcile_def admission_zero_def rebaseline_def granted_def)
  with admission_bounds [OF run] show ?thesis by simp
qed

end
