(* ===== verification/Overlay.thy ===== *)
theory Overlay
  imports Go_Prelude "HOL-Library.Word"
begin

unbundle bit_operations_syntax

text \<open>
  \<open>internal/wireguard/overlay.go\<close> over the part of \<open>net/netip\<close> it uses. An address is its family and
  its value; a CIDR text is represented by what \<open>netip.ParsePrefix\<close> finds in it. The text form of an
  address (\<open>Addr.String\<close>) is modelled exactly, because the set of taken addresses is keyed by it.
\<close>

section \<open>Addresses\<close>

text \<open>
  An IPv6 address with the prefix \<open>::ffff:0:0/96\<close> is an IPv4-mapped one (\<open>Is4In6\<close>); it is still
  different from the IPv4 address it maps.
\<close>

datatype addr = V4 "32 word" | V6 "128 word"

datatype prefix = Prefix (prefix_Addr: addr) (prefix_Bits: nat)

definition BitLen :: "addr \<Rightarrow> nat" where
  "BitLen a = (case a of V4 _ \<Rightarrow> 32 | V6 _ \<Rightarrow> 128)"

definition Is4In6 :: "addr \<Rightarrow> bool" where
  "Is4In6 a = (case a of V4 _ \<Rightarrow> False | V6 v \<Rightarrow> drop_bit 32 v = 0xffff)"

definition Unmap :: "addr \<Rightarrow> addr" where
  "Unmap a = (case a of V6 v \<Rightarrow> if Is4In6 a then V4 (ucast v) else a | _ \<Rightarrow> a)"

text \<open>\<open>Addr.Next\<close>: \<open>None\<close> is the zero \<open>Addr\<close>, returned after the last address of the family.\<close>

definition Next :: "addr \<Rightarrow> addr option" where
  "Next a = (case a of
     V4 v \<Rightarrow> if v = - 1 then None else Some (V4 (v + 1))
   | V6 v \<Rightarrow> if v = - 1 then None else Some (V6 (v + 1)))"

definition host_mask :: "nat \<Rightarrow> 'a::len word" where
  "host_mask n = mask n"

definition Masked :: "prefix \<Rightarrow> prefix" where
  "Masked p = (case prefix_Addr p of
     V4 v \<Rightarrow> Prefix (V4 (v AND NOT (host_mask (32 - prefix_Bits p)))) (prefix_Bits p)
   | V6 v \<Rightarrow> Prefix (V6 (v AND NOT (host_mask (128 - prefix_Bits p)))) (prefix_Bits p))"

definition Contains :: "prefix \<Rightarrow> addr \<Rightarrow> bool" where
  "Contains p a = (case (prefix_Addr p, a) of
     (V4 v, V4 u) \<Rightarrow> drop_bit (32 - prefix_Bits p) v = drop_bit (32 - prefix_Bits p) u
   | (V6 v, V6 u) \<Rightarrow> drop_bit (128 - prefix_Bits p) v = drop_bit (128 - prefix_Bits p) u
   | _ \<Rightarrow> False)"

section \<open>Bytes of an address\<close>

text \<open>\<open>AsSlice\<close> and \<open>AddrFromSlice\<close>: big-endian bytes.\<close>

definition AsSlice :: "addr \<Rightarrow> 8 word list" where
  "AsSlice a = (case a of
     V4 v \<Rightarrow> map (\<lambda>i. ucast (drop_bit (8 * (3 - i)) v)) [0..<4]
   | V6 v \<Rightarrow> map (\<lambda>i. ucast (drop_bit (8 * (15 - i)) v)) [0..<16])"

definition word_of_bytes :: "8 word list \<Rightarrow> 'a::len word" where
  "word_of_bytes bs = foldl (\<lambda>acc b. push_bit 8 acc OR ucast b) 0 bs"

definition AddrFromSlice :: "8 word list \<Rightarrow> addr option" where
  "AddrFromSlice bs = (if length bs = 4 then Some (V4 (word_of_bytes bs))
     else if length bs = 16 then Some (V6 (word_of_bytes bs)) else None)"

text \<open>The loop of \<open>lastAddr\<close>: from the last byte down, while host bits remain.\<close>

fun fill_host_bits :: "nat \<Rightarrow> nat \<Rightarrow> 8 word list \<Rightarrow> 8 word list" where
  "fill_host_bits hostBits 0 bs = bs"
| "fill_host_bits hostBits (Suc i) bs =
     (if hostBits = 0 then bs
      else if hostBits \<ge> 8 then fill_host_bits (hostBits - 8) i (bs[i := 0xff])
      else bs[i := bs ! i OR drop_bit (8 - hostBits) 0xff])"

definition lastAddr :: "prefix \<Rightarrow> addr" where
  "lastAddr p =
     (let base = prefix_Addr p;
          bytes = AsSlice base;
          bytes = fill_host_bits (BitLen base - prefix_Bits p) (length bytes) bytes
      in case AddrFromSlice bytes of
           None \<Rightarrow> base
         | Some a \<Rightarrow> if Is4In6 base then Unmap a else a)"

section \<open>The text of an address\<close>

definition hex_digit :: "nat \<Rightarrow> char" where
  "hex_digit n = (if n < 10 then char_of (48 + n) else char_of (87 + n))"

fun digits_of :: "nat \<Rightarrow> nat \<Rightarrow> nat \<Rightarrow> string" where
  "digits_of base 0 n = []"
| "digits_of base (Suc fuel) n =
     (if n < base then [hex_digit n] else digits_of base fuel (n div base) @ [hex_digit (n mod base)])"

text \<open>A byte in decimal has at most 3 digits, a 16-bit group in hexadecimal at most 4.\<close>

definition decimal_byte :: "8 word \<Rightarrow> string" where
  "decimal_byte b = digits_of 10 3 (unat b)"

definition dotted :: "8 word list \<Rightarrow> string" where
  "dotted bs = concat (map (\<lambda>(i, b). (if i = 0 then [] else ''.'') @ decimal_byte b) (enumerate 0 bs))"

fun groups_of :: "8 word list \<Rightarrow> nat list" where
  "groups_of (h # l # bs) = (256 * unat h + unat l) # groups_of bs"
| "groups_of _ = []"

text \<open>The longest run of zero groups, the first among equals, of at least two.\<close>

fun zero_run :: "nat list \<Rightarrow> nat" where
  "zero_run (g # gs) = (if g = 0 then Suc (zero_run gs) else 0)"
| "zero_run [] = 0"

definition best_run :: "nat list \<Rightarrow> nat \<times> nat" where
  "best_run gs = foldl (\<lambda>(s, n) i. let k = zero_run (drop i gs) in if k \<ge> 2 \<and> k > n then (i, k) else (s, n))
     (0, 0) [0..<length gs]"

definition hex_groups :: "nat list \<Rightarrow> string" where
  "hex_groups gs = concat (map (\<lambda>(i, g). (if i = 0 then [] else '':'') @ digits_of 16 4 g) (enumerate 0 gs))"

definition Addr_String :: "addr \<Rightarrow> string" where
  "Addr_String a = (case a of
     V4 _ \<Rightarrow> dotted (AsSlice a)
   | V6 v \<Rightarrow>
       if Is4In6 a then ''::ffff:'' @ dotted (AsSlice (V4 (ucast v)))
       else let gs = groups_of (AsSlice a); (s, n) = best_run gs
            in if n = 0 then hex_groups gs
               else hex_groups (take s gs) @ ''::'' @ hex_groups (drop (s + n) gs))"

section \<open>NextOverlayAddress\<close>

type_synonym cidr_text = "string \<times> (err + prefix)"

text \<open>
  The inner loop, on the number of addresses still ahead of the current one in its family: \<open>Next\<close>
  increases the address and ends at the last one, so it is the loop's own bound.
\<close>

definition addresses_ahead :: "addr \<Rightarrow> nat" where
  "addresses_ahead a = (case a of V4 v \<Rightarrow> 2 ^ 32 - unat v | V6 v \<Rightarrow> 2 ^ 128 - unat v)"

lemma Next_ahead: "Next a = Some b \<Longrightarrow> addresses_ahead b < addresses_ahead a"
proof (cases a)
  case (V4 v)
  assume "Next a = Some b"
  with V4 have "v \<noteq> - 1" "b = V4 (v + 1)"
    by (auto simp: Next_def split: if_splits)
  moreover have "unat v < 2 ^ 32"
    using unsigned_less [of v] by simp
  moreover from \<open>v \<noteq> - 1\<close> have "unat (v + 1) = Suc (unat v)"
    by (metis add.commute add.inverse_unique unatSuc)
  ultimately show ?thesis
    using V4 by (simp add: addresses_ahead_def)
next
  case (V6 v)
  assume "Next a = Some b"
  with V6 have "v \<noteq> - 1" "b = V6 (v + 1)"
    by (auto simp: Next_def split: if_splits)
  moreover have "unat v < 2 ^ 128"
    using unsigned_less [of v] by simp
  moreover from \<open>v \<noteq> - 1\<close> have "unat (v + 1) = Suc (unat v)"
    by (metis add.commute add.inverse_unique unatSuc)
  ultimately show ?thesis
    using V6 by (simp add: addresses_ahead_def)
qed

function first_free :: "prefix \<Rightarrow> addr \<Rightarrow> (string, bool) gomap \<Rightarrow> addr option \<Rightarrow> string option" where
  "first_free p highest taken None = None"
| "first_free p highest taken (Some a) =
     (if a \<noteq> highest \<and> Contains p a
      then (if \<not> map_true taken (Addr_String a) then Some (Addr_String a)
            else first_free p highest taken (Next a))
      else None)"
  by pat_completeness auto
termination
  by (relation "measure (\<lambda>(p, l, t, a). case a of None \<Rightarrow> 0 | Some a \<Rightarrow> Suc (addresses_ahead a))")
    (auto dest: Next_ahead split: option.split)

fun NextOverlayAddress :: "cidr_text list \<Rightarrow> (string, bool) gomap \<Rightarrow> err + string" where
  "NextOverlayAddress [] taken =
     Inl (Err [ErrOverlayAddressesExhausted] ''wireguard: overlay address pool exhausted'')"
| "NextOverlayAddress (c # cidrs) taken =
     (case snd c of
        Inl e \<Rightarrow> Inl (Err (err_is e) (''wireguard: invalid overlay CIDR '' @ fst c @ '': '' @ err_text e))
      | Inr p \<Rightarrow>
          let p = Masked p in
          case first_free p (lastAddr p) taken (Next (prefix_Addr p)) of
            Some s \<Rightarrow> Inr s
          | None \<Rightarrow> NextOverlayAddress cidrs taken)"

section \<open>The highest address of a prefix\<close>

lemma foldl_bytes_bit:
  "bit (foldl (\<lambda>acc b. push_bit 8 acc OR ucast b) (w :: 'a::len word) (bs :: 8 word list)) n \<longleftrightarrow>
     n < LENGTH('a) \<and> (if n < 8 * length bs then bit (bs ! (length bs - 1 - n div 8)) (n mod 8)
       else bit w (n - 8 * length bs))"
proof (induction bs arbitrary: n rule: rev_induct)
  case Nil
  show ?case by (auto dest: bit_imp_le_length)
next
  case (snoc b bs)
  show ?case
  proof (cases "n < 8")
    case True
    then show ?thesis
      by (auto simp: bit_simps nth_append)
  next
    case False
    let ?F = "\<lambda>bs. foldl (\<lambda>acc b. push_bit 8 acc OR ucast b) w (bs :: 8 word list)"
    have "\<not> bit b n"
      using False bit_imp_le_length [of b n] by auto
    then have step: "bit (?F (bs @ [b])) n \<longleftrightarrow> n < LENGTH('a) \<and> bit (?F bs) (n - 8)"
      using False by (auto simp: bit_simps)
    have div: "(n - 8) div 8 = n div 8 - 1" "(n - 8) mod 8 = n mod 8" "n div 8 \<ge> 1"
      using False by (simp_all add: le_div_geq le_mod_geq)
    have idx: "(bs @ [b]) ! (length bs - n div 8) = bs ! (length bs - 1 - (n div 8 - 1))"
      if "n < 8 * Suc (length bs)"
    proof -
      have "n div 8 \<le> length bs" using less_mult_imp_div_less [of n "Suc (length bs)" 8] that by simp
      with div(3) have "length bs - n div 8 < length bs" "length bs - 1 - (n div 8 - 1) = length bs - n div 8"
        by linarith+
      then show ?thesis by (simp add: nth_append)
    qed
    have bound: "n - 8 < 8 * length bs \<longleftrightarrow> n < 8 * Suc (length bs)" "n - 8 - 8 * length bs = n - 8 * Suc (length bs)"
      using False by arith+
    show ?thesis
      unfolding step snoc.IH div bound length_append list.size using idx by auto
  qed
qed

lemma word_of_bytes_bit:
  "bit (word_of_bytes bs :: 'a::len word) n \<longleftrightarrow>
     n < LENGTH('a) \<and> n < 8 * length bs \<and> bit (bs ! (length bs - 1 - n div 8)) (n mod 8)"
  unfolding word_of_bytes_def foldl_bytes_bit by auto

lemma fill_host_bits_length [simp]: "length (fill_host_bits h i bs) = length bs"
  by (induction h i bs rule: fill_host_bits.induct) auto

lemma all_ones_byte: "bit (0xff :: 8 word) k \<longleftrightarrow> k < 8"
proof -
  have "(0xff :: 8 word) = - 1" by simp
  then show ?thesis by (simp only: bit_minus_1_iff possible_bit_word) simp
qed

text \<open>Bit \<open>k\<close> of byte \<open>j\<close> after the loop over the first \<open>i\<close> bytes.\<close>

lemma fill_host_bits_bit:
  assumes "i \<le> length bs" "j < length bs" "k < 8"
  shows "bit (fill_host_bits h i bs ! j) k \<longleftrightarrow> bit (bs ! j) k \<or> j < i \<and> 8 * (i - 1 - j) + k < h"
  using assms
proof (induction h i bs rule: fill_host_bits.induct)
  case (1 h bs)
  show ?case by simp
next
  case (2 h i bs)
  consider (none) "h = 0" | (full) "h \<ge> 8" | (part) "0 < h" "h < 8"
    by linarith
  then show ?case
  proof cases
    case none
    then show ?thesis by simp
  next
    case full
    have "bit (0xff :: 8 word) k"
      using \<open>k < 8\<close> unfolding all_ones_byte .
    with full 2 show ?thesis
      by (cases "j = i") (auto simp: nth_list_update)
  next
    case part
    have "bit (drop_bit (8 - h) 0xff :: 8 word) k \<longleftrightarrow> k < h"
      unfolding bit_drop_bit_eq comp_def all_ones_byte using \<open>k < 8\<close> part by auto
    with part 2 show ?thesis
      by (cases "j = i") (auto simp: nth_list_update bit_simps)
  qed
qed

lemma filled_bytes:
  fixes v :: "'a::len word"
  assumes "LENGTH('a) = 8 * L" "h \<le> 8 * L"
    "bs = map (\<lambda>i. ucast (drop_bit (8 * (L - 1 - i)) v)) [0..<L]"
  shows "word_of_bytes (fill_host_bits h L bs) = v OR mask h"
proof (rule bit_word_eqI)
  fix n
  assume n: "n < LENGTH('a)"
  define j where "j = L - 1 - n div 8"
  have len: "length bs = L"
    using assms(3) by simp
  have q: "n div 8 < L" and j: "j < L" "L - 1 - j = n div 8" "n mod 8 < 8"
    using n assms(1) by (auto simp: j_def)
  have split: "8 * (n div 8) + n mod 8 = n"
    by simp
  have byte: "bit (bs ! j) (n mod 8) \<longleftrightarrow> bit v n"
    using j split n unfolding assms(3) by (simp add: bit_simps)
  have "bit (word_of_bytes (fill_host_bits h L bs) :: 'a word) n
      \<longleftrightarrow> bit (fill_host_bits h L bs ! j) (n mod 8)"
    unfolding word_of_bytes_bit using n assms(1) len by (simp add: j_def)
  also have "\<dots> \<longleftrightarrow> bit v n \<or> n < h"
    using fill_host_bits_bit [of L bs j "n mod 8" h] len j byte split by simp
  also have "\<dots> \<longleftrightarrow> bit (v OR mask h) n"
    using n by (auto simp: bit_simps)
  finally show "bit (word_of_bytes (fill_host_bits h L bs) :: 'a word) n \<longleftrightarrow> bit (v OR mask h) n" .
qed

lemma lastAddr_V4: "b \<le> 32 \<Longrightarrow> lastAddr (Prefix (V4 v) b) = V4 (v OR mask (32 - b))"
  using filled_bytes [of 4 "32 - b" "AsSlice (V4 v)" v]
  by (simp add: lastAddr_def BitLen_def Is4In6_def AddrFromSlice_def Let_def AsSlice_def)

lemma lastAddr_V6:
  "b \<le> 128 \<Longrightarrow> lastAddr (Prefix (V6 v) b) =
     (if Is4In6 (V6 v) then Unmap (V6 (v OR mask (128 - b))) else V6 (v OR mask (128 - b)))"
  using filled_bytes [of 16 "128 - b" "AsSlice (V6 v)" v]
  by (simp add: lastAddr_def BitLen_def AddrFromSlice_def Let_def AsSlice_def)

section \<open>Aligned blocks of addresses\<close>

lemma aligned_word:
  fixes v :: "'a::len word"
  assumes "h \<le> LENGTH('a)" "v AND mask h = 0"
  obtains q where "unat v = q * 2 ^ h" "unat v + 2 ^ h \<le> 2 ^ LENGTH('a)"
proof -
  have "take_bit h v = 0"
    using assms(2) by (simp add: take_bit_eq_mask)
  then have "unat v mod 2 ^ h = 0"
    by (metis take_bit_eq_mod unsigned_0 unsigned_take_bit_eq)
  then obtain q where q: "unat v = q * 2 ^ h"
    by (metis mod_0_imp_dvd dvd_def mult.commute)
  have "unat v < 2 ^ h * 2 ^ (LENGTH('a) - h)"
    using unsigned_less [of v] assms(1) by (simp add: power_add [symmetric])
  then have "q < 2 ^ (LENGTH('a) - h)"
    unfolding q by (simp add: mult.commute)
  then have "(q + 1) * 2 ^ h \<le> 2 ^ (LENGTH('a) - h) * 2 ^ h"
    by (intro mult_right_mono) auto
  then have "unat v + 2 ^ h \<le> 2 ^ LENGTH('a)"
    using assms(1) unfolding q by (simp add: power_add [symmetric] algebra_simps)
  with q that show thesis by blast
qed

lemma aligned_offset:
  fixes v :: "'a::len word"
  assumes "h \<le> LENGTH('a)" "v AND mask h = 0" "i < 2 ^ h"
  shows "unat (v + of_nat i) = unat v + i" "drop_bit h (v + of_nat i) = drop_bit h v"
proof -
  obtain q where q: "unat v = q * 2 ^ h" "unat v + 2 ^ h \<le> 2 ^ LENGTH('a)"
    using assms(1,2) by (rule aligned_word)
  show sum: "unat (v + of_nat i) = unat v + i"
    using q(2) assms(3) by (simp add: unat_word_ariths unat_of_nat)
  have "unat (drop_bit h (v + of_nat i)) = unat (drop_bit h v)"
    unfolding unat_drop_bit_eq sum using q(1) assms(3) by (simp add: drop_bit_eq_div)
  then show "drop_bit h (v + of_nat i) = drop_bit h v"
    by (simp add: word_unat_eq_iff)
qed

lemma aligned_top:
  fixes v :: "'a::len word"
  assumes "v AND mask h = 0"
  shows "v OR mask h = v + of_nat (2 ^ h - 1)"
proof -
  have "v OR mask h = v + mask h"
    using disjunctive_add_eq_or [OF assms] by simp
  then show ?thesis by (simp add: mask_eq_exp_minus_1)
qed
section \<open>What the scan finds\<close>

text \<open>
  The addresses of a masked prefix the scan considers, in order: all but the first and the last. For
  an IPv4-mapped prefix the last one is \<^emph>\<open>not\<close> excluded, because \<open>lastAddr\<close> unmaps it and the
  comparison is then between two families.
\<close>

definition scan_end :: "prefix \<Rightarrow> nat" where
  "scan_end p = (let n = 2 ^ (BitLen (prefix_Addr p) - prefix_Bits p) in
     if Is4In6 (prefix_Addr p) then n else n - 1)"

definition offset :: "addr \<Rightarrow> nat \<Rightarrow> addr" where
  "offset a i = (case a of V4 v \<Rightarrow> V4 (v + of_nat i) | V6 v \<Rightarrow> V6 (v + of_nat i))"

definition hosts :: "prefix \<Rightarrow> addr list" where
  "hosts p = map (offset (prefix_Addr p)) [1..<scan_end p]"

definition free_in :: "(string, bool) gomap \<Rightarrow> addr \<Rightarrow> bool" where
  "free_in taken a \<longleftrightarrow> \<not> map_true taken (Addr_String a)"

definition wf_prefix :: "prefix \<Rightarrow> bool" where
  "wf_prefix p \<longleftrightarrow> prefix_Bits p \<le> BitLen (prefix_Addr p)"

lemma first_free_seq:
  assumes "\<And>i. k \<le> i \<Longrightarrow> i < n \<Longrightarrow> \<exists>a. s i = Some a \<and> a \<noteq> highest \<and> Contains p a \<and> s (Suc i) = Next a"
    and "s n = None \<or> (\<exists>a. s n = Some a \<and> (a = highest \<or> \<not> Contains p a))" "k \<le> n"
  shows "first_free p highest taken (s k)
    = map_option Addr_String (find (free_in taken) (map (the \<circ> s) [k..<n]))"
  using assms
proof (induction "n - k" arbitrary: k)
  case 0
  then show ?case by auto
next
  case (Suc m)
  then obtain a where a: "s k = Some a" "a \<noteq> highest" "Contains p a" "s (Suc k) = Next a"
    by (metis Suc_diff_le diff_Suc_1 le_refl less_Suc_eq_le zero_less_Suc zero_less_diff)
  have "first_free p highest taken (s (Suc k))
      = map_option Addr_String (find (free_in taken) (map (the \<circ> s) [Suc k..<n]))"
    using Suc.hyps(2) Suc.prems by (intro Suc.hyps(1)) auto
  moreover have "[k..<n] = k # [Suc k..<n]"
    using Suc.hyps(2) by (simp add: upt_conv_Cons)
  ultimately show ?case
    using a by (simp add: free_in_def)
qed

lemma masked_word: "(v AND NOT (mask h)) AND mask h = (0 :: 'a::len word)"
  by (rule bit_word_eqI) (simp add: bit_simps)

text \<open>A block of one family, as the sequence of its addresses.\<close>

lemma unat_all_ones: "unat (- 1 :: 'a::len word) = 2 ^ LENGTH('a) - 1"
  by (simp add: unsigned_minus_1_eq_mask mask_eq_exp_minus_1)

lemma unat_plus_one: "unat x + 1 < 2 ^ LENGTH('a) \<Longrightarrow> unat (x + 1 :: 'a::len word) = unat x + 1"
  by (simp add: unat_word_ariths)

lemma block_steps:
  fixes v :: "'a::len word"
  assumes "h \<le> LENGTH('a)" "v AND mask h = 0" "Suc i < 2 ^ h"
  shows "v + of_nat i \<noteq> - 1"
proof -
  obtain q where q: "unat v + 2 ^ h \<le> 2 ^ LENGTH('a)"
    using assms(1,2) by (rule aligned_word)
  have "unat (v + of_nat i) = unat v + i"
    by (rule aligned_offset(1) [OF assms(1,2)]) (use assms(3) in linarith)
  then have "unat (v + of_nat i) < 2 ^ LENGTH('a) - 1"
    using q assms(3) by linarith
  then show ?thesis
    by (auto simp: unat_all_ones)
qed

lemma block_end:
  fixes v :: "'a::len word"
  assumes "h \<le> LENGTH('a)" "v AND mask h = 0" "v + of_nat (2 ^ h - 1) \<noteq> - 1"
  shows "drop_bit h (v + of_nat (2 ^ h - 1) + 1) \<noteq> drop_bit h v"
proof -
  obtain q where q: "unat v = q * 2 ^ h" "unat v + 2 ^ h \<le> 2 ^ LENGTH('a)"
    using assms(1,2) by (rule aligned_word)
  have pos: "0 < (2 :: nat) ^ h"
    by simp
  have top: "unat (v + of_nat (2 ^ h - 1)) = unat v + (2 ^ h - 1)"
    by (rule aligned_offset(1) [OF assms(1,2)]) (use pos in linarith)
  have "unat (v + of_nat (2 ^ h - 1)) \<noteq> unat (- 1 :: 'a word)"
    using assms(3) word_unat_eq_iff by metis
  then have room: "unat v + 2 ^ h < 2 ^ LENGTH('a)"
    using top q(2) pos unfolding unat_all_ones by linarith
  have "unat (v + of_nat (2 ^ h - 1) + 1) = unat (v + of_nat (2 ^ h - 1)) + 1"
    by (rule unat_plus_one) (use top room pos in linarith)
  then have "unat (v + of_nat (2 ^ h - 1) + 1) = (q + 1) * 2 ^ h"
    using top q(1) pos by (simp add: algebra_simps)
  then have "unat (drop_bit h (v + of_nat (2 ^ h - 1) + 1)) = q + 1"
    by (metis div_mult_self_is_m drop_bit_eq_div pos unat_drop_bit_eq)
  moreover have "unat (drop_bit h v) = q"
    by (metis div_mult_self_is_m drop_bit_eq_div pos q(1) unat_drop_bit_eq)
  ultimately show ?thesis
    by auto
qed

lemma block_scan:
  fixes K :: "'a::len word \<Rightarrow> addr"
  assumes "inj K" and next': "\<And>u. Next (K u) = (if u = - 1 then None else Some (K (u + 1)))"
    and cont: "\<And>u. Contains p (K u) \<longleftrightarrow> drop_bit h v = drop_bit h u"
    and h: "h \<le> LENGTH('a)" and v: "v AND mask h = 0"
    and top: "highest = K (v + of_nat (2 ^ h - 1)) \<and> n = 2 ^ h - 1 \<or> highest \<notin> range K \<and> n = 2 ^ h"
  shows "first_free p highest taken (Next (K v))
    = map_option Addr_String (find (free_in taken) (map (\<lambda>i. K (v + of_nat i)) [1..<n]))"
proof -
  define s where "s i = (if i = 0 then Some (K v) else Next (K (v + of_nat (i - 1))))" for i
  have pos: "0 < (2 :: nat) ^ h"
    by simp
  have s: "s i = Some (K (v + of_nat i))" if "i < 2 ^ h" for i
    using block_steps [OF h v, of "i - 1"] that by (cases i) (auto simp: s_def next' ac_simps)
  have next_s: "s (Suc i) = Next (K (v + of_nat i))" for i
    by (simp add: s_def)
  have inside: "Contains p (K (v + of_nat i))" if "i < 2 ^ h" for i
    using aligned_offset(2) [OF h v that] by (simp add: cont)
  have past: "s (2 ^ h) = None \<or> (\<exists>a. s (2 ^ h) = Some a \<and> \<not> Contains p a)"
  proof -
    obtain m where m: "(2 :: nat) ^ h = Suc m"
      using pos gr0_implies_Suc by blast
    then have "m = 2 ^ h - 1" by simp
    with block_end [OF h v] show ?thesis
      unfolding m next_s next' by (auto simp: cont)
  qed
  have below: "v + of_nat i \<noteq> v + of_nat (2 ^ h - 1)" if "i < 2 ^ h - 1" for i
  proof
    assume eq: "v + of_nat i = v + of_nat (2 ^ h - 1)"
    have "i < 2 ^ h" "2 ^ h - 1 < (2 :: nat) ^ h"
      using that pos by linarith+
    from aligned_offset(1) [OF h v this(1)] aligned_offset(1) [OF h v this(2)] show False
      unfolding eq using that by linarith
  qed
  have "first_free p highest taken (s 1)
      = map_option Addr_String (find (free_in taken) (map (the \<circ> s) [1..<max 1 n]))"
  proof (rule first_free_seq)
    fix i
    assume "1 \<le> i" "i < max 1 n"
    then have i: "i < n" "i < 2 ^ h"
      using top by auto
    have "K (v + of_nat i) \<noteq> highest"
      using top below [of i] i by (auto dest: injD [OF assms(1)])
    with i s [of i] inside [of i] next_s [of i]
    show "\<exists>a. s i = Some a \<and> a \<noteq> highest \<and> Contains p a \<and> s (Suc i) = Next a"
      by simp
  next
    show "s (max 1 n) = None \<or> (\<exists>a. s (max 1 n) = Some a \<and> (a = highest \<or> \<not> Contains p a))"
    proof (cases "n = 0 \<or> n = 2 ^ h")
      case True
      have "n = 2 ^ h - 1 \<or> n = 2 ^ h"
        using top by blast
      with True pos have "max 1 n = 2 ^ h"
        by linarith
      with past show ?thesis by auto
    next
      case False
      then have "max 1 n = n" "n < 2 ^ h" "highest = K (v + of_nat n)"
        using top by auto
      with s [of n] show ?thesis by simp
    qed
  qed simp
  moreover have "map (the \<circ> s) [1..<max 1 n] = map (\<lambda>i. K (v + of_nat i)) [1..<n]"
  proof (cases "n = 0")
    case False
    have "the (s i) = K (v + of_nat i)" if "i < n" for i
      using s [of i] that top by auto
    with False show ?thesis by (auto simp: max_def)
  qed simp
  moreover have "s 1 = Next (K v)"
    by (simp add: s_def)
  ultimately show ?thesis by simp
qed

text \<open>An IPv4-mapped masked prefix has at most 32 host bits, and unmapping leaves the family.\<close>

lemma Is4In6_or_mask:
  assumes "Is4In6 (V6 v)" "v AND mask h = 0" "h \<le> 128"
  shows "Is4In6 (V6 (v OR mask h))"
proof -
  have bits: "bit v n \<longleftrightarrow> n < 48" if "32 \<le> n" "n < 128" for n
  proof -
    have "bit (drop_bit 32 v) (n - 32) \<longleftrightarrow> bit (0xffff :: 128 word) (n - 32)"
      using assms(1) by (simp add: Is4In6_def)
    moreover have "(0xffff :: 128 word) = mask 16"
      by (simp add: mask_eq_exp_minus_1)
    ultimately show ?thesis
      using that by (auto simp: bit_simps)
  qed
  have "h \<le> 32"
  proof (rule ccontr)
    assume "\<not> h \<le> 32"
    then have "bit (v AND mask h) 32"
      using bits [of 32] by (simp add: bit_simps)
    with assms(2) show False by simp
  qed
  then have "drop_bit 32 (v OR mask h) = drop_bit 32 v"
    by (intro bit_word_eqI) (auto simp: bit_simps)
  with assms(1) show ?thesis by (simp add: Is4In6_def)
qed

lemma V6_top:
  fixes v :: "128 word"
  assumes "b \<le> 128"
  defines "w \<equiv> v AND NOT (mask (128 - b))"
  shows "if Is4In6 (V6 w) then lastAddr (Prefix (V6 w) b) \<notin> range V6
    else lastAddr (Prefix (V6 w) b) = V6 (w + of_nat (2 ^ (128 - b) - 1))"
proof (cases "Is4In6 (V6 w)")
  case True
  have "Is4In6 (V6 (w OR mask (128 - b)))"
    by (rule Is4In6_or_mask [OF True]) (simp_all add: w_def masked_word)
  then show ?thesis
    using lastAddr_V6 [OF assms(1), of w] True by (auto simp: Unmap_def)
next
  case False
  have "w AND mask (128 - b) = 0"
    by (simp add: w_def masked_word)
  from aligned_top [OF this] lastAddr_V6 [OF assms(1), of w] False show ?thesis
    by metis
qed

lemma scan_masked:
  assumes "wf_prefix p"
  shows "first_free (Masked p) (lastAddr (Masked p)) taken (Next (prefix_Addr (Masked p)))
    = map_option Addr_String (find (free_in taken) (hosts (Masked p)))"
proof (cases "prefix_Addr p")
  case (V4 v)
  let ?b = "prefix_Bits p" and ?v = "v AND NOT (mask (32 - prefix_Bits p))"
  have M: "Masked p = Prefix (V4 ?v) ?b"
    by (simp add: Masked_def V4 host_mask_def)
  have b: "?b \<le> 32"
    using assms by (simp add: wf_prefix_def V4 BitLen_def)
  have "first_free (Prefix (V4 ?v) ?b) (lastAddr (Prefix (V4 ?v) ?b)) taken (Next (V4 ?v)) =
      map_option Addr_String (find (free_in taken) (map (\<lambda>i. V4 (?v + of_nat i)) [1..<2 ^ (32 - ?b) - 1]))"
  proof (rule block_scan [where h = "32 - ?b"])
    show "lastAddr (Prefix (V4 ?v) ?b) = V4 (?v + of_nat (2 ^ (32 - ?b) - 1)) \<and>
        2 ^ (32 - ?b) - 1 = (2 :: nat) ^ (32 - ?b) - 1 \<or>
        lastAddr (Prefix (V4 ?v) ?b) \<notin> range V4 \<and> 2 ^ (32 - ?b) - 1 = (2 :: nat) ^ (32 - ?b)"
      using lastAddr_V4 [OF b] aligned_top [OF masked_word] by (metis (no_types))
  qed (simp_all add: inj_def Next_def Contains_def masked_word)
  then show ?thesis
    unfolding M by (simp add: hosts_def scan_end_def offset_def [abs_def] BitLen_def Is4In6_def Let_def)
next
  case (V6 v)
  let ?b = "prefix_Bits p" and ?v = "v AND NOT (mask (128 - prefix_Bits p))"
  have M: "Masked p = Prefix (V6 ?v) ?b"
    by (simp add: Masked_def V6 host_mask_def)
  have b: "?b \<le> 128"
    using assms by (simp add: wf_prefix_def V6 BitLen_def)
  have "first_free (Prefix (V6 ?v) ?b) (lastAddr (Prefix (V6 ?v) ?b)) taken (Next (V6 ?v)) =
      map_option Addr_String (find (free_in taken)
        (map (\<lambda>i. V6 (?v + of_nat i)) [1..<scan_end (Prefix (V6 ?v) ?b)]))"
  proof (rule block_scan [where h = "128 - ?b"])
    show "lastAddr (Prefix (V6 ?v) ?b) = V6 (?v + of_nat (2 ^ (128 - ?b) - 1)) \<and>
        scan_end (Prefix (V6 ?v) ?b) = 2 ^ (128 - ?b) - 1 \<or>
        lastAddr (Prefix (V6 ?v) ?b) \<notin> range V6 \<and> scan_end (Prefix (V6 ?v) ?b) = 2 ^ (128 - ?b)"
      using V6_top [OF b, of v] by (auto simp: scan_end_def BitLen_def Let_def)
  qed (simp_all add: inj_def Next_def Contains_def masked_word)
  then show ?thesis
    unfolding M by (simp add: hosts_def offset_def [abs_def])
qed

section \<open>Correctness of the allocator\<close>

definition overlay_pool :: "cidr_text list \<Rightarrow> addr list" where
  "overlay_pool cidrs = concat (map (\<lambda>c. case snd c of Inl _ \<Rightarrow> [] | Inr p \<Rightarrow> hosts (Masked p)) cidrs)"

definition parsed :: "cidr_text list \<Rightarrow> bool" where
  "parsed cidrs \<longleftrightarrow> list_all (\<lambda>c. case snd c of Inl _ \<Rightarrow> False | Inr p \<Rightarrow> wf_prefix p) cidrs"

lemma find_append: "find P (xs @ ys) = (case find P xs of None \<Rightarrow> find P ys | Some x \<Rightarrow> Some x)"
  by (induction xs) auto

lemma first_free_free: "first_free p highest taken a = Some s \<Longrightarrow> \<not> map_true taken s"
  by (induction p highest taken a rule: first_free.induct) (auto split: if_splits)

text \<open>An address that was handed out was not taken, and comes from the pool.\<close>

lemma NextOverlayAddress_free: "NextOverlayAddress cidrs taken = Inr s \<Longrightarrow> \<not> map_true taken s"
  by (induction cidrs) (auto simp: Let_def dest: first_free_free split: sum.splits option.splits)

lemma NextOverlayAddress_pool:
  assumes "parsed cidrs" "NextOverlayAddress cidrs taken = Inr s"
  shows "s \<in> Addr_String ` set (overlay_pool cidrs)"
  using assms
proof (induction cidrs)
  case (Cons c cidrs)
  then obtain p where p: "snd c = Inr p" "wf_prefix p" "parsed cidrs"
    by (auto simp: parsed_def split: sum.splits)
  show ?case
  proof (cases "find (free_in taken) (hosts (Masked p))")
    case None
    with Cons p show ?thesis
      by (auto simp: overlay_pool_def scan_masked Let_def)
  next
    case (Some a)
    then have "a \<in> set (hosts (Masked p))"
      by (auto simp: find_Some_iff)
    moreover have "s = Addr_String a"
      using Cons.prems p Some by (simp add: scan_masked Let_def)
    ultimately show ?thesis
      using p by (auto simp: overlay_pool_def)
  qed
qed simp

text \<open>
  Claim C13 (overlay address allocation). Over parsed CIDRs, \<open>NextOverlayAddress\<close> returns the text of
  the first address of the pool (the CIDRs in order, each in ascending address order) whose text is
  not taken, and reports exhaustion exactly when every address of the pool is taken.
\<close>

theorem NextOverlayAddress_find:
  assumes "parsed cidrs"
  shows "NextOverlayAddress cidrs taken =
     (case find (free_in taken) (overlay_pool cidrs) of
        Some a \<Rightarrow> Inr (Addr_String a)
      | None \<Rightarrow> Inl (Err [ErrOverlayAddressesExhausted] ''wireguard: overlay address pool exhausted''))"
  using assms
  by (induction cidrs)
    (auto simp: overlay_pool_def parsed_def scan_masked Let_def find_append split: sum.splits option.splits)

lemma block_members:
  fixes v :: "'a::len word"
  assumes h: "h \<le> LENGTH('a)" and v: "v AND mask h = 0"
  shows "drop_bit h v = drop_bit h u \<longleftrightarrow> (\<exists>i < 2 ^ h. u = v + of_nat i)"
proof
  assume eq: "drop_bit h v = drop_bit h u"
  obtain q where q: "unat v = q * 2 ^ h"
    using h v by (rule aligned_word)
  have "unat (drop_bit h u) = unat u div 2 ^ h" "unat (drop_bit h v) = unat v div 2 ^ h"
    unfolding unat_drop_bit_eq by (simp_all add: drop_bit_eq_div)
  then have "unat u div 2 ^ h * 2 ^ h = unat v"
    using eq q by simp
  then have u: "unat u = unat v + unat u mod 2 ^ h"
    by (metis div_mult_mod_eq)
  moreover have "unat u mod 2 ^ h < 2 ^ h"
    by simp
  ultimately have "unat u = unat (v + of_nat (unat u mod 2 ^ h))"
    using aligned_offset(1) [OF h v] by metis
  then show "\<exists>i < 2 ^ h. u = v + of_nat i"
    using \<open>unat u mod 2 ^ h < 2 ^ h\<close> by (metis word_unat_eq_iff)
next
  assume "\<exists>i < 2 ^ h. u = v + of_nat i"
  then show "drop_bit h v = drop_bit h u"
    using aligned_offset(2) [OF h v] by metis
qed

lemma block_inj:
  fixes v :: "'a::len word"
  assumes "h \<le> LENGTH('a)" "v AND mask h = 0" "i < 2 ^ h" "j < 2 ^ h"
  shows "v + of_nat i = v + of_nat j \<longleftrightarrow> i = j"
  using aligned_offset(1) [OF assms(1-3)] aligned_offset(1) [OF assms(1,2,4)] by (metis add_left_cancel)

lemma block_hosts:
  fixes K :: "'a::len word \<Rightarrow> addr"
  assumes "inj K" "h \<le> LENGTH('a)" "v AND mask h = 0"
    and top: "highest = K (v + of_nat (2 ^ h - 1)) \<and> n = 2 ^ h - 1 \<or> highest \<notin> range K \<and> n = 2 ^ h"
  shows "(\<lambda>i. K (v + of_nat i)) ` {1..<n} = K ` {u. drop_bit h v = drop_bit h u} - {K v, highest}"
proof -
  have pos: "0 < (2 :: nat) ^ h"
    by simp
  note inj = block_inj [OF assms(2,3)]
  have "K ` {u. drop_bit h v = drop_bit h u} = (\<lambda>i. K (v + of_nat i)) ` {0..<2 ^ h}"
    unfolding block_members [OF assms(2,3)] atLeast0LessThan lessThan_def by blast
  moreover have "(\<lambda>i. K (v + of_nat i)) ` {0..<2 ^ h} - {K v, highest} = (\<lambda>i. K (v + of_nat i)) ` {1..<n}"
    (is "?f ` _ - _ = _")
  proof -
    have f: "?f i = ?f j \<longleftrightarrow> i = j" if "i < 2 ^ h" "j < 2 ^ h" for i j
      using inj [OF that] by (simp add: inj_eq [OF assms(1)])
    have zero: "K v = ?f 0"
      by simp
    from top show ?thesis
    proof
      assume t: "highest = K (v + of_nat (2 ^ h - 1)) \<and> n = 2 ^ h - 1"
      then have high: "highest = ?f (2 ^ h - 1)" by blast
      have "?f ` {0..<2 ^ h} - {?f 0, ?f (2 ^ h - 1)} = ?f ` ({0..<2 ^ h} - {0, 2 ^ h - 1})"
        by (subst inj_on_image_set_diff [where C = "{0..<2 ^ h}"]) (use f pos in \<open>auto simp: inj_on_def\<close>)
      moreover have "{0..<2 ^ h} - {0, 2 ^ h - 1} = {1..<n}"
        using t by auto
      ultimately show ?thesis
        unfolding zero high by simp
    next
      assume t: "highest \<notin> range K \<and> n = 2 ^ h"
      then have "?f ` {0..<2 ^ h} - {K v, highest} = ?f ` {0..<2 ^ h} - {?f 0}"
        by auto
      also have "\<dots> = ?f ` ({0..<2 ^ h} - {0})"
        by (subst inj_on_image_set_diff [where C = "{0..<2 ^ h}"]) (use f pos in \<open>auto simp: inj_on_def\<close>)
      also have "{0..<2 ^ h} - {0} = {1..<n}"
        using t by auto
      finally show ?thesis .
    qed
  qed
  ultimately show ?thesis by simp
qed

lemma Contains_sets:
  "{a. Contains (Prefix (V4 x) b) a} = V4 ` {u. drop_bit (32 - b) x = drop_bit (32 - b) u}"
  "{a. Contains (Prefix (V6 y) b) a} = V6 ` {u. drop_bit (128 - b) y = drop_bit (128 - b) u}"
proof -
  have "Contains (Prefix (V4 x) b) a \<longleftrightarrow> a \<in> V4 ` {u. drop_bit (32 - b) x = drop_bit (32 - b) u}" for a
    by (cases a) (auto simp: Contains_def)
  moreover have "Contains (Prefix (V6 y) b) a \<longleftrightarrow> a \<in> V6 ` {u. drop_bit (128 - b) y = drop_bit (128 - b) u}" for a
    by (cases a) (auto simp: Contains_def)
  ultimately show
    "{a. Contains (Prefix (V4 x) b) a} = V4 ` {u. drop_bit (32 - b) x = drop_bit (32 - b) u}"
    "{a. Contains (Prefix (V6 y) b) a} = V6 ` {u. drop_bit (128 - b) y = drop_bit (128 - b) u}"
    by blast+
qed

lemma set_minus_pair: "{a. P a \<and> a \<noteq> x \<and> a \<noteq> y} = {a. P a} - {x, y}"
  by auto

text \<open>
  Claim C14 (the address pool). The addresses the allocator may hand out of a prefix are exactly
  those the masked prefix contains, other than its network address and the address \<open>lastAddr\<close> gives.
\<close>

theorem hosts_exactly:
  assumes "wf_prefix p"
  shows "set (hosts (Masked p)) =
    {a. Contains (Masked p) a \<and> a \<noteq> prefix_Addr (Masked p) \<and> a \<noteq> lastAddr (Masked p)}"
proof (cases "prefix_Addr p")
  case (V4 v)
  let ?b = "prefix_Bits p" and ?h = "32 - prefix_Bits p" and ?v = "v AND NOT (mask (32 - prefix_Bits p))"
  have M: "Masked p = Prefix (V4 ?v) ?b"
    by (simp add: Masked_def V4 host_mask_def)
  have b: "?b \<le> 32"
    using assms by (simp add: wf_prefix_def V4 BitLen_def)
  have "lastAddr (Prefix (V4 ?v) ?b) = V4 (?v + of_nat (2 ^ ?h - 1))"
    using lastAddr_V4 [OF b] aligned_top [OF masked_word] by metis
  then have "(\<lambda>i. V4 (?v + of_nat i)) ` {1..<2 ^ ?h - 1} =
      V4 ` {u. drop_bit ?h ?v = drop_bit ?h u} - {V4 ?v, lastAddr (Prefix (V4 ?v) ?b)}"
    by (intro block_hosts) (simp_all add: inj_def masked_word)
  moreover have "{a. Contains (Prefix (V4 ?v) ?b) a} = V4 ` {u. drop_bit ?h ?v = drop_bit ?h u}"
    by (rule Contains_sets)
  moreover have "set (hosts (Prefix (V4 ?v) ?b)) = (\<lambda>i. V4 (?v + of_nat i)) ` {1..<2 ^ ?h - 1}"
    by (simp add: hosts_def scan_end_def offset_def [abs_def] BitLen_def Is4In6_def)
  ultimately show ?thesis
    unfolding M prefix.sel set_minus_pair by simp
next
  case (V6 v)
  let ?b = "prefix_Bits p" and ?h = "128 - prefix_Bits p" and ?v = "v AND NOT (mask (128 - prefix_Bits p))"
  have M: "Masked p = Prefix (V6 ?v) ?b"
    by (simp add: Masked_def V6 host_mask_def)
  have b: "?b \<le> 128"
    using assms by (simp add: wf_prefix_def V6 BitLen_def)
  have "(\<lambda>i. V6 (?v + of_nat i)) ` {1..<scan_end (Prefix (V6 ?v) ?b)} =
      V6 ` {u. drop_bit ?h ?v = drop_bit ?h u} - {V6 ?v, lastAddr (Prefix (V6 ?v) ?b)}"
  proof (rule block_hosts)
    show "lastAddr (Prefix (V6 ?v) ?b) = V6 (?v + of_nat (2 ^ ?h - 1)) \<and>
        scan_end (Prefix (V6 ?v) ?b) = 2 ^ ?h - 1 \<or>
        lastAddr (Prefix (V6 ?v) ?b) \<notin> range V6 \<and> scan_end (Prefix (V6 ?v) ?b) = 2 ^ ?h"
      using V6_top [OF b, of v] by (auto simp: scan_end_def BitLen_def Let_def)
  qed (simp_all add: inj_def masked_word)
  moreover have "{a. Contains (Prefix (V6 ?v) ?b) a} = V6 ` {u. drop_bit ?h ?v = drop_bit ?h u}"
    by (rule Contains_sets)
  moreover have "set (hosts (Prefix (V6 ?v) ?b)) =
      (\<lambda>i. V6 (?v + of_nat i)) ` {1..<scan_end (Prefix (V6 ?v) ?b)}"
    by (simp add: hosts_def offset_def [abs_def])
  ultimately show ?thesis
    unfolding M prefix.sel set_minus_pair by simp
qed

section \<open>Concrete pools\<close>

definition demo_cidr :: cidr_text where
  "demo_cidr = (''10.0.0.0/29'', Inr (Prefix (V4 0x0a000000) 29))"

theorem NextOverlayAddress_find_witness:
  "NextOverlayAddress [demo_cidr] [(''10.0.0.1'', True)] = Inr ''10.0.0.2''"
proof -
  have "parsed [demo_cidr]"
    by code_simp
  moreover have "find (free_in [(''10.0.0.1'', True)]) (overlay_pool [demo_cidr]) = Some (V4 0x0a000002)"
    by code_simp
  moreover have "Addr_String (V4 0x0a000002) = ''10.0.0.2''"
    by code_simp
  ultimately show ?thesis
    by (simp add: NextOverlayAddress_find del: NextOverlayAddress.simps)
qed

theorem hosts_exactly_witness:
  "set (hosts (Masked (Prefix (V4 0x0a000005) 30))) =
    {a. Contains (Masked (Prefix (V4 0x0a000005) 30)) a \<and> a \<noteq> V4 0x0a000004 \<and> a \<noteq> V4 0x0a000007}"
proof -
  have "Masked (Prefix (V4 0x0a000005) 30) = Prefix (V4 0x0a000004) 30"
    "lastAddr (Prefix (V4 0x0a000004) 30) = V4 0x0a000007"
    by code_simp+
  with hosts_exactly [of "Prefix (V4 0x0a000005) 30"] show ?thesis
    by (simp add: wf_prefix_def BitLen_def)
qed

text \<open>
  The highest address of an IPv4-mapped prefix is handed out although the documentation of
  \<open>NextOverlayAddress\<close> excludes it: \<open>lastAddr\<close> answers with the unmapped IPv4 address, which differs
  from every IPv6 address the scan compares it with.
\<close>

lemma mapped_prefix_highest_assigned:
  "NextOverlayAddress [(''::ffff:10.0.0.0/126'', Inr (Prefix (V6 0xffff0a000000) 126))]
     [(''::ffff:10.0.0.1'', True), (''::ffff:10.0.0.2'', True)] = Inr ''::ffff:10.0.0.3''"
  "lastAddr (Prefix (V6 0xffff0a000000) 126) = V4 0x0a000003"
  by code_simp+

end
