(* ===== verification/Operator_Fleet.thy ===== *)
theory Operator_Fleet
  imports Provider_Config Recovery Admission Overlay State_Store
begin

text \<open>
  The data of \<open>internal/operator\<close>: the configuration and its validation, the durable fleet record
  with its binding check, the catalog and the budget arithmetic. Texts that the source only parses
  (the GitHub URL, overlay CIDRs, stored JSON) are represented by what parsing finds in them.
\<close>

section \<open>Configuration\<close>

record parsed_url =
  url_Scheme :: string
  url_Host :: string
  url_User :: bool
  url_RawQuery :: string
  url_Fragment :: string
  url_Path :: string

record config =
  cfg_CatalogPath :: string
  cfg_Name :: string
  cfg_Namespace :: string
  cfg_GitHubURL :: "parsed_url option"
  cfg_ScaleSetID :: int
  cfg_MaxRunners :: int
  cfg_ProvisioningSeconds :: int
  cfg_MaxLifetimeSeconds :: int
  cfg_Requirements :: requirements
  cfg_Catalog :: catalog
  cfg_Providers :: "(string, provider_config) gomap"
  cfg_Retry :: retry_policy
  cfg_AWSPriceRefresh :: bool
  cfg_AzurePriceRefresh :: bool
  cfg_GCPPriceRefresh :: bool
  cfg_AzureInterruptionQueueURL :: string
  cfg_NetworkProfile :: string
  cfg_NetworkOverlayCIDRs :: "cidr_text list"
  cfg_BudgetDailyMicros :: int

text \<open>
  \<open>Config.Validate\<close>; the Kubernetes helper \<open>validation.IsDNS1123Label\<close> is a parameter (the list of
  its complaints is empty exactly for labels).
\<close>

definition validate_network :: "(string \<Rightarrow> bool) \<Rightarrow> config \<Rightarrow> err option" where
  "validate_network is_label c =
     (if cfg_NetworkProfile c \<noteq> [] \<and> \<not> is_label (cfg_NetworkProfile c)
      then Some (errors_New ''invalid network profile name'')
      else if cfg_NetworkProfile c = [] \<and> cfg_NetworkOverlayCIDRs c \<noteq> []
      then Some (errors_New ''overlay CIDRs require a wireguard network profile'')
      else if cfg_NetworkProfile c \<noteq> [] then
        (if cfg_NetworkOverlayCIDRs c = []
         then Some (errors_New ''wireguard network profile requires overlay CIDRs'')
         else if \<not> list_all (\<lambda>t. case snd t of Inl _ \<Rightarrow> False | Inr p \<Rightarrow> p = Masked p) (cfg_NetworkOverlayCIDRs c)
         then Some (errors_New ''invalid overlay CIDR'') else None)
      else None)"

definition valid_github_url :: "parsed_url option \<Rightarrow> bool" where
  "valid_github_url u = (case u of None \<Rightarrow> False | Some u \<Rightarrow>
     url_Scheme u = ''https'' \<and> url_Host u = ''github.com'' \<and> \<not> url_User u \<and> url_RawQuery u = []
     \<and> url_Fragment u = [] \<and> \<not> strings_Trim_empty (url_Path u) ''/'')"

fun validate_providers :: "config \<Rightarrow> string list \<Rightarrow> err option" where
  "validate_providers c [] = None"
| "validate_providers c (name # names) =
     (case map_of (cfg_Providers c) name of
        None \<Rightarrow> Some (errors_New ''missing provider configuration'')
      | Some p \<Rightarrow>
          (case ValidateName name of
             Some e \<Rightarrow> Some e
           | None \<Rightarrow>
               if pc_Owner p \<noteq> cfg_Name c then Some (errors_New ''provider owner must match controller name'')
               else (case Command_Validate p of Some e \<Rightarrow> Some e | None \<Rightarrow> validate_providers c names)))"

definition Config_Validate :: "(string \<Rightarrow> bool) \<Rightarrow> config \<Rightarrow> err option" where
  "Config_Validate is_label c =
     (case ValidateName (cfg_Name c) of Some e \<Rightarrow> Some e | None \<Rightarrow>
      case validate_network is_label c of Some e \<Rightarrow> Some e | None \<Rightarrow>
      if cfg_Namespace c = [] \<or> cfg_ScaleSetID c < 1 \<or> cfg_MaxRunners c < 1 \<or> cfg_MaxRunners c > 10
         \<or> cfg_ProvisioningSeconds c < 1 \<or> cfg_ProvisioningSeconds c > 600
         \<or> cfg_MaxLifetimeSeconds c < cfg_ProvisioningSeconds c \<or> cfg_MaxLifetimeSeconds c > 21600
      then Some (errors_New ''invalid namespace, scale set, capacity or time limits'')
      else if cfg_BudgetDailyMicros c < 0 then Some (errors_New ''budget ceiling cannot be negative'')
      else if \<not> valid_github_url (cfg_GitHubURL c)
      then Some (errors_New ''GitHub.com organization or repository HTTPS URL required'')
      else case Requirements_Validate (cfg_Requirements c) of Some e \<Rightarrow> Some e | None \<Rightarrow>
        validate_providers c (req_Providers (cfg_Requirements c)))"

section \<open>The fleet record\<close>

record pending_rerun =
  rr_Attempt :: int
  rr_JobID :: int
  rr_NotFoundPolls :: int

record fleet =
  fl_BindingVersion :: int
  fl_Condition :: string
  fl_Binding :: string
  fl_Released :: "(string, bool) gomap"
  fl_Admission :: admission_state
  fl_Created :: "(string, time) gomap"
  fl_Reserved :: "(string, int) gomap"
  fl_Pending :: "(string, allocation) gomap"
  fl_RetriesUsedByRun :: "(int, int) gomap"
  fl_PendingReruns :: "(int, pending_rerun) gomap"
  fl_Pruned :: "(string, bool) gomap"

definition fleet_zero :: fleet where
  "fleet_zero = \<lparr>fl_BindingVersion = 0, fl_Condition = [], fl_Binding = [], fl_Released = [],
     fl_Admission = admission_zero, fl_Created = [], fl_Reserved = [], fl_Pending = [],
     fl_RetriesUsedByRun = [], fl_PendingReruns = [], fl_Pruned = []\<rparr>"

text \<open>The binding hash of a configuration, over the fields that may not change under a fleet.\<close>

definition catalog_zero :: catalog where
  "catalog_zero = \<lparr>cat_Offerings = [], cat_Complete = []\<rparr>"

definition bindingWithLimit :: "(config \<Rightarrow> string) \<Rightarrow> config \<Rightarrow> int \<Rightarrow> string" where
  "bindingWithLimit sha256_json c limit =
     sha256_json (c\<lparr>cfg_MaxRunners := limit, cfg_Catalog := catalog_zero, cfg_CatalogPath := [],
       cfg_BudgetDailyMicros := 0\<rparr>)"

definition binding :: "(config \<Rightarrow> string) \<Rightarrow> config \<Rightarrow> string" where
  "binding sha256_json c = bindingWithLimit sha256_json c 0"

definition SameBinding :: "(config \<Rightarrow> string) \<Rightarrow> config \<Rightarrow> config \<Rightarrow> bool" where
  "SameBinding sha256_json a b \<longleftrightarrow> binding sha256_json a = binding sha256_json b"

section \<open>Budget\<close>

definition reservationMicros :: "int \<Rightarrow> int \<Rightarrow> int" where
  "reservationMicros maxPriceMicros maxLifetimeSeconds =
     go_div (wrap64 (wrap64 (maxPriceMicros * maxLifetimeSeconds) + 3599)) 3600"

text \<open>Two instants have the same UTC date exactly when they lie in the same day since the epoch.\<close>

definition utc_day :: "time \<Rightarrow> int" where
  "utc_day t = t div (24 * Hour)"

definition phase_of :: "allocation list \<Rightarrow> string \<Rightarrow> phase option" where
  "phase_of allocs name = map_of (map (\<lambda>a. (al_ID a, al_Phase a)) (rev allocs)) name"

definition spentToday :: "fleet \<Rightarrow> allocation list \<Rightarrow> time \<Rightarrow> int" where
  "spentToday f allocs now =
     fold (\<lambda>(name, reserved) total.
        if phase_of allocs name = Some TimedOut then total
        else case map_of (fl_Created f) name of
            None \<Rightarrow> total
          | Some created \<Rightarrow> if utc_day now = utc_day created then wrap64 (total + reserved) else total)
       (fl_Reserved f) 0"

end
