(* ===== verification/Base64.thy ===== *)
theory Base64
  imports Go_Prelude
begin

text \<open>
  \<open>base64.StdEncoding\<close> and \<open>encoding/hex\<close> of the Go library, on strings of bytes, with their round trips.
\<close>

section \<open>Base64\<close>

definition b64_val :: "char \<Rightarrow> nat option" where
  "b64_val c = (let n = of_char c :: nat in
     if 65 \<le> n \<and> n \<le> 90 then Some (n - 65)
     else if 97 \<le> n \<and> n \<le> 122 then Some (n - 71)
     else if 48 \<le> n \<and> n \<le> 57 then Some (n + 4)
     else if n = 43 then Some 62 else if n = 47 then Some 63 else None)"

fun b64_groups :: "string \<Rightarrow> nat list option" where
  "b64_groups [] = Some []"
| "b64_groups (a # b # c # d # rest) =
     (case (b64_val a, b64_val b) of
        (Some x, Some y) \<Rightarrow>
          if rest = [] \<and> c = CHR ''='' \<and> d = CHR ''='' then Some [x * 4 + y div 16]
          else (case b64_val c of None \<Rightarrow> None | Some z \<Rightarrow>
            if rest = [] \<and> d = CHR ''='' then Some [x * 4 + y div 16, (y mod 16) * 16 + z div 4]
            else (case b64_val d of None \<Rightarrow> None | Some v \<Rightarrow>
              map_option (\<lambda>r. [x * 4 + y div 16, (y mod 16) * 16 + z div 4, (z mod 4) * 64 + v] @ r)
                (b64_groups rest)))
      | _ \<Rightarrow> None)"
| "b64_groups _ = None"

text \<open>\<open>base64.StdEncoding.DecodeString\<close>: line breaks are skipped, padding is required.\<close>

definition base64_decode :: "string \<Rightarrow> string option" where
  "base64_decode text = map_option (map char_of)
     (b64_groups (filter (\<lambda>c. c \<noteq> CHR 0x0A \<and> c \<noteq> CHR 0x0D) text))"

text \<open>\<open>base64.StdEncoding.EncodeToString\<close>.\<close>

definition b64_char :: "nat \<Rightarrow> char" where
  "b64_char n = char_of (if n < 26 then n + 65 else if n < 52 then n + 71 else if n < 62 then n - 4
     else if n = 62 then 43 else 47)"

fun base64_encode :: "string \<Rightarrow> string" where
  "base64_encode [] = []"
| "base64_encode [a] = (let x = of_char a in [b64_char (x div 4), b64_char (x mod 4 * 16), CHR ''='', CHR ''=''])"
| "base64_encode [a, b] = (let x = of_char a; y = of_char b in
     [b64_char (x div 4), b64_char (x mod 4 * 16 + y div 16), b64_char (y mod 16 * 4), CHR ''=''])"
| "base64_encode (a # b # c # rest) = (let x = of_char a; y = of_char b; z = of_char c in
     [b64_char (x div 4), b64_char (x mod 4 * 16 + y div 16), b64_char (y mod 16 * 4 + z div 64), b64_char (z mod 64)]
     @ base64_encode rest)"

lemma b64_val_char: "n < 64 \<Longrightarrow> b64_val (b64_char n) = Some n"
  by (auto simp: b64_val_def b64_char_def Let_def)

lemma b64_val_special: "b64_val (CHR ''='') = None" "b64_val (CHR 0x0A) = None" "b64_val (CHR 0x0D) = None"
  by (simp_all add: b64_val_def)

lemma b64_char_not_special: "n < 64 \<Longrightarrow> b64_char n \<noteq> CHR ''='' \<and> b64_char n \<noteq> CHR 0x0A \<and> b64_char n \<noteq> CHR 0x0D"
  using b64_val_char [of n] b64_val_special by auto

lemma of_char_less: "(of_char c :: nat) < 256"
  by (rule nat_of_char_less_256)

lemma b64_bounds:
  fixes x y z :: nat
  assumes "x < 256" "y < 256" "z < 256"
  shows "x div 4 < 64" "x mod 4 * 16 < 64" "x mod 4 * 16 + y div 16 < 64" "y mod 16 * 4 < 64"
    "y mod 16 * 4 + z div 64 < 64" "z mod 64 < 64"
  using assms by linarith+

lemma b64_quotients: "(of_char c :: nat) div 16 < 16" "(of_char c :: nat) div 64 < 4"
  using of_char_less [of c] by linarith+

lemma b64_groups_encode: "b64_groups (base64_encode s) = Some (map of_char s)"
proof (induction s rule: base64_encode.induct)
  case (2 a)
  show ?case
    using b64_bounds [OF of_char_less [of a] of_char_less [of a] of_char_less [of a]]
    by (simp add: Let_def b64_val_char)
next
  case (3 a b)
  let ?x = "of_char a :: nat" and ?y = "of_char b :: nat"
  note bounds = b64_bounds [OF of_char_less [of a] of_char_less [of b] of_char_less [of b]]
  show ?case
    using bounds b64_char_not_special [of "?y mod 16 * 4"] by (simp add: Let_def b64_val_char b64_quotients)
next
  case (4 a b c rest)
  let ?x = "of_char a :: nat" and ?y = "of_char b :: nat" and ?z = "of_char c :: nat"
  note bounds = b64_bounds [OF of_char_less [of a] of_char_less [of b] of_char_less [of c]]
  show ?case
    using bounds 4 b64_char_not_special [of "?y mod 16 * 4 + ?z div 64"] b64_char_not_special [of "?z mod 64"]
    by (simp add: Let_def b64_val_char b64_quotients)
qed simp

lemma base64_encode_chars: "c \<in> set (base64_encode s) \<Longrightarrow> c \<noteq> CHR 0x0A \<and> c \<noteq> CHR 0x0D"
proof (induction s rule: base64_encode.induct)
  case (2 a)
  then show ?case
    using b64_char_not_special b64_bounds [OF of_char_less [of a] of_char_less [of a] of_char_less [of a]]
    by (auto simp: Let_def)
next
  case (3 a b)
  then show ?case
    using b64_char_not_special b64_bounds [OF of_char_less [of a] of_char_less [of b] of_char_less [of b]]
    by (auto simp: Let_def)
next
  case (4 a b d rest)
  then show ?case
    using b64_char_not_special b64_bounds [OF of_char_less [of a] of_char_less [of b] of_char_less [of d]]
    by (auto simp: Let_def)
qed simp

lemma base64_decode_encode: "base64_decode (base64_encode s) = Some s"
proof -
  have "filter (\<lambda>c. c \<noteq> CHR 0x0A \<and> c \<noteq> CHR 0x0D) (base64_encode s) = base64_encode s"
    using base64_encode_chars by (auto simp: filter_id_conv)
  then show ?thesis
    by (simp add: base64_decode_def b64_groups_encode)
qed

lemma b64_groups_alphabet:
  "b64_groups s = Some r \<Longrightarrow> c \<in> set s \<Longrightarrow> b64_val c \<noteq> None \<or> c = CHR ''=''"
  by (induction s arbitrary: r rule: b64_groups.induct) (auto split: option.splits if_splits)

section \<open>Hexadecimal\<close>

text \<open>\<open>hex.EncodeToString\<close> prints lower case; \<open>hex.DecodeString\<close> reads both cases.\<close>

definition hex_char :: "nat \<Rightarrow> char" where
  "hex_char n = char_of (if n < 10 then n + 48 else n + 87)"

definition hex_val :: "char \<Rightarrow> nat option" where
  "hex_val c = (let n = of_char c :: nat in
     if 48 \<le> n \<and> n \<le> 57 then Some (n - 48)
     else if 97 \<le> n \<and> n \<le> 102 then Some (n - 87)
     else if 65 \<le> n \<and> n \<le> 70 then Some (n - 55) else None)"

definition hex_EncodeToString :: "string \<Rightarrow> string" where
  "hex_EncodeToString s = concat (map (\<lambda>c. let n = of_char c in [hex_char (n div 16), hex_char (n mod 16)]) s)"

fun hex_DecodeString :: "string \<Rightarrow> string option" where
  "hex_DecodeString [] = Some []"
| "hex_DecodeString (a # b # rest) =
     (case (hex_val a, hex_val b, hex_DecodeString rest) of
        (Some x, Some y, Some r) \<Rightarrow> Some (char_of (16 * x + y) # r)
      | _ \<Rightarrow> None)"
| "hex_DecodeString [_] = None"

lemma hex_val_char: "n < 16 \<Longrightarrow> hex_val (hex_char n) = Some n"
  by (auto simp: hex_val_def hex_char_def Let_def)

lemma hex_decode_encode: "hex_DecodeString (hex_EncodeToString s) = Some s"
proof (induction s)
  case (Cons c s)
  have "(of_char c :: nat) div 16 < 16" "(of_char c :: nat) mod 16 < 16"
    using of_char_less [of c] by linarith+
  with Cons show ?case
    by (simp add: hex_EncodeToString_def Let_def hex_val_char)
qed (simp add: hex_EncodeToString_def)

end
