(* ===== verification/Azure_Events.thy ===== *)
theory Azure_Events
  imports Base64
begin

text \<open>
  \<open>internal/azureevents\<close> and \<open>internal/azurequeue\<close>: the classification of Azure preemption events and
  the poll of the storage queue that delivers them. The queue service is a parameter; the decoding
  of the CloudEvents JSON is a function parameter \<open>unmarshal\<close> from bytes to the decoded event or an
  error, about which nothing is assumed.
\<close>

section \<open>Events\<close>

record annotation_properties =
  ap_TargetResourceID :: string
  ap_AnnotationName :: string
  ap_Reason :: string
  ap_Context :: string
  ap_Category :: string

record resource_info =
  ri_Type :: string
  ri_Properties :: "annotation_properties option"

record event_data =
  ed_ResourceInfo :: "resource_info option"

record cloud_event =
  ce_Type :: string
  ce_Data :: "event_data option"

definition resourceAnnotatedEventType :: string where
  "resourceAnnotatedEventType = ''Microsoft.ResourceNotifications.HealthResources.ResourceAnnotated''"

definition resourceAnnotationResourceInfoType :: string where
  "resourceAnnotationResourceInfoType = ''Microsoft.ResourceHealth/resourceAnnotations''"

definition preemptedAnnotationName :: string where
  "preemptedAnnotationName = ''VirtualMachinePreempted''"

text \<open>The regular expression of ARM resource IDs, by the segments between slashes.\<close>

definition armResourceID :: "string \<Rightarrow> bool" where
  "armResourceID s = (case strings_Split s (CHR ''/'') of
     [root, k1, sub, k2, grp, k3, ns, ty, name] \<Rightarrow>
       root = [] \<and> k1 = ''subscriptions'' \<and> sub \<noteq> [] \<and> k2 = ''resourceGroups'' \<and> grp \<noteq> []
       \<and> k3 = ''providers'' \<and> ns \<noteq> [] \<and> ty \<noteq> [] \<and> name \<noteq> []
   | _ \<Rightarrow> False)"

definition event_properties :: "cloud_event \<Rightarrow> (resource_info \<times> annotation_properties) option" where
  "event_properties event = (case ce_Data event of None \<Rightarrow> None | Some d \<Rightarrow>
     case ed_ResourceInfo d of None \<Rightarrow> None | Some info \<Rightarrow>
     case ri_Properties info of None \<Rightarrow> None | Some props \<Rightarrow> Some (info, props))"

definition ParsePreemptionEvent :: "(string \<Rightarrow> err + cloud_event) \<Rightarrow> string \<Rightarrow> err + (string \<times> bool)" where
  "ParsePreemptionEvent unmarshal data =
     (case unmarshal data of
        Inl e \<Rightarrow> Inl (Err (err_is e) (''azureevents: malformed CloudEvents payload: '' @ err_text e))
      | Inr event \<Rightarrow>
          if ce_Type event \<noteq> resourceAnnotatedEventType
          then Inl (errors_New (''azureevents: unsupported or missing event type '' @ fmt_q (ce_Type event)))
          else case event_properties event of
              None \<Rightarrow> Inl (errors_New ''azureevents: event data incomplete'')
            | Some (info, props) \<Rightarrow>
                if ri_Type info \<noteq> resourceAnnotationResourceInfoType
                then Inl (errors_New (''azureevents: unexpected resourceInfo type '' @ fmt_q (ri_Type info)))
                else if ap_AnnotationName props = []
                then Inl (errors_New ''azureevents: annotation name missing'')
                else if ap_Reason props = [] \<or> ap_Context props = [] \<or> ap_Category props = []
                then Inl (errors_New ''azureevents: annotation context incomplete'')
                else if ap_TargetResourceID props = []
                then Inl (errors_New ''azureevents: target resource id missing'')
                else if \<not> armResourceID (ap_TargetResourceID props)
                then Inl (errors_New (''azureevents: target resource id '' @ fmt_q (ap_TargetResourceID props)
                       @ '' is not a valid ARM resource ID''))
                else Inr (ap_TargetResourceID props, ap_AnnotationName props = preemptedAnnotationName))"

section \<open>The message body\<close>

fun looksLikeJSONObject :: "string \<Rightarrow> bool" where
  "looksLikeJSONObject [] = False"
| "looksLikeJSONObject (b # data) =
     (if b = CHR '' '' \<or> b = CHR 0x09 \<or> b = CHR 0x0A \<or> b = CHR 0x0D then looksLikeJSONObject data
      else b = CHR ''{'')"

definition decodeMessageBody :: "string \<Rightarrow> string" where
  "decodeMessageBody text = (case base64_decode text of
     None \<Rightarrow> text | Some decoded \<Rightarrow> if looksLikeJSONObject decoded then decoded else text)"

section \<open>Polling\<close>

record dequeued_message =
  dm_MessageID :: "string option"
  dm_PopReceipt :: "string option"
  dm_MessageText :: "string option"

record dequeue_options =
  dq_NumberOfMessages :: int
  dq_VisibilityTimeout :: "int option"

record 'w queue_client =
  qc_DequeueMessages :: "dequeue_options \<Rightarrow> 'w \<Rightarrow> (err + dequeued_message option list) \<times> 'w"
  qc_DeleteMessage :: "string \<Rightarrow> string \<Rightarrow> 'w \<Rightarrow> err option \<times> 'w"

record 'w azure_queue =
  aq_Queue :: "'w queue_client option"
  aq_MaxMessages :: int
  aq_VisibilityTimeoutSeconds :: int

record queue_result =
  qr_ResourceID :: string
  qr_Preempted :: bool
  qr_Err :: "err option"

definition defaultMaxMessages :: int where
  "defaultMaxMessages = 32"

definition incomplete_message :: queue_result where
  "incomplete_message = \<lparr>qr_ResourceID = [], qr_Preempted = False,
     qr_Err = Some (errors_New ''azurequeue: dequeued message identity incomplete'')\<rparr>"

definition classify :: "(string \<Rightarrow> err + cloud_event) \<Rightarrow> dequeued_message option \<Rightarrow> queue_result" where
  "classify unmarshal m = (case m of None \<Rightarrow> incomplete_message | Some m \<Rightarrow>
     case (dm_MessageID m, dm_PopReceipt m, dm_MessageText m) of
       (Some _, Some _, Some text) \<Rightarrow>
         (case ParsePreemptionEvent unmarshal (decodeMessageBody text) of
            Inl e \<Rightarrow> \<lparr>qr_ResourceID = [], qr_Preempted = False, qr_Err = Some e\<rparr>
          | Inr (resourceID, preempted) \<Rightarrow>
              \<lparr>qr_ResourceID = resourceID, qr_Preempted = preempted, qr_Err = None\<rparr>)
     | _ \<Rightarrow> incomplete_message)"

definition delete_handled :: "'w queue_client \<Rightarrow> dequeued_message option \<Rightarrow> queue_result \<Rightarrow> 'w \<Rightarrow> 'w" where
  "delete_handled q m result w =
     (if qr_Err result \<noteq> None then w
      else case m of None \<Rightarrow> w | Some m \<Rightarrow>
        case (dm_MessageID m, dm_PopReceipt m) of
          (Some mid, Some receipt) \<Rightarrow> snd (qc_DeleteMessage q mid receipt w)
        | _ \<Rightarrow> w)"

fun poll_messages ::
    "(string \<Rightarrow> err + cloud_event) \<Rightarrow> 'w queue_client \<Rightarrow> dequeued_message option list \<Rightarrow> 'w
     \<Rightarrow> queue_result list \<times> 'w" where
  "poll_messages unmarshal q [] w = ([], w)"
| "poll_messages unmarshal q (m # ms) w =
     (let result = classify unmarshal m; w = delete_handled q m result w
      in case poll_messages unmarshal q ms w of (results, w) \<Rightarrow> (result # results, w))"

definition dequeue_request :: "'w azure_queue \<Rightarrow> dequeue_options" where
  "dequeue_request c = \<lparr>
     dq_NumberOfMessages = (if aq_MaxMessages c = 0 then defaultMaxMessages else aq_MaxMessages c),
     dq_VisibilityTimeout = (if aq_VisibilityTimeoutSeconds c \<noteq> 0
       then Some (aq_VisibilityTimeoutSeconds c) else None)\<rparr>"

definition Poll ::
    "(string \<Rightarrow> err + cloud_event) \<Rightarrow> 'w azure_queue \<Rightarrow> 'w \<Rightarrow> (err + queue_result list) \<times> 'w" where
  "Poll unmarshal c w =
     (case aq_Queue c of
        None \<Rightarrow> (Inl (errors_New ''azurequeue: Client.Queue is required''), w)
      | Some q \<Rightarrow>
          (case qc_DequeueMessages q (dequeue_request c) w of
             (Inl e, w) \<Rightarrow> (Inl e, w)
           | (Inr messages, w) \<Rightarrow>
               (case poll_messages unmarshal q messages w of (results, w) \<Rightarrow> (Inr results, w))))"

section \<open>Classification\<close>

text \<open>The resource IDs the expression accepts, written out.\<close>

definition arm_resource_id :: "string \<Rightarrow> string \<Rightarrow> string \<Rightarrow> string \<Rightarrow> string \<Rightarrow> string" where
  "arm_resource_id sub grp ns ty name = ''/subscriptions/'' @ sub @ ''/resourceGroups/'' @ grp
     @ ''/providers/'' @ ns @ ''/'' @ ty @ ''/'' @ name"

definition segment :: "string \<Rightarrow> bool" where
  "segment s \<longleftrightarrow> s \<noteq> [] \<and> CHR ''/'' \<notin> set s"

lemma strings_Split_append:
  "CHR ''/'' \<notin> set s \<Longrightarrow> strings_Split (s @ CHR ''/'' # t) (CHR ''/'') = s # strings_Split t (CHR ''/'')"
  by (induction s) auto

lemma strings_Split_single: "CHR ''/'' \<notin> set s \<Longrightarrow> strings_Split s (CHR ''/'') = [s]"
  by (induction s) auto

lemma armResourceID_intro:
  assumes "segment sub" "segment grp" "segment ns" "segment ty" "segment name"
  shows "armResourceID (arm_resource_id sub grp ns ty name)"
proof -
  have "strings_Split (arm_resource_id sub grp ns ty name) (CHR ''/'') =
      [[], ''subscriptions'', sub, ''resourceGroups'', grp, ''providers'', ns, ty, name]"
    using assms by (simp add: arm_resource_id_def segment_def strings_Split_append strings_Split_single)
  with assms show ?thesis
    by (simp add: armResourceID_def segment_def)
qed

lemma armResourceID_elim:
  assumes "armResourceID s"
  obtains sub grp ns ty name where "s = arm_resource_id sub grp ns ty name"
    "segment sub" "segment grp" "segment ns" "segment ty" "segment name"
proof -
  from assms obtain sub grp ns ty name where
    split: "strings_Split s (CHR ''/'') = [[], ''subscriptions'', sub, ''resourceGroups'', grp, ''providers'', ns, ty, name]"
    and nonempty: "sub \<noteq> []" "grp \<noteq> []" "ns \<noteq> []" "ty \<noteq> []" "name \<noteq> []"
    by (auto simp: armResourceID_def split: list.splits)
  have "s = join_on (CHR ''/'') [[], ''subscriptions'', sub, ''resourceGroups'', grp, ''providers'', ns, ty, name]"
    using join_strings_Split [of "CHR ''/''" s] by (simp only: split)
  then have "s = arm_resource_id sub grp ns ty name"
    by (simp add: arm_resource_id_def)
  moreover have "CHR ''/'' \<notin> set part" if "part \<in> {sub, grp, ns, ty, name}" for part
    using that by (intro strings_Split_parts [where s = s]) (auto simp: split)
  ultimately show thesis
    using nonempty by (intro that) (auto simp: segment_def)
qed

text \<open>
  Claim C27 (fail-closed classification of preemptions). A payload is classified exactly when it
  decodes to a resource-annotation event with a complete annotation whose target has the form
  \<open>/subscriptions/s/resourceGroups/g/providers/n/t/v\<close> with non-empty segments; the classification
  then names that target, and it is a preemption exactly for the annotation
  \<open>VirtualMachinePreempted\<close>. Everything else is an error.
\<close>

theorem ParsePreemptionEvent_iff:
  "ParsePreemptionEvent unmarshal data = Inr (resourceID, preempted) \<longleftrightarrow>
     (\<exists>event d info props. unmarshal data = Inr event \<and> ce_Type event = resourceAnnotatedEventType
        \<and> ce_Data event = Some d \<and> ed_ResourceInfo d = Some info \<and> ri_Properties info = Some props
        \<and> ri_Type info = resourceAnnotationResourceInfoType
        \<and> ap_AnnotationName props \<noteq> [] \<and> ap_Reason props \<noteq> [] \<and> ap_Context props \<noteq> []
        \<and> ap_Category props \<noteq> [] \<and> ap_TargetResourceID props = resourceID
        \<and> (\<exists>sub grp ns ty name. segment sub \<and> segment grp \<and> segment ns \<and> segment ty \<and> segment name
             \<and> resourceID = arm_resource_id sub grp ns ty name)
        \<and> (preempted \<longleftrightarrow> ap_AnnotationName props = preemptedAnnotationName))"
proof -
  have arm: "(\<exists>sub grp ns ty name. segment sub \<and> segment grp \<and> segment ns \<and> segment ty \<and> segment name
      \<and> s = arm_resource_id sub grp ns ty name) \<longleftrightarrow> armResourceID s" for s
    by (metis armResourceID_elim armResourceID_intro)
  have "armResourceID s \<Longrightarrow> s \<noteq> []" for s
    by (auto simp: armResourceID_def)
  then show ?thesis
    unfolding arm ParsePreemptionEvent_def
    by (auto simp: event_properties_def split: sum.splits option.splits if_splits)
qed

section \<open>Delivery encodings\<close>

text \<open>The two ways of delivering a payload are both read.\<close>

lemma looksLikeJSONObject_brace: "looksLikeJSONObject s \<Longrightarrow> CHR ''{'' \<in> set s"
  by (induction s) (auto split: if_splits)

text \<open>
  Both delivery encodings are read: a payload that is a JSON object reaches the parser
  unchanged whether the event service delivers it base64-encoded or as it is.
\<close>

theorem decodeMessageBody_payload:
  assumes "looksLikeJSONObject payload"
  shows "decodeMessageBody (base64_encode payload) = payload \<and> decodeMessageBody payload = payload"
proof -
  have "base64_decode payload = None"
  proof (rule ccontr)
    assume "base64_decode payload \<noteq> None"
    then obtain r where "b64_groups (filter (\<lambda>c. c \<noteq> CHR 0x0A \<and> c \<noteq> CHR 0x0D) payload) = Some r"
      by (auto simp: base64_decode_def)
    from b64_groups_alphabet [OF this, of "CHR ''{''"] looksLikeJSONObject_brace [OF assms]
    show False by (simp add: b64_val_def)
  qed
  with assms show ?thesis
    by (simp add: decodeMessageBody_def base64_decode_encode)
qed

theorem decodeMessageBody_payload_witness:
  "decodeMessageBody (base64_encode '' {}'') = '' {}'' \<and> decodeMessageBody '' {}'' = '' {}''"
  by (rule decodeMessageBody_payload) simp

section \<open>What a poll removes from the queue\<close>

definition logging_queue :: "'w queue_client \<Rightarrow> ('w \<times> (string \<times> string) list) queue_client" where
  "logging_queue q = \<lparr>
     qc_DequeueMessages = (\<lambda>opts (w, l). case qc_DequeueMessages q opts w of (r, w) \<Rightarrow> (r, (w, l))),
     qc_DeleteMessage = (\<lambda>mid receipt (w, l).
       case qc_DeleteMessage q mid receipt w of (r, w) \<Rightarrow> (r, (w, l @ [(mid, receipt)])))\<rparr>"

text \<open>A message is handled when its identity is complete and its payload classifies.\<close>

definition handled :: "(string \<Rightarrow> err + cloud_event) \<Rightarrow> dequeued_message option \<Rightarrow> (string \<times> string) list" where
  "handled unmarshal m = (case m of None \<Rightarrow> [] | Some m \<Rightarrow>
     case (dm_MessageID m, dm_PopReceipt m, dm_MessageText m) of
       (Some mid, Some receipt, Some text) \<Rightarrow>
         (case ParsePreemptionEvent unmarshal (decodeMessageBody text) of Inl _ \<Rightarrow> [] | Inr _ \<Rightarrow> [(mid, receipt)])
     | _ \<Rightarrow> [])"

lemma delete_handled_log:
  "snd (delete_handled (logging_queue q) m (classify unmarshal m) (w, l)) = l @ handled unmarshal m"
  by (auto simp: delete_handled_def classify_def handled_def incomplete_message_def logging_queue_def
      split: option.splits sum.splits prod.splits)

lemma poll_messages_log:
  "\<exists>w'. poll_messages unmarshal (logging_queue q) ms (w, l) =
     (map (classify unmarshal) ms, (w', l @ concat (map (handled unmarshal) ms)))"
proof (induction ms arbitrary: w l)
  case (Cons m ms)
  obtain w' where "delete_handled (logging_queue q) m (classify unmarshal m) (w, l) = (w', l @ handled unmarshal m)"
    by (metis delete_handled_log prod.exhaust_sel)
  with Cons [of w' "l @ handled unmarshal m"] show ?case
    by auto
qed simp

lemma logging_dequeue:
  "qc_DequeueMessages (logging_queue q) opts (w, l) = (case qc_DequeueMessages q opts w of (r, w) \<Rightarrow> (r, (w, l)))"
  by (simp add: logging_queue_def)

text \<open>
  Claim C28 (a poll loses no event). Whatever the queue answers, a poll that dequeued messages reports
  one result per message in order, and deletes exactly those with a complete identity and a
  classified payload; every other message stays in the queue.
\<close>

theorem Poll_deletes_handled:
  assumes "aq_Queue c = Some (logging_queue q)"
    and "qc_DequeueMessages q (dequeue_request c) w = (Inr messages, w')"
  shows "\<exists>w''. Poll unmarshal c (w, []) =
    (Inr (map (classify unmarshal) messages), (w'', concat (map (handled unmarshal) messages)))"
  using assms poll_messages_log [of unmarshal q messages w' "[]"]
  by (auto simp: Poll_def logging_dequeue)

text \<open>A queue with one good, one malformed and one unidentified message: only the first is deleted.\<close>

definition demo_event :: cloud_event where
  "demo_event = \<lparr>ce_Type = resourceAnnotatedEventType, ce_Data = Some \<lparr>ed_ResourceInfo = Some
     \<lparr>ri_Type = resourceAnnotationResourceInfoType, ri_Properties = Some
       \<lparr>ap_TargetResourceID = ''/subscriptions/s/resourceGroups/g/providers/n/t/v'',
        ap_AnnotationName = preemptedAnnotationName, ap_Reason = ''r'', ap_Context = ''c'', ap_Category = ''k''\<rparr>\<rparr>\<rparr>\<rparr>"

definition demo_unmarshal :: "string \<Rightarrow> err + cloud_event" where
  "demo_unmarshal data = (if data = ''{1}'' then Inr demo_event else Inl (errors_New ''bad''))"

definition demo_messages :: "dequeued_message option list" where
  "demo_messages = [Some \<lparr>dm_MessageID = Some ''a'', dm_PopReceipt = Some ''ra'', dm_MessageText = Some ''{1}''\<rparr>,
     Some \<lparr>dm_MessageID = Some ''b'', dm_PopReceipt = Some ''rb'', dm_MessageText = Some ''{2}''\<rparr>, None]"

definition demo_queue :: "unit queue_client" where
  "demo_queue = \<lparr>qc_DequeueMessages = (\<lambda>_ w. (Inr demo_messages, w)), qc_DeleteMessage = (\<lambda>_ _ w. (None, w))\<rparr>"

theorem Poll_deletes_handled_witness:
  "\<exists>w''. Poll demo_unmarshal
     \<lparr>aq_Queue = Some (logging_queue demo_queue), aq_MaxMessages = 0, aq_VisibilityTimeoutSeconds = 0\<rparr> ((), []) =
     (Inr (map (classify demo_unmarshal) demo_messages), (w'', [(''a'', ''ra'')]))"
proof -
  have only: "concat (map (handled demo_unmarshal) demo_messages) = [(''a'', ''ra'')]"
    by code_simp
  show ?thesis
    using Poll_deletes_handled [where q = demo_queue and w = "()" and w' = "()" and messages = demo_messages
        and unmarshal = demo_unmarshal
        and c = "\<lparr>aq_Queue = Some (logging_queue demo_queue), aq_MaxMessages = 0, aq_VisibilityTimeoutSeconds = 0\<rparr>"]
    by (simp add: demo_queue_def only)
qed

end
