(* ===== verification/Prices.thy ===== *)
theory Prices
  imports Go_Prelude
begin

text \<open>
  \<open>internal/prices\<close>: observed spot prices.
\<close>

record quote =
  q_PriceMicros :: int
  q_Currency :: string
  q_ObservedAt :: time

end
