(* ===== verification/Operator.thy ===== *)
theory Operator
  imports Operator_Fleet Azure_Events Prices
begin

text \<open>
  \<open>internal/operator\<close>: the handlers of one scale set. The operator's collaborators (the ConfigMap
  API, the clock, UUIDs, the catalog file, the price observers, GitHub's jobs API, the storage queue
  and the runner registry) are operations over a world \<open>'w\<close>. Every handler holds the operator's
  mutex for its whole body, so a handler is one function on the world; the goroutines that \<open>Tick\<close>
  starts under the mutex run in the order a schedule chooses.
\<close>

section \<open>The operator\<close>

record 'w jobs_ops =
  jb_AttemptJobs :: "string \<Rightarrow> string \<Rightarrow> int \<Rightarrow> int \<Rightarrow> 'w \<Rightarrow> (err + rest_job list) \<times> 'w"
  jb_RerunFailedJobs :: "string \<Rightarrow> string \<Rightarrow> int \<Rightarrow> 'w \<Rightarrow> err option \<times> 'w"

text \<open>
  \<open>op_Providers\<close> gives the provider of a name once its \<open>AzureInterrupted\<close> map is known; the current
  maps are \<open>op_AzureInterrupted\<close>. \<open>op_CatalogFile\<close> is \<open>None\<close> when the file cannot be opened.
\<close>

record 'w operator =
  op_Config :: config
  op_FleetMaps :: "('w, fleet json) maps_ops"
  op_Store :: "'w kubernetes"
  op_Providers :: "(string, (string, bool) gomap \<Rightarrow> 'w provider_ops) gomap"
  op_Runners :: "(string \<Rightarrow> 'w \<Rightarrow> err option \<times> 'w) option"
  op_GitHubJobs :: "'w jobs_ops option"
  op_AWSPrices :: "(string \<Rightarrow> string \<Rightarrow> string \<Rightarrow> 'w \<Rightarrow> (err + quote) \<times> 'w) option"
  op_AzurePrices :: "(string \<Rightarrow> string \<Rightarrow> string \<Rightarrow> 'w \<Rightarrow> (err + quote) \<times> 'w) option"
  op_GCPPrices :: "(string \<Rightarrow> string \<Rightarrow> int \<Rightarrow> int \<Rightarrow> 'w \<Rightarrow> (err + quote) \<times> 'w) option"
  op_AzureInterruptions :: "('w \<Rightarrow> (err + queue_result list) \<times> 'w) option"
  op_Now :: "'w \<Rightarrow> time \<times> 'w"
  op_NewString :: "'w \<Rightarrow> string \<times> 'w"
  op_CatalogFile :: "string \<Rightarrow> 'w \<Rightarrow> catalog json option \<times> 'w"
  op_sha256_json :: "config \<Rightarrow> string"
  op_Cooldowns :: "(string, time) gomap"
  op_AzureInterrupted :: "(string, (string, bool) gomap) gomap"
  op_paused :: bool
  op_draining :: bool

definition op_binding :: "'w operator \<Rightarrow> string" where
  "op_binding op = binding (op_sha256_json op) (op_Config op)"

text \<open>The lifecycle controller that the operator steps.\<close>

definition op_Controller :: "'w operator \<Rightarrow> 'w controller" where
  "op_Controller op = \<lparr>
     ctl_Cooldowns = op_Cooldowns op,
     ctl_Store = kubernetes_store (op_Store op),
     ctl_Providers = map (\<lambda>(name, p). (name, p (map_get [] (op_AzureInterrupted op) name))) (op_Providers op),
     ctl_Now = (\<lambda>w. fst (op_Now op w)),
     ctl_Runners = op_Runners op\<rparr>"

section \<open>Catalog\<close>

definition op_catalog :: "'w operator \<Rightarrow> 'w \<Rightarrow> (err + catalog) \<times> 'w" where
  "op_catalog op w =
     (if cfg_CatalogPath (op_Config op) = [] then (Inr (cfg_Catalog (op_Config op)), w)
      else case op_CatalogFile op (cfg_CatalogPath (op_Config op)) w of
          (None, w) \<Rightarrow> (Inl (errors_New ''catalog unavailable''), w)
        | (Some (JsonBad _), w) \<Rightarrow> (Inl (errors_New ''invalid catalog''), w)
        | (Some (JsonTrailing _), w) \<Rightarrow> (Inl (errors_New ''invalid catalog trailer''), w)
        | (Some (JsonOf c), w) \<Rightarrow> (Inr c, w))"

section \<open>Price refresh\<close>

text \<open>What an answer of an observer does to an offering: a failure makes its price unobserved.\<close>

definition requote :: "offering \<Rightarrow> err + quote \<Rightarrow> offering" where
  "requote o' answer = (case answer of
     Inl _ \<Rightarrow> o'\<lparr>off_ObservedAt := 0\<rparr>
   | Inr q \<Rightarrow> o'\<lparr>off_PriceMicros := q_PriceMicros q, off_Currency := q_Currency q,
                off_ObservedAt := q_ObservedAt q\<rparr>)"

fun refresh_offerings ::
    "(offering \<Rightarrow> ('w \<Rightarrow> (err + quote) \<times> 'w) option) \<Rightarrow> offering list \<Rightarrow> 'w \<Rightarrow> offering list \<times> 'w" where
  "refresh_offerings observe [] w = ([], w)"
| "refresh_offerings observe (o' # os) w =
     (case (case observe o' of
              None \<Rightarrow> (o', w)
            | Some call \<Rightarrow> (case call w of (answer, w) \<Rightarrow> (requote o' answer, w))) of
        (o', w) \<Rightarrow> (case refresh_offerings observe os w of (os, w) \<Rightarrow> (o' # os, w)))"

definition refresh_catalog ::
    "(offering \<Rightarrow> ('w \<Rightarrow> (err + quote) \<times> 'w) option) \<Rightarrow> catalog \<Rightarrow> 'w \<Rightarrow> catalog \<times> 'w" where
  "refresh_catalog observe c w =
     (case refresh_offerings observe (cat_Offerings c) w of (os, w) \<Rightarrow> (c\<lparr>cat_Offerings := os\<rparr>, w))"

definition refreshAWSPrices :: "'w operator \<Rightarrow> catalog \<Rightarrow> 'w \<Rightarrow> catalog \<times> 'w" where
  "refreshAWSPrices op c w = (case op_AWSPrices op of None \<Rightarrow> (c, w) | Some obs \<Rightarrow>
     refresh_catalog (\<lambda>o'. if off_Provider o' \<noteq> ''aws'' \<or> \<not> off_Spot o' then None
        else Some (obs (off_Region o') (off_Zone o') (off_Machine o'))) c w)"

definition refreshAzurePrices :: "'w operator \<Rightarrow> catalog \<Rightarrow> 'w \<Rightarrow> catalog \<times> 'w" where
  "refreshAzurePrices op c w = (case op_AzurePrices op of None \<Rightarrow> (c, w) | Some obs \<Rightarrow>
     refresh_catalog (\<lambda>o'. if off_Provider o' \<noteq> ''azure'' \<or> \<not> off_Spot o' then None
        else Some (obs (off_Region o') (off_Zone o') (off_Machine o'))) c w)"

definition refreshGCPPrices :: "'w operator \<Rightarrow> catalog \<Rightarrow> 'w \<Rightarrow> catalog \<times> 'w" where
  "refreshGCPPrices op c w = (case op_GCPPrices op of None \<Rightarrow> (c, w) | Some obs \<Rightarrow>
     refresh_catalog (\<lambda>o'. case off_GCPSkuRefs o' of None \<Rightarrow> None | Some refs \<Rightarrow>
        if off_Provider o' \<noteq> ''gcp'' then None
        else Some (obs (sku_CoreSkuID refs) (sku_RamSkuID refs) (off_CPU o') (off_MemoryMiB o'))) c w)"

section \<open>The fleet ConfigMap\<close>

definition fleet_name :: "'w operator \<Rightarrow> string" where
  "fleet_name op = cfg_Name (op_Config op) @ ''-fleet''"

definition fleet_map_empty :: "'w operator \<Rightarrow> fleet json config_map" where
  "fleet_map_empty op = \<lparr>cm_Name = fleet_name op, cm_ResourceVersion = [],
     cm_Labels = [(''runnerscout/owner'', cfg_Name (op_Config op))],
     cm_Data = [(''fleet'', JsonOf fleet_zero)]\<rparr>"

text \<open>\<open>json.Unmarshal\<close> of the value under \<open>fleet\<close>; a missing key reads as the empty text.\<close>

definition unmarshal_fleet :: "fleet json config_map \<Rightarrow> err + fleet" where
  "unmarshal_fleet cm = (case map_of (cm_Data cm) ''fleet'' of
     None \<Rightarrow> Inl (errors_New ''unexpected end of JSON input'')
   | Some t \<Rightarrow> json_decode ''invalid character after top-level value'' t)"

definition legacy_match :: "'w operator \<Rightarrow> fleet \<Rightarrow> bool" where
  "legacy_match op f \<longleftrightarrow> fl_BindingVersion f = 0
     \<and> list_ex (\<lambda>limit. fl_Binding f = bindingWithLimit (op_sha256_json op) (op_Config op) limit) [1..10]"

definition adopt_fleet :: "'w operator \<Rightarrow> fleet \<Rightarrow> err + fleet" where
  "adopt_fleet op f =
     (if fl_Binding f \<noteq> [] \<and> fl_Binding f \<noteq> op_binding op \<and> \<not> legacy_match op f
      then Inl (errors_New ''provider or class binding changed; restore original configuration for cleanup'')
      else if fl_BindingVersion f \<noteq> 0 \<and> fl_BindingVersion f \<noteq> 2
      then Inl (errors_New ''unsupported fleet binding version'')
      else Inr (f\<lparr>fl_BindingVersion := 2, fl_Binding := op_binding op\<rparr>))"

definition get_fleet_map :: "'w operator \<Rightarrow> bool \<Rightarrow> 'w \<Rightarrow> (err + fleet json config_map) \<times> 'w" where
  "get_fleet_map op create w =
     (case mp_Get (op_FleetMaps op) (fleet_name op) w of
        (Inr cm, w) \<Rightarrow> (Inr cm, w)
      | (Inl e, w) \<Rightarrow>
          if \<not> errors_Is e StatusNotFound then (Inl e, w)
          else if create then mp_Create (op_FleetMaps op) (fleet_map_empty op) w
          else (Inr (fleet_map_empty op), w))"

definition readFleet :: "'w operator \<Rightarrow> bool \<Rightarrow> 'w \<Rightarrow> (err + (fleet json config_map \<times> fleet)) \<times> 'w" where
  "readFleet op create w =
     (case get_fleet_map op create w of
        (Inl e, w) \<Rightarrow> (Inl e, w)
      | (Inr cm, w) \<Rightarrow>
          (if label_owner cm \<noteq> cfg_Name (op_Config op) then Inl (errors_New ''fleet ownership mismatch'')
           else case unmarshal_fleet cm of
               Inl e \<Rightarrow> Inl e
             | Inr f \<Rightarrow> (case adopt_fleet op f of Inl e \<Rightarrow> Inl e | Inr f \<Rightarrow> Inr (cm, f)), w))"

definition loadFleet :: "'w operator \<Rightarrow> 'w \<Rightarrow> (err + (fleet json config_map \<times> fleet)) \<times> 'w" where
  "loadFleet op w = readFleet op True w"

definition fleet_times :: "fleet \<Rightarrow> time list" where
  "fleet_times f = map snd (fl_Created f) @ concat (map (allocation_times \<circ> snd) (fl_Pending f))"

definition Marshal_fleet :: "fleet \<Rightarrow> err + fleet json" where
  "Marshal_fleet f = (if list_all json_time_ok (fleet_times f) then Inr (JsonOf f)
     else Inl (errors_New ''Time.MarshalJSON: year outside of range [0,9999]''))"

definition saveFleet :: "'w operator \<Rightarrow> fleet json config_map \<Rightarrow> fleet \<Rightarrow> 'w \<Rightarrow> err option \<times> 'w" where
  "saveFleet op cm f w =
     (case Marshal_fleet f of
        Inl e \<Rightarrow> (Some e, w)
      | Inr b \<Rightarrow>
          (case mp_Update (op_FleetMaps op) (cm\<lparr>cm_Data := AList.update ''fleet'' b (cm_Data cm)\<rparr>) w of
             (Inl e, w) \<Rightarrow> (Some e, w)
           | (Inr _, w) \<Rightarrow> (None, w)))"

section \<open>Demand\<close>

text \<open>The first loop: release the slots of terminal records once, and count the others.\<close>

definition release_slot :: "fleet \<Rightarrow> string \<Rightarrow> fleet" where
  "release_slot f name = f\<lparr>
     fl_Admission := (if as_Admitted (fl_Admission f) > 0
        then (fl_Admission f)\<lparr>as_Admitted := as_Admitted (fl_Admission f) - 1\<rparr> else fl_Admission f),
     fl_Released := AList.update name True (fl_Released f)\<rparr>"

fun release_loop :: "allocation list \<Rightarrow> fleet \<Rightarrow> int \<Rightarrow> fleet \<times> int" where
  "release_loop [] f active = (f, active)"
| "release_loop (a # allocs) f active =
     release_loop allocs
       (if terminal (al_Phase a) \<and> \<not> map_true (fl_Released f) (al_ID a) then release_slot f (al_ID a) else f)
       (if \<not> terminal (al_Phase a) then active + 1 else active)"

definition unrepresented :: "fleet \<Rightarrow> allocation list \<Rightarrow> int" where
  "unrepresented f allocs =
     int (length (filter (\<lambda>name. \<not> List.member (map al_ID allocs) name) (keys (fl_Pending f))))"

text \<open>How many of \<open>n\<close> slots today's budget still covers.\<close>

definition affordable :: "config \<Rightarrow> fleet \<Rightarrow> allocation list \<Rightarrow> time \<Rightarrow> int" where
  "affordable c f allocs now =
     (let unit = reservationMicros (req_MaxPriceMicros (cfg_Requirements c)) (cfg_MaxLifetimeSeconds c);
          remaining = wrap64 (cfg_BudgetDailyMicros c - spentToday f allocs now)
      in if unit > 0 \<and> remaining > 0 then go_div remaining unit else 0)"

definition unadmit :: "fleet \<Rightarrow> int \<Rightarrow> fleet" where
  "unadmit f n = f\<lparr>fl_Admission := (fl_Admission f)\<lparr>as_Admitted := as_Admitted (fl_Admission f) - n\<rparr>\<rparr>"

definition overlay_taken :: "config \<Rightarrow> fleet \<Rightarrow> allocation list \<Rightarrow> (string, bool) gomap" where
  "overlay_taken c f allocs =
     fold (\<lambda>a m. if al_NetworkProfile a = cfg_NetworkProfile c \<and> al_WireGuardOverlayAddress a \<noteq> []
                then AList.update (al_WireGuardOverlayAddress a) True m else m)
       (filter (\<lambda>a. \<not> terminal (al_Phase a)) allocs @ map snd (fl_Pending f)) []"

fun overlay_addresses :: "cidr_text list \<Rightarrow> nat \<Rightarrow> (string, bool) gomap \<Rightarrow> err + string list" where
  "overlay_addresses cidrs 0 taken = Inr []"
| "overlay_addresses cidrs (Suc n) taken =
     (case NextOverlayAddress cidrs taken of
        Inl e \<Rightarrow> Inl e
      | Inr addr \<Rightarrow>
          (case overlay_addresses cidrs n (AList.update addr True taken) of
             Inl e \<Rightarrow> Inl e | Inr addrs \<Rightarrow> Inr (addr # addrs)))"

definition offering_zero :: offering where
  "offering_zero = \<lparr>off_ID = [], off_Provider = [], off_Region = [], off_Zone = [], off_Machine = [],
     off_Image = [], off_CPU = 0, off_MemoryMiB = 0, off_Architecture = [], off_Vendor = [],
     off_Capabilities = [], off_Spot = False, off_PriceMicros = 0, off_Currency = [], off_ObservedAt = 0,
     off_GCPSkuRefs = None\<rparr>"

definition new_allocation :: "config \<Rightarrow> catalog \<Rightarrow> string \<Rightarrow> time \<Rightarrow> string \<Rightarrow> allocation" where
  "new_allocation c catalog name now address = \<lparr>
     al_Resources = [], al_RejectedAt = [], al_Completed = False, al_ID = name, al_Revision = [],
     al_Phase = Pending, al_Deadline = time_Add now (cfg_ProvisioningSeconds c * Second), al_Attempts = 0,
     al_MaxAttempts = 3, al_Offering = offering_zero, al_Outcomes = [], al_Catalog = catalog,
     al_Requirements = cfg_Requirements c, al_ResourceID = [], al_Ready = False, al_Retire = False,
     al_Condition = [], al_RunID = 0, al_Owner = [], al_Repo = [], al_ScaleSetJobID = [],
     al_RetryProcessed = False, al_NetworkProfile = cfg_NetworkProfile c, al_WireGuardPublicKey = [],
     al_WireGuardOverlayAddress = address, al_WireGuardEndpoint = [], al_WireGuardPollTokenHash = [],
     al_TerminalAt = 0\<rparr>"

definition admit_one :: "config \<Rightarrow> catalog \<Rightarrow> string \<Rightarrow> time \<Rightarrow> string \<Rightarrow> fleet \<Rightarrow> fleet" where
  "admit_one c catalog name now address f = f\<lparr>
     fl_Created := AList.update name now (fl_Created f),
     fl_Reserved := (if cfg_BudgetDailyMicros c > 0
       then AList.update name (reservationMicros (req_MaxPriceMicros (cfg_Requirements c)) (cfg_MaxLifetimeSeconds c))
              (fl_Reserved f)
       else fl_Reserved f),
     fl_Pending := AList.update name (new_allocation c catalog name now address) (fl_Pending f)\<rparr>"

fun admit_loop :: "'w operator \<Rightarrow> catalog \<Rightarrow> nat \<Rightarrow> string list \<Rightarrow> fleet \<Rightarrow> 'w \<Rightarrow> fleet \<times> 'w" where
  "admit_loop op catalog 0 addresses f w = (f, w)"
| "admit_loop op catalog (Suc n) addresses f w =
     (case op_NewString op w of (uuid, w) \<Rightarrow>
      case op_Now op w of (now, w) \<Rightarrow>
        admit_loop op catalog n (tl addresses)
          (admit_one (op_Config op) catalog (''rs-'' @ uuid) now
             (case addresses of [] \<Rightarrow> [] | addr # _ \<Rightarrow> addr) f) w)"

type_synonym 'w counted = "(int \<times> err option) \<times> 'w"

definition save_count :: "'w operator \<Rightarrow> fleet json config_map \<Rightarrow> fleet \<Rightarrow> int \<Rightarrow> 'w \<Rightarrow> 'w counted" where
  "save_count op cm f active w = (case saveFleet op cm f w of (e, w) \<Rightarrow> ((active, e), w))"

text \<open>The closure \<open>refuse\<close>: the granted slots go back and the reason is recorded.\<close>

definition refuse ::
    "'w operator \<Rightarrow> fleet json config_map \<Rightarrow> fleet \<Rightarrow> int \<Rightarrow> int \<Rightarrow> string \<Rightarrow> 'w \<Rightarrow> 'w counted" where
  "refuse op cm f active n reason w =
     save_count op cm ((unadmit f n)\<lparr>fl_Condition := reason\<rparr>) active w"

definition admit_batch ::
    "'w operator \<Rightarrow> fleet json config_map \<Rightarrow> fleet \<Rightarrow> int \<Rightarrow> int \<Rightarrow> catalog \<Rightarrow> string list \<Rightarrow> 'w \<Rightarrow> 'w counted" where
  "admit_batch op cm f active n catalog addresses w =
     (case admit_loop op catalog (nat n) addresses (f\<lparr>fl_Condition := ''DemandObserved''\<rparr>) w of
        (f, w) \<Rightarrow>
          (case saveFleet op cm f w of
             (Some e, w) \<Rightarrow> ((active, Some e), w)
           | (None, w) \<Rightarrow> ((active + n, None), w)))"

text \<open>From the overlay addresses on: all of them are found before any record is made.\<close>

definition admit_addressed ::
    "'w operator \<Rightarrow> fleet json config_map \<Rightarrow> fleet \<Rightarrow> allocation list \<Rightarrow> int \<Rightarrow> int \<Rightarrow> catalog \<Rightarrow> 'w \<Rightarrow> 'w counted" where
  "admit_addressed op cm f allocs active n catalog w =
     (if n > 0 \<and> cfg_NetworkProfile (op_Config op) \<noteq> [] then
        (case overlay_addresses (cfg_NetworkOverlayCIDRs (op_Config op)) (nat n)
                (overlay_taken (op_Config op) f allocs) of
           Inl _ \<Rightarrow> refuse op cm f active n ''OverlayAddressPoolExhausted'' w
         | Inr addresses \<Rightarrow> admit_batch op cm f active n catalog addresses w)
      else admit_batch op cm f active n catalog [] w)"

definition refresh_all :: "'w operator \<Rightarrow> catalog \<Rightarrow> 'w \<Rightarrow> catalog \<times> 'w" where
  "refresh_all op catalog w =
     (case refreshAWSPrices op catalog w of (catalog, w) \<Rightarrow>
      case refreshAzurePrices op catalog w of (catalog, w) \<Rightarrow> refreshGCPPrices op catalog w)"

definition admit_priced ::
    "'w operator \<Rightarrow> fleet json config_map \<Rightarrow> fleet \<Rightarrow> allocation list \<Rightarrow> int \<Rightarrow> int \<Rightarrow> 'w \<Rightarrow> 'w counted" where
  "admit_priced op cm f allocs active n w =
     (case op_catalog op w of
        (Inl _, w) \<Rightarrow>
          if n > 0 then refuse op cm f active n ''CatalogUnavailable'' w
          else admit_addressed op cm f allocs active n catalog_zero w
      | (Inr catalog, w) \<Rightarrow>
          (case refresh_all op catalog w of (catalog, w) \<Rightarrow>
             if n > 0 then
               (case op_Now op w of (now, w) \<Rightarrow>
                  (case Choose now (cfg_Requirements (op_Config op)) catalog [] of
                     Inl _ \<Rightarrow> refuse op cm f active n ''CatalogNotAdmissible'' w
                   | Inr _ \<Rightarrow> admit_addressed op cm f allocs active n catalog w))
             else admit_addressed op cm f allocs active n catalog w))"

definition admit_limited ::
    "'w operator \<Rightarrow> fleet json config_map \<Rightarrow> fleet \<Rightarrow> allocation list \<Rightarrow> int \<Rightarrow> int \<Rightarrow> 'w \<Rightarrow> 'w counted" where
  "admit_limited op cm f allocs active n w =
     (if n > 0 \<and> int (length (fl_Created f)) + n > 1000
      then ((active, Some (errors_New ''retained allocation limit reached; operator maintenance required'')), w)
      else admit_priced op cm f allocs active n w)"

text \<open>The budget check: the slots today's budget does not cover go back.\<close>

definition admit_budgeted ::
    "'w operator \<Rightarrow> fleet json config_map \<Rightarrow> fleet \<Rightarrow> allocation list \<Rightarrow> int \<Rightarrow> int \<Rightarrow> 'w \<Rightarrow> 'w counted" where
  "admit_budgeted op cm f allocs active n w =
     (if n > 0 \<and> cfg_BudgetDailyMicros (op_Config op) > 0 then
        (case op_Now op w of (now, w) \<Rightarrow>
           let k = affordable (op_Config op) f allocs now in
           if k < n then
             let f = unadmit f (n - k) in
             if k = 0 then save_count op cm (f\<lparr>fl_Condition := ''BudgetExhausted''\<rparr>) active w
             else admit_limited op cm f allocs active k w
           else admit_limited op cm f allocs active n w)
      else admit_limited op cm f allocs active n w)"

definition HandleDesiredRunnerCount :: "'w operator \<Rightarrow> int \<Rightarrow> 'w \<Rightarrow> 'w counted" where
  "HandleDesiredRunnerCount op demand w =
     (case loadFleet op w of
        (Inl e, w) \<Rightarrow> ((0, Some e), w)
      | (Inr (cm, f), w) \<Rightarrow>
          (case List_allocations (op_Store op) w of
             (Inl e, w) \<Rightarrow> ((0, Some e), w)
           | (Inr allocs, w) \<Rightarrow>
               (case release_loop allocs f 0 of (f, active) \<Rightarrow>
                  let active = active + unrepresented f allocs in
                  if op_paused op \<or> op_draining op then
                    save_count op cm (f\<lparr>fl_Condition :=
                      (if op_draining op then ''ScaleSetDeleting'' else ''AdmissionsSuspended'')\<rparr>) active w
                  else
                    (case admission_Reconcile (fl_Admission f) demand active
                            (cfg_MaxRunners (op_Config op)) (active = 0) of
                       (Inl e, _) \<Rightarrow> ((active, Some e), w)
                     | (Inr n, admission) \<Rightarrow>
                         admit_budgeted op cm (f\<lparr>fl_Admission := admission\<rparr>) allocs active n w))))"

end
