(* ===== verification/Operator_Tick.thy ===== *)
theory Operator_Tick
  imports Operator
begin

text \<open>
  The remaining handlers of \<open>internal/operator\<close>: job events, the interruption retries of \<open>retry.go\<close>,
  the reconciliation pass \<open>Tick\<close> with its concurrent steps, pruning, and the controls of
  \<open>control.go\<close>.
\<close>

section \<open>Job events\<close>

record job_started =
  js_RunnerName :: string
  js_WorkflowRunID :: int
  js_OwnerName :: string
  js_RepositoryName :: string
  js_JobID :: string

record job_completed =
  jc_RunnerName :: string

text \<open>Load, change and save one record; a record that is already gone is not an error.\<close>

definition update_record ::
    "'w operator \<Rightarrow> string \<Rightarrow> (allocation \<Rightarrow> allocation) \<Rightarrow> 'w \<Rightarrow> err option \<times> 'w" where
  "update_record op name change w =
     (case Load (op_Store op) name w of
        (Inl e, w) \<Rightarrow> (if errors_Is e StatusNotFound then None else Some e, w)
      | (Inr a, w) \<Rightarrow>
          let a = change a in
          (case Save (op_Store op) a (al_Revision a) w of
             (Inl e, w) \<Rightarrow> (Some e, w)
           | (Inr _, w) \<Rightarrow> (None, w)))"

definition start_job :: "job_started \<Rightarrow> allocation \<Rightarrow> allocation" where
  "start_job j a =
     (let a = a\<lparr>al_Ready := True\<rparr> in
      if al_RunID a = 0
      then a\<lparr>al_RunID := js_WorkflowRunID j, al_Owner := js_OwnerName j, al_Repo := js_RepositoryName j,
              al_ScaleSetJobID := js_JobID j\<rparr>
      else a)"

definition HandleJobStarted :: "'w operator \<Rightarrow> job_started option \<Rightarrow> 'w \<Rightarrow> err option \<times> 'w" where
  "HandleJobStarted op j w = (case j of
     None \<Rightarrow> (Some (errors_New ''nil job start''), w)
   | Some j \<Rightarrow> update_record op (js_RunnerName j) (start_job j) w)"

definition HandleJobCompleted :: "'w operator \<Rightarrow> job_completed option \<Rightarrow> 'w \<Rightarrow> err option \<times> 'w" where
  "HandleJobCompleted op j w = (case j of
     None \<Rightarrow> (Some (errors_New ''nil job completion''), w)
   | Some j \<Rightarrow> update_record op (jc_RunnerName j) (\<lambda>a. a\<lparr>al_Retire := True, al_Completed := True\<rparr>) w)"

section \<open>Interruption retries\<close>

definition rerunReconciliationPolls :: int where
  "rerunReconciliationPolls = 3"

datatype rerun_outcome = rerunStillAmbiguous | rerunConfirmedHappened | rerunConfirmedDidNotHappen

definition original_failure :: "pending_rerun \<Rightarrow> rest_job \<Rightarrow> bool" where
  "original_failure pr j \<longleftrightarrow>
     job_ID j = rr_JobID pr \<and> job_Status j = ''completed'' \<and> job_Conclusion j = ''failure''"

definition reconcilePendingRerun ::
    "'w jobs_ops \<Rightarrow> string \<Rightarrow> string \<Rightarrow> int \<Rightarrow> pending_rerun \<Rightarrow> 'w \<Rightarrow> (rerun_outcome \<times> pending_rerun) \<times> 'w" where
  "reconcilePendingRerun g owner repo runID pr w =
     (case jb_AttemptJobs g owner repo runID (rr_Attempt pr + 1) w of
        (Inr nextJobs, w) \<Rightarrow>
          ((if nextJobs \<noteq> [] then rerunConfirmedHappened else rerunStillAmbiguous, pr), w)
      | (Inl nextErr, w) \<Rightarrow>
          if \<not> errors_Is nextErr ErrAttemptNotFound then ((rerunStillAmbiguous, pr), w)
          else
            (case jb_AttemptJobs g owner repo runID (rr_Attempt pr) w of
               (Inl _, w) \<Rightarrow> ((rerunStillAmbiguous, pr), w)
             | (Inr originalJobs, w) \<Rightarrow>
                 if list_ex (original_failure pr) originalJobs then
                   let pr = pr\<lparr>rr_NotFoundPolls := rr_NotFoundPolls pr + 1\<rparr> in
                   ((if rr_NotFoundPolls pr \<ge> rerunReconciliationPolls
                     then rerunConfirmedDidNotHappen else rerunStillAmbiguous, pr), w)
                 else ((rerunStillAmbiguous, pr\<lparr>rr_NotFoundPolls := 0\<rparr>), w)))"

definition retry_candidate :: "allocation \<Rightarrow> bool" where
  "retry_candidate a \<longleftrightarrow> al_Phase a = Deleted \<and> al_Condition a = ''ResourceAbsentConfirmedInterruption''
     \<and> \<not> al_RetryProcessed a \<and> al_RunID a \<noteq> 0"

text \<open>Save a processed record; a lost race is left to the next pass.\<close>

definition save_processed :: "'w operator \<Rightarrow> allocation \<Rightarrow> 'w \<Rightarrow> err list \<times> 'w" where
  "save_processed op a w =
     (case Save (op_Store op) a (al_Revision a) w of
        (Inl e, w) \<Rightarrow> (if errors_Is e ErrConflict then [] else [e], w)
      | (Inr _, w) \<Rightarrow> ([], w))"

definition set_retries :: "fleet \<Rightarrow> int \<Rightarrow> int \<Rightarrow> fleet" where
  "set_retries f runID attempt = f\<lparr>fl_RetriesUsedByRun := AList.update runID attempt (fl_RetriesUsedByRun f)\<rparr>"

definition set_pending_rerun :: "fleet \<Rightarrow> int \<Rightarrow> pending_rerun \<Rightarrow> fleet" where
  "set_pending_rerun f runID pr = f\<lparr>fl_PendingReruns := AList.update runID pr (fl_PendingReruns f)\<rparr>"

definition clear_pending_rerun :: "fleet \<Rightarrow> int \<Rightarrow> fleet" where
  "clear_pending_rerun f runID = f\<lparr>fl_PendingReruns := AList.delete runID (fl_PendingReruns f)\<rparr>"

text \<open>The request itself and what its answer does to the fleet.\<close>

definition request_rerun ::
    "'w jobs_ops \<Rightarrow> allocation \<Rightarrow> int \<Rightarrow> rest_job \<Rightarrow> fleet \<Rightarrow> 'w \<Rightarrow> fleet \<times> 'w" where
  "request_rerun g a attempt j f w =
     (case jb_RerunFailedJobs g (al_Owner a) (al_Repo a) (al_RunID a) w of
        (None, w) \<Rightarrow> (set_retries f (al_RunID a) attempt, w)
      | (Some e, w) \<Rightarrow>
          if errors_Is e ErrRerunRejected then (f, w)
          else (set_pending_rerun f (al_RunID a)
                  \<lparr>rr_Attempt = attempt, rr_JobID = job_ID j, rr_NotFoundPolls = 0\<rparr>, w))"

definition retry_evidence :: "allocation \<Rightarrow> fleet \<Rightarrow> rest_job list \<Rightarrow> evidence" where
  "retry_evidence a f jobs = \<lparr>ev_ScaleSetJobID = al_ScaleSetJobID a, ev_RunnerName = al_ID a,
     ev_RunID = al_RunID a, ev_Attempt = map_get 0 (fl_RetriesUsedByRun f) (al_RunID a) + 1,
     ev_ProviderInterrupted = True, ev_Jobs = jobs,
     ev_RetriesUsed = map_get 0 (fl_RetriesUsedByRun f) (al_RunID a),
     ev_RequestPending = has_key (fl_PendingReruns f) (al_RunID a)\<rparr>"

definition evaluate_retry :: "'w operator \<Rightarrow> 'w jobs_ops \<Rightarrow> allocation \<Rightarrow> fleet \<Rightarrow> 'w \<Rightarrow> fleet \<times> 'w" where
  "evaluate_retry op g a f w =
     (let attempt = map_get 0 (fl_RetriesUsedByRun f) (al_RunID a) + 1 in
      case jb_AttemptJobs g (al_Owner a) (al_Repo a) (al_RunID a) attempt w of
        (Inl _, w) \<Rightarrow> (f, w)
      | (Inr jobs, w) \<Rightarrow>
          (case Eligible (cfg_Retry (op_Config op)) (retry_evidence a f jobs) of
             Inl _ \<Rightarrow> (f, w)
           | Inr j \<Rightarrow> request_rerun g a attempt j f w))"

definition mark_processed :: "fleet \<Rightarrow> allocation \<Rightarrow> allocation" where
  "mark_processed f a = (if has_key (fl_PendingReruns f) (al_RunID a) then a else a\<lparr>al_RetryProcessed := True\<rparr>)"

text \<open>Reconciling an earlier ambiguous request: the fleet, and whether it is known to have landed.\<close>

definition reconcile_earlier ::
    "'w jobs_ops \<Rightarrow> allocation \<Rightarrow> fleet \<Rightarrow> 'w \<Rightarrow> (bool \<times> fleet) \<times> 'w" where
  "reconcile_earlier g a f w =
     (case map_of (fl_PendingReruns f) (al_RunID a) of
        None \<Rightarrow> ((False, f), w)
      | Some pr \<Rightarrow>
          (case reconcilePendingRerun g (al_Owner a) (al_Repo a) (al_RunID a) pr w of
             ((rerunConfirmedHappened, resolved), w) \<Rightarrow>
               ((True, clear_pending_rerun (set_retries f (al_RunID a) (rr_Attempt resolved)) (al_RunID a)), w)
           | ((rerunConfirmedDidNotHappen, _), w) \<Rightarrow> ((False, clear_pending_rerun f (al_RunID a)), w)
           | ((rerunStillAmbiguous, resolved), w) \<Rightarrow> ((False, set_pending_rerun f (al_RunID a) resolved), w)))"

definition retry_one ::
    "'w operator \<Rightarrow> 'w jobs_ops \<Rightarrow> allocation \<Rightarrow> fleet \<Rightarrow> 'w \<Rightarrow> (err list \<times> fleet) \<times> 'w" where
  "retry_one op g a f w =
     (case reconcile_earlier g a f w of
        ((True, f), w) \<Rightarrow>
          (case save_processed op (a\<lparr>al_RetryProcessed := True\<rparr>) w of (es, w) \<Rightarrow> ((es, f), w))
      | ((False, f), w) \<Rightarrow>
          (case evaluate_retry op g a f w of (f, w) \<Rightarrow>
           case save_processed op (mark_processed f a) w of (es, w) \<Rightarrow> ((es, f), w)))"

fun retry_loop ::
    "'w operator \<Rightarrow> 'w jobs_ops \<Rightarrow> allocation list \<Rightarrow> fleet \<Rightarrow> 'w \<Rightarrow> (err list \<times> fleet) \<times> 'w" where
  "retry_loop op g [] f w = (([], f), w)"
| "retry_loop op g (a # as) f w =
     (case retry_one op g a f w of ((es, f), w) \<Rightarrow>
      case retry_loop op g as f w of ((es', f), w) \<Rightarrow> ((es @ es', f), w))"

definition processInterruptionRetries :: "'w operator \<Rightarrow> 'w \<Rightarrow> err option \<times> 'w" where
  "processInterruptionRetries op w = (case op_GitHubJobs op of
     None \<Rightarrow> (None, w)
   | Some g \<Rightarrow>
       if \<not> pol_Enabled (cfg_Retry (op_Config op)) then (None, w)
       else
         (case List_allocations (op_Store op) w of
            (Inl e, w) \<Rightarrow> (Some e, w)
          | (Inr allocs, w) \<Rightarrow>
              let pending = filter retry_candidate allocs in
              if pending = [] then (None, w)
              else
                (case loadFleet op w of
                   (Inl e, w) \<Rightarrow> (Some e, w)
                 | (Inr (cm, f), w) \<Rightarrow>
                     (case retry_loop op g pending f w of ((failures, f), w) \<Rightarrow>
                      case saveFleet op cm f w of
                        (Some e, w) \<Rightarrow> (errors_Join (failures @ [e]), w)
                      | (None, w) \<Rightarrow> (errors_Join failures, w)))))"

section \<open>Azure interruptions\<close>

definition interruption_map :: "queue_result list \<Rightarrow> (string, bool) gomap" where
  "interruption_map results = fold (\<lambda>r m.
     if qr_Err r \<noteq> None \<or> qr_ResourceID r = [] then m
     else AList.update (qr_ResourceID r) (map_true m (qr_ResourceID r) \<or> qr_Preempted r) m) results []"

definition pollAzureInterruptions :: "'w operator \<Rightarrow> 'w \<Rightarrow> (string, bool) gomap \<times> 'w" where
  "pollAzureInterruptions op w = (case op_AzureInterruptions op of
     None \<Rightarrow> ([], w)
   | Some poll \<Rightarrow>
       (case poll w of (Inl _, w) \<Rightarrow> ([], w) | (Inr results, w) \<Rightarrow> (interruption_map results, w)))"

definition applyAzureInterruptions :: "'w operator \<Rightarrow> (string, bool) gomap \<Rightarrow> 'w operator" where
  "applyAzureInterruptions op m = op\<lparr>op_AzureInterrupted :=
     fold (\<lambda>(name, cfg) im. if pc_Kind cfg \<noteq> ''azure'' then im
       else if has_key (op_Providers op) name then AList.update name m im else im)
       (cfg_Providers (op_Config op)) (op_AzureInterrupted op)\<rparr>"

section \<open>Pruning\<close>

definition terminalRetention :: duration where
  "terminalRetention = 24 * Hour"

definition prunable :: "time \<Rightarrow> fleet \<Rightarrow> allocation \<Rightarrow> bool" where
  "prunable now f a \<longleftrightarrow>
     \<not> (time_IsZero (al_TerminalAt a) \<or> time_Sub now (al_TerminalAt a) < terminalRetention)
     \<and> \<not> (al_Phase a \<noteq> TimedOut \<and> \<not> (al_Phase a = Deleted \<and> map_true (fl_Released f) (al_ID a)))"

text \<open>The verification loop: failures, the fleet with \<open>Pruned\<close> set, and the records to delete.\<close>

fun prune_loop ::
    "'w operator \<Rightarrow> (string \<Rightarrow> 'w \<Rightarrow> err option \<times> 'w) \<Rightarrow> allocation list \<Rightarrow> fleet \<Rightarrow> 'w
     \<Rightarrow> (err list \<times> fleet \<times> string list) \<times> 'w" where
  "prune_loop op dereg [] f w = (([], f, []), w)"
| "prune_loop op dereg (a # as) f w =
     (case (if time_IsZero (al_TerminalAt a) then (0, w) else op_Now op w) of (now, w) \<Rightarrow>
        if \<not> prunable now f a then prune_loop op dereg as f w
        else
          (case dereg (al_ID a) w of
             (Some e, w) \<Rightarrow>
               (case prune_loop op dereg as f w of ((es, f, ids), w) \<Rightarrow> ((e # es, f, ids), w))
           | (None, w) \<Rightarrow>
               (case prune_loop op dereg as (f\<lparr>fl_Pruned := AList.update (al_ID a) True (fl_Pruned f)\<rparr>) w of
                  ((es, f, ids), w) \<Rightarrow> ((es, f, al_ID a # ids), w))))"

fun delete_loop :: "'w operator \<Rightarrow> string list \<Rightarrow> 'w \<Rightarrow> err list \<times> 'w" where
  "delete_loop op [] w = ([], w)"
| "delete_loop op (name # names) w =
     (case Delete (op_Store op) name w of (e, w) \<Rightarrow>
      case delete_loop op names w of (es, w) \<Rightarrow> ((case e of None \<Rightarrow> es | Some e \<Rightarrow> e # es), w))"

definition pruneTerminalAllocations :: "'w operator \<Rightarrow> allocation list \<Rightarrow> 'w \<Rightarrow> err option \<times> 'w" where
  "pruneTerminalAllocations op allocs w = (case op_Runners op of
     None \<Rightarrow> (None, w)
   | Some dereg \<Rightarrow>
       (case loadFleet op w of
          (Inl e, w) \<Rightarrow> (Some e, w)
        | (Inr (cm, f), w) \<Rightarrow>
            (case prune_loop op dereg allocs f w of ((failures, f, toDelete), w) \<Rightarrow>
             case (if toDelete \<noteq> [] then saveFleet op cm f w else (None, w)) of
               (Some e, w) \<Rightarrow> (errors_Join (failures @ [e]), w)
             | (None, w) \<Rightarrow>
                 (case delete_loop op toDelete w of (es, w) \<Rightarrow> (errors_Join (failures @ es), w)))))"

section \<open>Tick\<close>

definition cooldownPeriod :: duration where
  "cooldownPeriod = 5 * Minute"

definition extend_cooldown :: "string \<times> time \<Rightarrow> (string, time) gomap \<Rightarrow> (string, time) gomap" where
  "extend_cooldown entry m = (case entry of (pool, until) \<Rightarrow>
     if time_After until (map_get 0 m pool) then AList.update pool until m else m)"

definition rejections :: "allocation \<Rightarrow> (string, time) gomap" where
  "rejections a = map (\<lambda>(pool, at). (pool, time_Add at cooldownPeriod)) (al_RejectedAt a)"

definition initial_cooldowns :: "allocation list \<Rightarrow> (string, time) gomap" where
  "initial_cooldowns allocs = fold extend_cooldown (concat (map rejections allocs)) []"

text \<open>Pending admissions become records; a record that exists already is a conflict and is kept.\<close>

fun materialize :: "'w operator \<Rightarrow> (string, allocation) gomap \<Rightarrow> fleet \<Rightarrow> 'w \<Rightarrow> (err + fleet) \<times> 'w" where
  "materialize op [] f w = (Inr f, w)"
| "materialize op ((name, a) # pending) f w =
     (case Save (op_Store op) (if op_draining op then a\<lparr>al_Retire := True\<rparr> else a) [] w of
        (Inl e, w) \<Rightarrow>
          if \<not> errors_Is e ErrConflict then (Inl e, w)
          else materialize op pending (f\<lparr>fl_Pending := AList.delete name (fl_Pending f)\<rparr>) w
      | (Inr _, w) \<Rightarrow> materialize op pending (f\<lparr>fl_Pending := AList.delete name (fl_Pending f)\<rparr>) w)"

record step_outcome =
  so_err :: "err option"
  so_cooldowns :: "(string, time) gomap"

text \<open>The body of a goroutine.\<close>

definition step_task :: "'w operator \<Rightarrow> string \<Rightarrow> 'w \<Rightarrow> step_outcome \<times> 'w" where
  "step_task op name w =
     (case Step (op_Controller op) name w of (e, w) \<Rightarrow>
      case Load (op_Store op) name w of
        (Inl _, w) \<Rightarrow> (\<lparr>so_err = e, so_cooldowns = []\<rparr>, w)
      | (Inr updated, w) \<Rightarrow> (\<lparr>so_err = e, so_cooldowns = rejections updated\<rparr>, w))"

text \<open>The body of the loop that starts them: an error, or the record is stepped.\<close>

definition before_step :: "'w operator \<Rightarrow> fleet \<Rightarrow> allocation \<Rightarrow> 'w \<Rightarrow> err option \<times> 'w" where
  "before_step op f a w =
     (case map_of (fl_Created f) (al_ID a) of
        None \<Rightarrow> (Some (errors_New ''allocation has no durable lifetime origin''), w)
      | Some created \<Rightarrow>
          if al_Retire a then (None, w)
          else
            (case (if op_draining op then (True, w)
                   else case op_Now op w of (now, w) \<Rightarrow>
                     (\<not> time_Before now (time_Add created (cfg_MaxLifetimeSeconds (op_Config op) * Second)), w)) of
               (retire, w) \<Rightarrow>
                 if retire then
                   (case Save (op_Store op) (a\<lparr>al_Retire := True\<rparr>) (al_Revision a) w of
                      (Inl e, w) \<Rightarrow> (Some e, w)
                    | (Inr _, w) \<Rightarrow> (None, w))
                 else (None, w)))"

definition tickStepConcurrency :: nat where
  "tickStepConcurrency = 20"

text \<open>
  The loop and the goroutines it has started but that have not run yet, under a schedule: a number
  \<open>Suc k\<close> runs a started goroutine (the \<open>k\<close>-th, counted cyclically), \<open>0\<close> or an exhausted schedule
  lets the loop go on. With \<open>tickStepConcurrency\<close> goroutines outstanding the loop waits, and after
  the loop the remaining ones run.
\<close>

definition pick :: "nat \<Rightarrow> 'a list \<Rightarrow> 'a \<times> 'a list" where
  "pick k xs = (let i = k mod length xs in (xs ! i, take i xs @ drop (Suc i) xs))"

lemma pick_length:
  assumes "pick k xs = (x, ys)" "xs \<noteq> []"
  shows "length ys < length xs"
proof -
  have "k mod length xs < length xs"
    using assms(2) by simp
  moreover have "length ys = k mod length xs + (length xs - Suc (k mod length xs))"
    using assms by (auto simp: pick_def Let_def)
  ultimately show ?thesis
    by linarith
qed

definition decide :: "nat list \<Rightarrow> 'a list \<Rightarrow> 'b list \<Rightarrow> nat option \<times> nat list" where
  "decide sched todo pool =
     (let next = (if todo \<noteq> [] \<and> length pool < tickStepConcurrency then None else Some 0)
      in case sched of
           [] \<Rightarrow> (next, [])
         | 0 # sched \<Rightarrow> (next, sched)
         | Suc k # sched \<Rightarrow> (if pool \<noteq> [] then Some k else next, sched))"

lemma decide_Some: "(Some k, s) = decide sched todo pool \<Longrightarrow> todo \<noteq> [] \<or> pool \<noteq> [] \<Longrightarrow> pool \<noteq> []"
  by (auto simp: decide_def Let_def tickStepConcurrency_def split: list.splits nat.splits if_splits)

function run_steps ::
    "'w operator \<Rightarrow> fleet \<Rightarrow> nat list \<Rightarrow> (nat \<times> allocation) list \<Rightarrow> (nat \<times> string) list
     \<Rightarrow> err list \<Rightarrow> (nat, step_outcome) gomap \<Rightarrow> 'w \<Rightarrow> (err list \<times> (nat, step_outcome) gomap) \<times> 'w" where
  "run_steps op f sched todo pool failures results w =
     (if todo = [] \<and> pool = [] then ((failures, results), w)
      else case decide sched todo pool of
          (Some k, sched) \<Rightarrow>
            (case pick k pool of ((i, name), pool) \<Rightarrow>
             case step_task op name w of (outcome, w) \<Rightarrow>
               run_steps op f sched todo pool failures (AList.update i outcome results) w)
        | (None, sched) \<Rightarrow>
            (case todo of
               [] \<Rightarrow> ((failures, results), w)
             | (i, a) # todo \<Rightarrow>
                 (case before_step op f a w of
                    (Some e, w) \<Rightarrow> run_steps op f sched todo pool (failures @ [e]) results w
                  | (None, w) \<Rightarrow> run_steps op f sched todo (pool @ [(i, al_ID a)]) failures results w)))"
  by pat_completeness auto
termination
  by (relation "measure (\<lambda>(op, f, sched, todo, pool, failures, results, w). 2 * length todo + length pool)")
    (auto dest!: decide_Some pick_length [OF sym])

declare run_steps.simps [simp del]

definition result_errors :: "(nat, step_outcome) gomap \<Rightarrow> nat \<Rightarrow> err list" where
  "result_errors results n = concat (map (\<lambda>i. case map_of results i of
     None \<Rightarrow> [] | Some r \<Rightarrow> (case so_err r of None \<Rightarrow> [] | Some e \<Rightarrow> [e])) [0..<n])"

definition result_cooldowns :: "(nat, step_outcome) gomap \<Rightarrow> nat \<Rightarrow> (string, time) gomap" where
  "result_cooldowns results n = concat (map (\<lambda>i. case map_of results i of
     None \<Rightarrow> [] | Some r \<Rightarrow> so_cooldowns r) [0..<n])"

definition opt_list :: "err option \<Rightarrow> err list" where
  "opt_list e = (case e of None \<Rightarrow> [] | Some e \<Rightarrow> [e])"

text \<open>From the list of records on; the operator's cooldowns and interruption maps are its result.\<close>

definition tick_records ::
    "'w operator \<Rightarrow> nat list \<Rightarrow> fleet \<Rightarrow> allocation list \<Rightarrow> 'w \<Rightarrow> (err option \<times> 'w operator) \<times> 'w" where
  "tick_records op sched f allocs w =
     (case pollAzureInterruptions (op\<lparr>op_Cooldowns := initial_cooldowns allocs\<rparr>) w of (m, w) \<Rightarrow>
      let op = applyAzureInterruptions (op\<lparr>op_Cooldowns := initial_cooldowns allocs\<rparr>) m in
      case run_steps op f sched (zip [0..<length allocs] allocs) [] [] [] w of
        ((failures, results), w) \<Rightarrow>
          let failures = failures @ result_errors results (length allocs);
              op = op\<lparr>op_Cooldowns := fold extend_cooldown (result_cooldowns results (length allocs)) (op_Cooldowns op)\<rparr>
          in case processInterruptionRetries op w of (retryErr, w) \<Rightarrow>
             case pruneTerminalAllocations op allocs w of (pruneErr, w) \<Rightarrow>
               ((errors_Join (failures @ opt_list retryErr @ opt_list pruneErr), op), w))"

text \<open>The first part of a pass: pending admissions become records, then the fleet is saved.\<close>

definition tick_commit :: "'w operator \<Rightarrow> 'w \<Rightarrow> (err + fleet) \<times> 'w" where
  "tick_commit op w =
     (case loadFleet op w of
        (Inl e, w) \<Rightarrow> (Inl e, w)
      | (Inr (cm, f), w) \<Rightarrow>
          (case materialize op (fl_Pending f) f w of
             (Inl e, w) \<Rightarrow> (Inl e, w)
           | (Inr f, w) \<Rightarrow>
               (case saveFleet op cm f w of
                  (Some e, w) \<Rightarrow> (Inl e, w)
                | (None, w) \<Rightarrow> (Inr f, w))))"

definition Tick :: "'w operator \<Rightarrow> nat list \<Rightarrow> 'w \<Rightarrow> (err option \<times> 'w operator) \<times> 'w" where
  "Tick op sched w =
     (case tick_commit op w of
        (Inl e, w) \<Rightarrow> ((Some e, op), w)
      | (Inr f, w) \<Rightarrow>
          (case List_allocations (op_Store op) w of
             (Inl e, w) \<Rightarrow> ((Some e, op), w)
           | (Inr allocs, w) \<Rightarrow> tick_records op sched f allocs w))"

section \<open>Controls\<close>

definition PauseAdmissions :: "'w operator \<Rightarrow> bool \<Rightarrow> 'w operator" where
  "PauseAdmissions op paused = op\<lparr>op_paused := paused\<rparr>"

definition Drain :: "'w operator \<Rightarrow> 'w operator" where
  "Drain op = op\<lparr>op_draining := True, op_paused := True\<rparr>"

fun drained_records :: "fleet \<Rightarrow> allocation list \<Rightarrow> err + bool" where
  "drained_records f [] = Inr True"
| "drained_records f (a # as) =
     (if \<not> has_key (fl_Created f) (al_ID a) then Inl (errors_New ''allocation has no durable lifetime origin'')
      else if \<not> terminal (al_Phase a) then Inr False
      else drained_records f as)"

definition Drained :: "'w operator \<Rightarrow> 'w \<Rightarrow> (err + bool) \<times> 'w" where
  "Drained op w =
     (case readFleet op False w of
        (Inl e, w) \<Rightarrow> (Inl e, w)
      | (Inr (_, f), w) \<Rightarrow>
          if fl_Pending f \<noteq> [] then (Inr False, w)
          else
            (case List_allocations (op_Store op) w of
               (Inl e, w) \<Rightarrow> (Inl e, w)
             | (Inr allocs, w) \<Rightarrow>
                 (case drained_records f allocs of
                    Inl e \<Rightarrow> Inl e
                  | Inr False \<Rightarrow> Inr False
                  | Inr True \<Rightarrow> Inr (list_all (\<lambda>name. List.member (map al_ID allocs) name
                      \<or> map_true (fl_Pruned f) name) (keys (fl_Created f))), w)))"

section \<open>The runner registry\<close>

record 'w registry =
  rg_GetRunnerByName :: "string \<Rightarrow> 'w \<Rightarrow> (err + int option) \<times> 'w"
  rg_RemoveRunner :: "int \<Rightarrow> 'w \<Rightarrow> err option \<times> 'w"

definition DeregisterRunner :: "'w registry option \<Rightarrow> string \<Rightarrow> 'w \<Rightarrow> err option \<times> 'w" where
  "DeregisterRunner client name w = (case client of
     None \<Rightarrow> (None, w)
   | Some c \<Rightarrow>
       (case rg_GetRunnerByName c name w of
          (Inl e, w) \<Rightarrow> (Some e, w)
        | (Inr None, w) \<Rightarrow> (None, w)
        | (Inr (Some i), w) \<Rightarrow> rg_RemoveRunner c i w))"

end
