(* ===== verification/Operator_Admission.thy ===== *)
theory Operator_Admission
  imports Operator_Tick
begin

text \<open>
  What \<open>HandleDesiredRunnerCount\<close> writes. Its successful outcomes are described by one inductive
  predicate (suspended, refused, admitted); the capacity, budget, overlay-address and accounting
  properties follow from it by cases.
\<close>

section \<open>The outcomes of a demand message\<close>

type_synonym entry = "string \<times> time \<times> string"

definition admit_all :: "config \<Rightarrow> catalog \<Rightarrow> entry list \<Rightarrow> fleet \<Rightarrow> fleet" where
  "admit_all c catalog entries f =
     fold (\<lambda>(name, now, address). admit_one c catalog name now address) entries f"

definition entry_address :: "entry \<Rightarrow> string" where
  "entry_address e = snd (snd e)"

lemma entry_address_simp [simp]: "entry_address (name, now, address) = address"
  by (simp add: entry_address_def)

text \<open>The instants the operator's clock can report.\<close>

definition reading :: "'w operator \<Rightarrow> time \<Rightarrow> bool" where
  "reading op t \<longleftrightarrow> (\<exists>w. t = fst (op_Now op w))"

definition entry_time :: "entry \<Rightarrow> time" where
  "entry_time e = fst (snd e)"

lemma entry_time_simp [simp]: "entry_time (name, now, address) = now"
  by (simp add: entry_time_def)

inductive demand_outcome ::
    "'w operator \<Rightarrow> fleet \<Rightarrow> allocation list \<Rightarrow> int \<Rightarrow> int \<Rightarrow> int \<Rightarrow> fleet \<Rightarrow> bool"
  for op f allocs active demand where
  Suspended: "op_paused op \<or> op_draining op \<Longrightarrow>
    demand_outcome op f allocs active demand active (f\<lparr>fl_Condition := reason\<rparr>)"
| Refused: "\<not> op_paused op \<Longrightarrow> \<not> op_draining op \<Longrightarrow>
    admission_Reconcile (fl_Admission f) demand active (cfg_MaxRunners (op_Config op)) (active = 0) = (Inr n, adm) \<Longrightarrow>
    demand_outcome op f allocs active demand active
      ((unadmit (f\<lparr>fl_Admission := adm\<rparr>) n)\<lparr>fl_Condition := reason\<rparr>)"
| Admitted: "\<not> op_paused op \<Longrightarrow> \<not> op_draining op \<Longrightarrow>
    admission_Reconcile (fl_Admission f) demand active (cfg_MaxRunners (op_Config op)) (active = 0) = (Inr n, adm) \<Longrightarrow>
    0 \<le> k \<Longrightarrow> k \<le> n \<Longrightarrow>
    (0 < k \<Longrightarrow> 0 < cfg_BudgetDailyMicros (op_Config op) \<Longrightarrow>
       reading op checked \<and> k \<le> affordable (op_Config op) f allocs checked) \<Longrightarrow>
    (0 < k \<Longrightarrow> int (length (fl_Created f)) + k \<le> 1000) \<Longrightarrow>
    (0 < k \<Longrightarrow> Choose chosen (cfg_Requirements (op_Config op)) catalog [] = Inr offering) \<Longrightarrow>
    length entries = nat k \<Longrightarrow> list_all (\<lambda>e. reading op (entry_time e)) entries \<Longrightarrow>
    (0 < k \<Longrightarrow> cfg_NetworkProfile (op_Config op) \<noteq> [] \<Longrightarrow>
       overlay_addresses (cfg_NetworkOverlayCIDRs (op_Config op)) (nat k) (overlay_taken (op_Config op) f allocs)
         = Inr (map entry_address entries)) \<Longrightarrow>
    demand_outcome op f allocs active demand (active + k)
      (admit_all (op_Config op) catalog entries
         ((unadmit (f\<lparr>fl_Admission := adm\<rparr>) (n - k))\<lparr>fl_Condition := ''DemandObserved''\<rparr>))"

section \<open>From the code to its outcomes\<close>

lemma save_count_None:
  "save_count op cm f active w = ((r, None), w') \<longleftrightarrow> r = active \<and> saveFleet op cm f w = (None, w')"
  by (auto simp: save_count_def split: prod.splits)

lemma refuse_None:
  "refuse op cm f active n reason w = ((r, None), w') \<longleftrightarrow>
     r = active \<and> saveFleet op cm ((unadmit f n)\<lparr>fl_Condition := reason\<rparr>) w = (None, w')"
  by (simp add: refuse_def save_count_None)

lemma admit_loop_entries:
  assumes "admit_loop op catalog n addresses f w = (f', w')"
  shows "\<exists>entries. length entries = n \<and> list_all (\<lambda>e. reading op (entry_time e)) entries
    \<and> f' = admit_all (op_Config op) catalog entries f
    \<and> (length addresses = n \<longrightarrow> map entry_address entries = addresses)"
  using assms
proof (induction n arbitrary: addresses f w)
  case 0
  then show ?case by (simp add: admit_all_def)
next
  case (Suc n)
  obtain uuid w1 where u: "op_NewString op w = (uuid, w1)" by force
  obtain now w2 where t: "op_Now op w1 = (now, w2)" by force
  let ?addr = "case addresses of [] \<Rightarrow> [] | addr # _ \<Rightarrow> addr"
  have "admit_loop op catalog n (tl addresses)
      (admit_one (op_Config op) catalog (''rs-'' @ uuid) now ?addr f) w2 = (f', w')"
    using Suc.prems by (simp add: u t)
  from Suc.IH [OF this] obtain entries where
    "length entries = n" "list_all (\<lambda>e. reading op (entry_time e)) entries"
    "f' = admit_all (op_Config op) catalog entries (admit_one (op_Config op) catalog (''rs-'' @ uuid) now ?addr f)"
    "length (tl addresses) = n \<longrightarrow> map entry_address entries = tl addresses"
    by blast
  moreover have "reading op now"
    unfolding reading_def using t by (metis fst_conv)
  ultimately show ?case
    by (intro exI [of _ "(''rs-'' @ uuid, now, ?addr) # entries"])
      (cases addresses; simp add: admit_all_def)
qed

lemma overlay_addresses_length: "overlay_addresses cidrs n taken = Inr addrs \<Longrightarrow> length addrs = n"
  by (induction n arbitrary: taken addrs) (auto split: sum.splits)

lemma admit_batch_None:
  assumes "admit_batch op cm f active n catalog addresses w = ((r, None), w')"
  obtains entries w1 where "length entries = nat n" "list_all (\<lambda>e. reading op (entry_time e)) entries" "r = active + n"
    "saveFleet op cm (admit_all (op_Config op) catalog entries (f\<lparr>fl_Condition := ''DemandObserved''\<rparr>)) w1 = (None, w')"
    "length addresses = nat n \<Longrightarrow> map entry_address entries = addresses"
proof -
  obtain f1 w1 where loop: "admit_loop op catalog (nat n) addresses (f\<lparr>fl_Condition := ''DemandObserved''\<rparr>) w = (f1, w1)"
    by force
  from admit_loop_entries [OF this] obtain entries where
    entries: "length entries = nat n" "list_all (\<lambda>e. reading op (entry_time e)) entries" "f1 = admit_all (op_Config op) catalog entries (f\<lparr>fl_Condition := ''DemandObserved''\<rparr>)"
    "length addresses = nat n \<longrightarrow> map entry_address entries = addresses"
    by blast
  from assms loop have "saveFleet op cm f1 w1 = (None, w')" "r = active + n"
    by (auto simp: admit_batch_def split: prod.splits option.splits)
  with entries show thesis
    by (intro that [of entries w1]) auto
qed

text \<open>The part of the handler after the budget check, for the slots \<open>k\<close> that are left.\<close>

definition batch_outcome ::
    "'w operator \<Rightarrow> fleet \<Rightarrow> allocation list \<Rightarrow> int \<Rightarrow> int \<Rightarrow> int \<Rightarrow> fleet \<Rightarrow> bool" where
  "batch_outcome op f allocs active k r f' \<longleftrightarrow>
     (r = active \<and> (\<exists>reason. f' = (unadmit f k)\<lparr>fl_Condition := reason\<rparr>))
   \<or> (r = active + k \<and> (0 < k \<longrightarrow> int (length (fl_Created f)) + k \<le> 1000)
      \<and> (\<exists>catalog entries. (0 < k \<longrightarrow> (\<exists>chosen offering.
             Choose chosen (cfg_Requirements (op_Config op)) catalog [] = Inr offering))
          \<and> length entries = nat k \<and> list_all (\<lambda>e. reading op (entry_time e)) entries
          \<and> (0 < k \<longrightarrow> cfg_NetworkProfile (op_Config op) \<noteq> [] \<longrightarrow>
               overlay_addresses (cfg_NetworkOverlayCIDRs (op_Config op)) (nat k)
                 (overlay_taken (op_Config op) f allocs) = Inr (map entry_address entries))
          \<and> f' = admit_all (op_Config op) catalog entries (f\<lparr>fl_Condition := ''DemandObserved''\<rparr>)))"

lemma admit_addressed_None:
  assumes run: "admit_addressed op cm f allocs active k catalog w = ((r, None), w')"
    and chosen: "0 < k \<Longrightarrow> Choose now (cfg_Requirements (op_Config op)) catalog [] = Inr offering"
    and limit: "0 < k \<Longrightarrow> int (length (fl_Created f)) + k \<le> 1000"
  shows "\<exists>w1 f'. saveFleet op cm f' w1 = (None, w') \<and> batch_outcome op f allocs active k r f'"
proof (cases "0 < k \<and> cfg_NetworkProfile (op_Config op) \<noteq> []")
  case True
  show ?thesis
  proof (cases "overlay_addresses (cfg_NetworkOverlayCIDRs (op_Config op)) (nat k) (overlay_taken (op_Config op) f allocs)")
    case (Inl e)
    with run True show ?thesis
      by (auto simp: admit_addressed_def refuse_None batch_outcome_def)
  next
    case (Inr addresses)
    with run True have "admit_batch op cm f active k catalog addresses w = ((r, None), w')"
      by (simp add: admit_addressed_def)
    then obtain entries w1 where "length entries = nat k" "list_all (\<lambda>e. reading op (entry_time e)) entries" "r = active + k"
      "saveFleet op cm (admit_all (op_Config op) catalog entries (f\<lparr>fl_Condition := ''DemandObserved''\<rparr>)) w1 = (None, w')"
      "map entry_address entries = addresses"
      by (rule admit_batch_None) (use overlay_addresses_length [OF Inr] in blast)
    with Inr chosen limit show ?thesis
      unfolding batch_outcome_def by blast
  qed
next
  case False
  with run have "admit_batch op cm f active k catalog [] w = ((r, None), w')"
    by (auto simp: admit_addressed_def)
  then obtain entries w1 where "length entries = nat k" "list_all (\<lambda>e. reading op (entry_time e)) entries" "r = active + k"
    "saveFleet op cm (admit_all (op_Config op) catalog entries (f\<lparr>fl_Condition := ''DemandObserved''\<rparr>)) w1 = (None, w')"
    by (rule admit_batch_None)
  with False chosen limit show ?thesis
    unfolding batch_outcome_def by blast
qed

lemma admit_limited_None:
  assumes "admit_limited op cm f allocs active k w = ((r, None), w')"
  shows "\<exists>w1 f'. saveFleet op cm f' w1 = (None, w') \<and> batch_outcome op f allocs active k r f'"
proof -
  from assms have limit: "0 < k \<Longrightarrow> int (length (fl_Created f)) + k \<le> 1000"
    and run: "admit_priced op cm f allocs active k w = ((r, None), w')"
    by (auto simp: admit_limited_def split: if_splits)
  obtain answer w1 where cat: "op_catalog op w = (answer, w1)" by force
  show ?thesis
  proof (cases answer)
    case (Inl e)
    show ?thesis
    proof (cases "0 < k")
      case True
      with run cat Inl show ?thesis
        by (auto simp: admit_priced_def refuse_None batch_outcome_def)
    next
      case False
      with run cat Inl have "admit_addressed op cm f allocs active k catalog_zero w1 = ((r, None), w')"
        by (simp add: admit_priced_def)
      then show ?thesis
        by (rule admit_addressed_None) (use False in simp_all)
    qed
  next
    case (Inr c0)
    obtain c1 w2 where ref: "refresh_all op c0 w1 = (c1, w2)" by force
    obtain now w3 where t: "op_Now op w2 = (now, w3)" by force
    show ?thesis
    proof (cases "0 < k")
      case pos: True
      show ?thesis
      proof (cases "Choose now (cfg_Requirements (op_Config op)) c1 []")
        case (Inl e)
        with run cat Inr ref t pos show ?thesis
          by (auto simp: admit_priced_def refuse_None batch_outcome_def)
      next
        case chosen: (Inr offering)
        with run cat Inr ref t pos have "admit_addressed op cm f allocs active k c1 w3 = ((r, None), w')"
          by (simp add: admit_priced_def)
        then show ?thesis
          by (rule admit_addressed_None [where now = now and offering = offering]) (use chosen limit in simp_all)
      qed
    next
      case False
      with run cat Inr ref t have "admit_addressed op cm f allocs active k c1 w2 = ((r, None), w')"
        by (simp add: admit_priced_def)
      then show ?thesis
        by (rule admit_addressed_None) (use False in simp_all)
    qed
  qed
qed

lemma unadmit_unadmit: "unadmit (unadmit f a) b = unadmit f (a + b)"
  by (simp add: unadmit_def algebra_simps)

lemma unadmit_zero [simp]: "unadmit f 0 = f"
  by (simp add: unadmit_def)

lemma spentToday_cong:
  "fl_Reserved f = fl_Reserved g \<Longrightarrow> fl_Created f = fl_Created g \<Longrightarrow> spentToday f allocs now = spentToday g allocs now"
  by (simp add: spentToday_def cong: if_cong)

lemma affordable_cong:
  "fl_Reserved f = fl_Reserved g \<Longrightarrow> fl_Created f = fl_Created g \<Longrightarrow> affordable c f allocs now = affordable c g allocs now"
  by (simp add: affordable_def spentToday_cong [of f g])

lemma overlay_taken_cong:
  "fl_Pending f = fl_Pending g \<Longrightarrow> overlay_taken c f allocs = overlay_taken c g allocs"
  by (simp add: overlay_taken_def)

lemma go_div_nonneg_ge: "0 < a \<Longrightarrow> 0 < b \<Longrightarrow> 0 \<le> go_div a b"
  by (simp add: go_div_nonneg pos_imp_zdiv_nonneg_iff)

lemma affordable_nonneg: "0 \<le> affordable c f allocs now"
  by (simp add: affordable_def Let_def go_div_nonneg_ge)

text \<open>The handler runs a batch for the slots the budget leaves, out of those it was granted.\<close>

lemma admit_budgeted_None:
  assumes run: "admit_budgeted op cm f allocs active n w = ((r, None), w')" and n: "0 \<le> n"
  shows "\<exists>w1 f' k. saveFleet op cm f' w1 = (None, w') \<and> 0 \<le> k \<and> k \<le> n
    \<and> (0 < k \<longrightarrow> 0 < cfg_BudgetDailyMicros (op_Config op) \<longrightarrow>
         (\<exists>t. reading op t \<and> k \<le> affordable (op_Config op) f allocs t))
    \<and> batch_outcome op (unadmit f (n - k)) allocs active k r f'"
proof (cases "0 < n \<and> 0 < cfg_BudgetDailyMicros (op_Config op)")
  case True
  obtain now w1 where t: "op_Now op w = (now, w1)" by force
  let ?k = "affordable (op_Config op) f allocs now"
  have now: "reading op now"
    unfolding reading_def using t by (metis fst_conv)
  show ?thesis
  proof (cases "?k < n")
    case cut: True
    show ?thesis
    proof (cases "?k = 0")
      case zero: True
      with run True t cut have "r = active"
        "saveFleet op cm ((unadmit f n)\<lparr>fl_Condition := ''BudgetExhausted''\<rparr>) w1 = (None, w')"
        by (simp_all add: admit_budgeted_def Let_def save_count_None)
      then show ?thesis
        using n by (intro exI [of _ w1] exI [of _ "(unadmit f n)\<lparr>fl_Condition := ''BudgetExhausted''\<rparr>"] exI [of _ 0])
          (auto simp: batch_outcome_def)
    next
      case False
      with run True t cut have "admit_limited op cm (unadmit f (n - ?k)) allocs active ?k w1 = ((r, None), w')"
        by (simp add: admit_budgeted_def Let_def)
      from admit_limited_None [OF this] show ?thesis
        using cut now affordable_nonneg [of "op_Config op" f allocs now] by (meson less_imp_le order_refl)
    qed
  next
    case False
    with run True t have "admit_limited op cm f allocs active n w1 = ((r, None), w')"
      by (simp add: admit_budgeted_def Let_def)
    from admit_limited_None [OF this] obtain w2 f' where
      "saveFleet op cm f' w2 = (None, w')" "batch_outcome op f allocs active n r f'" by blast
    with False n now show ?thesis
      by (intro exI [of _ w2] exI [of _ f'] exI [of _ n]) (auto intro!: exI [of _ now])
  qed
next
  case False
  with run have "admit_limited op cm f allocs active n w = ((r, None), w')"
    by (auto simp: admit_budgeted_def)
  from admit_limited_None [OF this] obtain w2 f' where
    "saveFleet op cm f' w2 = (None, w')" "batch_outcome op f allocs active n r f'" by blast
  with False n show ?thesis
    by (intro exI [of _ w2] exI [of _ f'] exI [of _ n]) auto
qed

lemma unadmit_fields [simp]:
  "fl_Created (unadmit f n) = fl_Created f" "fl_Reserved (unadmit f n) = fl_Reserved f"
  "fl_Pending (unadmit f n) = fl_Pending f" "fl_Released (unadmit f n) = fl_Released f"
  "fl_Pruned (unadmit f n) = fl_Pruned f"
  by (simp_all add: unadmit_def)

lemma batch_demand_outcome:
  assumes "\<not> op_paused op" "\<not> op_draining op"
    and "admission_Reconcile (fl_Admission f) demand active (cfg_MaxRunners (op_Config op)) (active = 0) = (Inr n, adm)"
    and k: "0 \<le> k" "k \<le> n"
    and budget: "0 < k \<longrightarrow> 0 < cfg_BudgetDailyMicros (op_Config op) \<longrightarrow>
      (\<exists>t. reading op t \<and> k \<le> affordable (op_Config op) (f\<lparr>fl_Admission := adm\<rparr>) allocs t)"
    and batch: "batch_outcome op (unadmit (f\<lparr>fl_Admission := adm\<rparr>) (n - k)) allocs active k r f'"
  shows "demand_outcome op f allocs active demand r f'"
proof -
  let ?f = "unadmit (f\<lparr>fl_Admission := adm\<rparr>) (n - k)"
  from batch consider
      (refused) reason where "r = active" "f' = (unadmit ?f k)\<lparr>fl_Condition := reason\<rparr>"
    | (admitted) catalog entries where "r = active + k"
        "0 < k \<longrightarrow> int (length (fl_Created ?f)) + k \<le> 1000"
        "0 < k \<longrightarrow> (\<exists>chosen offering. Choose chosen (cfg_Requirements (op_Config op)) catalog [] = Inr offering)"
        "length entries = nat k" "list_all (\<lambda>e. reading op (entry_time e)) entries"
        "0 < k \<longrightarrow> cfg_NetworkProfile (op_Config op) \<noteq> [] \<longrightarrow>
           overlay_addresses (cfg_NetworkOverlayCIDRs (op_Config op)) (nat k)
             (overlay_taken (op_Config op) ?f allocs) = Inr (map entry_address entries)"
        "f' = admit_all (op_Config op) catalog entries (?f\<lparr>fl_Condition := ''DemandObserved''\<rparr>)"
    unfolding batch_outcome_def by blast
  then show ?thesis
  proof cases
    case refused
    then show ?thesis
      using demand_outcome.Refused [OF assms(1-3)] by (simp add: unadmit_unadmit)
  next
    case admitted
    obtain t where t: "0 < k \<Longrightarrow> 0 < cfg_BudgetDailyMicros (op_Config op) \<Longrightarrow>
        reading op t \<and> k \<le> affordable (op_Config op) f allocs t"
      using budget affordable_cong [of "f\<lparr>fl_Admission := adm\<rparr>" f] by force
    obtain chosen offering where "0 < k \<Longrightarrow> Choose chosen (cfg_Requirements (op_Config op)) catalog [] = Inr offering"
      using admitted(3) by blast
    from demand_outcome.Admitted [OF assms(1-3) k t _ this, of entries] admitted show ?thesis
      by (simp add: overlay_taken_cong [of ?f f])
  qed
qed

text \<open>The live allocations: records in a non-terminal phase and admissions without a record.\<close>

definition live :: "fleet \<Rightarrow> allocation list \<Rightarrow> int" where
  "live f allocs = int (length (filter (\<lambda>a. \<not> terminal (al_Phase a)) allocs)) + unrepresented f allocs"

definition released :: "fleet \<Rightarrow> allocation list \<Rightarrow> fleet" where
  "released f allocs = fst (release_loop allocs f 0)"

lemma release_loop_active:
  "snd (release_loop allocs f active) = active + int (length (filter (\<lambda>a. \<not> terminal (al_Phase a)) allocs))"
  by (induction allocs f active rule: release_loop.induct) auto

lemma release_loop_fst: "fst (release_loop allocs f active) = fst (release_loop allocs f active')"
  by (induction allocs arbitrary: f active active') simp_all

lemma release_slot_fields [simp]:
  "fl_Created (release_slot f a) = fl_Created f" "fl_Reserved (release_slot f a) = fl_Reserved f"
  "fl_Pending (release_slot f a) = fl_Pending f" "fl_Pruned (release_slot f a) = fl_Pruned f"
  by (simp_all add: release_slot_def)

lemma release_loop_fields:
  "fl_Created (fst (release_loop allocs f active)) = fl_Created f \<and>
   fl_Reserved (fst (release_loop allocs f active)) = fl_Reserved f \<and>
   fl_Pending (fst (release_loop allocs f active)) = fl_Pending f \<and>
   fl_Pruned (fst (release_loop allocs f active)) = fl_Pruned f"
  by (induction allocs f active rule: release_loop.induct) auto

lemma released_fields [simp]:
  "fl_Created (released f allocs) = fl_Created f" "fl_Reserved (released f allocs) = fl_Reserved f"
  "fl_Pending (released f allocs) = fl_Pending f" "fl_Pruned (released f allocs) = fl_Pruned f"
  using release_loop_fields [of allocs f 0] by (simp_all add: released_def)

lemma HandleDesiredRunnerCount_None:
  assumes "HandleDesiredRunnerCount op demand w = ((r, None), w')"
  obtains cm f allocs w1 w2 w3 f' where "loadFleet op w = (Inr (cm, f), w1)"
    "List_allocations (op_Store op) w1 = (Inr allocs, w2)" "saveFleet op cm f' w3 = (None, w')"
    "demand_outcome op (released f allocs) allocs (live f allocs) demand r f'"
proof -
  from assms obtain cm f w1 where load: "loadFleet op w = (Inr (cm, f), w1)"
    by (auto simp: HandleDesiredRunnerCount_def split: prod.splits sum.splits)
  with assms obtain allocs w2 where list: "List_allocations (op_Store op) w1 = (Inr allocs, w2)"
    by (auto simp: HandleDesiredRunnerCount_def split: prod.splits sum.splits)
  let ?f = "released f allocs" and ?active = "live f allocs"
  have loop: "release_loop allocs f 0 =
      (?f, int (length (filter (\<lambda>a. \<not> terminal (al_Phase a)) allocs)))"
    using release_loop_active [of allocs f 0] by (simp add: released_def prod_eq_iff)
  have active: "int (length (filter (\<lambda>a. \<not> terminal (al_Phase a)) allocs)) + unrepresented ?f allocs = ?active"
    by (simp add: live_def unrepresented_def)
  show thesis
  proof (cases "op_paused op \<or> op_draining op")
    case True
    with assms load list loop active obtain reason where "r = ?active"
      "saveFleet op cm (?f\<lparr>fl_Condition := reason\<rparr>) w2 = (None, w')"
      by (auto simp: HandleDesiredRunnerCount_def Let_def save_count_None)
    with True load list show thesis
      by (intro that) (auto intro: demand_outcome.Suspended)
  next
    case False
    obtain answer adm where rec: "admission_Reconcile (fl_Admission ?f) demand ?active
        (cfg_MaxRunners (op_Config op)) (?active = 0) = (answer, adm)" by force
    with assms load list loop active False obtain n where n: "answer = Inr n"
      and run: "admit_budgeted op cm (?f\<lparr>fl_Admission := adm\<rparr>) allocs ?active n w2 = ((r, None), w')"
      by (auto simp: HandleDesiredRunnerCount_def Let_def split: sum.splits)
    have "0 \<le> n"
      using granted_bounds(1) rec n by (auto simp: admission_Reconcile_def Let_def split: if_splits)
    from admit_budgeted_None [OF run this] obtain w3 f' k where
      "saveFleet op cm f' w3 = (None, w')" "0 \<le> k" "k \<le> n"
      "0 < k \<longrightarrow> 0 < cfg_BudgetDailyMicros (op_Config op) \<longrightarrow>
        (\<exists>t. reading op t \<and> k \<le> affordable (op_Config op) (?f\<lparr>fl_Admission := adm\<rparr>) allocs t)"
      "batch_outcome op (unadmit (?f\<lparr>fl_Admission := adm\<rparr>) (n - k)) allocs ?active k r f'"
      by blast
    with batch_demand_outcome [of op ?f demand ?active n adm k allocs r f'] rec n False load list
    show thesis by (intro that) auto
  qed
qed

end
