(* ===== verification/Operator_Demo.thy ===== *)
theory Operator_Demo
  imports Operator_Tick
begin

text \<open>A concrete operator, on which the properties are instantiated.\<close>

definition demo_pool :: offering where
  "demo_pool = offering_zero\<lparr>off_ID := ''p1'', off_Provider := ''aws'', off_Region := ''eu'', off_Zone := ''a'',
     off_Machine := ''m'', off_Image := ''i'', off_CPU := 2, off_MemoryMiB := 4096, off_Architecture := ''amd64'',
     off_Spot := True, off_PriceMicros := 20000, off_Currency := ''USD'', off_ObservedAt := 1000\<rparr>"

definition demo_class :: requirements where
  "demo_class = \<lparr>req_CPU = 2, req_MemoryMiB = 4096, req_Architecture = ''amd64'', req_Vendor = [],
     req_Capabilities = [], req_Providers = [''aws''], req_Regions = [''eu''], req_MaxPriceMicros = 36000,
     req_AllowOnDemand = False, req_Policy = ''lowest-price''\<rparr>"

definition demo_account :: provider_config where
  "demo_account = \<lparr>pc_AccountID = ''123456789012'', pc_Subscription = [], pc_ResourceGroup = [],
     pc_SSHPublicKey = [], pc_Kind = ''aws'', pc_Project = [], pc_Profile = [], pc_Subnet = ''s'',
     pc_SecurityGroup = ''g'', pc_Owner = ''rs'', pc_WireGuardControllerURL = [], pc_AzureDiskControllerType = []\<rparr>"

definition demo_config :: config where
  "demo_config = \<lparr>cfg_CatalogPath = [], cfg_Name = ''rs'', cfg_Namespace = ''ns'',
     cfg_GitHubURL = Some \<lparr>url_Scheme = ''https'', url_Host = ''github.com'', url_User = False, url_RawQuery = [],
       url_Fragment = [], url_Path = ''/o''\<rparr>,
     cfg_ScaleSetID = 1, cfg_MaxRunners = 2, cfg_ProvisioningSeconds = 60, cfg_MaxLifetimeSeconds = 3600,
     cfg_Requirements = demo_class,
     cfg_Catalog = \<lparr>cat_Offerings = [demo_pool], cat_Complete = [(''aws'', True)]\<rparr>,
     cfg_Providers = [(''aws'', demo_account)],
     cfg_Retry = \<lparr>pol_Enabled = True, pol_MaxRetries = 1, pol_AcknowledgeRepeatedEffects = True\<rparr>,
     cfg_AWSPriceRefresh = False, cfg_AzurePriceRefresh = False, cfg_GCPPriceRefresh = False,
     cfg_AzureInterruptionQueueURL = [], cfg_NetworkProfile = [], cfg_NetworkOverlayCIDRs = [],
     cfg_BudgetDailyMicros = 100000\<rparr>"

text \<open>A server with fixed objects that accepts every write.\<close>

definition fixed_maps :: "'d config_map list \<Rightarrow> (unit, 'd) maps_ops" where
  "fixed_maps cms = \<lparr>
     mp_Get = (\<lambda>n w. (case find (\<lambda>cm. cm_Name cm = n) cms of
        None \<Rightarrow> Inl (Err [StatusNotFound] ''not found'') | Some cm \<Rightarrow> Inr cm, w)),
     mp_Create = (\<lambda>cm w. (Inr cm, w)), mp_Update = (\<lambda>cm w. (Inr cm, w)), mp_Delete = (\<lambda>_ w. (None, w)),
     mp_List = (\<lambda>_ w. (Inr cms, w))\<rparr>"

definition demo_fleet_map :: "fleet \<Rightarrow> fleet json config_map" where
  "demo_fleet_map f = \<lparr>cm_Name = ''rs-fleet'', cm_ResourceVersion = ''v'',
     cm_Labels = [(''runnerscout/owner'', ''rs'')], cm_Data = [(''fleet'', JsonOf f)]\<rparr>"

definition demo_operator :: "config \<Rightarrow> fleet \<Rightarrow> unit operator" where
  "demo_operator c f = \<lparr>op_Config = c, op_FleetMaps = fixed_maps [demo_fleet_map f],
     op_Store = \<lparr>k_Maps = fixed_maps [], k_Owner = ''rs''\<rparr>,
     op_Providers = [], op_Runners = None, op_GitHubJobs = None, op_AWSPrices = None, op_AzurePrices = None,
     op_GCPPrices = None, op_AzureInterruptions = None, op_Now = (\<lambda>w. (2000, w)), op_NewString = (\<lambda>w. (''1'', w)),
     op_CatalogFile = (\<lambda>_ w. (None, w)), op_sha256_json = (\<lambda>_. ''h''), op_Cooldowns = [],
     op_AzureInterrupted = [], op_paused = False, op_draining = False\<rparr>"

definition demo_fleet :: fleet where
  "demo_fleet = fleet_zero\<lparr>fl_BindingVersion := 2, fl_Binding := ''h'', fl_Created := [(''rs-0'', 1500)],
     fl_Reserved := [(''rs-0'', 36000)]\<rparr>"

text \<open>Records of interrupted allocations of one workflow run.\<close>

definition demo_record :: "string \<Rightarrow> allocation" where
  "demo_record name = (new_allocation demo_config catalog_zero name 100 [])\<lparr>
     al_Phase := Deleted, al_Condition := ''ResourceAbsentConfirmedInterruption'', al_RunID := 7,
     al_Owner := ''o'', al_Repo := ''r'', al_TerminalAt := 200\<rparr>"

definition demo_record_map :: "string \<Rightarrow> allocation json config_map" where
  "demo_record_map name = \<lparr>cm_Name = name, cm_ResourceVersion = ''v'',
     cm_Labels = [(''runnerscout/owner'', ''rs''), (''runnerscout/kind'', ''allocation'')],
     cm_Data = [(''allocation'', JsonOf (demo_record name))]\<rparr>"

definition demo_job :: "int \<times> string \<Rightarrow> rest_job" where
  "demo_job p = \<lparr>job_ID = fst p, job_RunID = 7, job_Attempt = 1, job_RunnerName = snd p,
     job_Status = ''completed'', job_Conclusion = ''failure''\<rparr>"

text \<open>
  A jobs API on which attempt 1 has failed, attempt 2 is not there, and a rerun request is answered
  as given.
\<close>

definition demo_jobs :: "string list \<Rightarrow> err option \<Rightarrow> unit jobs_ops" where
  "demo_jobs names answer = \<lparr>
     jb_AttemptJobs = (\<lambda>_ _ _ attempt w. (if attempt = 1 then Inr (map demo_job (zip [1..int (length names)] names))
        else Inl (Err [ErrAttemptNotFound] ''no such attempt''), w)),
     jb_RerunFailedJobs = (\<lambda>_ _ _ w. (answer, w))\<rparr>"

definition demo_retry_operator :: "string list \<Rightarrow> err option \<Rightarrow> unit operator" where
  "demo_retry_operator names answer = (demo_operator demo_config demo_fleet)\<lparr>
     op_Store := \<lparr>k_Maps = fixed_maps (map demo_record_map names), k_Owner = ''rs''\<rparr>,
     op_GitHubJobs := Some (demo_jobs names answer)\<rparr>"

end
