(* ===== verification/Operator_Safety.thy ===== *)
theory Operator_Safety
  imports Operator_Admission Operator_Demo
begin

text \<open>
  The properties of admission: capacity, daily budget, overlay addresses and slot accounting.
\<close>

section \<open>The records a batch adds\<close>

lemma admit_one_fields [simp]:
  "fl_Created (admit_one c catalog name now address f) = AList.update name now (fl_Created f)"
  "fl_Pending (admit_one c catalog name now address f) =
     AList.update name (new_allocation c catalog name now address) (fl_Pending f)"
  "fl_Released (admit_one c catalog name now address f) = fl_Released f"
  "fl_Admission (admit_one c catalog name now address f) = fl_Admission f"
  "fl_Pruned (admit_one c catalog name now address f) = fl_Pruned f"
  by (simp_all add: admit_one_def)

lemma admit_all_Nil [simp]: "admit_all c catalog [] f = f"
  by (simp add: admit_all_def)

lemma admit_all_Cons [simp]:
  "admit_all c catalog ((name, now, address) # entries) f =
     admit_all c catalog entries (admit_one c catalog name now address f)"
  by (simp add: admit_all_def)

lemma admit_all_fields [simp]:
  "fl_Released (admit_all c catalog entries f) = fl_Released f"
  "fl_Admission (admit_all c catalog entries f) = fl_Admission f"
  "fl_Pruned (admit_all c catalog entries f) = fl_Pruned f"
  by (induction entries arbitrary: f) auto

lemma admit_all_created:
  "dom (map_of (fl_Created (admit_all c catalog entries f))) = dom (map_of (fl_Created f)) \<union> fst ` set entries"
  by (induction entries arbitrary: f) (force simp: update_conv')+

lemma AList_update_length: "length (AList.update k v m) \<le> Suc (length m)"
  by (induction m) auto

lemma admit_all_created_length:
  "length (fl_Created (admit_all c catalog entries f)) \<le> length (fl_Created f) + length entries"
proof (induction entries arbitrary: f)
  case (Cons e entries)
  obtain name now address where e: "e = (name, now, address)"
    by (cases e) auto
  show ?case
    using Cons [of "admit_one c catalog name now address f"] AList_update_length [of name now "fl_Created f"]
    by (simp add: e)
qed simp

text \<open>Each pending entry is an old one or comes from its own position of the batch.\<close>

lemma admit_all_pending:
  assumes "map_of (fl_Pending (admit_all c catalog entries f)) name = Some a"
  shows "map_of (fl_Pending f) name = Some a \<or>
    (\<exists>i < length entries. \<exists>now address. entries ! i = (name, now, address)
       \<and> a = new_allocation c catalog name now address)"
  using assms
proof (induction entries arbitrary: f)
  case (Cons e entries)
  obtain name' now' address' where e: "e = (name', now', address')"
    by (cases e) auto
  from Cons.prems Cons.IH [of "admit_one c catalog name' now' address' f"] consider
      "map_of (fl_Pending (admit_one c catalog name' now' address' f)) name = Some a"
    | i now address where "i < length entries" "entries ! i = (name, now, address)"
        "a = new_allocation c catalog name now address"
    by (auto simp: e)
  then show ?case
  proof cases
    case 1
    then show ?thesis
      by (auto simp: e split: if_splits)
  next
    case 2
    then show ?thesis
      by (intro disjI2 exI [of _ "Suc i"]) (auto simp: e)
  qed
qed simp

section \<open>The example operator\<close>

lemma demo_validated: "Config_Validate (\<lambda>_. True) demo_config = None"
  by code_simp

lemma demo_admits: "HandleDesiredRunnerCount (demo_operator demo_config demo_fleet) 1 () = ((1, None), ())"
  by code_simp

lemma demo_loads: "loadFleet (demo_operator demo_config demo_fleet) () = (Inr (demo_fleet_map demo_fleet, demo_fleet), ())"
  by (simp add: loadFleet_def readFleet_def get_fleet_map_def fleet_name_def demo_operator_def fixed_maps_def label_owner_def
      demo_fleet_map_def demo_config_def unmarshal_fleet_def json_decode_def adopt_fleet_def op_binding_def
      binding_def bindingWithLimit_def demo_fleet_def fleet_zero_def map_get_def)

section \<open>Capacity\<close>

text \<open>
  Claim C15 (admission never exceeds capacity). When a demand message is handled without error, the
  reported count is at least the live allocations (records in a non-terminal phase plus admissions
  without a record) and exceeds them only up to the configured runner limit; the fleet written gains
  at most that many creations and stays within 1000 retained ones, and nothing is admitted while the
  operator is paused or draining.
\<close>

theorem demand_capacity:
  assumes "HandleDesiredRunnerCount op demand w = ((r, None), w')"
  shows "\<exists>cm f allocs w1 w2 w3 f'. loadFleet op w = (Inr (cm, f), w1)
    \<and> List_allocations (op_Store op) w1 = (Inr allocs, w2) \<and> saveFleet op cm f' w3 = (None, w')
    \<and> live f allocs \<le> r \<and> r \<le> max (live f allocs) (cfg_MaxRunners (op_Config op))
    \<and> int (card (dom (map_of (fl_Created f')) - dom (map_of (fl_Created f)))) \<le> r - live f allocs
    \<and> length (fl_Created f') \<le> max 1000 (length (fl_Created f))
    \<and> (op_paused op \<or> op_draining op \<longrightarrow> r = live f allocs)"
  using assms
proof (rule HandleDesiredRunnerCount_None)
  fix cm f allocs w1 w2 w3 f'
  assume io: "loadFleet op w = (Inr (cm, f), w1)" "List_allocations (op_Store op) w1 = (Inr allocs, w2)"
    "saveFleet op cm f' w3 = (None, w')"
  assume "demand_outcome op (released f allocs) allocs (live f allocs) demand r f'"
  then have "live f allocs \<le> r \<and> r \<le> max (live f allocs) (cfg_MaxRunners (op_Config op))
    \<and> int (card (dom (map_of (fl_Created f')) - dom (map_of (fl_Created f)))) \<le> r - live f allocs
    \<and> length (fl_Created f') \<le> max 1000 (length (fl_Created f))
    \<and> (op_paused op \<or> op_draining op \<longrightarrow> r = live f allocs)"
  proof cases
    case (Admitted n adm k checked chosen catalog offering entries)
    have n: "live f allocs + n \<le> max (live f allocs) (cfg_MaxRunners (op_Config op))"
      using Admitted(5) granted_bounds(2) by (auto simp: admission_Reconcile_def Let_def split: if_splits)
    have "dom (map_of (fl_Created f')) - dom (map_of (fl_Created f)) \<subseteq> fst ` set entries"
      using Admitted(2) by (auto simp: admit_all_created)
    then have "card (dom (map_of (fl_Created f')) - dom (map_of (fl_Created f))) \<le> card (fst ` set entries)"
      by (intro card_mono) auto
    also have "\<dots> \<le> length entries"
      using card_image_le [of "set entries" fst] card_length [of entries] by simp
    finally have "int (card (dom (map_of (fl_Created f')) - dom (map_of (fl_Created f)))) \<le> k"
      using Admitted(6,11) by linarith
    moreover have "length (fl_Created f') \<le> length (fl_Created f) + length entries"
      using admit_all_created_length [where f = "(unadmit ((released f allocs)\<lparr>fl_Admission := adm\<rparr>) (n - k))
          \<lparr>fl_Condition := ''DemandObserved''\<rparr>" and c = "op_Config op" and catalog = catalog and entries = entries]
      by (simp add: Admitted(2))
    moreover have "length entries = 0 \<or> length (fl_Created f) + length entries \<le> 1000"
      using Admitted(6,9,11) by (cases "0 < k") auto
    ultimately show ?thesis
      using n Admitted(1,3,4,6,7) by auto
  qed auto
  with io show ?thesis by blast
qed

theorem demand_capacity_witness:
  "\<exists>cm f allocs w1 w2 w3 f'. loadFleet (demo_operator demo_config demo_fleet) () = (Inr (cm, f), w1)
    \<and> List_allocations (op_Store (demo_operator demo_config demo_fleet)) w1 = (Inr allocs, w2)
    \<and> saveFleet (demo_operator demo_config demo_fleet) cm f' w3 = (None, ())
    \<and> live f allocs \<le> 1 \<and> length (fl_Created f') \<le> max 1000 (length (fl_Created f))"
  using demand_capacity [OF demo_admits] by blast

section \<open>Budget\<close>

text \<open>
  A reservation is the ceiling of price times lifetime in hours, and within the validated limits it
  is computed without wrap-around.
\<close>

definition max_reservation :: int where
  "max_reservation = 600000000000"

lemma Config_Validate_limits:
  assumes "Config_Validate is_label c = None"
  shows "1 \<le> req_MaxPriceMicros (cfg_Requirements c) \<and> req_MaxPriceMicros (cfg_Requirements c) \<le> 100000000000
    \<and> 1 \<le> cfg_MaxLifetimeSeconds c \<and> cfg_MaxLifetimeSeconds c \<le> 21600
    \<and> 1 \<le> cfg_MaxRunners c \<and> cfg_MaxRunners c \<le> 10 \<and> 0 \<le> cfg_BudgetDailyMicros c"
  using assms
  by (auto simp: Config_Validate_def Requirements_Validate_def maxPriceMicrosCeiling_def
      split: option.splits if_splits)

lemma reservationMicros_eq:
  assumes "1 \<le> p" "p \<le> 100000000000" "1 \<le> l" "l \<le> 21600"
  shows "reservationMicros p l = (p * l + 3599) div 3600"
proof -
  have pos: "1 \<le> p * l"
    using assms by (metis mult_mono' mult_1 zero_le_one)
  have "p * l \<le> 100000000000 * 21600"
    using assms by (intro mult_mono) auto
  with pos have "wrap64 (p * l) = p * l" "wrap64 (p * l + 3599) = p * l + 3599"
    by (auto intro!: wrap64_id simp: min_int64_def max_int64_def)
  with pos show ?thesis
    by (simp add: reservationMicros_def go_div_nonneg)
qed

lemma reservationMicros_bounds:
  assumes "1 \<le> p" "p \<le> 100000000000" "1 \<le> l" "l \<le> 21600"
  shows "1 \<le> reservationMicros p l" "reservationMicros p l \<le> max_reservation"
proof -
  have pos: "1 \<le> p * l"
    using assms by (metis mult_mono' mult_1 zero_le_one)
  have top: "p * l \<le> 100000000000 * 21600"
    using assms by (intro mult_mono) auto
  show "1 \<le> reservationMicros p l" "reservationMicros p l \<le> max_reservation"
    unfolding reservationMicros_eq [OF assms] max_reservation_def using pos top by linarith+
qed

lemma ceiling_hours:
  fixes x :: int
  shows "x \<le> 3600 * ((x + 3599) div 3600)" "3600 * ((x + 3599) div 3600 - 1) < x"
proof -
  define q r where "q = (x + 3599) div 3600" and "r = (x + 3599) mod 3600"
  have "3600 * q + r = x + 3599" "0 \<le> r" "r < 3600"
    by (simp_all add: q_def r_def)
  then show "x \<le> 3600 * ((x + 3599) div 3600)" "3600 * ((x + 3599) div 3600 - 1) < x"
    unfolding q_def [symmetric] right_diff_distrib by linarith+
qed

text \<open>
  Claim C26 (the reservation covers the worst case). For a validated configuration the reservation of
  one allocation is the least whole number of micro-dollars that covers the maximum hourly price for
  the maximum lifetime: the 64-bit computation neither overflows nor rounds down.
\<close>

theorem reservation_covers:
  assumes "Config_Validate is_label c = None"
  shows "let p = req_MaxPriceMicros (cfg_Requirements c); l = cfg_MaxLifetimeSeconds c; m = reservationMicros p l
    in p * l \<le> 3600 * m \<and> 3600 * (m - 1) < p * l \<and> 0 < m \<and> m \<le> 600000000000"
proof -
  let ?p = "req_MaxPriceMicros (cfg_Requirements c)" and ?l = "cfg_MaxLifetimeSeconds c"
  note limits = Config_Validate_limits [OF assms]
  then have "1 \<le> ?p" "?p \<le> 100000000000" "1 \<le> ?l" "?l \<le> 21600" by simp_all
  note eq = reservationMicros_eq [OF this] and bounds = reservationMicros_bounds [OF this]
  show ?thesis
    using bounds ceiling_hours [of "?p * ?l"] unfolding eq [symmetric] Let_def max_reservation_def by linarith
qed

theorem reservation_covers_witness:
  "let m = reservationMicros 36000 3600 in 36000 * 3600 \<le> 3600 * m \<and> 3600 * (m - 1) < 36000 * 3600 \<and> m = 36000"
proof -
  have "reservationMicros 36000 3600 = 36000"
    by code_simp
  then show ?thesis
    using reservation_covers [OF demo_validated] by (simp add: demo_config_def demo_requirements_def)
qed

text \<open>What a fleet reserves on the day of an instant, as a plain sum.\<close>

definition counted_today :: "fleet \<Rightarrow> allocation list \<Rightarrow> time \<Rightarrow> string \<Rightarrow> bool" where
  "counted_today f allocs now name \<longleftrightarrow> phase_of allocs name \<noteq> Some TimedOut
     \<and> (case map_of (fl_Created f) name of None \<Rightarrow> False | Some created \<Rightarrow> utc_day now = utc_day created)"

definition spent :: "fleet \<Rightarrow> allocation list \<Rightarrow> time \<Rightarrow> int" where
  "spent f allocs now = sum_list (map (\<lambda>(name, m). if counted_today f allocs now name then m else 0) (fl_Reserved f))"

definition reserved_wf :: "fleet \<Rightarrow> bool" where
  "reserved_wf f \<longleftrightarrow> distinct (keys (fl_Created f)) \<and> distinct (keys (fl_Reserved f))
     \<and> dom (map_of (fl_Reserved f)) \<subseteq> dom (map_of (fl_Created f)) \<and> length (fl_Created f) \<le> 1000
     \<and> (\<forall>(name, m) \<in> set (fl_Reserved f). 0 \<le> m \<and> m \<le> max_reservation)"

lemma card_dom_map_of: "distinct (keys m) \<Longrightarrow> card (dom (map_of m)) = length m"
  by (metis distinct_card dom_map_of_conv_image_fst length_map set_map)

lemma reserved_wf_length:
  assumes "reserved_wf f"
  shows "length (fl_Reserved f) \<le> 1000"
proof -
  have "card (dom (map_of (fl_Reserved f))) \<le> card (dom (map_of (fl_Created f)))"
    using assms by (intro card_mono) (auto simp: reserved_wf_def finite_dom_map_of)
  with assms show ?thesis
    by (simp add: reserved_wf_def card_dom_map_of)
qed

lemma fold_wrap_sum:
  assumes "0 \<le> acc" "acc + int (length xs) * max_reservation \<le> max_int64"
    and "\<forall>(name, m) \<in> set xs. 0 \<le> m \<and> m \<le> max_reservation"
  shows "fold (\<lambda>(name, m) total. if P name then wrap64 (total + m) else total) xs acc =
    acc + sum_list (map (\<lambda>(name, m). if P name then m else 0) xs)"
  using assms
proof (induction xs arbitrary: acc)
  case (Cons x xs)
  obtain name m where x: "x = (name, m)" by force
  with Cons.prems have m: "0 \<le> m" "m \<le> max_reservation"
    and room: "acc + m + int (length xs) * max_reservation \<le> max_int64"
    "acc + int (length xs) * max_reservation \<le> max_int64"
    by (auto simp: algebra_simps max_reservation_def)
  have "0 \<le> int (length xs) * max_reservation"
    by (simp add: max_reservation_def)
  with room m Cons.prems(1) have "min_int64 \<le> acc + m" "acc + m \<le> max_int64"
    unfolding min_int64_def by linarith+
  then have "wrap64 (acc + m) = acc + m"
    by (rule wrap64_id)
  with Cons.IH [of "acc + m"] Cons.IH [of acc] room m Cons.prems x show ?case
    by simp
qed simp

lemma spentToday_spent:
  assumes "reserved_wf f"
  shows "spentToday f allocs now = spent f allocs now"
proof -
  have eq: "spentToday f allocs now =
      fold (\<lambda>(name, m) total. if counted_today f allocs now name then wrap64 (total + m) else total) (fl_Reserved f) 0"
    unfolding spentToday_def
    by (rule fold_cong) (auto simp: counted_today_def fun_eq_iff split: option.splits)
  have "int (length (fl_Reserved f)) * max_reservation \<le> max_int64"
    using reserved_wf_length [OF assms] by (simp add: max_reservation_def max_int64_def)
  with assms show ?thesis
    unfolding eq spent_def by (subst fold_wrap_sum) (auto simp: reserved_wf_def)
qed

lemma spent_nonneg: "reserved_wf f \<Longrightarrow> 0 \<le> spent f allocs now"
  unfolding spent_def by (rule sum_list_nonneg) (auto simp: reserved_wf_def)

lemma spent_upper:
  assumes "reserved_wf f"
  shows "spent f allocs now \<le> max_int64"
proof -
  have "spent f allocs now \<le> sum_list (map (\<lambda>_. max_reservation) (fl_Reserved f))"
    unfolding spent_def using assms
    by (intro sum_list_mono) (auto simp: reserved_wf_def max_reservation_def)
  also have "\<dots> = int (length (fl_Reserved f)) * max_reservation"
    by (simp add: sum_list_triv)
  finally show ?thesis
    using reserved_wf_length [OF assms] by (simp add: max_reservation_def max_int64_def)
qed

text \<open>Updating one entry adds at most its new value to a sum over the entries.\<close>

lemma sum_update:
  fixes h h' :: "string \<times> int \<Rightarrow> int"
  assumes "distinct (keys m)" "\<And>x. x \<in> set m \<Longrightarrow> 0 \<le> h x" "h' (k, v) \<le> b" "0 \<le> b"
    "\<And>n u. n \<noteq> k \<Longrightarrow> h' (n, u) = h (n, u)"
  shows "sum_list (map h' (AList.update k v m)) \<le> sum_list (map h m) + b"
  using assms(1,2)
proof (induction m)
  case Nil
  then show ?case using assms(3) by simp
next
  case (Cons x m)
  obtain n u where x: "x = (n, u)" by force
  show ?case
  proof (cases "n = k")
    case True
    have "k \<notin> fst ` set m"
      using Cons.prems(1) by (simp add: x True)
    then have "h' y = h y" if "y \<in> set m" for y
      using that assms(5) [of "fst y" "snd y"] by (metis imageI prod.collapse)
    then have "sum_list (map h' m) = sum_list (map h m)"
      by (simp cong: map_cong)
    moreover have "0 \<le> h x"
      using Cons.prems(2) by simp
    ultimately show ?thesis
      using assms(3) by (simp add: x True)
  next
    case False
    have "sum_list (map h' (AList.update k v m)) \<le> sum_list (map h m) + b"
      using Cons by simp
    with False assms(5) show ?thesis
      by (simp add: x)
  qed
qed

lemma set_AList_update: "set (AList.update k v m) \<subseteq> insert (k, v) (set m)"
  by (induction m) auto

text \<open>The price of one allocation under a configuration that has a budget.\<close>

definition priced :: "config \<Rightarrow> int \<Rightarrow> bool" where
  "priced c m \<longleftrightarrow> 0 < cfg_BudgetDailyMicros c \<and> 0 \<le> m \<and> m \<le> max_reservation
     \<and> reservationMicros (req_MaxPriceMicros (cfg_Requirements c)) (cfg_MaxLifetimeSeconds c) = m"

lemma validated_price:
  assumes "Config_Validate is_label c = None" "0 < cfg_BudgetDailyMicros c"
  shows "priced c (reservationMicros (req_MaxPriceMicros (cfg_Requirements c)) (cfg_MaxLifetimeSeconds c))"
proof -
  from Config_Validate_limits [OF assms(1)] have
    "1 \<le> req_MaxPriceMicros (cfg_Requirements c)" "req_MaxPriceMicros (cfg_Requirements c) \<le> 100000000000"
    "1 \<le> cfg_MaxLifetimeSeconds c" "cfg_MaxLifetimeSeconds c \<le> 21600" by simp_all
  from reservationMicros_bounds [OF this] assms(2) show ?thesis
    by (simp add: priced_def)
qed

lemma admit_one_reserved:
  "priced c m \<Longrightarrow> fl_Reserved (admit_one c catalog name now address f) = AList.update name m (fl_Reserved f)"
  by (simp add: priced_def admit_one_def)

lemma admit_one_wf:
  assumes "reserved_wf f" "priced c m" "length (fl_Created f) < 1000"
  shows "reserved_wf (admit_one c catalog name now address f)"
proof -
  have "length (AList.update name now (fl_Created f)) \<le> 1000"
    using AList_update_length [of name now "fl_Created f"] assms(3) by linarith
  moreover have "\<forall>(n, v) \<in> set (AList.update name m (fl_Reserved f)). 0 \<le> v \<and> v \<le> max_reservation"
    using set_AList_update [of name m "fl_Reserved f"] assms(1,2) by (auto simp: reserved_wf_def priced_def)
  ultimately show ?thesis
    using assms(1,2) by (auto simp: reserved_wf_def admit_one_reserved distinct_update update_conv')
qed

lemma spent_admit_one:
  assumes "reserved_wf f" "priced c m"
  shows "spent (admit_one c catalog name now address f) allocs t \<le>
    spent f allocs t + (if utc_day t = utc_day now then m else 0)"
proof -
  let ?f = "admit_one c catalog name now address f"
  let ?h = "\<lambda>f. \<lambda>(n, v). if counted_today f allocs t n then v else (0 :: int)"
  have "sum_list (map (?h ?f) (AList.update name m (fl_Reserved f))) \<le>
      sum_list (map (?h f) (fl_Reserved f)) + (if utc_day t = utc_day now then m else 0)"
  proof (rule sum_update)
    show "distinct (keys (fl_Reserved f))"
      using assms(1) by (simp add: reserved_wf_def)
    show "0 \<le> ?h f x" if "x \<in> set (fl_Reserved f)" for x
      using that assms(1) by (auto simp: reserved_wf_def)
    show "?h ?f (name, m) \<le> (if utc_day t = utc_day now then m else 0)"
      using assms(2) by (auto simp: counted_today_def priced_def)
    show "0 \<le> (if utc_day t = utc_day now then m else 0)"
      using assms(2) by (simp add: priced_def)
    show "?h ?f (n, u) = ?h f (n, u)" if "n \<noteq> name" for n u
      using that by (simp add: counted_today_def)
  qed
  then show ?thesis
    by (simp add: spent_def admit_one_reserved [OF assms(2)])
qed

lemma spent_admit_all:
  assumes "reserved_wf f" "priced c m" "length (fl_Created f) + length entries \<le> 1000"
    and "list_all (\<lambda>e. utc_day (entry_time e) = day) entries"
  shows "reserved_wf (admit_all c catalog entries f) \<and>
    spent (admit_all c catalog entries f) allocs t \<le>
      spent f allocs t + (if utc_day t = day then int (length entries) * m else 0)"
  using assms(1,3,4)
proof (induction entries arbitrary: f)
  case (Cons e entries)
  obtain name now address where e: "e = (name, now, address)" by (cases e) auto
  let ?f = "admit_one c catalog name now address f"
  have "reserved_wf ?f"
    using Cons.prems by (intro admit_one_wf [OF _ assms(2)]) auto
  moreover have "length (fl_Created ?f) + length entries \<le> 1000"
    using Cons.prems(2) AList_update_length [of name now "fl_Created f"] by simp
  ultimately have "reserved_wf (admit_all c catalog entries ?f)"
    "spent (admit_all c catalog entries ?f) allocs t \<le>
      spent ?f allocs t + (if utc_day t = day then int (length entries) * m else 0)"
    using Cons by (auto simp: e)
  then show ?case
    using spent_admit_one [OF Cons.prems(1) assms(2), of catalog name now address allocs t] Cons.prems(3)
    by (auto simp: e algebra_simps split: if_splits)
qed simp

lemma affordable_covers:
  assumes "reserved_wf f" "priced c m" "0 < k" "k \<le> affordable c f allocs t" "cfg_BudgetDailyMicros c \<le> max_int64"
  shows "k * m + spentToday f allocs t \<le> cfg_BudgetDailyMicros c"
proof -
  let ?rest = "cfg_BudgetDailyMicros c - spentToday f allocs t"
  have "0 \<le> spentToday f allocs t" "spentToday f allocs t \<le> max_int64"
    using spent_nonneg [OF assms(1), of allocs t] spent_upper [OF assms(1), of allocs t]
    by (simp_all add: spentToday_spent [OF assms(1)])
  with assms(2,5) have wrap: "wrap64 ?rest = ?rest"
    by (intro wrap64_id) (auto simp: priced_def min_int64_def max_int64_def)
  from assms(2,3,4) have pos: "0 < m" "0 < ?rest" and k: "k \<le> ?rest div m"
    by (auto simp: affordable_def priced_def wrap Let_def go_div_nonneg split: if_splits)
  from k pos(1) have "k * m \<le> ?rest div m * m"
    by (intro mult_right_mono) auto
  also have "\<dots> \<le> ?rest"
    using pos(1) div_mult_mod_eq [of ?rest m] pos_mod_sign [of m ?rest] by linarith
  finally show ?thesis by simp
qed

lemma reserved_wf_cong:
  "fl_Created f = fl_Created g \<Longrightarrow> fl_Reserved f = fl_Reserved g \<Longrightarrow> reserved_wf f = reserved_wf g"
  by (simp add: reserved_wf_def)

text \<open>
  Claim C16 (the daily budget is a ceiling). With a validated configuration that has a budget, and a
  clock that stays on one UTC day during the call, handling a demand message keeps the accounting
  well-formed and never takes any day's reservations above the budget: on every day the fleet
  written reserves at most the larger of the budget and what was reserved before.
\<close>

theorem demand_budget:
  assumes valid: "Config_Validate is_label (op_Config op) = None"
    and budget: "0 < cfg_BudgetDailyMicros (op_Config op)" "cfg_BudgetDailyMicros (op_Config op) \<le> max_int64"
    and day: "\<And>v. utc_day (fst (op_Now op v)) = day"
    and load: "loadFleet op w = (Inr (cm, f), w1)" and wf: "reserved_wf f"
    and run: "HandleDesiredRunnerCount op demand w = ((r, None), w')"
  shows "\<exists>allocs w2 w3 f'. List_allocations (op_Store op) w1 = (Inr allocs, w2) \<and> saveFleet op cm f' w3 = (None, w')
    \<and> reserved_wf f'
    \<and> (\<forall>t. spentToday f' allocs t \<le> max (cfg_BudgetDailyMicros (op_Config op)) (spentToday f allocs t))"
  using run
proof (rule HandleDesiredRunnerCount_None)
  fix cm' f0 allocs w1' w2 w3 f'
  assume "loadFleet op w = (Inr (cm', f0), w1')"
  with load have same: "cm' = cm" "f0 = f" "w1' = w1" by simp_all
  assume io: "List_allocations (op_Store op) w1' = (Inr allocs, w2)" "saveFleet op cm' f' w3 = (None, w')"
  assume "demand_outcome op (released f0 allocs) allocs (live f0 allocs) demand r f'"
  then have "reserved_wf f' \<and>
    (\<forall>t. spentToday f' allocs t \<le> max (cfg_BudgetDailyMicros (op_Config op)) (spentToday f allocs t))"
  proof cases
    case (Suspended reason)
    then show ?thesis
      using wf reserved_wf_cong [of f' f] spentToday_cong [of f' f] by (simp add: same)
  next
    case (Refused n adm reason)
    then show ?thesis
      using wf reserved_wf_cong [of f' f] spentToday_cong [of f' f] by (simp add: same)
  next
    case (Admitted n adm k checked chosen catalog offering entries)
    let ?c = "op_Config op"
    let ?g = "(unadmit ((released f0 allocs)\<lparr>fl_Admission := adm\<rparr>) (n - k))\<lparr>fl_Condition := ''DemandObserved''\<rparr>"
    define m where "m = reservationMicros (req_MaxPriceMicros (cfg_Requirements ?c)) (cfg_MaxLifetimeSeconds ?c)"
    have priced: "priced ?c m"
      using validated_price [OF valid budget(1)] by (simp add: m_def)
    have g: "reserved_wf ?g" "fl_Created ?g = fl_Created f" "fl_Reserved ?g = fl_Reserved f"
      using wf reserved_wf_cong [of ?g f] by (simp_all add: same)
    have "length (fl_Created ?g) + length entries \<le> 1000"
      using Admitted(6,9,11) g(1) by (cases "0 < k") (auto simp: same reserved_wf_def)
    moreover have "list_all (\<lambda>e. utc_day (entry_time e) = day) entries"
      using Admitted(12) day by (auto simp: list_all_iff reading_def)
    ultimately have all: "reserved_wf f'"
      "\<And>t. spent f' allocs t \<le> spent ?g allocs t + (if utc_day t = day then int (length entries) * m else 0)"
      using spent_admit_all [OF g(1) priced] unfolding Admitted(2) by blast+
    have same_spent: "spent ?g allocs t = spentToday f allocs t" for t
      using spentToday_cong [of ?g f] spentToday_spent [OF g(1)] by (simp add: same)
    have "spentToday f' allocs t \<le> max (cfg_BudgetDailyMicros ?c) (spentToday f allocs t)" for t
    proof (cases "0 < k \<and> utc_day t = day")
      case True
      then have "reading op checked" "k \<le> affordable ?c f allocs checked"
        using Admitted(8) budget(1) affordable_cong [of "released f0 allocs" f] by (simp_all add: same)
      then have "k * m + spentToday f allocs checked \<le> cfg_BudgetDailyMicros ?c" and "utc_day checked = day"
        using affordable_covers [OF wf priced _ _ budget(2)] True day by (auto simp: reading_def)
      moreover from this(2) True have "spentToday f allocs checked = spentToday f allocs t"
        by (simp add: spentToday_def cong: if_cong option.case_cong)
      ultimately show ?thesis
        using all(2) [of t] True Admitted(11) by (simp add: same_spent spentToday_spent [OF all(1)])
    next
      case False
      then have "(if utc_day t = day then int (length entries) * m else 0) = 0"
        using Admitted(6,11) by auto
      then show ?thesis
        using all(2) [of t] by (simp add: same_spent spentToday_spent [OF all(1)])
    qed
    with all(1) show ?thesis by blast
  qed
  with io same show ?thesis by blast
qed

theorem demand_budget_witness:
  "\<exists>allocs w2 w3 f'. List_allocations (op_Store (demo_operator demo_config demo_fleet)) () = (Inr allocs, w2)
    \<and> saveFleet (demo_operator demo_config demo_fleet) (demo_fleet_map demo_fleet) f' w3 = (None, ())
    \<and> reserved_wf f' \<and> (\<forall>t. spentToday f' allocs t \<le> max 100000 (spentToday demo_fleet allocs t))"
proof -
  have "reserved_wf demo_fleet"
    by (simp add: reserved_wf_def demo_fleet_def fleet_zero_def max_reservation_def)
  moreover have "utc_day (fst (op_Now (demo_operator demo_config demo_fleet) v)) = utc_day 2000" for v
    by (simp add: demo_operator_def)
  moreover have "op_Config (demo_operator demo_config demo_fleet) = demo_config" "cfg_BudgetDailyMicros demo_config = 100000"
    by (simp_all add: demo_operator_def demo_config_def)
  ultimately show ?thesis
    using demand_budget [of "\<lambda>_. True" "demo_operator demo_config demo_fleet", OF _ _ _ _ demo_loads _ demo_admits]
      demo_validated
    by (simp add: max_int64_def)
qed

section \<open>Overlay addresses\<close>

text \<open>The addresses in use: those of live records and of pending admissions of the same profile.\<close>

definition in_use :: "config \<Rightarrow> fleet \<Rightarrow> allocation list \<Rightarrow> string set" where
  "in_use c f allocs = {al_WireGuardOverlayAddress a |a.
     (a \<in> set allocs \<and> \<not> terminal (al_Phase a) \<or> a \<in> snd ` set (fl_Pending f))
     \<and> al_NetworkProfile a = cfg_NetworkProfile c \<and> al_WireGuardOverlayAddress a \<noteq> []}"

lemma fold_taken:
  "map_true (fold (\<lambda>a m. if P a then AList.update (g a) True m else m) as m) s \<longleftrightarrow>
     map_true m s \<or> (\<exists>a \<in> set as. P a \<and> g a = s)"
  by (induction as arbitrary: m) auto

lemma overlay_taken_iff: "map_true (overlay_taken c f allocs) s \<longleftrightarrow> s \<in> in_use c f allocs"
  unfolding overlay_taken_def fold_taken in_use_def by auto

lemma overlay_addresses_fresh:
  assumes "overlay_addresses cidrs n taken = Inr addrs"
  shows "distinct addrs \<and> (\<forall>s \<in> set addrs. \<not> map_true taken s)"
  using assms
proof (induction n arbitrary: taken addrs)
  case (Suc n)
  then obtain s rest where s: "NextOverlayAddress cidrs taken = Inr s" "addrs = s # rest"
    and rest: "overlay_addresses cidrs n (AList.update s True taken) = Inr rest"
    by (auto split: sum.splits)
  from Suc.IH [OF rest] NextOverlayAddress_free [OF s(1)] show ?case
    by (auto simp: s(2) split: if_splits)
qed simp

lemma overlay_addresses_pool:
  assumes "parsed cidrs" "overlay_addresses cidrs n taken = Inr addrs"
  shows "set addrs \<subseteq> Addr_String ` set (overlay_pool cidrs)"
  using assms(2)
proof (induction n arbitrary: taken addrs)
  case (Suc n)
  then obtain s rest where s: "NextOverlayAddress cidrs taken = Inr s" "addrs = s # rest"
    and rest: "overlay_addresses cidrs n (AList.update s True taken) = Inr rest"
    by (auto split: sum.splits)
  from Suc.IH [OF rest] NextOverlayAddress_pool [OF assms(1) s(1)] show ?case
    by (simp add: s(2))
qed simp

text \<open>
  Claim C17 (overlay addresses are unique). On a scale set with a network profile, every admission that
  a demand message adds to the fleet carries an address of the configured pool that no live record
  and no pending admission of the profile uses, and two added admissions never share one.
\<close>

theorem demand_overlay_unique:
  assumes "cfg_NetworkProfile (op_Config op) \<noteq> []" "parsed (cfg_NetworkOverlayCIDRs (op_Config op))"
    and "HandleDesiredRunnerCount op demand w = ((r, None), w')"
  shows "\<exists>cm f allocs w1 w2 w3 f'. loadFleet op w = (Inr (cm, f), w1)
    \<and> List_allocations (op_Store op) w1 = (Inr allocs, w2) \<and> saveFleet op cm f' w3 = (None, w')
    \<and> (let added = (\<lambda>name a. map_of (fl_Pending f') name = Some a \<and> map_of (fl_Pending f) name \<noteq> Some a)
       in (\<forall>name a. added name a \<longrightarrow> al_WireGuardOverlayAddress a
              \<in> Addr_String ` set (overlay_pool (cfg_NetworkOverlayCIDRs (op_Config op))) - in_use (op_Config op) f allocs)
        \<and> (\<forall>n1 a1 n2 a2. added n1 a1 \<longrightarrow> added n2 a2 \<longrightarrow> n1 \<noteq> n2 \<longrightarrow>
              al_WireGuardOverlayAddress a1 \<noteq> al_WireGuardOverlayAddress a2))"
  using assms(3)
proof (rule HandleDesiredRunnerCount_None)
  fix cm f allocs w1 w2 w3 f'
  assume io: "loadFleet op w = (Inr (cm, f), w1)" "List_allocations (op_Store op) w1 = (Inr allocs, w2)"
    "saveFleet op cm f' w3 = (None, w')"
  let ?c = "op_Config op"
  let ?added = "\<lambda>name a. map_of (fl_Pending f') name = Some a \<and> map_of (fl_Pending f) name \<noteq> Some a"
  assume outcome: "demand_outcome op (released f allocs) allocs (live f allocs) demand r f'"
  have "\<exists>entries. distinct (map entry_address entries)
      \<and> entry_address ` set entries \<subseteq> Addr_String ` set (overlay_pool (cfg_NetworkOverlayCIDRs ?c)) - in_use ?c f allocs
      \<and> (\<forall>name a. ?added name a \<longrightarrow>
           (\<exists>i < length entries. fst (entries ! i) = name \<and> al_WireGuardOverlayAddress a = entry_address (entries ! i)))"
    using outcome
  proof cases
    case (Admitted n adm k checked chosen catalog offering entries)
    have "distinct (map entry_address entries)
      \<and> entry_address ` set entries \<subseteq> Addr_String ` set (overlay_pool (cfg_NetworkOverlayCIDRs ?c)) - in_use ?c f allocs"
    proof (cases "0 < k")
      case True
      with Admitted(13) assms(1) have addresses: "overlay_addresses (cfg_NetworkOverlayCIDRs ?c) (nat k)
          (overlay_taken ?c f allocs) = Inr (map entry_address entries)"
        by (simp add: overlay_taken_cong [of "released f allocs" f])
      show ?thesis
        using overlay_addresses_fresh [OF addresses] overlay_addresses_pool [OF assms(2) addresses]
        by (auto simp: overlay_taken_iff)
    next
      case False
      with Admitted(6,11) show ?thesis by simp
    qed
    moreover have "\<exists>i < length entries. fst (entries ! i) = name \<and> al_WireGuardOverlayAddress a = entry_address (entries ! i)"
      if "?added name a" for name a
      using that admit_all_pending [of ?c catalog entries _ name a] unfolding Admitted(2)
      by (force simp: new_allocation_def)
    ultimately show ?thesis by blast
  qed (auto intro!: exI [of _ "[]"])
  then obtain entries where entries: "distinct (map entry_address entries)"
    "entry_address ` set entries \<subseteq> Addr_String ` set (overlay_pool (cfg_NetworkOverlayCIDRs ?c)) - in_use ?c f allocs"
    and at: "\<And>name a. ?added name a \<Longrightarrow>
      \<exists>i < length entries. fst (entries ! i) = name \<and> al_WireGuardOverlayAddress a = entry_address (entries ! i)"
    by blast
  have "al_WireGuardOverlayAddress a \<in> Addr_String ` set (overlay_pool (cfg_NetworkOverlayCIDRs ?c)) - in_use ?c f allocs"
    if "?added name a" for name a
    using at [OF that] entries(2) nth_mem by (metis image_subset_iff)
  moreover have "al_WireGuardOverlayAddress a1 \<noteq> al_WireGuardOverlayAddress a2"
    if one: "?added n1 a1" and two: "?added n2 a2" and other: "n1 \<noteq> n2" for n1 a1 n2 a2
  proof -
    obtain i j where "i < length entries" "j < length entries" "fst (entries ! i) = n1" "fst (entries ! j) = n2"
      and eq: "al_WireGuardOverlayAddress a1 = entry_address (entries ! i)" "al_WireGuardOverlayAddress a2 = entry_address (entries ! j)"
      using at [OF one] at [OF two] by blast
    moreover from this other have "i \<noteq> j" by auto
    ultimately show ?thesis
      using entries(1) by (auto simp: eq distinct_conv_nth)
  qed
  ultimately show ?thesis
    using io unfolding Let_def by blast
qed

text \<open>The operator of the example on a private /30: its one free host address is handed out.\<close>

definition demo_overlay_config :: config where
  "demo_overlay_config = demo_config\<lparr>cfg_NetworkProfile := ''wg'',
     cfg_NetworkOverlayCIDRs := [(''10.0.0.0/30'', Inr (Prefix (V4 0x0a000000) 30))]\<rparr>"

lemma demo_overlay_admits:
  "HandleDesiredRunnerCount (demo_operator demo_overlay_config demo_fleet) 1 () = ((1, None), ())"
  by code_simp

theorem demand_overlay_unique_witness:
  "\<exists>cm f allocs w1 w2 w3 f'. loadFleet (demo_operator demo_overlay_config demo_fleet) () = (Inr (cm, f), w1)
    \<and> List_allocations (op_Store (demo_operator demo_overlay_config demo_fleet)) w1 = (Inr allocs, w2)
    \<and> saveFleet (demo_operator demo_overlay_config demo_fleet) cm f' w3 = (None, ())
    \<and> (let added = (\<lambda>name a. map_of (fl_Pending f') name = Some a \<and> map_of (fl_Pending f) name \<noteq> Some a)
       in \<forall>name a. added name a \<longrightarrow> al_WireGuardOverlayAddress a \<notin> in_use demo_overlay_config f allocs)"
proof -
  have op: "op_Config (demo_operator demo_overlay_config demo_fleet) = demo_overlay_config"
    by (simp add: demo_operator_def)
  have "cfg_NetworkProfile demo_overlay_config \<noteq> []" "parsed (cfg_NetworkOverlayCIDRs demo_overlay_config)"
    by (simp_all add: demo_overlay_config_def parsed_def wf_prefix_def BitLen_def)
  from demand_overlay_unique [of "demo_operator demo_overlay_config demo_fleet", unfolded op, OF this demo_overlay_admits]
  show ?thesis
    unfolding Let_def by blast
qed

end
