(* ===== verification/Operator_Trace.thy ===== *)
theory Operator_Trace
  imports Operator_Demo
begin

text \<open>
  Ordering properties of the operator's passes. As for the lifecycle, the operations are
  instrumented: the world is paired with the calls made so far, which the handlers cannot see.
\<close>

section \<open>Instrumentation\<close>

datatype op_event =
    OpFleetSaved fleet bool
  | OpRecordCreated allocation "err option"
  | OpRecordDeleted string "err option"
  | OpDeregister string "err option"
  | OpAttemptJobs string string int int "err + rest_job list"
  | OpRerun string string int "err option"

type_synonym 'w logging = "'w \<times> op_event list"

definition silent :: "('w \<Rightarrow> 'r \<times> 'w) \<Rightarrow> 'w logging \<Rightarrow> 'r \<times> 'w logging" where
  "silent f wl = (case f (fst wl) of (r, w) \<Rightarrow> (r, (w, snd wl)))"

definition noted :: "('r \<Rightarrow> op_event list) \<Rightarrow> ('w \<Rightarrow> 'r \<times> 'w) \<Rightarrow> 'w logging \<Rightarrow> 'r \<times> 'w logging" where
  "noted ev f wl = (case f (fst wl) of (r, w) \<Rightarrow> (r, (w, snd wl @ ev r)))"

definition err_of :: "err + 'a \<Rightarrow> err option" where
  "err_of r = (case r of Inl e \<Rightarrow> Some e | Inr _ \<Rightarrow> None)"

definition saved_fleet :: "fleet json config_map \<Rightarrow> err + 'a \<Rightarrow> op_event list" where
  "saved_fleet cm r = (case map_of (cm_Data cm) ''fleet'' of
     Some (JsonOf f) \<Rightarrow> [OpFleetSaved f (err_of r = None)] | _ \<Rightarrow> [])"

definition created_record :: "allocation json config_map \<Rightarrow> err + 'a \<Rightarrow> op_event list" where
  "created_record cm r = (case cm_Data cm of
     (_, JsonOf a) # _ \<Rightarrow> [OpRecordCreated a (err_of r)] | _ \<Rightarrow> [])"

definition fleet_logged :: "('w, fleet json) maps_ops \<Rightarrow> ('w logging, fleet json) maps_ops" where
  "fleet_logged m = \<lparr>mp_Get = (\<lambda>n. silent (mp_Get m n)), mp_Create = (\<lambda>cm. silent (mp_Create m cm)),
     mp_Update = (\<lambda>cm. noted (saved_fleet cm) (mp_Update m cm)), mp_Delete = (\<lambda>n. silent (mp_Delete m n)),
     mp_List = (\<lambda>s. silent (mp_List m s))\<rparr>"

definition record_logged :: "('w, allocation json) maps_ops \<Rightarrow> ('w logging, allocation json) maps_ops" where
  "record_logged m = \<lparr>mp_Get = (\<lambda>n. silent (mp_Get m n)),
     mp_Create = (\<lambda>cm. noted (created_record cm) (mp_Create m cm)),
     mp_Update = (\<lambda>cm. silent (mp_Update m cm)),
     mp_Delete = (\<lambda>n. noted (\<lambda>e. [OpRecordDeleted n e]) (mp_Delete m n)),
     mp_List = (\<lambda>s. silent (mp_List m s))\<rparr>"

definition silent_provider :: "'w provider_ops \<Rightarrow> 'w logging provider_ops" where
  "silent_provider p = \<lparr>
     pr_CreateWithResources = map_option (\<lambda>f a. silent (f a)) (pr_CreateWithResources p),
     pr_ReconcileCreation = map_option (\<lambda>f a. silent (f a)) (pr_ReconcileCreation p),
     pr_Create = (\<lambda>a. silent (pr_Create p a)), pr_Observe = (\<lambda>a. silent (pr_Observe p a)),
     pr_Delete = (\<lambda>a. silent (pr_Delete p a))\<rparr>"

definition jobs_logged :: "'w jobs_ops \<Rightarrow> 'w logging jobs_ops" where
  "jobs_logged g = \<lparr>
     jb_AttemptJobs = (\<lambda>ow re run attempt. noted (\<lambda>r. [OpAttemptJobs ow re run attempt r]) (jb_AttemptJobs g ow re run attempt)),
     jb_RerunFailedJobs = (\<lambda>ow re run. noted (\<lambda>r. [OpRerun ow re run r]) (jb_RerunFailedJobs g ow re run))\<rparr>"

definition dereg_logged :: "(string \<Rightarrow> 'w \<Rightarrow> err option \<times> 'w) \<Rightarrow> string \<Rightarrow> 'w logging \<Rightarrow> err option \<times> 'w logging" where
  "dereg_logged f name = noted (\<lambda>r. [OpDeregister name r]) (f name)"

definition op_logged :: "'w operator \<Rightarrow> 'w logging operator" where
  "op_logged op = \<lparr>op_Config = op_Config op,
     op_FleetMaps = fleet_logged (op_FleetMaps op),
     op_Store = \<lparr>k_Maps = record_logged (k_Maps (op_Store op)), k_Owner = k_Owner (op_Store op)\<rparr>,
     op_Providers = map (\<lambda>(name, p). (name, \<lambda>m. silent_provider (p m))) (op_Providers op),
     op_Runners = map_option dereg_logged (op_Runners op),
     op_GitHubJobs = map_option jobs_logged (op_GitHubJobs op),
     op_AWSPrices = map_option (\<lambda>f a b c. silent (f a b c)) (op_AWSPrices op),
     op_AzurePrices = map_option (\<lambda>f a b c. silent (f a b c)) (op_AzurePrices op),
     op_GCPPrices = map_option (\<lambda>f a b c d. silent (f a b c d)) (op_GCPPrices op),
     op_AzureInterruptions = map_option silent (op_AzureInterruptions op),
     op_Now = silent (op_Now op), op_NewString = silent (op_NewString op),
     op_CatalogFile = (\<lambda>p. silent (op_CatalogFile op p)), op_sha256_json = op_sha256_json op,
     op_Cooldowns = op_Cooldowns op, op_AzureInterrupted = op_AzureInterrupted op,
     op_paused = op_paused op, op_draining = op_draining op\<rparr>"

lemma op_logged_simps [simp]:
  "op_Config (op_logged op) = op_Config op"
  "op_FleetMaps (op_logged op) = fleet_logged (op_FleetMaps op)"
  "k_Maps (op_Store (op_logged op)) = record_logged (k_Maps (op_Store op))"
  "k_Owner (op_Store (op_logged op)) = k_Owner (op_Store op)"
  "op_Runners (op_logged op) = map_option dereg_logged (op_Runners op)"
  "op_GitHubJobs (op_logged op) = map_option jobs_logged (op_GitHubJobs op)"
  "op_Now (op_logged op) = silent (op_Now op)"
  "op_draining (op_logged op) = op_draining op"
  "op_sha256_json (op_logged op) = op_sha256_json op"
  by (simp_all add: op_logged_def)

section \<open>Reading and writing through the store\<close>

lemma append_split_after:
  assumes "xs @ ys = pre @ x # post" "x \<notin> set xs"
  shows "\<exists>zs. pre = xs @ zs \<and> ys = zs @ x # post"
  using assms by (auto simp: append_eq_append_conv2 append_eq_Cons_conv)

lemma silent_pair [simp]: "silent f (w, l) = (case f w of (r, w) \<Rightarrow> (r, (w, l)))"
  by (simp add: silent_def)

lemma noted_pair [simp]: "noted ev f (w, l) = (case f w of (r, w) \<Rightarrow> (r, (w, l @ ev r)))"
  by (simp add: noted_def)

lemma dereg_logged_pair [simp]:
  "dereg_logged f n (w, l) = (case f n w of (r, w) \<Rightarrow> (r, (w, l @ [OpDeregister n r])))"
  by (simp add: dereg_logged_def)

lemma maps_logged_simps [simp]:
  "mp_Get (fleet_logged m) n = silent (mp_Get m n)"
  "mp_Create (fleet_logged m) cm = silent (mp_Create m cm)"
  "mp_Update (fleet_logged m) cm = noted (saved_fleet cm) (mp_Update m cm)"
  "mp_Get (record_logged k) n = silent (mp_Get k n)"
  "mp_Create (record_logged k) rc = noted (created_record rc) (mp_Create k rc)"
  "mp_Update (record_logged k) rc = silent (mp_Update k rc)"
  "mp_Delete (record_logged k) n = noted (\<lambda>e. [OpRecordDeleted n e]) (mp_Delete k n)"
  "mp_List (record_logged k) s = silent (mp_List k s)"
  by (simp_all add: fleet_logged_def record_logged_def)

lemma fleet_logged_ctx [simp]:
  "fleet_name (op_logged op) = fleet_name op" "fleet_map_empty (op_logged op) = fleet_map_empty op"
  "adopt_fleet (op_logged op) = adopt_fleet op"
  by (simp_all add: fleet_name_def fleet_map_empty_def adopt_fleet_def fun_eq_iff op_binding_def legacy_match_def)

lemma loadFleet_logged [simp]:
  "loadFleet (op_logged op) (w, l) = (case loadFleet op w of (r, w) \<Rightarrow> (r, (w, l)))"
  by (auto simp: loadFleet_def readFleet_def get_fleet_map_def split: prod.splits sum.splits)

lemma List_logged [simp]:
  "List_allocations (op_Store (op_logged op)) (w, l) = (case List_allocations (op_Store op) w of (r, w) \<Rightarrow> (r, (w, l)))"
  by (auto simp: List_allocations_def split: prod.splits sum.splits)

lemma saveFleet_logged:
  "saveFleet (op_logged op) cm f (w, l) = (case saveFleet op cm f w of (e, w) \<Rightarrow>
     (e, (w, l @ (case Marshal_fleet f of Inl _ \<Rightarrow> [] | Inr _ \<Rightarrow> [OpFleetSaved f (e = None)]))))"
  by (auto simp: saveFleet_def Marshal_fleet_def saved_fleet_def err_of_def split: prod.splits sum.splits if_splits)

lemma Delete_logged:
  obtains e w' evs where "Delete (op_Store (op_logged op)) n (w, l) = (e, (w', l @ evs))"
    "\<And>ev. ev \<in> set evs \<Longrightarrow> \<exists>r. ev = OpRecordDeleted n r"
proof -
  have "\<exists>e w' evs. Delete (op_Store (op_logged op)) n (w, l) = (e, (w', l @ evs))
      \<and> (\<forall>ev \<in> set evs. \<exists>r. ev = OpRecordDeleted n r)"
    by (auto simp: Delete_def split: prod.splits sum.splits)
  with that show thesis by blast
qed

definition creation_event :: "op_event \<Rightarrow> bool" where
  "creation_event ev \<longleftrightarrow> (\<exists>a r. ev = OpRecordCreated a r)"

lemma save_written_logged:
  "\<exists>r w' evs. save_written (op_Store (op_logged op)) a revision (w, l) = (r, (w', l @ evs)) \<and> list_all creation_event evs"
proof (cases "MergeResources [] (al_Resources a)")
  case (Inl e)
  then show ?thesis by (auto simp: save_written_def)
next
  case (Inr p)
  obtain rs ch where p: "p = (rs, ch)" by force
  show ?thesis
  proof (cases "Marshal_allocation (a\<lparr>al_Resources := rs, al_Revision := []\<rparr>)")
    case (Inl e)
    with Inr p show ?thesis by (auto simp: save_written_def)
  next
    case m: (Inr b)
    with Inr p show ?thesis
      by (auto simp: save_written_def Let_def creation_event_def created_record_def
          split: prod.splits sum.splits list.splits json.splits)
  qed
qed

lemma save_checked_logged:
  "\<exists>c w1. save_checked (op_Store (op_logged op)) a revision (w, l) = (c, (w1, l))"
proof -
  obtain got w1 where got: "mp_Get (k_Maps (op_Store op)) (al_ID a) w = (got, w1)" by force
  show ?thesis
    by (cases got) (simp_all add: save_checked_def got)
qed

lemma Save_logged:
  obtains r w' evs where "Save (op_Store (op_logged op)) a revision (w, l) = (r, (w', l @ evs))" "list_all creation_event evs"
proof -
  obtain c w1 where c: "save_checked (op_Store (op_logged op)) a revision (w, l) = (c, (w1, l))"
    using save_checked_logged [of op a revision w l] by blast
  have "\<exists>r w' evs. Save (op_Store (op_logged op)) a revision (w, l) = (r, (w', l @ evs)) \<and> list_all creation_event evs"
  proof (cases "revision = []")
    case True
    then show ?thesis
      using save_written_logged [of op a revision w l] by (simp add: Save_def)
  next
    case False
    show ?thesis
    proof (cases c)
      case (Inl e)
      with False c show ?thesis by (auto simp: Save_def)
    next
      case (Inr a')
      with False c show ?thesis
        using save_written_logged [of op a' revision w1 l] by (simp add: Save_def)
    qed
  qed
  with that show thesis by blast
qed

section \<open>Pruning\<close>

definition prune_evidence :: "'w operator \<Rightarrow> fleet \<Rightarrow> allocation list \<Rightarrow> string \<Rightarrow> bool" where
  "prune_evidence op f allocs name \<longleftrightarrow> (\<exists>a \<in> set allocs. \<exists>w. al_ID a = name \<and> al_TerminalAt a \<noteq> 0
     \<and> terminalRetention \<le> time_Sub (fst (op_Now op w)) (al_TerminalAt a)
     \<and> (al_Phase a = TimedOut \<or> al_Phase a = Deleted \<and> map_true (fl_Released f) name))"

lemma prune_loop_logged:
  "\<exists>es f' ids w' evs. prune_loop (op_logged op) (dereg_logged dereg) allocs f (w, l) = ((es, f', ids), (w', l @ evs))
     \<and> (\<forall>ev \<in> set evs. \<exists>n r. ev = OpDeregister n r)
     \<and> fl_Released f' = fl_Released f
     \<and> (\<forall>n. map_true (fl_Pruned f) n \<longrightarrow> map_true (fl_Pruned f') n)
     \<and> (\<forall>n \<in> set ids. OpDeregister n None \<in> set evs \<and> map_true (fl_Pruned f') n \<and> prune_evidence op f allocs n)"
proof (induction allocs arbitrary: f w l)
  case Nil
  then show ?case by auto
next
  case (Cons a allocs)
  have mono: "prune_evidence op g allocs n \<Longrightarrow> fl_Released g = fl_Released f \<Longrightarrow> prune_evidence op f (a # allocs) n" for g n
    by (auto simp: prune_evidence_def)
  obtain now w1 where now: "(if time_IsZero (al_TerminalAt a) then (0, (w, l)) else op_Now (op_logged op) (w, l)) = (now, (w1, l))"
    and read: "al_TerminalAt a = 0 \<or> now = fst (op_Now op w)"
    using that [of 0 w] that [of "fst (op_Now op w)" "snd (op_Now op w)"]
    by (cases "al_TerminalAt a = 0") (simp_all add: time_IsZero_def split_beta)
  show ?case
  proof (cases "prunable now f a")
    case False
    with Cons [of f w1 l] now mono show ?thesis by fastforce
  next
    case True
    then have evidence: "prune_evidence op f (a # allocs) (al_ID a)"
      using read by (auto simp: prunable_def prune_evidence_def time_IsZero_def not_less)
    obtain r w2 where r: "dereg (al_ID a) w1 = (r, w2)" by force
    show ?thesis
    proof (cases r)
      case (Some e)
      from Cons [of f w2 "l @ [OpDeregister (al_ID a) r]"] obtain es f' ids w' evs where
        run: "prune_loop (op_logged op) (dereg_logged dereg) allocs f (w2, l @ [OpDeregister (al_ID a) r]) =
          ((es, f', ids), (w', (l @ [OpDeregister (al_ID a) r]) @ evs))"
        and rest: "\<forall>ev \<in> set evs. \<exists>n r. ev = OpDeregister n r" "fl_Released f' = fl_Released f"
          "\<forall>n. map_true (fl_Pruned f) n \<longrightarrow> map_true (fl_Pruned f') n"
          "\<forall>n \<in> set ids. OpDeregister n None \<in> set evs \<and> map_true (fl_Pruned f') n \<and> prune_evidence op f allocs n"
        by blast
      show ?thesis
        using now True r Some run rest mono
        by (intro exI [of _ "e # es"] exI [of _ f'] exI [of _ ids] exI [of _ w'] exI [of _ "OpDeregister (al_ID a) r # evs"])
          auto
    next
      case None
      let ?f = "f\<lparr>fl_Pruned := AList.update (al_ID a) True (fl_Pruned f)\<rparr>"
      from Cons [of ?f w2 "l @ [OpDeregister (al_ID a) r]"] obtain es f' ids w' evs where
        run: "prune_loop (op_logged op) (dereg_logged dereg) allocs ?f (w2, l @ [OpDeregister (al_ID a) r]) =
          ((es, f', ids), (w', (l @ [OpDeregister (al_ID a) r]) @ evs))"
        and rest: "\<forall>ev \<in> set evs. \<exists>n r. ev = OpDeregister n r" "fl_Released f' = fl_Released ?f"
          "\<forall>n. map_true (fl_Pruned ?f) n \<longrightarrow> map_true (fl_Pruned f') n"
          "\<forall>n \<in> set ids. OpDeregister n None \<in> set evs \<and> map_true (fl_Pruned f') n \<and> prune_evidence op ?f allocs n"
        by blast
      show ?thesis
        using now True r None run rest mono [of ?f] evidence
        by (intro exI [of _ es] exI [of _ f'] exI [of _ "al_ID a # ids"] exI [of _ w'] exI [of _ "OpDeregister (al_ID a) r # evs"])
          auto
    qed
  qed
qed

lemma delete_loop_logged:
  "\<exists>es w' evs. delete_loop (op_logged op) names (w, l) = (es, (w', l @ evs))
     \<and> (\<forall>ev \<in> set evs. \<exists>n \<in> set names. \<exists>r. ev = OpRecordDeleted n r)"
proof (induction names arbitrary: w l)
  case (Cons n names)
  obtain e w1 evs where d: "Delete (op_Store (op_logged op)) n (w, l) = (e, (w1, l @ evs))"
    "\<And>ev. ev \<in> set evs \<Longrightarrow> \<exists>r. ev = OpRecordDeleted n r"
    by (rule Delete_logged) blast
  obtain es w2 evs' where rest: "delete_loop (op_logged op) names (w1, l @ evs) = (es, (w2, (l @ evs) @ evs'))"
    "\<forall>ev \<in> set evs'. \<exists>n \<in> set names. \<exists>r. ev = OpRecordDeleted n r"
    using Cons [of w1 "l @ evs"] by blast
  show ?case
    using d rest
    by (intro exI [of _ "case e of None \<Rightarrow> es | Some e \<Rightarrow> e # es"] exI [of _ w2] exI [of _ "evs @ evs'"]) auto
qed auto

text \<open>
  Claim C18 (pruning is write-ahead). Whatever the API, the clock and GitHub answer, a pass deletes
  the record of an allocation only after, in the same pass, its runner registration was confirmed
  gone and a fleet that marks it as pruned was saved; and only if the record was listed as timed out,
  or as deleted with its admission slot released, and terminal for at least 24 hours.
\<close>

theorem prune_write_ahead:
  assumes "pruneTerminalAllocations (op_logged op) allocs (w, []) = (e, (w', tr))"
  shows "\<forall>pre n r post. tr = pre @ OpRecordDeleted n r # post \<longrightarrow>
    OpDeregister n None \<in> set pre \<and>
    (\<exists>f. OpFleetSaved f True \<in> set pre \<and> map_true (fl_Pruned f) n \<and> prune_evidence op f allocs n)"
proof (cases "op_Runners op")
  case None
  with assms show ?thesis by (simp add: pruneTerminalAllocations_def)
next
  case (Some dereg)
  obtain answer w1 where load: "loadFleet op w = (answer, w1)" by force
  show ?thesis
  proof (cases answer)
    case (Inl e')
    with assms Some load show ?thesis by (simp add: pruneTerminalAllocations_def)
  next
    case (Inr cf)
    obtain cm f where cf: "cf = (cm, f)" by force
    obtain es f' ids w2 evs where loop:
      "prune_loop (op_logged op) (dereg_logged dereg) allocs f (w1, []) = ((es, f', ids), (w2, evs))"
      and only: "\<forall>ev \<in> set evs. \<exists>n r. ev = OpDeregister n r" and rel: "fl_Released f' = fl_Released f"
      and ids: "\<forall>n \<in> set ids. OpDeregister n None \<in> set evs \<and> map_true (fl_Pruned f') n \<and> prune_evidence op f allocs n"
      using prune_loop_logged [of op dereg allocs f w1 "[]"] by auto
    have evidence: "prune_evidence op f' allocs n" if "prune_evidence op f allocs n" for n
      using that rel by (simp add: prune_evidence_def)
    show ?thesis
    proof (cases "ids = []")
      case True
      with assms Some load Inr cf loop have "tr = evs"
        by (simp add: pruneTerminalAllocations_def)
      with only show ?thesis by force
    next
      case ne: False
      obtain s w3 where save: "saveFleet op cm f' w2 = (s, w3)" by force
      let ?ev = "case Marshal_fleet f' of Inl _ \<Rightarrow> [] | Inr _ \<Rightarrow> [OpFleetSaved f' (s = None)]"
      show ?thesis
      proof (cases s)
        case (Some e')
        with assms \<open>op_Runners op = Some dereg\<close> load Inr cf loop ne save have "tr = evs @ ?ev"
          by (auto simp: pruneTerminalAllocations_def saveFleet_logged split: sum.splits)
        then have "\<forall>n r. OpRecordDeleted n r \<notin> set tr"
          using only by (auto split: sum.splits)
        then show ?thesis by (metis in_set_conv_decomp)
      next
        case None
        then obtain b where b: "Marshal_fleet f' = Inr b"
          using save by (auto simp: saveFleet_def split: sum.splits)
        with None have marshal: "?ev = [OpFleetSaved f' True]"
          by simp
        obtain es' w4 evs' where del:
          "delete_loop (op_logged op) ids (w3, evs @ ?ev) = (es', (w4, (evs @ ?ev) @ evs'))"
          and dels: "\<forall>ev \<in> set evs'. \<exists>n \<in> set ids. \<exists>r. ev = OpRecordDeleted n r"
          using delete_loop_logged [of op ids w3 "evs @ ?ev"] by blast
        from assms Some load Inr cf loop ne save None del have tr: "tr = evs @ [OpFleetSaved f' True] @ evs'"
          by (simp add: pruneTerminalAllocations_def saveFleet_logged b)
        show ?thesis
        proof (intro allI impI)
          fix pre n r post
          assume split: "tr = pre @ OpRecordDeleted n r # post"
          have "OpRecordDeleted n r \<notin> set (evs @ [OpFleetSaved f' True])"
            using only by auto
          then obtain zs where "pre = (evs @ [OpFleetSaved f' True]) @ zs" "evs' = zs @ OpRecordDeleted n r # post"
            using split tr by (metis append.assoc append_split_after)
          then have "n \<in> set ids" and "set (evs @ [OpFleetSaved f' True]) \<subseteq> set pre"
            using dels by auto
          with ids evidence show "OpDeregister n None \<in> set pre \<and>
              (\<exists>f. OpFleetSaved f True \<in> set pre \<and> map_true (fl_Pruned f) n \<and> prune_evidence op f allocs n)"
            by auto
        qed
      qed
    qed
  qed
qed

definition demo_prune_operator :: "unit operator" where
  "demo_prune_operator = (demo_retry_operator [''a''] None)\<lparr>
     op_FleetMaps := fixed_maps [demo_fleet_map (demo_fleet\<lparr>fl_Released := [(''a'', True)]\<rparr>)],
     op_Runners := Some (\<lambda>_ w. (None, w)), op_Now := (\<lambda>w. (100000000000000, w))\<rparr>"

definition demo_pruned :: fleet where
  "demo_pruned = demo_fleet\<lparr>fl_Released := [(''a'', True)], fl_Pruned := [(''a'', True)]\<rparr>"

lemma demo_prunes:
  "pruneTerminalAllocations (op_logged demo_prune_operator) [demo_record ''a''] ((), []) =
    (None, ((), [OpDeregister ''a'' None, OpFleetSaved demo_pruned True, OpRecordDeleted ''a'' None]))"
  by code_simp

theorem prune_write_ahead_witness:
  "\<exists>f. OpFleetSaved f True \<in> set [OpDeregister ''a'' None, OpFleetSaved demo_pruned True]
     \<and> map_true (fl_Pruned f) ''a'' \<and> prune_evidence demo_prune_operator f [demo_record ''a''] ''a''"
  using prune_write_ahead [OF demo_prunes, rule_format,
      of "[OpDeregister ''a'' None, OpFleetSaved demo_pruned True]" "''a''" None "[]"] by simp

end
