(* ===== verification/Operator_Retry.thy ===== *)
theory Operator_Retry
  imports Operator_Trace Operator_Demo
begin

text \<open>
  The interruption retries of \<open>internal/operator/retry.go\<close>: every rerun request is justified by
  evidence read immediately before it, and the retry budget of a workflow run is never exceeded.
\<close>

section \<open>The budget of a run\<close>

definition used :: "fleet \<Rightarrow> int \<Rightarrow> int" where
  "used f run = map_get 0 (fl_RetriesUsedByRun f) run"

text \<open>
  At most \<open>m\<close> retries are used, and an ambiguous request is for the next attempt and has been
  polled fewer than \<open>rerunReconciliationPolls\<close> times.
\<close>

definition run_wf :: "int \<Rightarrow> int \<Rightarrow> pending_rerun option \<Rightarrow> bool" where
  "run_wf m u q \<longleftrightarrow> 0 \<le> u \<and> u \<le> m \<and> (case q of None \<Rightarrow> True | Some pr \<Rightarrow>
     rr_Attempt pr = u + 1 \<and> u < m \<and> 0 \<le> rr_NotFoundPolls pr \<and> rr_NotFoundPolls pr < rerunReconciliationPolls)"

definition retries_wf :: "int \<Rightarrow> fleet \<Rightarrow> bool" where
  "retries_wf m f \<longleftrightarrow> (\<forall>run. run_wf m (used f run) (map_of (fl_PendingReruns f) run))"

lemma retries_wf_run: "retries_wf m f \<Longrightarrow> run_wf m (used f run) (map_of (fl_PendingReruns f) run)"
  by (simp add: retries_wf_def)

fun accepted_rerun :: "int \<Rightarrow> op_event \<Rightarrow> bool" where
  "accepted_rerun run (OpRerun _ _ run' None) \<longleftrightarrow> run' = run"
| "accepted_rerun run _ \<longleftrightarrow> False"

definition accepted :: "op_event list \<Rightarrow> int \<Rightarrow> int" where
  "accepted evs run = int (length (filter (accepted_rerun run) evs))"

lemma accepted_append [simp]: "accepted (xs @ ys) run = accepted xs run + accepted ys run"
  by (simp add: accepted_def)

lemma accepted_nonneg: "0 \<le> accepted evs run"
  by (simp add: accepted_def)

text \<open>What a part of a pass does to the budget: invariant kept, every accepted request counted.\<close>

definition counts :: "int \<Rightarrow> fleet \<Rightarrow> fleet \<Rightarrow> op_event list \<Rightarrow> bool" where
  "counts m f f' evs \<longleftrightarrow> (retries_wf m f \<longrightarrow> retries_wf m f' \<and> (\<forall>run. used f run + accepted evs run \<le> used f' run))"

lemma counts_refl: "(\<And>run. accepted evs run = 0) \<Longrightarrow> counts m f f evs"
  by (simp add: counts_def)

lemma counts_trans: "counts m f g xs \<Longrightarrow> counts m g h ys \<Longrightarrow> counts m f h (xs @ ys)"
  unfolding counts_def accepted_append by (smt (verit, ccfv_threshold))

lemma counts_at:
  assumes "\<And>run'. run' \<noteq> run \<Longrightarrow> used f' run' = used f run'
      \<and> map_of (fl_PendingReruns f') run' = map_of (fl_PendingReruns f) run' \<and> accepted evs run' = 0"
    and "retries_wf m f \<Longrightarrow> run_wf m (used f' run) (map_of (fl_PendingReruns f') run)
      \<and> used f run + accepted evs run \<le> used f' run"
  shows "counts m f f' evs"
  unfolding counts_def
proof (intro impI conjI allI)
  assume wf: "retries_wf m f"
  show "retries_wf m f'"
    unfolding retries_wf_def
  proof
    fix run'
    show "run_wf m (used f' run') (map_of (fl_PendingReruns f') run')"
      using assms(1) [of run'] assms(2) [OF wf] retries_wf_run [OF wf, of run'] by (cases "run' = run") auto
  qed
  show "used f run' + accepted evs run' \<le> used f' run'" for run'
    using assms(1) [of run'] assms(2) [OF wf] by (cases "run' = run") auto
qed

lemma used_simps [simp]:
  "used (set_retries f run n) run' = (if run' = run then n else used f run')"
  "used (set_pending_rerun f run pr) run' = used f run'"
  "used (clear_pending_rerun f run) run' = used f run'"
  by (simp_all add: used_def set_retries_def set_pending_rerun_def clear_pending_rerun_def)

lemma pending_rerun_simps [simp]:
  "fl_PendingReruns (set_retries f run n) = fl_PendingReruns f"
  "map_of (fl_PendingReruns (set_pending_rerun f run pr)) run' =
     (if run' = run then Some pr else map_of (fl_PendingReruns f) run')"
  "map_of (fl_PendingReruns (clear_pending_rerun f run)) run' =
     (if run' = run then None else map_of (fl_PendingReruns f) run')"
  by (simp_all add: set_retries_def set_pending_rerun_def clear_pending_rerun_def)

section \<open>Justified requests\<close>

definition request_evidence :: "retry_policy \<Rightarrow> allocation list \<Rightarrow> op_event list \<Rightarrow> string \<Rightarrow> string \<Rightarrow> int \<Rightarrow> bool" where
  "request_evidence p as pre ow re run \<longleftrightarrow>
     (\<exists>pre' attempt jobs a j. pre = pre' @ [OpAttemptJobs ow re run attempt (Inr jobs)]
        \<and> a \<in> set as \<and> ow = al_Owner a \<and> re = al_Repo a \<and> run = al_RunID a \<and> 0 < run
        \<and> policy_valid p \<and> 1 \<le> attempt \<and> attempt \<le> pol_MaxRetries p
        \<and> filter (\<lambda>j. job_RunnerName j = al_ID a \<and> job_RunID j = run \<and> job_Attempt j = attempt) jobs = [j]
        \<and> job_Status j = ''completed'' \<and> job_Conclusion j = ''failure'')"

definition retry_justified :: "retry_policy \<Rightarrow> allocation list \<Rightarrow> op_event list \<Rightarrow> bool" where
  "retry_justified p as evs \<longleftrightarrow> (\<forall>pre ow re run r post. evs = pre @ OpRerun ow re run r # post \<longrightarrow>
     request_evidence p as pre ow re run)"

lemma request_evidence_mono:
  assumes "request_evidence p as pre ow re run" "set as \<subseteq> set bs"
  shows "request_evidence p bs (before @ pre) ow re run"
proof -
  from assms(1) obtain pre' attempt jobs a j where
    "pre = pre' @ [OpAttemptJobs ow re run attempt (Inr jobs)]" and "a \<in> set as" and
    rest: "ow = al_Owner a" "re = al_Repo a" "run = al_RunID a" "0 < run"
      "policy_valid p" "1 \<le> attempt" "attempt \<le> pol_MaxRetries p"
      "filter (\<lambda>j. job_RunnerName j = al_ID a \<and> job_RunID j = run \<and> job_Attempt j = attempt) jobs = [j]"
      "job_Status j = ''completed''" "job_Conclusion j = ''failure''"
    unfolding request_evidence_def by blast
  then have "before @ pre = (before @ pre') @ [OpAttemptJobs ow re run attempt (Inr jobs)]" "a \<in> set bs"
    using assms(2) by auto
  with rest show ?thesis
    unfolding request_evidence_def by blast
qed

fun rerun_event :: "op_event \<Rightarrow> bool" where
  "rerun_event (OpRerun _ _ _ _) \<longleftrightarrow> True"
| "rerun_event _ \<longleftrightarrow> False"

definition quiet :: "op_event list \<Rightarrow> bool" where
  "quiet evs \<longleftrightarrow> list_all (\<lambda>ev. \<not> rerun_event ev) evs"

lemma quiet_accepted: "quiet evs \<Longrightarrow> accepted evs run = 0"
proof -
  have "\<not> rerun_event ev \<Longrightarrow> \<not> accepted_rerun run ev" for ev
    by (cases "(run, ev)" rule: accepted_rerun.cases) auto
  then show "quiet evs \<Longrightarrow> accepted evs run = 0"
    by (auto simp: quiet_def accepted_def list_all_iff filter_empty_conv)
qed

lemma quiet_justified: "quiet evs \<Longrightarrow> retry_justified p as evs"
  by (auto simp: quiet_def retry_justified_def)

lemma creation_quiet: "list_all creation_event evs \<Longrightarrow> quiet evs"
  by (auto simp: quiet_def list_all_iff creation_event_def)

lemma retry_justified_append:
  assumes "retry_justified p as xs" "retry_justified p as ys"
  shows "retry_justified p as (xs @ ys)"
  unfolding retry_justified_def
proof (intro allI impI)
  fix pre ow re run r post
  assume "xs @ ys = pre @ OpRerun ow re run r # post"
  then consider (left) post' where "xs = pre @ OpRerun ow re run r # post'"
    | (right) pre1 where "pre = xs @ pre1" "ys = pre1 @ OpRerun ow re run r # post"
    by (auto simp: append_eq_append_conv2 append_eq_Cons_conv)
  then show "request_evidence p as pre ow re run"
  proof cases
    case left
    then show ?thesis
      using assms(1) by (simp add: retry_justified_def)
  next
    case right
    then show ?thesis
      using assms(2) request_evidence_mono [of p as pre1 ow re run as xs] by (simp add: retry_justified_def)
  qed
qed

lemma retry_justified_mono: "retry_justified p as evs \<Longrightarrow> set as \<subseteq> set bs \<Longrightarrow> retry_justified p bs evs"
  unfolding retry_justified_def using request_evidence_mono [where before = "[]"] by fastforce

section \<open>One candidate\<close>

lemma jobs_logged_pair [simp]:
  "jb_AttemptJobs (jobs_logged g) ow re run attempt (w, l) =
     (case jb_AttemptJobs g ow re run attempt w of (r, w) \<Rightarrow> (r, (w, l @ [OpAttemptJobs ow re run attempt r])))"
  "jb_RerunFailedJobs (jobs_logged g) ow re run (w, l) =
     (case jb_RerunFailedJobs g ow re run w of (r, w) \<Rightarrow> (r, (w, l @ [OpRerun ow re run r])))"
  by (simp_all add: jobs_logged_def)

lemma reconcilePendingRerun_logged:
  "\<exists>outcome pr' w' evs. reconcilePendingRerun (jobs_logged g) ow re run pr (w, l) = ((outcome, pr'), (w', l @ evs))
     \<and> quiet evs \<and> rr_Attempt pr' = rr_Attempt pr
     \<and> (0 \<le> rr_NotFoundPolls pr \<and> rr_NotFoundPolls pr < rerunReconciliationPolls \<and> outcome = rerunStillAmbiguous \<longrightarrow>
          0 \<le> rr_NotFoundPolls pr' \<and> rr_NotFoundPolls pr' < rerunReconciliationPolls)"
proof -
  obtain r1 w1 where one: "jb_AttemptJobs g ow re run (rr_Attempt pr + 1) w = (r1, w1)" by force
  obtain r2 w2 where two: "jb_AttemptJobs g ow re run (rr_Attempt pr) w1 = (r2, w2)" by force
  show ?thesis
    by (cases r1; cases r2)
      (auto simp: reconcilePendingRerun_def one two quiet_def rerunReconciliationPolls_def Let_def)
qed

lemma reconcile_earlier_logged:
  "\<exists>landed f' w' evs. reconcile_earlier (jobs_logged g) a f (w, l) = ((landed, f'), (w', l @ evs))
     \<and> quiet evs \<and> counts m f f' evs"
proof (cases "map_of (fl_PendingReruns f) (al_RunID a)")
  case None
  then show ?thesis
    by (auto simp: reconcile_earlier_def quiet_def accepted_def intro!: counts_refl)
next
  case (Some pr)
  obtain outcome pr' w' evs where run:
    "reconcilePendingRerun (jobs_logged g) (al_Owner a) (al_Repo a) (al_RunID a) pr (w, l) = ((outcome, pr'), (w', l @ evs))"
    and q: "quiet evs" and same: "rr_Attempt pr' = rr_Attempt pr"
    and polls: "0 \<le> rr_NotFoundPolls pr \<and> rr_NotFoundPolls pr < rerunReconciliationPolls \<and> outcome = rerunStillAmbiguous \<longrightarrow>
          0 \<le> rr_NotFoundPolls pr' \<and> rr_NotFoundPolls pr' < rerunReconciliationPolls"
    using reconcilePendingRerun_logged [of g "al_Owner a" "al_Repo a" "al_RunID a" pr w l] by blast
  let ?happened = "clear_pending_rerun (set_retries f (al_RunID a) (rr_Attempt pr')) (al_RunID a)"
  have wf: "run_wf m (used f (al_RunID a)) (Some pr)" if "retries_wf m f"
    using retries_wf_run [OF that, of "al_RunID a"] Some by simp
  have "counts m f ?happened evs" "counts m f (clear_pending_rerun f (al_RunID a)) evs"
    using wf same by (auto intro!: counts_at [where run = "al_RunID a"] simp: run_wf_def quiet_accepted [OF q])
  moreover have "counts m f (set_pending_rerun f (al_RunID a) pr') evs" if "outcome = rerunStillAmbiguous"
    using wf same polls that
    by (auto intro!: counts_at [where run = "al_RunID a"] simp: run_wf_def quiet_accepted [OF q])
  ultimately show ?thesis
    using Some run q by (cases outcome) (auto simp: reconcile_earlier_def)
qed

lemma evaluate_retry_logged:
  assumes p: "cfg_Retry (op_Config op) = p"
  shows "\<exists>f' w' evs. evaluate_retry (op_logged op) (jobs_logged g) a f (w, l) = (f', (w', l @ evs))
     \<and> retry_justified p [a] evs \<and> counts (pol_MaxRetries p) f f' evs"
proof -
  let ?attempt = "map_get 0 (fl_RetriesUsedByRun f) (al_RunID a) + 1"
  have attempt: "?attempt = used f (al_RunID a) + 1"
    by (simp add: used_def)
  obtain r w1 where jobs: "jb_AttemptJobs g (al_Owner a) (al_Repo a) (al_RunID a) ?attempt w = (r, w1)" by force
  let ?read = "OpAttemptJobs (al_Owner a) (al_Repo a) (al_RunID a) ?attempt r"
  have quiet: "quiet [?read]"
    by (simp add: quiet_def)
  show ?thesis
  proof (cases "\<exists>jobs j. r = Inr jobs \<and> Eligible p (retry_evidence a f jobs) = Inr j")
    case False
    have "evaluate_retry (op_logged op) (jobs_logged g) a f (w, l) = (f, (w1, l @ [?read]))"
      using False p by (cases r) (auto simp: evaluate_retry_def Let_def jobs split: sum.splits)
    then show ?thesis
      using quiet_justified [OF quiet] counts_refl [of "[?read]"] quiet_accepted [OF quiet] by blast
  next
    case True
    then obtain js j where js: "r = Inr js" and elig: "Eligible p (retry_evidence a f js) = Inr j" by blast
    obtain answer w2 where rerun: "jb_RerunFailedJobs g (al_Owner a) (al_Repo a) (al_RunID a) w1 = (answer, w2)" by force
    let ?req = "OpRerun (al_Owner a) (al_Repo a) (al_RunID a) answer"
    let ?f = "case answer of None \<Rightarrow> set_retries f (al_RunID a) ?attempt
      | Some e \<Rightarrow> if errors_Is e ErrRerunRejected then f
          else set_pending_rerun f (al_RunID a) \<lparr>rr_Attempt = ?attempt, rr_JobID = job_ID j, rr_NotFoundPolls = 0\<rparr>"
    have run: "evaluate_retry (op_logged op) (jobs_logged g) a f (w, l) = (?f, (w2, l @ [?read, ?req]))"
      using js elig p by (auto simp: evaluate_retry_def Let_def jobs request_rerun_def rerun split: option.splits)
    have facts: "policy_valid p" "used f (al_RunID a) < pol_MaxRetries p" "0 \<le> used f (al_RunID a)"
      "map_of (fl_PendingReruns f) (al_RunID a) = None" "0 < al_RunID a"
      "filter (\<lambda>j. job_RunnerName j = al_ID a \<and> job_RunID j = al_RunID a \<and> job_Attempt j = ?attempt) js = [j]"
      "job_Status j = ''completed''" "job_Conclusion j = ''failure''"
      using elig by (simp_all add: Eligible_iff retry_evidence_def used_def job_matches_def [abs_def])
    have "retry_justified p [a] [?read, ?req]"
      unfolding retry_justified_def request_evidence_def
      using facts attempt js by (auto simp: Cons_eq_append_conv append_eq_Cons_conv)
    moreover have "counts (pol_MaxRetries p) f ?f [?read, ?req]"
    proof (rule counts_at [where run = "al_RunID a"])
      show "used ?f run' = used f run' \<and> map_of (fl_PendingReruns ?f) run' = map_of (fl_PendingReruns f) run'
          \<and> accepted [?read, ?req] run' = 0" if "run' \<noteq> al_RunID a" for run'
        using that by (cases answer) (auto simp: accepted_def)
      show "run_wf (pol_MaxRetries p) (used ?f (al_RunID a)) (map_of (fl_PendingReruns ?f) (al_RunID a))
          \<and> used f (al_RunID a) + accepted [?read, ?req] (al_RunID a) \<le> used ?f (al_RunID a)"
        using facts attempt by (cases answer) (auto simp: run_wf_def accepted_def rerunReconciliationPolls_def)
    qed
    ultimately show ?thesis
      using run by blast
  qed
qed

lemma save_processed_logged:
  "\<exists>es w' evs. save_processed (op_logged op) a (w, l) = (es, (w', l @ evs)) \<and> quiet evs"
proof -
  obtain r w' evs where "Save (op_Store (op_logged op)) a (al_Revision a) (w, l) = (r, (w', l @ evs))"
    "list_all creation_event evs"
    by (rule Save_logged)
  then show ?thesis
    using creation_quiet by (cases r) (auto simp: save_processed_def)
qed

lemma retry_one_logged:
  assumes p: "cfg_Retry (op_Config op) = p"
  shows "\<exists>es f' w' evs. retry_one (op_logged op) (jobs_logged g) a f (w, l) = ((es, f'), (w', l @ evs))
     \<and> retry_justified p [a] evs \<and> counts (pol_MaxRetries p) f f' evs"
proof -
  obtain landed f1 w1 evs1 where one: "reconcile_earlier (jobs_logged g) a f (w, l) = ((landed, f1), (w1, l @ evs1))"
    and q1: "quiet evs1" and c1: "counts (pol_MaxRetries p) f f1 evs1"
    using reconcile_earlier_logged [of g a f w l "pol_MaxRetries p"] by blast
  show ?thesis
  proof (cases landed)
    case True
    obtain es w2 evs2 where "save_processed (op_logged op) (a\<lparr>al_RetryProcessed := True\<rparr>) (w1, l @ evs1) =
        (es, (w2, (l @ evs1) @ evs2))" and q2: "quiet evs2"
      using save_processed_logged [of op "a\<lparr>al_RetryProcessed := True\<rparr>" w1 "l @ evs1"] by blast
    with one True have "retry_one (op_logged op) (jobs_logged g) a f (w, l) = ((es, f1), (w2, l @ evs1 @ evs2))"
      by (simp add: retry_one_def)
    moreover have "quiet (evs1 @ evs2)"
      using q1 q2 by (simp add: quiet_def)
    moreover have "counts (pol_MaxRetries p) f f1 (evs1 @ evs2)"
      using counts_trans [OF c1 counts_refl] quiet_accepted [OF q2] by blast
    ultimately show ?thesis
      using quiet_justified by blast
  next
    case False
    obtain f2 w2 evs2 where two: "evaluate_retry (op_logged op) (jobs_logged g) a f1 (w1, l @ evs1) = (f2, (w2, (l @ evs1) @ evs2))"
      and j2: "retry_justified p [a] evs2" and c2: "counts (pol_MaxRetries p) f1 f2 evs2"
      using evaluate_retry_logged [OF p, of g a f1 w1 "l @ evs1"] by blast
    obtain es w3 evs3 where three: "save_processed (op_logged op) (mark_processed f2 a) (w2, (l @ evs1) @ evs2) =
        (es, (w3, ((l @ evs1) @ evs2) @ evs3))" and q3: "quiet evs3"
      using save_processed_logged [of op "mark_processed f2 a" w2 "(l @ evs1) @ evs2"] by blast
    have "retry_one (op_logged op) (jobs_logged g) a f (w, l) = ((es, f2), (w3, l @ evs1 @ evs2 @ evs3))"
      using one False two three by (simp add: retry_one_def)
    moreover have "retry_justified p [a] (evs1 @ evs2 @ evs3)"
      by (intro retry_justified_append quiet_justified j2 q1 q3)
    moreover have "counts (pol_MaxRetries p) f f2 (evs1 @ evs2 @ evs3)"
      by (intro counts_trans [OF c1] counts_trans [OF c2] counts_refl quiet_accepted q3)
    ultimately show ?thesis by blast
  qed
qed

lemma retry_loop_logged:
  assumes p: "cfg_Retry (op_Config op) = p"
  shows "\<exists>es f' w' evs. retry_loop (op_logged op) (jobs_logged g) as f (w, l) = ((es, f'), (w', l @ evs))
     \<and> retry_justified p as evs \<and> counts (pol_MaxRetries p) f f' evs"
proof (induction as arbitrary: f w l)
  case Nil
  then show ?case
    by (auto simp: retry_justified_def accepted_def intro!: counts_refl)
next
  case (Cons a as)
  obtain es f1 w1 evs1 where one: "retry_one (op_logged op) (jobs_logged g) a f (w, l) = ((es, f1), (w1, l @ evs1))"
    and j1: "retry_justified p [a] evs1" and c1: "counts (pol_MaxRetries p) f f1 evs1"
    using retry_one_logged [OF p, of g a f w l] by blast
  obtain es' f2 w2 evs2 where two: "retry_loop (op_logged op) (jobs_logged g) as f1 (w1, l @ evs1) = ((es', f2), (w2, (l @ evs1) @ evs2))"
    and j2: "retry_justified p as evs2" and c2: "counts (pol_MaxRetries p) f1 f2 evs2"
    using Cons [of f1 w1 "l @ evs1"] by blast
  have "retry_justified p (a # as) (evs1 @ evs2)"
    by (intro retry_justified_append retry_justified_mono [OF j1] retry_justified_mono [OF j2]) auto
  with one two counts_trans [OF c1 c2] show ?case
    by simp
qed

section \<open>A pass\<close>

lemma processInterruptionRetries_logged:
  assumes run: "processInterruptionRetries (op_logged op) (w, []) = (e, (w', tr))"
    and list: "List_allocations (op_Store op) w = (Inr allocs, w1)"
    and load: "loadFleet op w1 = (Inr (cm, f), w2)"
  shows "\<exists>f' evs. (tr = evs \<or> (\<exists>ok. tr = evs @ [OpFleetSaved f' ok]))
    \<and> retry_justified (cfg_Retry (op_Config op)) (filter retry_candidate allocs) evs
    \<and> counts (pol_MaxRetries (cfg_Retry (op_Config op))) f f' evs"
proof (cases "\<exists>g. op_GitHubJobs op = Some g \<and> pol_Enabled (cfg_Retry (op_Config op)) \<and> filter retry_candidate allocs \<noteq> []")
  case False
  with run list have "tr = []"
    by (auto simp: processInterruptionRetries_def Let_def split: option.splits if_splits)
  then show ?thesis
    by (intro exI [of _ f] exI [of _ "[]"]) (auto simp: retry_justified_def accepted_def intro!: counts_refl)
next
  case True
  then obtain g where g: "op_GitHubJobs op = Some g" "pol_Enabled (cfg_Retry (op_Config op))"
    and some: "filter retry_candidate allocs \<noteq> []" by blast
  let ?as = "filter retry_candidate allocs"
  obtain es f' w3 evs where loop: "retry_loop (op_logged op) (jobs_logged g) ?as f (w2, []) = ((es, f'), (w3, evs))"
    and ok: "retry_justified (cfg_Retry (op_Config op)) ?as evs"
      "counts (pol_MaxRetries (cfg_Retry (op_Config op))) f f' evs"
    using retry_loop_logged [OF refl, of op g ?as f w2 "[]"] by auto
  obtain s w4 where save: "saveFleet op cm f' w3 = (s, w4)" by force
  from run list load g some loop save have
    "tr = evs @ (case Marshal_fleet f' of Inl _ \<Rightarrow> [] | Inr _ \<Rightarrow> [OpFleetSaved f' (s = None)])"
    by (auto simp: processInterruptionRetries_def Let_def saveFleet_logged split: option.splits)
  then show ?thesis
    using ok by (intro exI [of _ f'] exI [of _ evs]) (auto split: sum.splits)
qed

text \<open>
  Claim C19 (every rerun is justified). Whatever the API, the clock and GitHub answer, a pass requests
  a rerun of a workflow run only directly after reading the jobs of the attempt that is about to be
  superseded, for a listed allocation whose machine was confirmed interrupted, whose one job in that
  attempt ended in failure, under an acknowledged policy of at most three retries of which one is
  still left.
\<close>

theorem rerun_justified:
  assumes "processInterruptionRetries (op_logged op) (w, []) = (e, (w', tr))"
    and "List_allocations (op_Store op) w = (Inr allocs, w1)" "loadFleet op w1 = (Inr (cm, f), w2)"
  shows "\<forall>pre ow re run r post. tr = pre @ OpRerun ow re run r # post \<longrightarrow>
    request_evidence (cfg_Retry (op_Config op)) (filter retry_candidate allocs) pre ow re run"
proof -
  obtain f' evs where "tr = evs \<or> (\<exists>ok. tr = evs @ [OpFleetSaved f' ok])"
    "retry_justified (cfg_Retry (op_Config op)) (filter retry_candidate allocs) evs"
    using processInterruptionRetries_logged [OF assms] by blast
  then have "retry_justified (cfg_Retry (op_Config op)) (filter retry_candidate allocs) tr"
    using retry_justified_append [OF _ quiet_justified] by (auto simp: quiet_def)
  then show ?thesis
    by (simp add: retry_justified_def)
qed


section \<open>A concrete pass\<close>

definition demo_pass :: "unit operator" where
  "demo_pass = demo_retry_operator [''a'', ''b''] None"

definition demo_read :: op_event where
  "demo_read = OpAttemptJobs ''o'' ''r'' 7 1 (Inr (map demo_job [(1, ''a''), (2, ''b'')]))"

lemma demo_pass_runs:
  "processInterruptionRetries (op_logged demo_pass) ((), []) = (None, ((),
    [demo_read, OpRerun ''o'' ''r'' 7 None,
     OpAttemptJobs ''o'' ''r'' 7 2 (Inl (Err [ErrAttemptNotFound] ''no such attempt'')),
     OpFleetSaved (demo_fleet\<lparr>fl_RetriesUsedByRun := [(7, 1)]\<rparr>) True]))"
  by code_simp

lemma demo_pass_lists:
  "List_allocations (op_Store demo_pass) () = (Inr (map (\<lambda>n. (demo_record n)\<lparr>al_Revision := ''v''\<rparr>) [''a'', ''b'']), ())"
  by code_simp

lemma demo_pass_loads: "loadFleet demo_pass () = (Inr (demo_fleet_map demo_fleet, demo_fleet), ())"
  by code_simp

theorem rerun_justified_witness:
  "\<exists>allocs. request_evidence (cfg_Retry (op_Config demo_pass)) allocs [demo_read] ''o'' ''r'' 7"
  using rerun_justified [OF demo_pass_runs demo_pass_lists demo_pass_loads, rule_format, of "[demo_read]"] by auto


text \<open>
  Four allocations of one run, interrupted together, while GitHub answers a rerun request ambiguously
  and does not show the next attempt yet: the polls of the three later allocations are taken for
  three reconciliation passes, and a second rerun of the run is requested within the same pass.
\<close>

lemma same_pass_second_rerun:
  "length (filter rerun_event (snd (snd (processInterruptionRetries
     (op_logged (demo_retry_operator [''a'', ''b'', ''c'', ''d''] (Some (errors_New ''timeout'')))) ((), []))))) = 2"
  by code_simp

end
