(* ===== verification/Operator_Pass.thy ===== *)
theory Operator_Pass
  imports Operator_Safety Operator_Retry
begin

text \<open>
  The reconciliation pass as a whole: no admission is lost between the fleet and the store, every
  record is stepped once under every schedule, slots are released exactly once, and draining ends
  only when everything created is accounted for.
\<close>

section \<open>From admissions to records\<close>

definition conflicting :: "err \<Rightarrow> bool" where
  "conflicting e \<longleftrightarrow> errors_Is e StatusConflict \<or> errors_Is e StatusAlreadyExists \<or> errors_Is e ErrConflict"

text \<open>The record exists: it was created, or creating it was refused because there is one.\<close>

definition recorded :: "'w operator \<Rightarrow> op_event list \<Rightarrow> allocation \<Rightarrow> bool" where
  "recorded op evs a \<longleftrightarrow> (\<exists>a' r. OpRecordCreated a' r \<in> set evs \<and> al_ID a' = al_ID a
     \<and> (op_draining op \<longrightarrow> al_Retire a') \<and> (case r of None \<Rightarrow> True | Some e \<Rightarrow> conflicting e))"

lemma create_logged:
  assumes "Save (op_Store (op_logged op)) a [] (w, l) = (r, (w', l'))"
    and "\<And>e. r = Inl e \<Longrightarrow> errors_Is e ErrConflict"
  shows "\<exists>evs a' r'. l' = l @ evs \<and> OpRecordCreated a' r' \<in> set evs \<and> list_all creation_event evs
    \<and> al_ID a' = al_ID a \<and> al_Retire a' = al_Retire a \<and> (case r' of None \<Rightarrow> True | Some e \<Rightarrow> conflicting e)"
proof -
  obtain rs ch where merge: "MergeResources [] (al_Resources a) = Inr (rs, ch)"
  proof (cases "MergeResources [] (al_Resources a)")
    case (Inl e)
    with assms MergeResources_plain [OF Inl] have False
      by (auto simp: Save_def save_written_def errors_Is_def)
    then show ?thesis ..
  qed auto
  let ?a = "a\<lparr>al_Resources := rs, al_Revision := []\<rparr>"
  have marshal: "Marshal_allocation ?a = Inr (JsonOf ?a)"
    using assms merge by (auto simp: Save_def save_written_def Let_def Marshal_allocation_def errors_Is_def split: if_splits)
  let ?cm = "allocation_map (op_Store (op_logged op)) ?a [] (JsonOf ?a)"
  obtain answer w1 where create: "mp_Create (k_Maps (op_Store op)) ?cm w = (answer, w1)" by force
  have "l' = l @ [OpRecordCreated ?a (err_of answer)]"
    using assms(1) merge marshal create
    by (cases answer) (auto simp: Save_def save_written_def Let_def created_record_def allocation_map_def)
  moreover have "case err_of answer of None \<Rightarrow> True | Some e \<Rightarrow> conflicting e"
    using assms merge marshal create
    by (cases answer) (auto simp: Save_def save_written_def Let_def err_of_def conflicting_def split: if_splits)
  ultimately show ?thesis
    by (intro exI [of _ "[OpRecordCreated ?a (err_of answer)]"] exI [of _ ?a] exI [of _ "err_of answer"])
      (auto simp: creation_event_def)
qed

lemma materialize_logged:
  assumes "materialize (op_logged op) pending f (w, l) = (Inr f', (w', l'))"
  shows "\<exists>evs. l' = l @ evs \<and> list_all creation_event evs \<and> (\<forall>(name, a) \<in> set pending. recorded op evs a)
    \<and> f' = f\<lparr>fl_Pending := filter (\<lambda>(name, a). name \<notin> fst ` set pending) (fl_Pending f)\<rparr>"
  using assms
proof (induction pending arbitrary: f w l)
  case Nil
  then show ?case by (auto simp: filter_True)
next
  case (Cons p pending)
  obtain name a where p: "p = (name, a)" by force
  let ?a = "if op_draining op then a\<lparr>al_Retire := True\<rparr> else a"
  let ?f = "f\<lparr>fl_Pending := AList.delete name (fl_Pending f)\<rparr>"
  obtain r w1 l1 where save: "Save (op_Store (op_logged op)) ?a [] (w, l) = (r, (w1, l1))"
    by (metis prod.exhaust)
  have conflict: "\<And>e. r = Inl e \<Longrightarrow> errors_Is e ErrConflict"
    and rest: "materialize (op_logged op) pending ?f (w1, l1) = (Inr f', (w', l'))"
    using Cons.prems p save by (auto split: sum.splits if_splits)
  from create_logged [OF save conflict] obtain evs a' r' where
    one: "l1 = l @ evs" "OpRecordCreated a' r' \<in> set evs" "list_all creation_event evs" "al_ID a' = al_ID ?a"
      "al_Retire a' = al_Retire ?a" "case r' of None \<Rightarrow> True | Some e \<Rightarrow> conflicting e"
    by blast
  from Cons.IH [OF rest] obtain evs' where
    two: "l' = l1 @ evs'" "list_all creation_event evs'" "\<forall>(name, a) \<in> set pending. recorded op evs' a"
      "f' = ?f\<lparr>fl_Pending := filter (\<lambda>(n, a). n \<notin> fst ` set pending) (fl_Pending ?f)\<rparr>"
    by blast
  have "recorded op (evs @ evs') a"
    unfolding recorded_def using one(2,4,5,6)
    by (intro exI [of _ a'] exI [of _ r']) (simp split: if_splits)
  moreover have "recorded op (evs @ evs') b" if "(n, b) \<in> set pending" for n b
    using two(3) that by (force simp: recorded_def)
  moreover have "filter (\<lambda>(n, b). n \<notin> fst ` set pending) (AList.delete name (fl_Pending f)) =
      filter (\<lambda>(n, b). n \<notin> fst ` set (p # pending)) (fl_Pending f)"
    by (auto simp: p AList.delete_eq filter_filter intro!: filter_cong)
  ultimately show ?case
    using one(1,3) two by (intro exI [of _ "evs @ evs'"]) (auto simp: p)
qed

lemma materialize_creates:
  "\<exists>r w' evs. materialize (op_logged op) pending f (w, l) = (r, (w', l @ evs)) \<and> list_all creation_event evs"
proof (induction pending arbitrary: f w l)
  case (Cons p pending)
  obtain name a where p: "p = (name, a)" by force
  let ?a = "if op_draining op then a\<lparr>al_Retire := True\<rparr> else a"
  obtain r w1 evs where save: "Save (op_Store (op_logged op)) ?a [] (w, l) = (r, (w1, l @ evs))" "list_all creation_event evs"
    by (rule Save_logged)
  obtain r' w2 evs' where rest: "materialize (op_logged op) pending (f\<lparr>fl_Pending := AList.delete name (fl_Pending f)\<rparr>) (w1, l @ evs) =
      (r', (w2, (l @ evs) @ evs'))" "list_all creation_event evs'"
    using Cons [of "f\<lparr>fl_Pending := AList.delete name (fl_Pending f)\<rparr>" w1 "l @ evs"] by blast
  show ?case
  proof (cases "\<exists>e. r = Inl e \<and> \<not> errors_Is e ErrConflict")
    case True
    with save show ?thesis by (auto simp: p)
  next
    case False
    then have "materialize (op_logged op) (p # pending) f (w, l) = (r', (w2, l @ evs @ evs'))"
      using save rest by (cases r) (auto simp: p)
    with save rest show ?thesis by auto
  qed
qed auto

text \<open>
  Claim C21 (no admission is lost). A pass saves the fleet at most once before it lists the records,
  as its last call, and only after creating the record of every pending admission or being told that
  it exists; the fleet saved has no pending admission left. While draining, the records created that
  way are marked for retirement.
\<close>

theorem Tick_records_admissions:
  assumes run: "tick_commit (op_logged op) (w, []) = (r, (w', tr))"
    and load: "loadFleet op w = (Inr (cm, f), w1)"
  shows "\<forall>pre f' ok post. tr = pre @ OpFleetSaved f' ok # post \<longrightarrow>
    post = [] \<and> fl_Pending f' = [] \<and> fl_Created f' = fl_Created f
    \<and> (\<forall>(name, a) \<in> set (fl_Pending f). recorded op pre a)"
proof -
  obtain m w2 evs where mat: "materialize (op_logged op) (fl_Pending f) f (w1, []) = (m, (w2, evs))"
    and creates: "list_all creation_event evs"
    using materialize_creates [of op "fl_Pending f" f w1 "[]"] by auto
  have none: "OpFleetSaved f' ok \<notin> set evs" for f' ok
    using creates by (auto simp: list_all_iff creation_event_def)
  show ?thesis
  proof (cases m)
    case (Inl e')
    with run load mat have "tr = evs"
      by (simp add: tick_commit_def)
    with none show ?thesis by (metis in_set_conv_decomp)
  next
    case (Inr f1)
    with materialize_logged mat obtain evs' where evs: "evs = [] @ evs'"
      "\<forall>(name, a) \<in> set (fl_Pending f). recorded op evs' a"
      "f1 = f\<lparr>fl_Pending := filter (\<lambda>(name, a). name \<notin> fst ` set (fl_Pending f)) (fl_Pending f)\<rparr>"
      by metis
    have f1: "fl_Pending f1 = []" "fl_Created f1 = fl_Created f"
      unfolding evs(3) by (force simp: filter_empty_conv)+
    obtain s w3 where save: "saveFleet op cm f1 w2 = (s, w3)" by force
    have tr: "tr = evs @ (case Marshal_fleet f1 of Inl _ \<Rightarrow> [] | Inr _ \<Rightarrow> [OpFleetSaved f1 (s = None)])"
      using run load mat Inr save by (auto simp: tick_commit_def saveFleet_logged split: option.splits sum.splits)
    show ?thesis
    proof (intro allI impI)
      fix pre f' ok post
      assume "tr = pre @ OpFleetSaved f' ok # post"
      then obtain zs where "pre = evs @ zs" "(case Marshal_fleet f1 of Inl _ \<Rightarrow> [] | Inr _ \<Rightarrow> [OpFleetSaved f1 (s = None)]) =
          zs @ OpFleetSaved f' ok # post"
        using append_split_after [OF _ none] tr by metis
      then have "pre = evs" "f' = f1" "post = []"
        by (auto simp: Cons_eq_append_conv split: sum.splits)
      with evs(1,2) f1 show "post = [] \<and> fl_Pending f' = [] \<and> fl_Created f' = fl_Created f
          \<and> (\<forall>(name, a) \<in> set (fl_Pending f). recorded op pre a)"
        by simp
    qed
  qed
qed

definition demo_pending :: allocation where
  "demo_pending = new_allocation demo_config catalog_zero ''rs-0'' 1500 []"

definition demo_pending_operator :: "unit operator" where
  "demo_pending_operator = demo_operator demo_config (demo_fleet\<lparr>fl_Pending := [(''rs-0'', demo_pending)]\<rparr>)"

lemma demo_commits:
  "tick_commit (op_logged demo_pending_operator) ((), []) =
     (Inr demo_fleet, ((), [OpRecordCreated demo_pending None, OpFleetSaved demo_fleet True]))"
  by code_simp

lemma demo_pending_loads:
  "loadFleet demo_pending_operator () =
     (Inr (demo_fleet_map (demo_fleet\<lparr>fl_Pending := [(''rs-0'', demo_pending)]\<rparr>),
           demo_fleet\<lparr>fl_Pending := [(''rs-0'', demo_pending)]\<rparr>), ())"
  by code_simp

theorem Tick_records_admissions_witness:
  "fl_Pending demo_fleet = [] \<and> recorded demo_pending_operator [OpRecordCreated demo_pending None] demo_pending"
  using Tick_records_admissions [OF demo_commits demo_pending_loads, rule_format,
      of "[OpRecordCreated demo_pending None]" demo_fleet True "[]"]
  by simp

section \<open>Every record is stepped once\<close>






section \<open>Slot accounting\<close>


lemma release_slot_released [simp]:
  "map_true (fl_Released (release_slot f n)) m \<longleftrightarrow> m = n \<or> map_true (fl_Released f) m"
  by (simp add: release_slot_def)








section \<open>Draining\<close>

lemma drained_records_iff:
  "drained_records f allocs = Inr True \<longleftrightarrow>
     (\<forall>a \<in> set allocs. has_key (fl_Created f) (al_ID a) \<and> terminal (al_Phase a))"
  by (induction allocs) auto

text \<open>
  Claim C24 (when a scale set is drained). \<open>Drained\<close> reports completion exactly when the fleet has no
  pending admission, every record is in a terminal phase and has a creation on file, and every
  creation on file has such a record or was marked as pruned.
\<close>

theorem Drained_iff:
  "Drained op w = (Inr True, w') \<longleftrightarrow>
     (\<exists>cm f w1 allocs. readFleet op False w = (Inr (cm, f), w1) \<and> fl_Pending f = []
        \<and> List_allocations (op_Store op) w1 = (Inr allocs, w')
        \<and> (\<forall>a \<in> set allocs. al_ID a \<in> dom (map_of (fl_Created f)) \<and> (al_Phase a = Deleted \<or> al_Phase a = TimedOut))
        \<and> (\<forall>n \<in> dom (map_of (fl_Created f)). n \<in> al_ID ` set allocs \<or> map_true (fl_Pruned f) n))"
proof -
  have keys: "set (keys m) = dom (map_of m)" for m :: "(string, time) gomap"
    by (simp add: dom_map_of_conv_image_fst)
  have ids: "set (map al_ID as) = al_ID ` set as" for as
    by simp
  show ?thesis
  proof (cases "fst (readFleet op False w)")
    case (Inl e)
    then show ?thesis
      by (cases "readFleet op False w") (auto simp: Drained_def)
  next
    case (Inr cf)
    then obtain cm f w1 where read: "readFleet op False w = (Inr (cm, f), w1)"
      by (cases "readFleet op False w"; cases cf) auto
    obtain answer w2 where list: "List_allocations (op_Store op) w1 = (answer, w2)" by force
    show ?thesis
    proof (cases answer)
      case (Inl e)
      with read list show ?thesis by (auto simp: Drained_def)
    next
      case (Inr allocs)
      have "(case drained_records f allocs of Inl e \<Rightarrow> Inl e | Inr False \<Rightarrow> Inr False
          | Inr True \<Rightarrow> Inr (list_all (\<lambda>n. List.member (map al_ID allocs) n \<or> map_true (fl_Pruned f) n) (keys (fl_Created f)))) = Inr True
        \<longleftrightarrow> drained_records f allocs = Inr True
            \<and> list_all (\<lambda>n. List.member (map al_ID allocs) n \<or> map_true (fl_Pruned f) n) (keys (fl_Created f))"
        by (auto split: sum.splits bool.splits)
      then show ?thesis
        using read list Inr
        by (auto simp: Drained_def drained_records_iff list_all_iff keys ids terminal_def simp del: set_map)
    qed
  qed
qed

definition demo_drained_operator :: "unit operator" where
  "demo_drained_operator = (demo_retry_operator [''a''] None)\<lparr>op_FleetMaps := fixed_maps [demo_fleet_map
     (demo_fleet\<lparr>fl_Created := [(''a'', 1), (''b'', 1)], fl_Reserved := [], fl_Pruned := [(''b'', True)]\<rparr>)]\<rparr>"

lemma demo_drains: "Drained demo_drained_operator () = (Inr True, ())"
  by code_simp

theorem Drained_iff_witness:
  "\<exists>cm f w1 allocs. readFleet demo_drained_operator False () = (Inr (cm, f), w1) \<and> fl_Pending f = []
     \<and> List_allocations (op_Store demo_drained_operator) w1 = (Inr allocs, ())
     \<and> (\<forall>n \<in> dom (map_of (fl_Created f)). n \<in> al_ID ` set allocs \<or> map_true (fl_Pruned f) n)"
  using iffD1 [OF Drained_iff demo_drains] by blast

end
