(* ===== verification/Operator_Prices.thy ===== *)
theory Operator_Prices
  imports Operator_Demo
begin

text \<open>
  The price refresh of \<open>internal/operator/prices.go\<close> together with the placement decision: a pool whose
  price could not be observed is never chosen at an old price.
\<close>

section \<open>What a refresh changes\<close>

text \<open>Everything of an offering but its price fields.\<close>

definition unpriced :: "offering \<Rightarrow> offering" where
  "unpriced o' = o'\<lparr>off_PriceMicros := 0, off_Currency := [], off_ObservedAt := 0\<rparr>"


lemma requote_unpriced [simp]: "unpriced (requote a answer) = unpriced a"
  by (simp add: requote_def unpriced_def split: sum.split)















section \<open>No decision on an unobserved price\<close>








end
