(* ===== verification/Config_API.thy ===== *)
theory Config_API
  imports Operator_Fleet
begin

text \<open>
  \<open>api/v1alpha1/types.go\<close>: the namespaced configuration objects, one record per Go struct and in its
  order, with the validation markers of the structs as predicates. Of the Kubernetes \<open>ObjectMeta\<close> the
  fields the sources read are kept; \<open>TypeMeta\<close> is checked by the reader and not used after it. A URL
  and a CIDR text are represented by what parsing finds in them, as in the operator's configuration.
\<close>

section \<open>Object metadata\<close>

record object_meta =
  om_Name :: string
  om_Namespace :: string
  om_UID :: string
  om_ResourceVersion :: string
  om_Generation :: int
  om_DeletionTimestamp :: "time option"
  om_Finalizers :: "string list"

record condition =
  cond_Type :: string
  cond_Status :: string
  cond_Reason :: string
  cond_Message :: string
  cond_ObservedGeneration :: int
  cond_LastTransitionTime :: string

section \<open>References and status\<close>

record local_reference =
  lr_Name :: string

record secret_key_reference =
  skr_Name :: string
  skr_Key :: string

record configuration_status =
  cs_ObservedGeneration :: int
  cs_Conditions :: "condition list"

definition status_zero :: configuration_status where
  "status_zero = \<lparr>cs_ObservedGeneration = 0, cs_Conditions = []\<rparr>"

section \<open>Providers\<close>

record provider_connection =
  cn_Kind :: string
  cn_AccountID :: string
  cn_Subscription :: string
  cn_ResourceGroup :: string
  cn_SSHPublicKey :: string
  cn_Project :: string
  cn_Profile :: string
  cn_Subnet :: string
  cn_SecurityGroup :: string

record provider_config_spec =
  pcs_Connection :: provider_connection
  pcs_CredentialEnvironment :: "(string, secret_key_reference) gomap"

record provider_config_object =
  pco_ObjectMeta :: object_meta
  pco_Spec :: provider_config_spec
  pco_Status :: configuration_status

section \<open>Runner classes\<close>

record class_resources =
  res_CPU :: int
  res_MemoryMiB :: int
  res_Architecture :: string
  res_Vendor :: string
  res_Capabilities :: "string list"

record placement_policy =
  plp_Policy :: string
  plp_Regions :: "string list"
  plp_MaxPriceMicros :: int
  plp_AllowOnDemand :: bool

record class_retry_policy =
  crp_Enabled :: bool
  crp_MaxRetries :: int
  crp_AcknowledgeRepeatedEffects :: bool

record runner_class_spec =
  rcs_Resources :: class_resources
  rcs_Placement :: placement_policy
  rcs_Providers :: "local_reference list"
  rcs_CatalogRef :: local_reference
  rcs_NetworkRef :: "local_reference option"
  rcs_Retry :: class_retry_policy

record runner_class =
  rc_ObjectMeta :: object_meta
  rc_Spec :: runner_class_spec
  rc_Status :: configuration_status

section \<open>Scale sets\<close>

record github_authentication =
  gha_Mode :: string
  gha_SecretRef :: secret_key_reference
  gha_AppClientID :: string
  gha_AppInstallationID :: int

record github_scale_set =
  ghs_URL :: "parsed_url option"
  ghs_ScaleSetID :: int
  ghs_Auth :: github_authentication

record runner_scale_set_spec =
  rss_RunnerClassRef :: local_reference
  rss_GitHub :: github_scale_set
  rss_MaxRunners :: int
  rss_ProvisioningSeconds :: int
  rss_MaxLifetimeSeconds :: int
  rss_Suspend :: bool
  rss_BudgetRef :: "local_reference option"

record runner_scale_set =
  rs_ObjectMeta :: object_meta
  rs_Spec :: runner_scale_set_spec
  rs_Status :: configuration_status

section \<open>Catalogs\<close>

record api_gcp_sku_refs =
  asr_CoreSkuID :: string
  asr_RamSkuID :: string

record api_offering =
  ao_ID :: string
  ao_Provider :: string
  ao_Region :: string
  ao_Zone :: string
  ao_Machine :: string
  ao_Image :: string
  ao_CPU :: int
  ao_MemoryMiB :: int
  ao_Architecture :: string
  ao_Vendor :: string
  ao_Capabilities :: "string list"
  ao_Spot :: bool
  ao_PriceMicros :: int
  ao_Currency :: string
  ao_ObservedAt :: time
  ao_GCPSkuRefs :: "api_gcp_sku_refs option"

record capacity_catalog_spec =
  ccs_Offerings :: "api_offering list"
  ccs_Complete :: "(string, bool) gomap"
  ccs_PriceRefresh :: "(string, bool) gomap"

record capacity_catalog =
  cc_ObjectMeta :: object_meta
  cc_Spec :: capacity_catalog_spec
  cc_Status :: configuration_status

section \<open>Networks and budgets\<close>

record network_mapping =
  nm_ProviderRef :: local_reference
  nm_Region :: string
  nm_NetworkID :: string
  nm_SubnetID :: string
  nm_CIDRs :: "cidr_text list"

record network_profile_spec =
  nps_Mode :: string
  nps_Mappings :: "network_mapping list"
  nps_AllowedServices :: "string list"
  nps_EnrollmentRef :: "secret_key_reference option"

record network_profile =
  np_ObjectMeta :: object_meta
  np_Spec :: network_profile_spec
  np_Status :: configuration_status

record capacity_budget_spec =
  cbs_DailyBudgetMicros :: int

record capacity_budget =
  cb_ObjectMeta :: object_meta
  cb_Spec :: capacity_budget_spec
  cb_Status :: configuration_status

section \<open>Validation markers\<close>

text \<open>
  The \<open>+kubebuilder:validation\<close> markers of the structs. An \<open>omitempty\<close> field is absent from the
  document exactly when it has its zero value, so \<open>has(self.f)\<close> is that \<open>f\<close> is not zero.
\<close>

definition label_byte :: "char \<Rightarrow> bool" where
  "label_byte c \<longleftrightarrow> CHR ''a'' \<le> c \<and> c \<le> CHR ''z'' \<or> CHR ''0'' \<le> c \<and> c \<le> CHR ''9''"

definition schema_LocalReference :: "local_reference \<Rightarrow> bool" where
  "schema_LocalReference r \<longleftrightarrow>
     1 \<le> length (lr_Name r) \<and> length (lr_Name r) \<le> 63
     \<and> label_byte (hd (lr_Name r)) \<and> label_byte (last (lr_Name r))
     \<and> list_all (\<lambda>c. label_byte c \<or> c = CHR ''-'') (lr_Name r)"

definition schema_SecretKeyReference :: "secret_key_reference \<Rightarrow> bool" where
  "schema_SecretKeyReference r \<longleftrightarrow>
     1 \<le> length (skr_Name r) \<and> length (skr_Name r) \<le> 253
     \<and> label_byte (hd (skr_Name r)) \<and> label_byte (last (skr_Name r))
     \<and> list_all (\<lambda>c. label_byte c \<or> c = CHR ''-'' \<or> c = CHR ''.'') (skr_Name r)
     \<and> 1 \<le> length (skr_Key r) \<and> length (skr_Key r) \<le> 253
     \<and> list_all (\<lambda>c. label_byte c \<or> CHR ''A'' \<le> c \<and> c \<le> CHR ''Z'' \<or> List.member ''-._'' c) (skr_Key r)"

definition schema_GitHubAuthentication :: "github_authentication \<Rightarrow> bool" where
  "schema_GitHubAuthentication a \<longleftrightarrow>
     List.member [''pat'', ''app''] (gha_Mode a) \<and> schema_SecretKeyReference (gha_SecretRef a)
     \<and> (gha_Mode a \<noteq> ''app'' \<or> length (gha_AppClientID a) > 0 \<and> gha_AppInstallationID a \<noteq> 0)
     \<and> (gha_Mode a \<noteq> ''pat'' \<or> gha_AppClientID a = [] \<and> gha_AppInstallationID a = 0)
     \<and> (gha_AppInstallationID a \<noteq> 0 \<longrightarrow> gha_AppInstallationID a \<ge> 1)"

definition schema_RunnerScaleSetSpec :: "runner_scale_set_spec \<Rightarrow> bool" where
  "schema_RunnerScaleSetSpec s \<longleftrightarrow>
     rss_MaxLifetimeSeconds s \<ge> rss_ProvisioningSeconds s
     \<and> schema_LocalReference (rss_RunnerClassRef s)
     \<and> ghs_ScaleSetID (rss_GitHub s) \<ge> 1 \<and> schema_GitHubAuthentication (ghs_Auth (rss_GitHub s))
     \<and> 1 \<le> rss_MaxRunners s \<and> rss_MaxRunners s \<le> 10
     \<and> 1 \<le> rss_ProvisioningSeconds s \<and> rss_ProvisioningSeconds s \<le> 600
     \<and> 1 \<le> rss_MaxLifetimeSeconds s \<and> rss_MaxLifetimeSeconds s \<le> 21600
     \<and> (case rss_BudgetRef s of None \<Rightarrow> True | Some r \<Rightarrow> schema_LocalReference r)"

definition schema_ProviderConnection :: "provider_connection \<Rightarrow> bool" where
  "schema_ProviderConnection c \<longleftrightarrow>
     (cn_Kind c \<noteq> ''aws'' \<or> length (cn_AccountID c) = 12
        \<and> list_all (\<lambda>x. CHR ''0'' \<le> x \<and> x \<le> CHR ''9'') (cn_AccountID c) \<and> length (cn_SecurityGroup c) > 0)
     \<and> (cn_Kind c \<noteq> ''azure'' \<or> cn_Subscription c \<noteq> [] \<and> cn_ResourceGroup c \<noteq> [] \<and> cn_SecurityGroup c \<noteq> []
        \<and> cn_SSHPublicKey c \<noteq> [])
     \<and> (cn_Kind c \<noteq> ''gcp'' \<or> length (cn_Project c) > 0)
     \<and> List.member [''aws'', ''azure'', ''gcp''] (cn_Kind c)
     \<and> 1 \<le> length (cn_Subnet c)"

end
