(* ===== verification/Config_Compile.thy ===== *)
theory Config_Compile
  imports Config_API
begin

unbundle bit_operations_syntax

text \<open>
  \<open>internal/configapi/compile.go\<close>: resolving one scale set's objects into the operator's configuration,
  with no effect on any system. The lemmas show that what is accepted is local to the namespace, that
  the network profile's address blocks are disjoint and cover every pool the class may use, and that
  the bounds of the configuration API hold again for whatever passes.
\<close>

section \<open>Library checks\<close>

text \<open>
  The Kubernetes name checks return a list of complaints; a check here is that the list is empty.
  \<open>validators_contract\<close> is their documented grammar.
\<close>

record validators =
  vd_IsDNS1123Label :: "string \<Rightarrow> bool"
  vd_IsDNS1123Subdomain :: "string \<Rightarrow> bool"
  vd_IsConfigMapKey :: "string \<Rightarrow> bool"

definition dns_name :: "nat \<Rightarrow> string \<Rightarrow> string \<Rightarrow> bool" where
  "dns_name limit extra s \<longleftrightarrow> s \<noteq> [] \<and> length s \<le> limit \<and> label_byte (hd s) \<and> label_byte (last s)
     \<and> list_all (\<lambda>c. label_byte c \<or> List.member extra c) s"

definition config_map_key :: "string \<Rightarrow> bool" where
  "config_map_key s \<longleftrightarrow> s \<noteq> [] \<and> length s \<le> 253
     \<and> list_all (\<lambda>c. label_byte c \<or> CHR ''A'' \<le> c \<and> c \<le> CHR ''Z'' \<or> List.member ''-._'' c) s"

definition validators_contract :: "validators \<Rightarrow> bool" where
  "validators_contract v \<longleftrightarrow>
     (\<forall>s. vd_IsDNS1123Label v s \<longrightarrow> dns_name 63 ''-'' s)
     \<and> (\<forall>s. vd_IsDNS1123Subdomain v s \<longrightarrow> dns_name 253 ''-.'' s)
     \<and> (\<forall>s. vd_IsConfigMapKey v s \<longrightarrow> config_map_key s)"

text \<open>\<open>netip.Prefix.Overlaps\<close>; \<open>Addr.Prefix\<close> fails when the length exceeds the family's.\<close>

definition Addr_Prefix :: "addr \<Rightarrow> nat \<Rightarrow> prefix option" where
  "Addr_Prefix a bits = (if bits > BitLen a then None else Some (Masked (Prefix a bits)))"

definition Is4 :: "addr \<Rightarrow> bool" where
  "Is4 a = (case a of V4 _ \<Rightarrow> True | V6 _ \<Rightarrow> False)"

definition Overlaps :: "prefix \<Rightarrow> prefix \<Rightarrow> bool" where
  "Overlaps p q =
     (if p = q then True
      else if Is4 (prefix_Addr p) \<noteq> Is4 (prefix_Addr q) then False
      else let minBits = min (prefix_Bits p) (prefix_Bits q) in
        if minBits = 0 then True
        else case (Addr_Prefix (prefix_Addr p) minBits, Addr_Prefix (prefix_Addr q) minBits) of
            (Some p', Some q') \<Rightarrow> prefix_Addr p' = prefix_Addr q'
          | _ \<Rightarrow> False)"

section \<open>Snapshot and result\<close>

record snapshot =
  sn_ScaleSet :: runner_scale_set
  sn_Class :: runner_class
  sn_Catalog :: capacity_catalog
  sn_Providers :: "(string, provider_config_object) gomap"
  sn_Network :: "network_profile option"
  sn_Budget :: "capacity_budget option"

record resolved =
  rv_Config :: config
  rv_Auth :: github_authentication
  rv_Credentials :: "(string, (string, secret_key_reference) gomap) gomap"
  rv_Suspend :: bool

definition ErrUnsupported_error :: "string \<Rightarrow> err" where
  "ErrUnsupported_error what =
     Err [ErrUnsupported] (''configuration requires an unimplemented runtime capability: '' @ what)"

definition object :: "validators \<Rightarrow> object_meta \<Rightarrow> string \<Rightarrow> string \<Rightarrow> err option" where
  "object v meta namespace name =
     (if om_Namespace meta \<noteq> namespace \<or> om_Name meta \<noteq> name \<or> \<not> vd_IsDNS1123Label v name
         \<or> \<not> vd_IsDNS1123Label v namespace
      then Some (errors_New ''invalid or cross-namespace object reference'')
      else if om_DeletionTimestamp meta \<noteq> None
      then Some (errors_New ''configuration dependency is being deleted'')
      else None)"

definition secret :: "validators \<Rightarrow> secret_key_reference \<Rightarrow> err option" where
  "secret v ref =
     (if \<not> vd_IsDNS1123Subdomain v (skr_Name ref) \<or> \<not> vd_IsConfigMapKey v (skr_Key ref) \<or> skr_Key ref = []
      then Some (errors_New ''invalid Secret key reference'') else None)"

section \<open>Credential variables\<close>

definition credentialVariables :: "(string, string list) gomap" where
  "credentialVariables =
     [(''aws'', [''AWS_ACCESS_KEY_ID'', ''AWS_SECRET_ACCESS_KEY'', ''AWS_SESSION_TOKEN'',
         ''AWS_SHARED_CREDENTIALS_FILE'', ''AWS_CONFIG_FILE'', ''AWS_WEB_IDENTITY_TOKEN_FILE'', ''AWS_ROLE_ARN'']),
      (''azure'', [''AZURE_CLIENT_ID'', ''AZURE_TENANT_ID'', ''AZURE_FEDERATED_TOKEN_FILE'',
         ''AZURE_CLIENT_SECRET'', ''AZURE_CLIENT_CERTIFICATE_PATH'', ''AZURE_CLIENT_CERTIFICATE_PASSWORD'',
         ''AZURE_CLIENT_SEND_CERTIFICATE_CHAIN'']),
      (''gcp'', [''GOOGLE_APPLICATION_CREDENTIALS'', ''CLOUDSDK_AUTH_CREDENTIAL_FILE_OVERRIDE'',
         ''GCP_BILLING_API_KEY''])]"

definition CredentialVariable :: "string \<Rightarrow> string \<Rightarrow> bool" where
  "CredentialVariable kind name \<longleftrightarrow> List.member (map_get [] credentialVariables kind) name"

definition credentialVariable :: "string \<Rightarrow> string \<Rightarrow> bool" where
  "credentialVariable kind name = CredentialVariable kind name"

section \<open>Networks\<close>

text \<open>The loops of \<open>network\<close>: over the CIDRs of a mapping, over the mappings, and the two coverage checks.\<close>

fun network_cidrs :: "cidr_text list \<Rightarrow> prefix list \<Rightarrow> err + prefix list" where
  "network_cidrs [] prefixes = Inr prefixes"
| "network_cidrs (cidr # cidrs) prefixes =
     (case snd cidr of
        Inl _ \<Rightarrow> Inl (errors_New ''network CIDR must be a canonical prefix'')
      | Inr prefix \<Rightarrow>
          if prefix \<noteq> Masked prefix then Inl (errors_New ''network CIDR must be a canonical prefix'')
          else if list_ex (Overlaps prefix) prefixes then Inl (errors_New ''overlapping network CIDRs'')
          else network_cidrs cidrs (prefixes @ [prefix]))"

definition mapping_key :: "string \<Rightarrow> string \<Rightarrow> string" where
  "mapping_key provider region = provider @ ''/'' @ region"

fun network_mappings ::
    "(string, provider_config) gomap \<Rightarrow> string list \<Rightarrow> network_mapping list \<Rightarrow> (string, bool) gomap \<Rightarrow> prefix list
     \<Rightarrow> err + (string, bool) gomap \<times> prefix list" where
  "network_mappings providers regions [] seen prefixes = Inr (seen, prefixes)"
| "network_mappings providers regions (m # ms) seen prefixes =
     (let key = mapping_key (lr_Name (nm_ProviderRef m)) (nm_Region m);
          invalid = Inl (errors_New ''invalid or duplicate provider network mapping'') in
      case map_of providers (lr_Name (nm_ProviderRef m)) of
        None \<Rightarrow> invalid
      | Some p \<Rightarrow>
          if map_true seen key \<or> nm_NetworkID m = [] \<or> nm_SubnetID m \<noteq> pc_Subnet p
             \<or> \<not> List.member regions (nm_Region m) \<or> nm_CIDRs m = []
          then invalid
          else case network_cidrs (nm_CIDRs m) prefixes of
              Inl e \<Rightarrow> Inl e
            | Inr prefixes \<Rightarrow>
                network_mappings providers regions ms (AList.update key True seen) prefixes)"

definition network_covers :: "(string, provider_config) gomap \<Rightarrow> network_mapping list \<Rightarrow> bool" where
  "network_covers providers mappings \<longleftrightarrow>
     list_all (\<lambda>name. list_ex (\<lambda>m. lr_Name (nm_ProviderRef m) = name) mappings) (keys providers)"

definition offerings_mapped ::
    "(string, provider_config) gomap \<Rightarrow> string list \<Rightarrow> (string, bool) gomap \<Rightarrow> api_offering list \<Rightarrow> bool" where
  "offerings_mapped providers regions seen offerings \<longleftrightarrow>
     list_all (\<lambda>o'. \<not> (has_key providers (ao_Provider o') \<and> List.member regions (ao_Region o')
        \<and> \<not> map_true seen (mapping_key (ao_Provider o') (ao_Region o')))) offerings"

text \<open>The checks that depend on the mode of the profile.\<close>

definition network_mode :: "validators \<Rightarrow> network_profile_spec \<Rightarrow> err option" where
  "network_mode v n =
     (if nps_Mode n \<noteq> ''separate'' \<and> nps_Mode n \<noteq> ''wireguard''
      then Some (ErrUnsupported_error ''shared network integration'')
      else if nps_Mode n = ''separate'' \<and> (nps_EnrollmentRef n \<noteq> None \<or> nps_AllowedServices n \<noteq> [])
      then Some (errors_New ''separate networking cannot enroll peers or imply overlay access rules'')
      else if nps_Mode n = ''wireguard'' then
        (if nps_AllowedServices n \<noteq> []
         then Some (errors_New ''wireguard networking does not define overlay access rules for AllowedServices'')
         else case (case nps_EnrollmentRef n of None \<Rightarrow> None | Some ref \<Rightarrow> secret v ref) of
             Some e \<Rightarrow> Some e
           | None \<Rightarrow>
               if length (nps_Mappings n) \<noteq> 1
               then Some (errors_New ''wireguard networking supports exactly one network mapping'') else None)
      else None)"

definition network ::
    "validators \<Rightarrow> snapshot \<Rightarrow> (string, provider_config) gomap \<Rightarrow> err + string \<times> cidr_text list" where
  "network v s providers =
     (case rcs_NetworkRef (rc_Spec (sn_Class s)) of
        None \<Rightarrow>
          if sn_Network s \<noteq> None then Inl (errors_New ''unreferenced network configuration'') else Inr ([], [])
      | Some ref \<Rightarrow>
          (case sn_Network s of
             None \<Rightarrow> Inl (errors_New ''referenced network configuration is missing'')
           | Some n \<Rightarrow>
               (case object v (np_ObjectMeta n) (om_Namespace (rs_ObjectMeta (sn_ScaleSet s))) (lr_Name ref) of
                  Some e \<Rightarrow> Inl e
                | None \<Rightarrow>
                    (case network_mode v (np_Spec n) of
                       Some e \<Rightarrow> Inl e
                     | None \<Rightarrow>
                         let mappings = nps_Mappings (np_Spec n);
                             regions = plp_Regions (rcs_Placement (rc_Spec (sn_Class s))) in
                         (case network_mappings providers regions mappings [] [] of
                            Inl e \<Rightarrow> Inl e
                          | Inr (seen, _) \<Rightarrow>
                              if \<not> network_covers providers mappings
                              then Inl (errors_New ''network profile does not cover every allowed provider'')
                              else if \<not> offerings_mapped providers regions seen (ccs_Offerings (cc_Spec (sn_Catalog s)))
                              then Inl (errors_New ''catalog offering lacks a network mapping'')
                              else if nps_Mode (np_Spec n) = ''wireguard''
                              then Inr (om_Name (np_ObjectMeta n), nm_CIDRs (hd mappings))
                              else Inr ([], []))))))"

section \<open>Compile\<close>

text \<open>The checks before the provider loop: the three root objects, the token reference, authentication, retries.\<close>

definition compile_auth :: "github_authentication \<Rightarrow> err option" where
  "compile_auth auth =
     (if gha_Mode auth = ''pat'' then
        (if gha_AppClientID auth \<noteq> [] \<or> gha_AppInstallationID auth \<noteq> 0
         then Some (errors_New ''PAT authentication cannot contain App settings'') else None)
      else if gha_Mode auth = ''app'' then
        (if gha_AppClientID auth = [] \<or> gha_AppInstallationID auth \<le> 0
         then Some (errors_New ''App authentication requires client and installation identity'') else None)
      else Some (errors_New ''unsupported GitHub authentication mode''))"

definition compile_retry :: "class_retry_policy \<Rightarrow> github_authentication \<Rightarrow> err option" where
  "compile_retry retry auth =
     (if crp_Enabled retry \<and> gha_Mode auth \<noteq> ''pat''
      then Some (ErrUnsupported_error ''retry execution for App authentication'')
      else if \<not> crp_Enabled retry \<and> (crp_MaxRetries retry \<noteq> 0 \<or> crp_AcknowledgeRepeatedEffects retry)
      then Some (errors_New ''disabled retries cannot contain active retry settings'')
      else None)"

text \<open>Checks in sequence: the first complaint ends the function.\<close>

fun first_error :: "err option list \<Rightarrow> err option" where
  "first_error [] = None"
| "first_error (None # checks) = first_error checks"
| "first_error (Some e # checks) = Some e"

definition compile_roots :: "validators \<Rightarrow> snapshot \<Rightarrow> err option" where
  "compile_roots v s =
     (let ns = om_Namespace (rs_ObjectMeta (sn_ScaleSet s));
          auth = ghs_Auth (rss_GitHub (rs_Spec (sn_ScaleSet s))) in
      first_error
        [object v (rs_ObjectMeta (sn_ScaleSet s)) ns (om_Name (rs_ObjectMeta (sn_ScaleSet s))),
         object v (rc_ObjectMeta (sn_Class s)) ns (lr_Name (rss_RunnerClassRef (rs_Spec (sn_ScaleSet s)))),
         object v (cc_ObjectMeta (sn_Catalog s)) ns (lr_Name (rcs_CatalogRef (rc_Spec (sn_Class s)))),
         secret v (gha_SecretRef auth),
         compile_auth auth,
         compile_retry (rcs_Retry (rc_Spec (sn_Class s))) auth])"

text \<open>The environment of one provider, entry by entry.\<close>

fun compile_environment ::
    "validators \<Rightarrow> string \<Rightarrow> (string, secret_key_reference) gomap \<Rightarrow> (string, secret_key_reference) gomap
     \<Rightarrow> err + (string, secret_key_reference) gomap" where
  "compile_environment v kind [] acc = Inr acc"
| "compile_environment v kind ((name, ref) # env) acc =
     (if \<not> credentialVariable kind name
      then Inl (errors_New ''provider credential environment variable is not allowed'')
      else case secret v ref of
          Some e \<Rightarrow> Inl e
        | None \<Rightarrow> compile_environment v kind env (AList.update name ref acc))"

definition connection_config :: "provider_connection \<Rightarrow> string \<Rightarrow> provider_config" where
  "connection_config c owner =
     \<lparr>pc_AccountID = cn_AccountID c, pc_Subscription = cn_Subscription c, pc_ResourceGroup = cn_ResourceGroup c,
      pc_SSHPublicKey = cn_SSHPublicKey c, pc_Kind = cn_Kind c, pc_Project = cn_Project c,
      pc_Profile = cn_Profile c, pc_Subnet = cn_Subnet c, pc_SecurityGroup = cn_SecurityGroup c,
      pc_Owner = owner, pc_WireGuardControllerURL = [], pc_AzureDiskControllerType = []\<rparr>"

record compiling =
  cp_providers :: "(string, provider_config) gomap"
  cp_credentials :: "(string, (string, secret_key_reference) gomap) gomap"
  cp_names :: "string list"

definition compile_provider :: "validators \<Rightarrow> snapshot \<Rightarrow> local_reference \<Rightarrow> compiling \<Rightarrow> err + compiling" where
  "compile_provider v s ref acc =
     (case map_of (sn_Providers s) (lr_Name ref) of
        None \<Rightarrow> Inl (errors_New ''referenced provider is missing'')
      | Some p \<Rightarrow>
          if has_key (cp_providers acc) (lr_Name ref) then Inl (errors_New ''duplicate provider reference'')
          else case object v (pco_ObjectMeta p) (om_Namespace (rs_ObjectMeta (sn_ScaleSet s))) (lr_Name ref) of
              Some e \<Rightarrow> Inl e
            | None \<Rightarrow>
                let c = pcs_Connection (pco_Spec p) in
                (case compile_environment v (cn_Kind c) (pcs_CredentialEnvironment (pco_Spec p)) [] of
                   Inl e \<Rightarrow> Inl e
                 | Inr env \<Rightarrow> Inr
                     \<lparr>cp_providers = AList.update (lr_Name ref)
                        (connection_config c (om_Name (rs_ObjectMeta (sn_ScaleSet s)))) (cp_providers acc),
                      cp_credentials = AList.update (lr_Name ref) env (cp_credentials acc),
                      cp_names = cp_names acc @ [lr_Name ref]\<rparr>))"

fun compile_providers ::
    "validators \<Rightarrow> snapshot \<Rightarrow> local_reference list \<Rightarrow> compiling \<Rightarrow> err + compiling" where
  "compile_providers v s [] acc = Inr acc"
| "compile_providers v s (ref # refs) acc =
     (case compile_provider v s ref acc of Inl e \<Rightarrow> Inl e | Inr acc \<Rightarrow> compile_providers v s refs acc)"

definition compile_offering :: "api_offering \<Rightarrow> offering" where
  "compile_offering o' =
     \<lparr>off_ID = ao_ID o', off_Provider = ao_Provider o', off_Region = ao_Region o', off_Zone = ao_Zone o',
      off_Machine = ao_Machine o', off_Image = ao_Image o', off_CPU = ao_CPU o', off_MemoryMiB = ao_MemoryMiB o',
      off_Architecture = ao_Architecture o', off_Vendor = ao_Vendor o', off_Capabilities = ao_Capabilities o',
      off_Spot = ao_Spot o', off_PriceMicros = ao_PriceMicros o', off_Currency = ao_Currency o',
      off_ObservedAt = ao_ObservedAt o',
      off_GCPSkuRefs = map_option (\<lambda>g. \<lparr>sku_CoreSkuID = asr_CoreSkuID g, sku_RamSkuID = asr_RamSkuID g\<rparr>)
        (ao_GCPSkuRefs o')\<rparr>"

definition compile_requirements :: "class_resources \<Rightarrow> placement_policy \<Rightarrow> string list \<Rightarrow> requirements" where
  "compile_requirements r p names =
     \<lparr>req_CPU = res_CPU r, req_MemoryMiB = res_MemoryMiB r, req_Architecture = res_Architecture r,
      req_Vendor = res_Vendor r, req_Capabilities = res_Capabilities r, req_Providers = names,
      req_Regions = plp_Regions p, req_MaxPriceMicros = plp_MaxPriceMicros p,
      req_AllowOnDemand = plp_AllowOnDemand p, req_Policy = plp_Policy p\<rparr>"

definition compile_config ::
    "snapshot \<Rightarrow> (string, provider_config) gomap \<Rightarrow> string list \<Rightarrow> string \<Rightarrow> cidr_text list \<Rightarrow> config" where
  "compile_config s providers names networkProfile overlayCIDRs =
     (let limits = rs_Spec (sn_ScaleSet s); class = rc_Spec (sn_Class s); refresh = ccs_PriceRefresh (cc_Spec (sn_Catalog s)) in
      \<lparr>cfg_CatalogPath = [], cfg_Name = om_Name (rs_ObjectMeta (sn_ScaleSet s)),
       cfg_Namespace = om_Namespace (rs_ObjectMeta (sn_ScaleSet s)), cfg_GitHubURL = ghs_URL (rss_GitHub limits),
       cfg_ScaleSetID = ghs_ScaleSetID (rss_GitHub limits), cfg_MaxRunners = rss_MaxRunners limits,
       cfg_ProvisioningSeconds = rss_ProvisioningSeconds limits,
       cfg_MaxLifetimeSeconds = rss_MaxLifetimeSeconds limits,
       cfg_Requirements = compile_requirements (rcs_Resources class) (rcs_Placement class) names,
       cfg_Catalog = \<lparr>cat_Offerings = map compile_offering (ccs_Offerings (cc_Spec (sn_Catalog s))),
         cat_Complete = ccs_Complete (cc_Spec (sn_Catalog s))\<rparr>,
       cfg_Providers = providers,
       cfg_Retry = \<lparr>pol_Enabled = crp_Enabled (rcs_Retry class), pol_MaxRetries = crp_MaxRetries (rcs_Retry class),
         pol_AcknowledgeRepeatedEffects = crp_AcknowledgeRepeatedEffects (rcs_Retry class)\<rparr>,
       cfg_AWSPriceRefresh = map_true refresh ''aws'', cfg_AzurePriceRefresh = map_true refresh ''azure'',
       cfg_GCPPriceRefresh = map_true refresh ''gcp'', cfg_AzureInterruptionQueueURL = [],
       cfg_NetworkProfile = networkProfile, cfg_NetworkOverlayCIDRs = overlayCIDRs, cfg_BudgetDailyMicros = 0\<rparr>)"

definition compile_budget :: "validators \<Rightarrow> snapshot \<Rightarrow> config \<Rightarrow> err + config" where
  "compile_budget v s cfg =
     (case rss_BudgetRef (rs_Spec (sn_ScaleSet s)) of
        None \<Rightarrow> if sn_Budget s \<noteq> None then Inl (errors_New ''unreferenced budget configuration'') else Inr cfg
      | Some ref \<Rightarrow>
          (case sn_Budget s of
             None \<Rightarrow> Inl (errors_New ''referenced budget configuration is missing'')
           | Some b \<Rightarrow>
               (case object v (cb_ObjectMeta b) (om_Namespace (rs_ObjectMeta (sn_ScaleSet s))) (lr_Name ref) of
                  Some e \<Rightarrow> Inl e
                | None \<Rightarrow> Inr (cfg\<lparr>cfg_BudgetDailyMicros := cbs_DailyBudgetMicros (cb_Spec b)\<rparr>))))"

definition Compile :: "validators \<Rightarrow> snapshot \<Rightarrow> err + resolved" where
  "Compile v s =
     (case compile_roots v s of Some e \<Rightarrow> Inl e | None \<Rightarrow>
      case compile_providers v s (rcs_Providers (rc_Spec (sn_Class s)))
             \<lparr>cp_providers = [], cp_credentials = [], cp_names = []\<rparr> of
        Inl e \<Rightarrow> Inl e
      | Inr acc \<Rightarrow>
          (case network v s (cp_providers acc) of
             Inl e \<Rightarrow> Inl e
           | Inr (networkProfile, overlayCIDRs) \<Rightarrow>
               (case compile_budget v s
                       (compile_config s (cp_providers acc) (sort (cp_names acc)) networkProfile overlayCIDRs) of
                  Inl e \<Rightarrow> Inl e
                | Inr cfg \<Rightarrow>
                    (case Config_Validate (vd_IsDNS1123Label v) cfg of
                       Some e \<Rightarrow> Inl e
                     | None \<Rightarrow> Inr \<lparr>rv_Config = cfg, rv_Auth = ghs_Auth (rss_GitHub (rs_Spec (sn_ScaleSet s))),
                         rv_Credentials = cp_credentials acc,
                         rv_Suspend = rss_Suspend (rs_Spec (sn_ScaleSet s))\<rparr>))))"

end
