(* ===== verification/Config_Accept.thy ===== *)
theory Config_Accept
  imports Config_Compile
begin

text \<open>
  What \<open>Compile\<close> accepts. First the address blocks of a network profile, then the objects a snapshot
  may draw on, then the bounds that the API's validation markers declare.
\<close>

section \<open>Overlap of address blocks\<close>

lemma masked_eq_iff: "v AND NOT (mask h) = u AND NOT (mask h) \<longleftrightarrow> drop_bit h v = drop_bit h (u :: 'a::len word)"
proof -
  have "x AND NOT (mask h) = push_bit h (drop_bit h x)" for x :: "'a word"
    by (rule bit_word_eqI) (auto simp: bit_simps)
  moreover have "drop_bit h (push_bit h (drop_bit h x)) = drop_bit h x" for x :: "'a word"
    by (rule bit_word_eqI) (auto simp: bit_simps dest: bit_imp_le_length)
  ultimately show ?thesis
    by metis
qed

lemma drop_bit_coarser: "drop_bit k v = drop_bit k u \<Longrightarrow> k \<le> h \<Longrightarrow> drop_bit h v = drop_bit h (u :: 'a::len word)"
  by (metis drop_bit_drop_bit le_add_diff_inverse2)

lemma blocks_meet:
  fixes v u :: "'a::len word"
  shows "drop_bit (max h k) v = drop_bit (max h k) u \<longleftrightarrow> (\<exists>a. drop_bit h v = drop_bit h a \<and> drop_bit k u = drop_bit k a)"
proof
  assume "drop_bit (max h k) v = drop_bit (max h k) u"
  then show "\<exists>a. drop_bit h v = drop_bit h a \<and> drop_bit k u = drop_bit k a"
    by (cases "h \<le> k") (auto simp: max_def)
next
  assume "\<exists>a. drop_bit h v = drop_bit h a \<and> drop_bit k u = drop_bit k a"
  then show "drop_bit (max h k) v = drop_bit (max h k) u"
    using drop_bit_coarser [of h v _ "max h k"] drop_bit_coarser [of k u _ "max h k"] by force
qed

lemma drop_all: "drop_bit (LENGTH('a)) (v :: 'a::len word) = 0"
  by (rule bit_word_eqI) (auto simp: bit_simps dest: bit_imp_le_length)

lemma drop_all_32: "drop_bit 32 (v :: 32 word) = 0"
  using drop_all [of v] by simp

lemma drop_all_128: "drop_bit 128 (v :: 128 word) = 0"
  using drop_all [of v] by simp

lemma max_diff_min: "max (n - a) (n - b) = n - min a (b :: nat)"
  by linarith

lemma ex_addr: "(\<exists>a. P a) \<longleftrightarrow> (\<exists>v. P (V4 v)) \<or> (\<exists>v. P (V6 v))"
  by (metis addr.exhaust)

text \<open>Two well-formed blocks overlap exactly when some address lies in both.\<close>

lemma Overlaps_iff:
  assumes "wf_prefix p" "wf_prefix q"
  shows "Overlaps p q \<longleftrightarrow> (\<exists>a. Contains p a \<and> Contains q a)"
proof (cases p)
  case P: (Prefix x m)
  show ?thesis
  proof (cases q)
    case Q: (Prefix y n)
    have le: "m \<le> BitLen x" "n \<le> BitLen y"
      using assms by (simp_all add: P Q wf_prefix_def)
    show ?thesis
    proof (cases x)
      case X: (V4 v)
      show ?thesis
      proof (cases y)
        case Y: (V4 u)
        have "Overlaps p q \<longleftrightarrow> drop_bit (32 - min m n) v = drop_bit (32 - min m n) u"
          using le by (auto simp: Overlaps_def P Q X Y Is4_def Addr_Prefix_def BitLen_def Masked_def host_mask_def
              masked_eq_iff Let_def drop_all_32 min_def split: if_splits)
        also have "\<dots> \<longleftrightarrow> (\<exists>a. Contains p (V4 a) \<and> Contains q (V4 a))"
          unfolding max_diff_min [symmetric] blocks_meet by (simp add: Contains_def P Q X Y)
        also have "\<dots> \<longleftrightarrow> (\<exists>a. Contains p a \<and> Contains q a)"
          by (simp add: ex_addr Contains_def P Q X Y)
        finally show ?thesis .
      qed (auto simp: Overlaps_def P Q X Is4_def Contains_def split: addr.splits)
    next
      case X: (V6 v)
      show ?thesis
      proof (cases y)
        case Y: (V6 u)
        have "Overlaps p q \<longleftrightarrow> drop_bit (128 - min m n) v = drop_bit (128 - min m n) u"
          using le by (auto simp: Overlaps_def P Q X Y Is4_def Addr_Prefix_def BitLen_def Masked_def host_mask_def
              masked_eq_iff Let_def drop_all_128 min_def split: if_splits)
        also have "\<dots> \<longleftrightarrow> (\<exists>a. Contains p (V6 a) \<and> Contains q (V6 a))"
          unfolding max_diff_min [symmetric] blocks_meet by (simp add: Contains_def P Q X Y)
        also have "\<dots> \<longleftrightarrow> (\<exists>a. Contains p a \<and> Contains q a)"
          by (simp add: ex_addr Contains_def P Q X Y)
        finally show ?thesis .
      qed (auto simp: Overlaps_def P Q X Is4_def Contains_def split: addr.splits)
    qed
  qed
qed

section \<open>The network loops\<close>

definition blocks_of :: "cidr_text list \<Rightarrow> prefix list" where
  "blocks_of cidrs = map (\<lambda>c. projr (snd c)) cidrs"

definition apart :: "prefix \<Rightarrow> prefix \<Rightarrow> bool" where
  "apart p q \<longleftrightarrow> (\<forall>a. \<not> (Contains p a \<and> Contains q a))"

definition profile_cidrs :: "network_mapping list \<Rightarrow> cidr_text list" where
  "profile_cidrs ms = concat (map nm_CIDRs ms)"

definition mapping_pair :: "network_mapping \<Rightarrow> string \<times> string" where
  "mapping_pair m = (lr_Name (nm_ProviderRef m), nm_Region m)"

lemma network_cidrs_ok:
  assumes "network_cidrs cidrs ps = Inr qs" "sorted_wrt (\<lambda>p q. \<not> Overlaps q p) ps"
  shows "qs = ps @ blocks_of cidrs \<and> sorted_wrt (\<lambda>p q. \<not> Overlaps q p) qs
    \<and> (\<forall>c \<in> set cidrs. \<exists>p. snd c = Inr p \<and> p = Masked p)"
  using assms
proof (induction cidrs arbitrary: ps)
  case (Cons c cidrs)
  then obtain p where p: "snd c = Inr p" "p = Masked p" "\<not> list_ex (Overlaps p) ps"
    "network_cidrs cidrs (ps @ [p]) = Inr qs"
    by (auto split: sum.splits if_splits)
  then have "sorted_wrt (\<lambda>p q. \<not> Overlaps q p) (ps @ [p])"
    using Cons.prems(2) by (auto simp: sorted_wrt_append list_ex_iff)
  from Cons.IH [OF p(4) this] show ?case
    using p(1,2) by (auto simp: blocks_of_def)
qed (simp add: blocks_of_def)

definition mapping_ok :: "(string, provider_config) gomap \<Rightarrow> string list \<Rightarrow> network_mapping \<Rightarrow> bool" where
  "mapping_ok providers regions m \<longleftrightarrow>
     (\<exists>p. map_of providers (lr_Name (nm_ProviderRef m)) = Some p \<and> nm_SubnetID m = pc_Subnet p)
     \<and> nm_NetworkID m \<noteq> [] \<and> nm_Region m \<in> set regions \<and> nm_CIDRs m \<noteq> []"

definition pair_key :: "string \<times> string \<Rightarrow> string" where
  "pair_key pr = mapping_key (fst pr) (snd pr)"

lemma network_mappings_ok:
  assumes "network_mappings providers regions ms seen ps = Inr (seen', qs)"
    "sorted_wrt (\<lambda>p q. \<not> Overlaps q p) ps"
  shows "qs = ps @ blocks_of (profile_cidrs ms) \<and> sorted_wrt (\<lambda>p q. \<not> Overlaps q p) qs
    \<and> (\<forall>c \<in> set (profile_cidrs ms). \<exists>p. snd c = Inr p \<and> p = Masked p)
    \<and> list_all (mapping_ok providers regions) ms
    \<and> distinct (map (pair_key \<circ> mapping_pair) ms)
    \<and> (\<forall>m \<in> set ms. \<not> map_true seen (pair_key (mapping_pair m)))
    \<and> (\<forall>k. map_true seen' k \<longleftrightarrow> map_true seen k \<or> k \<in> pair_key ` mapping_pair ` set ms)"
  using assms
proof (induction ms arbitrary: seen ps)
  case (Cons m ms)
  let ?k = "pair_key (mapping_pair m)"
  have key: "mapping_key (lr_Name (nm_ProviderRef m)) (nm_Region m) = ?k"
    by (simp add: pair_key_def mapping_pair_def)
  from Cons.prems(1) obtain p ps' where m: "map_of providers (lr_Name (nm_ProviderRef m)) = Some p"
    "\<not> map_true seen ?k" "nm_NetworkID m \<noteq> []" "nm_SubnetID m = pc_Subnet p" "nm_Region m \<in> set regions"
    "nm_CIDRs m \<noteq> []" "network_cidrs (nm_CIDRs m) ps = Inr ps'"
    "network_mappings providers regions ms (AList.update ?k True seen) ps' = Inr (seen', qs)"
    by (auto simp: Let_def key split: option.splits sum.splits if_splits)
  note cidrs = network_cidrs_ok [OF m(7) Cons.prems(2)]
  note rest = Cons.IH [OF m(8)]
  have "mapping_ok providers regions m"
    using m by (simp add: mapping_ok_def)
  then show ?case
    using rest cidrs m(2) by (auto simp: profile_cidrs_def blocks_of_def split: if_splits)
qed (simp add: profile_cidrs_def blocks_of_def)

text \<open>A name without a slash can be read back from a key.\<close>

lemma pair_key_inj:
  assumes "pair_key (x, r) = pair_key (y, q)" "CHR ''/'' \<notin> set x" "CHR ''/'' \<notin> set y"
  shows "x = y \<and> r = q"
proof -
  have "takeWhile (\<lambda>c. c \<noteq> CHR ''/'') (z @ ''/'' @ s) = z \<and> dropWhile (\<lambda>c. c \<noteq> CHR ''/'') (z @ ''/'' @ s) = ''/'' @ s"
    if "CHR ''/'' \<notin> set z" for z s
    using that by (induction z) auto
  with assms show ?thesis
    unfolding pair_key_def mapping_key_def by (metis append_Cons append_Nil fst_conv list.inject snd_conv)
qed

section \<open>The provider loop\<close>

lemma object_ok_iff:
  "object v meta ns name = None \<longleftrightarrow> om_Namespace meta = ns \<and> om_Name meta = name \<and> vd_IsDNS1123Label v name
     \<and> vd_IsDNS1123Label v ns \<and> om_DeletionTimestamp meta = None"
  by (auto simp: object_def)

lemma first_error_None_iff: "first_error checks = None \<longleftrightarrow> set checks \<subseteq> {None}"
  by (induction checks rule: first_error.induct) auto

lemma compile_environment_ok:
  assumes "compile_environment v kind env acc = Inr out"
  shows "(\<forall>(name, ref) \<in> set env. CredentialVariable kind name \<and> secret v ref = None)
    \<and> map_of out = map_of acc ++ map_of (rev env)"
  using assms
proof (induction env arbitrary: acc)
  case (Cons e env)
  then obtain name ref where e: "e = (name, ref)" "CredentialVariable kind name" "secret v ref = None"
    "compile_environment v kind env (AList.update name ref acc) = Inr out"
    by (cases e) (auto simp: credentialVariable_def split: if_splits option.splits)
  from Cons.IH [OF e(4)] show ?case
    using e(1-3) by (auto simp: update_conv' map_add_def fun_eq_iff split: option.splits)
qed simp

text \<open>
  What one accepted provider reference contributes: the object it names, in the scale set's own
  namespace, and its connection under the scale set's ownership.
\<close>

definition provider_accepted ::
    "validators \<Rightarrow> snapshot \<Rightarrow> compiling \<Rightarrow> string \<Rightarrow> bool" where
  "provider_accepted v s acc name \<longleftrightarrow> (\<exists>p env. map_of (sn_Providers s) name = Some p
     \<and> object v (pco_ObjectMeta p) (om_Namespace (rs_ObjectMeta (sn_ScaleSet s))) name = None
     \<and> map_of (cp_providers acc) name
         = Some (connection_config (pcs_Connection (pco_Spec p)) (om_Name (rs_ObjectMeta (sn_ScaleSet s))))
     \<and> map_of (cp_credentials acc) name = Some env
     \<and> map_of env = map_of (rev (pcs_CredentialEnvironment (pco_Spec p)))
     \<and> (\<forall>(var, ref) \<in> set (pcs_CredentialEnvironment (pco_Spec p)).
          CredentialVariable (cn_Kind (pcs_Connection (pco_Spec p))) var \<and> secret v ref = None))"

definition compiling_ok :: "validators \<Rightarrow> snapshot \<Rightarrow> compiling \<Rightarrow> bool" where
  "compiling_ok v s acc \<longleftrightarrow> distinct (cp_names acc) \<and> dom (map_of (cp_providers acc)) = set (cp_names acc)
     \<and> dom (map_of (cp_credentials acc)) = set (cp_names acc)
     \<and> (\<forall>name \<in> set (cp_names acc). provider_accepted v s acc name)"

lemma compile_provider_ok:
  assumes "compile_provider v s ref acc = Inr acc'" "compiling_ok v s acc"
  shows "compiling_ok v s acc' \<and> cp_names acc' = cp_names acc @ [lr_Name ref]"
proof -
  from assms(1) obtain p env where p: "map_of (sn_Providers s) (lr_Name ref) = Some p"
    "\<not> has_key (cp_providers acc) (lr_Name ref)"
    "object v (pco_ObjectMeta p) (om_Namespace (rs_ObjectMeta (sn_ScaleSet s))) (lr_Name ref) = None"
    "compile_environment v (cn_Kind (pcs_Connection (pco_Spec p))) (pcs_CredentialEnvironment (pco_Spec p)) [] = Inr env"
    and acc': "acc' = \<lparr>cp_providers = AList.update (lr_Name ref)
         (connection_config (pcs_Connection (pco_Spec p)) (om_Name (rs_ObjectMeta (sn_ScaleSet s)))) (cp_providers acc),
       cp_credentials = AList.update (lr_Name ref) env (cp_credentials acc),
       cp_names = cp_names acc @ [lr_Name ref]\<rparr>"
    by (auto simp: compile_provider_def Let_def split: option.splits if_splits sum.splits)
  have new: "lr_Name ref \<notin> set (cp_names acc)"
    using p(2) assms(2) by (auto simp: compiling_ok_def domIff)
  have "provider_accepted v s acc' (lr_Name ref)"
    using p compile_environment_ok [OF p(4)] by (auto simp: provider_accepted_def acc')
  moreover have "provider_accepted v s acc' name" if "name \<in> set (cp_names acc)" for name
    using that new assms(2) by (auto simp: compiling_ok_def provider_accepted_def acc')
  moreover have "dom (map_of (cp_providers acc')) = insert (lr_Name ref) (dom (map_of (cp_providers acc)))"
    "dom (map_of (cp_credentials acc')) = insert (lr_Name ref) (dom (map_of (cp_credentials acc)))"
    "cp_names acc' = cp_names acc @ [lr_Name ref]"
    by (simp_all add: acc' update_conv')
  ultimately show ?thesis
    using new assms(2) unfolding compiling_ok_def by simp
qed

lemma compile_providers_ok:
  assumes "compile_providers v s refs acc = Inr acc'" "compiling_ok v s acc"
  shows "compiling_ok v s acc' \<and> cp_names acc' = cp_names acc @ map lr_Name refs"
  using assms
proof (induction refs arbitrary: acc)
  case (Cons ref refs)
  then obtain acc1 where "compile_provider v s ref acc = Inr acc1" "compile_providers v s refs acc1 = Inr acc'"
    by (auto split: sum.splits)
  with Cons.IH [of acc1] compile_provider_ok [OF _ Cons.prems(2)] show ?case
    by auto
qed simp

section \<open>The accepted snapshot\<close>

text \<open>\<open>Compile\<close> taken apart once: what each of its stages returned.\<close>

lemma Compile_stages:
  assumes "Compile v s = Inr r"
  obtains acc profile cidrs where "compile_roots v s = None" "compiling_ok v s acc"
    "cp_names acc = map lr_Name (rcs_Providers (rc_Spec (sn_Class s)))"
    "network v s (cp_providers acc) = Inr (profile, cidrs)"
    "compile_budget v s (compile_config s (cp_providers acc) (sort (cp_names acc)) profile cidrs) = Inr (rv_Config r)"
    "Config_Validate (vd_IsDNS1123Label v) (rv_Config r) = None"
    "r = \<lparr>rv_Config = rv_Config r, rv_Auth = ghs_Auth (rss_GitHub (rs_Spec (sn_ScaleSet s))),
      rv_Credentials = cp_credentials acc, rv_Suspend = rss_Suspend (rs_Spec (sn_ScaleSet s))\<rparr>"
proof -
  let ?start = "\<lparr>cp_providers = [], cp_credentials = [], cp_names = []\<rparr>"
  have start: "compiling_ok v s ?start"
    by (simp add: compiling_ok_def)
  from assms obtain acc profile cidrs cfg where
    *: "compile_roots v s = None" "compile_providers v s (rcs_Providers (rc_Spec (sn_Class s))) ?start = Inr acc"
      "network v s (cp_providers acc) = Inr (profile, cidrs)"
      "compile_budget v s (compile_config s (cp_providers acc) (sort (cp_names acc)) profile cidrs) = Inr cfg"
      "Config_Validate (vd_IsDNS1123Label v) cfg = None"
      "r = \<lparr>rv_Config = cfg, rv_Auth = ghs_Auth (rss_GitHub (rs_Spec (sn_ScaleSet s))),
        rv_Credentials = cp_credentials acc, rv_Suspend = rss_Suspend (rs_Spec (sn_ScaleSet s))\<rparr>"
    unfolding Compile_def by (auto split: option.splits sum.splits)
  show thesis
    by (rule that [of acc profile cidrs]) (use * compile_providers_ok [OF *(2) start] in simp_all)
qed

lemma compile_budget_config:
  assumes "compile_budget v s cfg = Inr cfg'"
  shows "cfg' = cfg\<lparr>cfg_BudgetDailyMicros := cfg_BudgetDailyMicros cfg'\<rparr>"
  using assms by (auto simp: compile_budget_def split: option.splits if_splits)

lemma Compile_config:
  assumes "Compile v s = Inr r"
  obtains acc profile cidrs where "compiling_ok v s acc"
    "cp_names acc = map lr_Name (rcs_Providers (rc_Spec (sn_Class s)))"
    "network v s (cp_providers acc) = Inr (profile, cidrs)" "rv_Credentials r = cp_credentials acc"
    "rv_Config r = (compile_config s (cp_providers acc) (sort (cp_names acc)) profile cidrs)
       \<lparr>cfg_BudgetDailyMicros := cfg_BudgetDailyMicros (rv_Config r)\<rparr>"
proof -
  from assms obtain acc profile cidrs where *: "compiling_ok v s acc"
    "cp_names acc = map lr_Name (rcs_Providers (rc_Spec (sn_Class s)))"
    "network v s (cp_providers acc) = Inr (profile, cidrs)"
    "compile_budget v s (compile_config s (cp_providers acc) (sort (cp_names acc)) profile cidrs) = Inr (rv_Config r)"
    "r = \<lparr>rv_Config = rv_Config r, rv_Auth = ghs_Auth (rss_GitHub (rs_Spec (sn_ScaleSet s))),
      rv_Credentials = cp_credentials acc, rv_Suspend = rss_Suspend (rs_Spec (sn_ScaleSet s))\<rparr>"
    by (rule Compile_stages)
  from *(5) have "rv_Credentials r = cp_credentials acc"
    by (metis resolved.select_convs(3))
  with * show thesis
    by (intro that [of acc profile cidrs] compile_budget_config)
qed

text \<open>The network stage: a referenced profile went through every check.\<close>

lemma network_profile_checked:
  assumes "network v s providers = Inr (profile, cidrs)" "sn_Network s = Some n"
  obtains seen ps where
    "network_mode v (np_Spec n) = None"
    "om_Namespace (np_ObjectMeta n) = om_Namespace (rs_ObjectMeta (sn_ScaleSet s))"
    "om_DeletionTimestamp (np_ObjectMeta n) = None"
    "network_mappings providers (plp_Regions (rcs_Placement (rc_Spec (sn_Class s)))) (nps_Mappings (np_Spec n)) [] []
       = Inr (seen, ps)"
    "network_covers providers (nps_Mappings (np_Spec n))"
    "offerings_mapped providers (plp_Regions (rcs_Placement (rc_Spec (sn_Class s)))) seen
       (ccs_Offerings (cc_Spec (sn_Catalog s)))"
    "(profile, cidrs) = (if nps_Mode (np_Spec n) = ''wireguard''
       then (om_Name (np_ObjectMeta n), nm_CIDRs (hd (nps_Mappings (np_Spec n)))) else ([], []))"
  using assms
  by (auto simp: network_def Let_def object_ok_iff split: option.splits sum.splits if_splits prod.splits)

lemma network_mode_single:
  assumes "network_mode v n = None" "nps_Mode n = ''wireguard''"
  shows "nm_CIDRs (hd (nps_Mappings n)) = profile_cidrs (nps_Mappings n)"
proof -
  have "length (nps_Mappings n) = 1"
    using assms by (auto simp: network_mode_def split: if_splits option.splits)
  then show ?thesis
    by (cases "nps_Mappings n") (auto simp: profile_cidrs_def)
qed

lemma provider_accepted_label:
  "provider_accepted v s acc name \<Longrightarrow> vd_IsDNS1123Label v name"
  by (auto simp: provider_accepted_def object_ok_iff)

lemma label_no_slash: "validators_contract v \<Longrightarrow> vd_IsDNS1123Label v name \<Longrightarrow> CHR ''/'' \<notin> set name"
  by (force simp: validators_contract_def dns_name_def list_all_iff label_byte_def)

definition cidrs_wf :: "cidr_text list \<Rightarrow> bool" where
  "cidrs_wf cidrs \<longleftrightarrow> list_all (\<lambda>c. case snd c of Inl _ \<Rightarrow> True | Inr p \<Rightarrow> wf_prefix p) cidrs"

lemma blocks_apart:
  assumes "sorted_wrt (\<lambda>p q. \<not> Overlaps q p) (blocks_of cidrs)" "cidrs_wf cidrs"
    "\<forall>c \<in> set cidrs. \<exists>p. snd c = Inr p \<and> p = Masked p"
  shows "sorted_wrt apart (blocks_of cidrs)"
proof (rule sorted_wrt_mono_rel [OF _ assms(1)])
  fix p q
  assume "p \<in> set (blocks_of cidrs)" "q \<in> set (blocks_of cidrs)" "\<not> Overlaps q p"
  moreover have "wf_prefix b" if "b \<in> set (blocks_of cidrs)" for b
    using that assms(2,3) by (fastforce simp: blocks_of_def cidrs_wf_def list_all_iff)
  ultimately show "apart p q"
    using Overlaps_iff by (auto simp: apart_def)
qed

lemma mapping_pairs_distinct:
  assumes "distinct (map (pair_key \<circ> mapping_pair) ms)"
  shows "distinct (map mapping_pair ms)"
  using assms by (simp add: distinct_map comp_def inj_on_def)

lemma compile_config_scope [simp]:
  "cfg_Requirements (compile_config s ps names p c) =
     compile_requirements (rcs_Resources (rc_Spec (sn_Class s))) (rcs_Placement (rc_Spec (sn_Class s))) names"
  "cfg_Providers (compile_config s ps names p c) = ps"
  "cfg_Name (compile_config s ps names p c) = om_Name (rs_ObjectMeta (sn_ScaleSet s))"
  "cfg_Namespace (compile_config s ps names p c) = om_Namespace (rs_ObjectMeta (sn_ScaleSet s))"
  "cfg_NetworkProfile (compile_config s ps names p c) = p"
  "cfg_NetworkOverlayCIDRs (compile_config s ps names p c) = c"
  "cat_Offerings (cfg_Catalog (compile_config s ps names p c)) =
     map compile_offering (ccs_Offerings (cc_Spec (sn_Catalog s)))"
  by (simp_all add: compile_config_def Let_def)

lemma compile_requirements_scope [simp]:
  "req_Providers (compile_requirements r p names) = names"
  "req_Regions (compile_requirements r p names) = plp_Regions p"
  by (simp_all add: compile_requirements_def)

lemma compile_offering_scope [simp]:
  "off_Provider (compile_offering o') = ao_Provider o'" "off_Region (compile_offering o') = ao_Region o'"
  by (simp_all add: compile_offering_def)

text \<open>An offering in scope finds the mapping of its provider and region.\<close>

lemma offering_has_mapping:
  assumes v: "validators_contract v" and acc: "compiling_ok v s acc"
    and mapped: "list_all (mapping_ok (cp_providers acc) regions) ms"
    and seen: "\<forall>k. map_true seen k \<longleftrightarrow> k \<in> pair_key ` mapping_pair ` set ms"
    and all: "offerings_mapped (cp_providers acc) regions seen offs"
    and o': "o' \<in> set offs" "ao_Provider o' \<in> set (cp_names acc)" "ao_Region o' \<in> set regions"
  shows "\<exists>m \<in> set ms. mapping_pair m = (ao_Provider o', ao_Region o')
    \<and> nm_SubnetID m = pc_Subnet (the (map_of (cp_providers acc) (ao_Provider o')))"
proof -
  have names: "CHR ''/'' \<notin> set x" if "x \<in> set (cp_names acc)" for x
    using that acc label_no_slash [OF v provider_accepted_label] by (auto simp: compiling_ok_def)
  have "map_of (cp_providers acc) (ao_Provider o') \<noteq> None"
    using o'(2) acc by (auto simp: compiling_ok_def domIff)
  then have "map_true seen (pair_key (ao_Provider o', ao_Region o'))"
    using all o'(1,3) by (auto simp: offerings_mapped_def list_all_iff pair_key_def)
  then obtain m where m: "m \<in> set ms" "pair_key (mapping_pair m) = pair_key (ao_Provider o', ao_Region o')"
    using seen by auto
  obtain p where p: "map_of (cp_providers acc) (lr_Name (nm_ProviderRef m)) = Some p" "nm_SubnetID m = pc_Subnet p"
    using mapped m(1) by (auto simp: list_all_iff mapping_ok_def)
  then have "lr_Name (nm_ProviderRef m) \<in> set (cp_names acc)"
    using acc by (auto simp: compiling_ok_def)
  then have "mapping_pair m = (ao_Provider o', ao_Region o')"
    using pair_key_inj [of "lr_Name (nm_ProviderRef m)" "nm_Region m" "ao_Provider o'" "ao_Region o'"]
      m(2) names o'(2) by (simp add: mapping_pair_def)
  then show ?thesis
    using m(1) p by (auto simp: mapping_pair_def)
qed

lemma mappings_cover:
  assumes "compiling_ok v s acc" "list_all (mapping_ok (cp_providers acc) regions) ms"
    "network_covers (cp_providers acc) ms"
  shows "fst ` mapping_pair ` set ms = set (cp_names acc)"
proof -
  have names: "set (cp_names acc) = dom (map_of (cp_providers acc))"
    using assms(1) by (simp add: compiling_ok_def)
  have "fst ` mapping_pair ` set ms \<subseteq> dom (map_of (cp_providers acc))"
    using assms(2) by (auto simp: list_all_iff mapping_ok_def mapping_pair_def)
  moreover have "dom (map_of (cp_providers acc)) \<subseteq> fst ` mapping_pair ` set ms"
  proof
    fix name assume "name \<in> dom (map_of (cp_providers acc))"
    then have "name \<in> set (keys (cp_providers acc))"
      by (simp add: dom_map_of_conv_image_fst)
    then obtain m where "m \<in> set ms" "lr_Name (nm_ProviderRef m) = name"
      using assms(3) unfolding network_covers_def list_all_iff list_ex_iff by blast
    then show "name \<in> fst ` mapping_pair ` set ms"
      by (force simp: mapping_pair_def)
  qed
  ultimately show ?thesis
    unfolding names by blast
qed

text \<open>
  Claim C29 (network profiles). When a configuration with a network profile is accepted, every CIDR of
  the profile is a canonical prefix and no address lies in two of its blocks; no provider region is
  mapped twice; every provider the class allows has a mapping, and every catalog offering that the
  resolved requirements put in scope has one, into that provider's own subnet; and the overlay handed
  to the operator is the profile's name and blocks in wireguard mode and nothing otherwise.
\<close>

theorem Compile_network:
  assumes "validators_contract v" "Compile v s = Inr r" "sn_Network s = Some n"
    and "ms = nps_Mappings (np_Spec n)" "cidrs_wf (profile_cidrs ms)"
  shows "list_all (\<lambda>c. \<exists>p. snd c = Inr p \<and> p = Masked p) (profile_cidrs ms)
    \<and> sorted_wrt apart (blocks_of (profile_cidrs ms)) \<and> distinct (map mapping_pair ms)
    \<and> set (req_Providers (cfg_Requirements (rv_Config r))) = fst ` mapping_pair ` set ms
    \<and> (\<forall>o' \<in> set (cat_Offerings (cfg_Catalog (rv_Config r))). in_scope o' (cfg_Requirements (rv_Config r)) \<longrightarrow>
         (\<exists>m \<in> set ms. mapping_pair m = (off_Provider o', off_Region o')
            \<and> nm_SubnetID m = pc_Subnet (the (map_of (cfg_Providers (rv_Config r)) (off_Provider o')))))
    \<and> (cfg_NetworkProfile (rv_Config r), cfg_NetworkOverlayCIDRs (rv_Config r))
        = (if nps_Mode (np_Spec n) = ''wireguard'' then (om_Name (np_ObjectMeta n), profile_cidrs ms) else ([], []))"
proof -
  let ?regions = "plp_Regions (rcs_Placement (rc_Spec (sn_Class s)))"
  from assms(2) obtain acc profile cidrs where acc: "compiling_ok v s acc"
    "network v s (cp_providers acc) = Inr (profile, cidrs)"
    "rv_Config r = (compile_config s (cp_providers acc) (sort (cp_names acc)) profile cidrs)
       \<lparr>cfg_BudgetDailyMicros := cfg_BudgetDailyMicros (rv_Config r)\<rparr>"
    by (rule Compile_config)
  have cfg: "cfg_Requirements (rv_Config r) = compile_requirements (rcs_Resources (rc_Spec (sn_Class s)))
        (rcs_Placement (rc_Spec (sn_Class s))) (sort (cp_names acc))"
    "cfg_Providers (rv_Config r) = cp_providers acc" "cfg_NetworkProfile (rv_Config r) = profile"
    "cfg_NetworkOverlayCIDRs (rv_Config r) = cidrs"
    "cat_Offerings (cfg_Catalog (rv_Config r)) = map compile_offering (ccs_Offerings (cc_Spec (sn_Catalog s)))"
    by (subst acc(3), simp)+
  from acc(2) assms(3) obtain seen ps where n: "network_mode v (np_Spec n) = None"
    "network_mappings (cp_providers acc) ?regions ms [] [] = Inr (seen, ps)"
    "network_covers (cp_providers acc) ms"
    "offerings_mapped (cp_providers acc) ?regions seen (ccs_Offerings (cc_Spec (sn_Catalog s)))"
    "(profile, cidrs) = (if nps_Mode (np_Spec n) = ''wireguard''
       then (om_Name (np_ObjectMeta n), nm_CIDRs (hd ms)) else ([], []))"
    unfolding assms(4) by (rule network_profile_checked)
  note ms = network_mappings_ok [OF n(2), simplified]
  have ok: "list_all (mapping_ok (cp_providers acc) ?regions) ms"
    using ms by simp
  have "fst ` mapping_pair ` set ms = set (cp_names acc)"
    by (rule mappings_cover [OF acc(1) ok n(3)])
  moreover have "\<exists>m \<in> set ms. mapping_pair m = (ao_Provider o', ao_Region o')
      \<and> nm_SubnetID m = pc_Subnet (the (map_of (cp_providers acc) (ao_Provider o')))"
    if "o' \<in> set (ccs_Offerings (cc_Spec (sn_Catalog s)))" "ao_Provider o' \<in> set (cp_names acc)"
      "ao_Region o' \<in> set ?regions" for o'
    by (rule offering_has_mapping [OF assms(1) acc(1) ok _ n(4) that]) (use ms in simp)
  moreover have "(profile, cidrs) = (if nps_Mode (np_Spec n) = ''wireguard''
      then (om_Name (np_ObjectMeta n), profile_cidrs ms) else ([], []))"
    using n(5) network_mode_single [OF n(1)] assms(4) by simp
  moreover have "sorted_wrt apart (blocks_of (profile_cidrs ms))"
    using ms by (intro blocks_apart assms(5)) auto
  ultimately show ?thesis
    unfolding cfg using ms mapping_pairs_distinct [of ms] by (auto simp: in_scope_def list_all_iff)
qed

section \<open>Locality and ownership\<close>

text \<open>The metadata of every object the resolution draws on.\<close>

definition used_metas :: "snapshot \<Rightarrow> object_meta list" where
  "used_metas s = [rs_ObjectMeta (sn_ScaleSet s), rc_ObjectMeta (sn_Class s), cc_ObjectMeta (sn_Catalog s)]
     @ (case sn_Network s of None \<Rightarrow> [] | Some n \<Rightarrow> [np_ObjectMeta n])
     @ (case sn_Budget s of None \<Rightarrow> [] | Some b \<Rightarrow> [cb_ObjectMeta b])
     @ concat (map (\<lambda>ref. case map_of (sn_Providers s) (lr_Name ref) of None \<Rightarrow> [] | Some p \<Rightarrow> [pco_ObjectMeta p])
         (rcs_Providers (rc_Spec (sn_Class s))))"

definition live_in :: "validators \<Rightarrow> string \<Rightarrow> object_meta \<Rightarrow> bool" where
  "live_in v ns meta \<longleftrightarrow> om_Namespace meta = ns \<and> om_DeletionTimestamp meta = None \<and> vd_IsDNS1123Label v (om_Name meta)"

lemma object_live: "object v meta ns name = None \<Longrightarrow> live_in v ns meta"
  by (auto simp: object_ok_iff live_in_def)

lemma compile_roots_ok:
  assumes "compile_roots v s = None"
  defines "ns \<equiv> om_Namespace (rs_ObjectMeta (sn_ScaleSet s))"
  shows "object v (rs_ObjectMeta (sn_ScaleSet s)) ns (om_Name (rs_ObjectMeta (sn_ScaleSet s))) = None"
    "object v (rc_ObjectMeta (sn_Class s)) ns (lr_Name (rss_RunnerClassRef (rs_Spec (sn_ScaleSet s)))) = None"
    "object v (cc_ObjectMeta (sn_Catalog s)) ns (lr_Name (rcs_CatalogRef (rc_Spec (sn_Class s)))) = None"
    "secret v (gha_SecretRef (ghs_Auth (rss_GitHub (rs_Spec (sn_ScaleSet s))))) = None"
    "compile_auth (ghs_Auth (rss_GitHub (rs_Spec (sn_ScaleSet s)))) = None"
    "compile_retry (rcs_Retry (rc_Spec (sn_Class s))) (ghs_Auth (rss_GitHub (rs_Spec (sn_ScaleSet s)))) = None"
  using assms(1) unfolding ns_def by (simp_all add: compile_roots_def Let_def first_error_None_iff)

lemma network_live:
  "network v s ps = Inr x \<Longrightarrow> sn_Network s = Some n
     \<Longrightarrow> live_in v (om_Namespace (rs_ObjectMeta (sn_ScaleSet s))) (np_ObjectMeta n)"
  by (auto simp: network_def intro: object_live split: option.splits)

lemma compile_budget_live:
  "compile_budget v s cfg = Inr x \<Longrightarrow> sn_Budget s = Some b
     \<Longrightarrow> live_in v (om_Namespace (rs_ObjectMeta (sn_ScaleSet s))) (cb_ObjectMeta b)"
  by (auto simp: compile_budget_def intro: object_live split: option.splits)

lemma used_metas_live:
  assumes "Compile v s = Inr r" "meta \<in> set (used_metas s)"
  shows "live_in v (om_Namespace (rs_ObjectMeta (sn_ScaleSet s))) meta"
proof -
  from assms(1) obtain acc profile cidrs where *: "compile_roots v s = None" "compiling_ok v s acc"
    "cp_names acc = map lr_Name (rcs_Providers (rc_Spec (sn_Class s)))"
    "network v s (cp_providers acc) = Inr (profile, cidrs)"
    "compile_budget v s (compile_config s (cp_providers acc) (sort (cp_names acc)) profile cidrs) = Inr (rv_Config r)"
    by (rule Compile_stages)
  have provider: "live_in v (om_Namespace (rs_ObjectMeta (sn_ScaleSet s))) (pco_ObjectMeta p)"
    if "ref \<in> set (rcs_Providers (rc_Spec (sn_Class s)))" "map_of (sn_Providers s) (lr_Name ref) = Some p" for ref p
  proof -
    have "provider_accepted v s acc (lr_Name ref)"
      using that(1) *(2,3) by (auto simp: compiling_ok_def)
    then show ?thesis
      using that(2) by (auto simp: provider_accepted_def intro: object_live)
  qed
  show ?thesis
    using assms(2) provider compile_roots_ok(1-3) [OF *(1), THEN object_live]
      network_live [OF *(4)] compile_budget_live [OF *(5)]
    unfolding used_metas_def by (auto split: option.splits)
qed

text \<open>
  Claim C30 (local, owned resolution). Whatever is accepted draws only on live objects of the scale
  set's own namespace; the operator's providers are exactly the class's references, sorted and without
  repetition, each owned by the scale set; each has credentials of its own, whose variables belong to
  its cloud and whose Secret references are well formed; and the result passes the operator's own
  validation.
\<close>

theorem Compile_local:
  assumes "Compile v s = Inr r" and "cfg = rv_Config r"
  shows "list_all (live_in v (cfg_Namespace cfg)) (used_metas s)
    \<and> Config_Validate (vd_IsDNS1123Label v) cfg = None
    \<and> sorted (req_Providers (cfg_Requirements cfg)) \<and> distinct (req_Providers (cfg_Requirements cfg))
    \<and> set (req_Providers (cfg_Requirements cfg)) = lr_Name ` set (rcs_Providers (rc_Spec (sn_Class s)))
    \<and> dom (map_of (cfg_Providers cfg)) = set (req_Providers (cfg_Requirements cfg))
    \<and> dom (map_of (rv_Credentials r)) = set (req_Providers (cfg_Requirements cfg))
    \<and> (\<forall>name p env var ref. map_of (cfg_Providers cfg) name = Some p \<longrightarrow> map_of (rv_Credentials r) name = Some env
         \<longrightarrow> pc_Owner p = cfg_Name cfg
           \<and> (map_of env var = Some ref \<longrightarrow> CredentialVariable (pc_Kind p) var \<and> secret v ref = None))"
proof -
  from assms(1) obtain acc profile cidrs where acc: "compiling_ok v s acc"
    "cp_names acc = map lr_Name (rcs_Providers (rc_Spec (sn_Class s)))"
    "rv_Credentials r = cp_credentials acc"
    "cfg = (compile_config s (cp_providers acc) (sort (cp_names acc)) profile cidrs)
       \<lparr>cfg_BudgetDailyMicros := cfg_BudgetDailyMicros cfg\<rparr>"
    unfolding assms(2) by (rule Compile_config)
  have cfg: "cfg_Namespace cfg = om_Namespace (rs_ObjectMeta (sn_ScaleSet s))"
    "req_Providers (cfg_Requirements cfg) = sort (cp_names acc)" "cfg_Providers cfg = cp_providers acc"
    "cfg_Name cfg = om_Name (rs_ObjectMeta (sn_ScaleSet s))"
    by (subst acc(4), simp)+
  have owned: "pc_Owner p = cfg_Name cfg \<and> (map_of env var = Some ref \<longrightarrow> CredentialVariable (pc_Kind p) var \<and> secret v ref = None)"
    if p: "map_of (cp_providers acc) name = Some p" and env: "map_of (cp_credentials acc) name = Some env"
    for name p env var ref
  proof -
    have "name \<in> set (cp_names acc)"
      using p acc(1) by (auto simp: compiling_ok_def)
    then have "provider_accepted v s acc name"
      using acc(1) by (simp add: compiling_ok_def)
    then obtain po :: provider_config_object and env' where po:
      "map_of (cp_providers acc) name = Some (connection_config (pcs_Connection (pco_Spec po)) (cfg_Name cfg))"
      "map_of (cp_credentials acc) name = Some env'"
      "map_of env' = map_of (rev (pcs_CredentialEnvironment (pco_Spec po)))"
      "\<forall>(var, ref) \<in> set (pcs_CredentialEnvironment (pco_Spec po)).
          CredentialVariable (cn_Kind (pcs_Connection (pco_Spec po))) var \<and> secret v ref = None"
      unfolding provider_accepted_def cfg(4) by blast
    have "p = connection_config (pcs_Connection (pco_Spec po)) (cfg_Name cfg)" "env = env'"
      using po(1,2) p env by simp_all
    then show ?thesis
      using po(3,4) by (auto simp: connection_config_def dest!: map_of_SomeD)
  qed
  have "Config_Validate (vd_IsDNS1123Label v) cfg = None"
    using assms(1) unfolding assms(2) by (rule Compile_stages)
  moreover have "list_all (live_in v (cfg_Namespace cfg)) (used_metas s)"
    using used_metas_live [OF assms(1)] by (simp add: cfg list_all_iff)
  moreover have "dom (map_of (cp_providers acc)) = set (cp_names acc)"
    "dom (map_of (cp_credentials acc)) = set (cp_names acc)" "distinct (cp_names acc)"
    using acc(1) by (simp_all add: compiling_ok_def)
  moreover have "set (cp_names acc) = lr_Name ` set (rcs_Providers (rc_Spec (sn_Class s)))"
    by (simp add: acc(2))
  ultimately show ?thesis
    using owned unfolding cfg(2,3) acc(3) by (simp (no_asm_simp))
qed

section \<open>Bounds of the configuration API\<close>

lemma label_schema:
  "validators_contract v \<Longrightarrow> vd_IsDNS1123Label v (lr_Name r) \<Longrightarrow> schema_LocalReference r"
  by (auto simp: validators_contract_def dns_name_def schema_LocalReference_def Suc_le_eq list_all_iff)

lemma secret_schema: "validators_contract v \<Longrightarrow> secret v r = None \<Longrightarrow> schema_SecretKeyReference r"
  by (auto simp: validators_contract_def dns_name_def config_map_key_def schema_SecretKeyReference_def secret_def
      Suc_le_eq list_all_iff split: if_splits)

lemma compile_auth_schema:
  "compile_auth a = None \<Longrightarrow> schema_SecretKeyReference (gha_SecretRef a) \<Longrightarrow> schema_GitHubAuthentication a"
  by (auto simp: compile_auth_def schema_GitHubAuthentication_def split: if_splits)

lemma Config_Validate_bounds:
  assumes "Config_Validate is_label c = None"
  shows "1 \<le> cfg_ScaleSetID c" "1 \<le> cfg_MaxRunners c" "cfg_MaxRunners c \<le> 10"
    "1 \<le> cfg_ProvisioningSeconds c" "cfg_ProvisioningSeconds c \<le> 600"
    "cfg_ProvisioningSeconds c \<le> cfg_MaxLifetimeSeconds c" "cfg_MaxLifetimeSeconds c \<le> 21600"
    "validate_providers c (req_Providers (cfg_Requirements c)) = None"
  using assms by (auto simp: Config_Validate_def split: option.splits if_splits)

lemma validate_providers_each:
  "validate_providers c names = None \<Longrightarrow> name \<in> set names
     \<Longrightarrow> \<exists>p. map_of (cfg_Providers c) name = Some p \<and> Command_Validate p = None"
  by (induction c names rule: validate_providers.induct) (auto split: option.splits if_splits)

lemma digit_bytes: "c \<in> set ''0123456789'' \<Longrightarrow> CHR ''0'' \<le> c \<and> c \<le> CHR ''9''"
  by auto

lemma connection_schema:
  assumes "Command_Validate (connection_config c owner) = None"
  shows "schema_ProviderConnection c"
proof -
  have "cn_SSHPublicKey c \<noteq> []" if "strings_HasPrefix (cn_SSHPublicKey c) ''ssh-''"
    using that by (auto simp: strings_HasPrefix_def)
  moreover have "list_all (\<lambda>x. CHR ''0'' \<le> x \<and> x \<le> CHR ''9'') (cn_AccountID c)"
    if "strings_Trim_empty (cn_AccountID c) ''0123456789''"
    using that digit_bytes by (auto simp: strings_Trim_empty_def list_all_iff)
  ultimately show ?thesis
    using assms
    by (auto simp: Command_Validate_def connection_config_def schema_ProviderConnection_def Suc_le_eq
        split: option.splits if_splits)
qed

text \<open>
  Claim C31 (the schema's bounds hold again). Resolution does not rely on the API server having
  enforced the validation markers: an accepted scale set specification satisfies every marker of
  \<open>RunnerScaleSetSpec\<close> and of the structs it contains, and the connection of every provider that is
  used satisfies every marker of \<open>ProviderConnection\<close>. A checkpoint read back from a ConfigMap, which
  no schema covers, is held to the same bounds.
\<close>

theorem Compile_schema:
  assumes "validators_contract v" "Compile v s = Inr r"
  shows "schema_RunnerScaleSetSpec (rs_Spec (sn_ScaleSet s))
    \<and> (\<forall>ref \<in> set (rcs_Providers (rc_Spec (sn_Class s))). \<exists>p. map_of (sn_Providers s) (lr_Name ref) = Some p
         \<and> schema_LocalReference ref \<and> schema_ProviderConnection (pcs_Connection (pco_Spec p)))"
proof
  from assms(2) obtain acc profile cidrs where acc: "compile_roots v s = None" "compiling_ok v s acc"
    "cp_names acc = map lr_Name (rcs_Providers (rc_Spec (sn_Class s)))"
    "compile_budget v s (compile_config s (cp_providers acc) (sort (cp_names acc)) profile cidrs) = Inr (rv_Config r)"
    "Config_Validate (vd_IsDNS1123Label v) (rv_Config r) = None"
    by (rule Compile_stages)
  note limits = Config_Validate_bounds [OF acc(5)]
  note cfg = compile_budget_config [OF acc(4)]
  have spec: "cfg_ScaleSetID (rv_Config r) = ghs_ScaleSetID (rss_GitHub (rs_Spec (sn_ScaleSet s)))"
    "cfg_MaxRunners (rv_Config r) = rss_MaxRunners (rs_Spec (sn_ScaleSet s))"
    "cfg_ProvisioningSeconds (rv_Config r) = rss_ProvisioningSeconds (rs_Spec (sn_ScaleSet s))"
    "cfg_MaxLifetimeSeconds (rv_Config r) = rss_MaxLifetimeSeconds (rs_Spec (sn_ScaleSet s))"
    "cfg_Providers (rv_Config r) = cp_providers acc"
    "req_Providers (cfg_Requirements (rv_Config r)) = sort (cp_names acc)"
    by (subst cfg, simp add: compile_config_def Let_def)+
  have "vd_IsDNS1123Label v (lr_Name ref)" if "rss_BudgetRef (rs_Spec (sn_ScaleSet s)) = Some ref" for ref
    using acc(4) that by (auto simp: compile_budget_def object_ok_iff split: option.splits)
  then show "schema_RunnerScaleSetSpec (rs_Spec (sn_ScaleSet s))"
    using limits compile_roots_ok [OF acc(1)] label_schema [OF assms(1)] secret_schema [OF assms(1)]
      compile_auth_schema
    unfolding spec schema_RunnerScaleSetSpec_def object_ok_iff by (auto split: option.splits)
  show "\<forall>ref \<in> set (rcs_Providers (rc_Spec (sn_Class s))). \<exists>p. map_of (sn_Providers s) (lr_Name ref) = Some p
      \<and> schema_LocalReference ref \<and> schema_ProviderConnection (pcs_Connection (pco_Spec p))"
  proof
    fix ref assume "ref \<in> set (rcs_Providers (rc_Spec (sn_Class s)))"
    then have name: "lr_Name ref \<in> set (cp_names acc)"
      by (simp add: acc(3))
    then have accepted: "provider_accepted v s acc (lr_Name ref)"
      using acc(2) by (simp add: compiling_ok_def)
    then obtain p where p: "map_of (sn_Providers s) (lr_Name ref) = Some p"
      "map_of (cp_providers acc) (lr_Name ref)
         = Some (connection_config (pcs_Connection (pco_Spec p)) (om_Name (rs_ObjectMeta (sn_ScaleSet s))))"
      by (auto simp: provider_accepted_def)
    have "Command_Validate (connection_config (pcs_Connection (pco_Spec p)) (om_Name (rs_ObjectMeta (sn_ScaleSet s)))) = None"
      using validate_providers_each [OF limits(8), of "lr_Name ref"] name p(2) unfolding spec by simp
    then show "\<exists>p. map_of (sn_Providers s) (lr_Name ref) = Some p
        \<and> schema_LocalReference ref \<and> schema_ProviderConnection (pcs_Connection (pco_Spec p))"
      using p(1) connection_schema label_schema [OF assms(1) provider_accepted_label [OF accepted]] by blast
  qed
qed

section \<open>A concrete configuration\<close>

definition demo_validators :: validators where
  "demo_validators = \<lparr>vd_IsDNS1123Label = dns_name 63 ''-'', vd_IsDNS1123Subdomain = dns_name 253 ''-.'',
     vd_IsConfigMapKey = config_map_key\<rparr>"

lemma demo_validators_contract: "validators_contract demo_validators"
  by (simp add: validators_contract_def demo_validators_def)

definition demo_meta :: "string \<Rightarrow> object_meta" where
  "demo_meta name = \<lparr>om_Name = name, om_Namespace = ''ns'', om_UID = ''u'' @ name, om_ResourceVersion = ''1'',
     om_Generation = 1, om_DeletionTimestamp = None, om_Finalizers = []\<rparr>"

definition demo_ref :: "string \<Rightarrow> local_reference" where
  "demo_ref name = \<lparr>lr_Name = name\<rparr>"

definition demo_scale_set :: runner_scale_set where
  "demo_scale_set = \<lparr>rs_ObjectMeta = demo_meta ''rs'',
     rs_Spec = \<lparr>rss_RunnerClassRef = demo_ref ''c'',
       rss_GitHub = \<lparr>ghs_URL = Some \<lparr>url_Scheme = ''https'', url_Host = ''github.com'', url_User = False,
           url_RawQuery = [], url_Fragment = [], url_Path = ''/o''\<rparr>, ghs_ScaleSetID = 1,
         ghs_Auth = \<lparr>gha_Mode = ''pat'', gha_SecretRef = \<lparr>skr_Name = ''gh'', skr_Key = ''token''\<rparr>,
           gha_AppClientID = [], gha_AppInstallationID = 0\<rparr>\<rparr>,
       rss_MaxRunners = 2, rss_ProvisioningSeconds = 60, rss_MaxLifetimeSeconds = 3600, rss_Suspend = False,
       rss_BudgetRef = Some (demo_ref ''b'')\<rparr>,
     rs_Status = status_zero\<rparr>"

definition demo_runner_class :: runner_class where
  "demo_runner_class = \<lparr>rc_ObjectMeta = demo_meta ''c'',
     rc_Spec = \<lparr>rcs_Resources = \<lparr>res_CPU = 2, res_MemoryMiB = 4096, res_Architecture = ''amd64'', res_Vendor = [],
         res_Capabilities = []\<rparr>,
       rcs_Placement = \<lparr>plp_Policy = ''lowest-price'', plp_Regions = [''eu''], plp_MaxPriceMicros = 36000,
         plp_AllowOnDemand = False\<rparr>,
       rcs_Providers = [demo_ref ''aws''], rcs_CatalogRef = demo_ref ''k'', rcs_NetworkRef = Some (demo_ref ''n''),
       rcs_Retry = \<lparr>crp_Enabled = True, crp_MaxRetries = 1, crp_AcknowledgeRepeatedEffects = True\<rparr>\<rparr>,
     rc_Status = status_zero\<rparr>"

definition demo_provider_object :: provider_config_object where
  "demo_provider_object = \<lparr>pco_ObjectMeta = demo_meta ''aws'',
     pco_Spec = \<lparr>pcs_Connection = \<lparr>cn_Kind = ''aws'', cn_AccountID = ''123456789012'', cn_Subscription = [],
         cn_ResourceGroup = [], cn_SSHPublicKey = [], cn_Project = [], cn_Profile = [], cn_Subnet = ''s'',
         cn_SecurityGroup = ''g''\<rparr>,
       pcs_CredentialEnvironment = [(''AWS_ROLE_ARN'', \<lparr>skr_Name = ''cloud'', skr_Key = ''arn''\<rparr>)]\<rparr>,
     pco_Status = status_zero\<rparr>"

definition demo_network :: network_profile where
  "demo_network = \<lparr>np_ObjectMeta = demo_meta ''n'',
     np_Spec = \<lparr>nps_Mode = ''wireguard'',
       nps_Mappings = [\<lparr>nm_ProviderRef = demo_ref ''aws'', nm_Region = ''eu'', nm_NetworkID = ''vpc'', nm_SubnetID = ''s'',
         nm_CIDRs = [(''10.0.0.0/30'', Inr (Prefix (V4 0x0A000000) 30)), (''10.0.1.0/30'', Inr (Prefix (V4 0x0A000100) 30))]\<rparr>],
       nps_AllowedServices = [], nps_EnrollmentRef = None\<rparr>,
     np_Status = status_zero\<rparr>"

definition demo_capacity :: capacity_catalog where
  "demo_capacity = \<lparr>cc_ObjectMeta = demo_meta ''k'',
     cc_Spec = \<lparr>ccs_Offerings = [\<lparr>ao_ID = ''p1'', ao_Provider = ''aws'', ao_Region = ''eu'', ao_Zone = ''a'',
         ao_Machine = ''m'', ao_Image = ''i'', ao_CPU = 2, ao_MemoryMiB = 4096, ao_Architecture = ''amd64'', ao_Vendor = [],
         ao_Capabilities = [], ao_Spot = True, ao_PriceMicros = 20000, ao_Currency = ''USD'', ao_ObservedAt = 1000,
         ao_GCPSkuRefs = None\<rparr>],
       ccs_Complete = [(''aws'', True)], ccs_PriceRefresh = []\<rparr>,
     cc_Status = status_zero\<rparr>"

definition demo_snapshot :: snapshot where
  "demo_snapshot = \<lparr>sn_ScaleSet = demo_scale_set, sn_Class = demo_runner_class, sn_Catalog = demo_capacity,
     sn_Providers = [(''aws'', demo_provider_object)], sn_Network = Some demo_network,
     sn_Budget = Some \<lparr>cb_ObjectMeta = demo_meta ''b'', cb_Spec = \<lparr>cbs_DailyBudgetMicros = 100000\<rparr>,
       cb_Status = status_zero\<rparr>\<rparr>"

definition demo_resolved :: resolved where
  "demo_resolved = projr (Compile demo_validators demo_snapshot)"

lemma demo_compiles: "Compile demo_validators demo_snapshot = Inr demo_resolved"
proof -
  have "\<not> isl (Compile demo_validators demo_snapshot)"
    by code_simp
  then show ?thesis
    by (simp add: demo_resolved_def)
qed

theorem Compile_network_witness:
  "apart (Prefix (V4 0x0A000000) 30) (Prefix (V4 0x0A000100) 30)
   \<and> cfg_NetworkProfile (rv_Config demo_resolved) = ''n''
   \<and> length (cfg_NetworkOverlayCIDRs (rv_Config demo_resolved)) = 2"
proof -
  have "cidrs_wf (profile_cidrs (nps_Mappings (np_Spec demo_network)))"
    by code_simp
  moreover have "sn_Network demo_snapshot = Some demo_network"
    by (simp add: demo_snapshot_def)
  ultimately show ?thesis
    using Compile_network [OF demo_validators_contract demo_compiles, of demo_network, OF _ refl]
    by (simp add: demo_network_def demo_meta_def profile_cidrs_def blocks_of_def)
qed

theorem Compile_local_witness:
  "list_all (live_in demo_validators ''ns'') (used_metas demo_snapshot)
   \<and> req_Providers (cfg_Requirements (rv_Config demo_resolved)) = [''aws'']"
proof -
  have "cfg_Namespace (rv_Config demo_resolved) = ''ns''"
    "req_Providers (cfg_Requirements (rv_Config demo_resolved)) = [''aws'']"
    by code_simp+
  with Compile_local [OF demo_compiles refl] show ?thesis
    by simp
qed

theorem Compile_schema_witness:
  "schema_RunnerScaleSetSpec (rs_Spec demo_scale_set)
   \<and> schema_ProviderConnection (pcs_Connection (pco_Spec demo_provider_object))"
  using Compile_schema [OF demo_validators_contract demo_compiles]
  by (simp add: demo_snapshot_def demo_runner_class_def demo_ref_def)

end
