(* ===== verification/Config_Read.thy ===== *)
theory Config_Read
  imports Config_Compile
begin

text \<open>
  \<open>internal/configapi/read.go\<close>, \<open>secrets.go\<close> and \<open>load.go\<close>: collecting a scale set's objects and the
  Secrets they reference, each read twice so that the result is one consistent snapshot. The API
  server is a parameter. The content of an object is represented by what strict JSON decoding finds
  in it for each of the configuration types, and the hash functions are parameters.
\<close>

section \<open>Sequencing\<close>

text \<open>One fallible call after another; the first error ends the function.\<close>

definition attempt :: "(err + 'a) \<times> 'w \<Rightarrow> ('a \<Rightarrow> 'w \<Rightarrow> (err + 'b) \<times> 'w) \<Rightarrow> (err + 'b) \<times> 'w" where
  "attempt r k = (case r of (Inl e, w) \<Rightarrow> (Inl e, w) | (Inr x, w) \<Rightarrow> k x w)"

lemma attempt_simps [simp]:
  "attempt (Inl e, w) k = (Inl e, w)" "attempt (Inr x, w) k = k x w"
  by (simp_all add: attempt_def)

lemma attempt_Inr:
  assumes "attempt r k = (Inr y, w')"
  obtains x w where "r = (Inr x, w)" "k x w = (Inr y, w')"
  using assms by (cases r; cases "fst r") (auto simp: attempt_def)

lemma attempt_Inr_iff: "attempt r k = (Inr y, w') \<longleftrightarrow> (\<exists>x w. r = (Inr x, w) \<and> k x w = (Inr y, w'))"
  by (auto elim: attempt_Inr)

section \<open>Reading configuration objects\<close>

definition Group :: string where
  "Group = ''runnerscout.io''"

definition Version :: string where
  "Version = ''v1alpha1''"

definition ErrChanged_error :: err where
  "ErrChanged_error = Err [ErrChanged] ''configuration dependencies changed during snapshot collection''"

text \<open>
  \<open>unstructured.Unstructured\<close>: the accessors the code uses, the length of the marshalled document (none
  when marshalling fails), and what decoding that document into each type finds.
\<close>

record unstructured =
  un_Meta :: object_meta
  un_APIVersion :: string
  un_Kind :: string
  un_Marshal :: "int option"
  un_ScaleSet :: "runner_scale_set json"
  un_Class :: "runner_class json"
  un_Catalog :: "capacity_catalog json"
  un_Provider :: "provider_config_object json"
  un_Network :: "network_profile json"
  un_Budget :: "capacity_budget json"
  un_Status :: configuration_status

record 'w reader =
  rd_Get :: "string \<Rightarrow> string \<Rightarrow> string \<Rightarrow> 'w \<Rightarrow> (err + unstructured) \<times> 'w"

record 'w dynamic_ops =
  dy_Get :: "string \<times> string \<times> string \<Rightarrow> string \<Rightarrow> string \<Rightarrow> 'w \<Rightarrow> (err + unstructured) \<times> 'w"
  dy_Update :: "string \<times> string \<times> string \<Rightarrow> string \<Rightarrow> unstructured \<Rightarrow> 'w \<Rightarrow> err option \<times> 'w"
  dy_UpdateStatus :: "string \<times> string \<times> string \<Rightarrow> string \<Rightarrow> unstructured \<Rightarrow> 'w \<Rightarrow> err option \<times> 'w"

definition KubernetesReader :: "'w dynamic_ops \<Rightarrow> 'w reader" where
  "KubernetesReader client = \<lparr>rd_Get = (\<lambda>resource namespace name.
     dy_Get client (Group, Version, resource) namespace name)\<rparr>"

record revision =
  rev_Resource :: string
  rev_Name :: string
  rev_UID :: string
  rev_ResourceVersion :: string
  rev_Generation :: int

definition decode_limit :: int where
  "decode_limit = 4 * 2 ^ 20"

text \<open>The closure \<open>get\<close> of \<open>Read\<close>: one object, checked, decoded into its type, its revision recorded.\<close>

definition read_object :: "string \<Rightarrow> string \<Rightarrow> string \<Rightarrow> (unstructured \<Rightarrow> 'a json) \<Rightarrow> unstructured \<Rightarrow> err + 'a" where
  "read_object namespace kind name content u =
     (if om_Namespace (un_Meta u) \<noteq> namespace \<or> om_Name (un_Meta u) \<noteq> name
         \<or> un_APIVersion u \<noteq> Group @ ''/'' @ Version \<or> un_Kind u \<noteq> kind
         \<or> om_UID (un_Meta u) = [] \<or> om_ResourceVersion (un_Meta u) = []
      then Inl (errors_New ''configuration dependency identity is invalid'')
      else case un_Marshal u of
          None \<Rightarrow> Inl (errors_New ''configuration dependency exceeds decoding limits'')
        | Some n \<Rightarrow>
            if n > decode_limit then Inl (errors_New ''configuration dependency exceeds decoding limits'')
            else (case content u of
                JsonBad _ \<Rightarrow> Inl (errors_New ''configuration dependency has unsupported fields or types'')
              | JsonTrailing _ \<Rightarrow> Inl (errors_New ''invalid configuration document'')
              | JsonOf x \<Rightarrow> Inr x))"

definition revision_of :: "string \<Rightarrow> string \<Rightarrow> unstructured \<Rightarrow> revision" where
  "revision_of resource name u = \<lparr>rev_Resource = resource, rev_Name = name, rev_UID = om_UID (un_Meta u),
     rev_ResourceVersion = om_ResourceVersion (un_Meta u), rev_Generation = om_Generation (un_Meta u)\<rparr>"

definition read_get ::
    "'w reader \<Rightarrow> string \<Rightarrow> string \<Rightarrow> string \<Rightarrow> string \<Rightarrow> (unstructured \<Rightarrow> 'a json) \<Rightarrow> revision list \<Rightarrow> 'w
     \<Rightarrow> (err + 'a \<times> revision list) \<times> 'w" where
  "read_get reader namespace resource kind name content revisions w =
     (case rd_Get reader resource namespace name w of
        (Inl _, w) \<Rightarrow> (Inl (errors_New ''cannot read configuration dependency''), w)
      | (Inr u, w) \<Rightarrow>
          (case read_object namespace kind name content u of
             Inl e \<Rightarrow> (Inl e, w)
           | Inr x \<Rightarrow> (Inr (x, revisions @ [revision_of resource name u]), w)))"

fun read_providers ::
    "'w reader \<Rightarrow> string \<Rightarrow> local_reference list \<Rightarrow> (string, provider_config_object) gomap \<Rightarrow> revision list \<Rightarrow> 'w
     \<Rightarrow> (err + (string, provider_config_object) gomap \<times> revision list) \<times> 'w" where
  "read_providers reader namespace [] providers revisions w = (Inr (providers, revisions), w)"
| "read_providers reader namespace (ref # refs) providers revisions w =
     (if has_key providers (lr_Name ref) then (Inl (errors_New ''duplicate provider reference''), w)
      else attempt (read_get reader namespace ''providerconfigs'' ''ProviderConfig'' (lr_Name ref) un_Provider revisions w)
        (\<lambda>(p, revisions). read_providers reader namespace refs (AList.update (lr_Name ref) p providers) revisions))"

text \<open>An optional dependency is read only when it is referenced.\<close>

definition read_optional ::
    "'w reader \<Rightarrow> string \<Rightarrow> string \<Rightarrow> string \<Rightarrow> local_reference option \<Rightarrow> (unstructured \<Rightarrow> 'a json) \<Rightarrow> revision list \<Rightarrow> 'w
     \<Rightarrow> (err + 'a option \<times> revision list) \<times> 'w" where
  "read_optional reader namespace resource kind ref content revisions w =
     (case ref of
        None \<Rightarrow> (Inr (None, revisions), w)
      | Some ref \<Rightarrow>
          attempt (read_get reader namespace resource kind (lr_Name ref) content revisions w)
            (\<lambda>(x, revisions) w. (Inr (Some x, revisions), w)))"

fun Recheck :: "'w reader \<Rightarrow> string \<Rightarrow> revision list \<Rightarrow> 'w \<Rightarrow> err option \<times> 'w" where
  "Recheck reader namespace [] w = (None, w)"
| "Recheck reader namespace (r # revisions) w =
     (case rd_Get reader (rev_Resource r) namespace (rev_Name r) w of
        (Inl _, w) \<Rightarrow> (Some (errors_New ''cannot verify configuration snapshot''), w)
      | (Inr u, w) \<Rightarrow>
          if om_UID (un_Meta u) \<noteq> rev_UID r \<or> om_ResourceVersion (un_Meta u) \<noteq> rev_ResourceVersion r
             \<or> om_Namespace (un_Meta u) \<noteq> namespace \<or> om_Name (un_Meta u) \<noteq> rev_Name r
          then (Some ErrChanged_error, w)
          else Recheck reader namespace revisions w)"

text \<open>The collection, before it is rechecked.\<close>

definition read_collect :: "'w reader \<Rightarrow> string \<Rightarrow> string \<Rightarrow> 'w \<Rightarrow> (err + snapshot \<times> revision list) \<times> 'w" where
  "read_collect reader namespace name w =
     attempt (read_get reader namespace ''runnerscalesets'' ''RunnerScaleSet'' name un_ScaleSet [] w)
       (\<lambda>(root, revisions) w.
     attempt (read_get reader namespace ''runnerclasses'' ''RunnerClass'' (lr_Name (rss_RunnerClassRef (rs_Spec root)))
         un_Class revisions w)
       (\<lambda>(class, revisions) w.
     attempt (read_get reader namespace ''capacitycatalogs'' ''CapacityCatalog'' (lr_Name (rcs_CatalogRef (rc_Spec class)))
         un_Catalog revisions w)
       (\<lambda>(catalog, revisions) w.
     if length (rcs_Providers (rc_Spec class)) < 1 \<or> length (rcs_Providers (rc_Spec class)) > 16
     then (Inl (errors_New ''runner class must reference 1..16 providers''), w)
     else attempt (read_providers reader namespace (rcs_Providers (rc_Spec class)) [] revisions w)
       (\<lambda>(providers, revisions) w.
     attempt (read_optional reader namespace ''networkprofiles'' ''NetworkProfile'' (rcs_NetworkRef (rc_Spec class))
         un_Network revisions w)
       (\<lambda>(network, revisions) w.
     attempt (read_optional reader namespace ''capacitybudgets'' ''CapacityBudget'' (rss_BudgetRef (rs_Spec root))
         un_Budget revisions w)
       (\<lambda>(budget, revisions) w.
     (Inr (\<lparr>sn_ScaleSet = root, sn_Class = class, sn_Catalog = catalog, sn_Providers = providers,
        sn_Network = network, sn_Budget = budget\<rparr>, revisions), w)))))))"

definition Read ::
    "validators \<Rightarrow> 'w reader \<Rightarrow> string \<Rightarrow> string \<Rightarrow> 'w \<Rightarrow> (err + snapshot \<times> revision list) \<times> 'w" where
  "Read v reader namespace name w =
     attempt (read_collect reader namespace name w)
       (\<lambda>(s, revisions) w.
     case Recheck reader namespace revisions w of
       (Some e, w) \<Rightarrow> (Inl e, w)
     | (None, w) \<Rightarrow>
         (case Compile v s of Inl e \<Rightarrow> (Inl e, w) | Inr _ \<Rightarrow> (Inr (s, revisions), w)))"

section \<open>Secrets\<close>

record secret_object =
  so_Meta :: object_meta
  so_Data :: "(string, string) gomap"

record 'w secrets_ops =
  se_Get :: "string \<Rightarrow> 'w \<Rightarrow> (err + secret_object) \<times> 'w"

record secret_revision =
  sr_Name :: string
  sr_UID :: string
  sr_ResourceVersion :: string
  sr_ContentHash :: string

record credentials =
  cr_GitHub :: string
  cr_Providers :: "(string, (string, string) gomap) gomap"
  cr_Revisions :: "secret_revision list"

text \<open>\<open>secretDataHash\<close> over a parameter for SHA-256 printed in hexadecimal.\<close>

definition secretDataHash :: "(string \<Rightarrow> string) \<Rightarrow> (string, string) gomap \<Rightarrow> string" where
  "secretDataHash sha256 data =
     sha256 (concat (map (\<lambda>key. key @ [CHR 0x00] @ map_get [] data key @ [CHR 0x00]) (sort (keys data))))"

text \<open>The closure \<open>read\<close>: each Secret is fetched once and kept; the value of one key is returned.\<close>

definition read_secret ::
    "validators \<Rightarrow> 'w secrets_ops \<Rightarrow> string \<Rightarrow> secret_key_reference \<Rightarrow> (string, secret_object) gomap \<Rightarrow> 'w
     \<Rightarrow> (err + string \<times> (string, secret_object) gomap) \<times> 'w" where
  "read_secret v client namespace ref objects w =
     (case secret v ref of
        Some e \<Rightarrow> (Inl e, w)
      | None \<Rightarrow>
          attempt
            (case map_of objects (skr_Name ref) of
               Some obj \<Rightarrow> (Inr (obj, objects), w)
             | None \<Rightarrow>
                 (case se_Get client (skr_Name ref) w of
                    (Inl _, w) \<Rightarrow> (Inl (errors_New ''referenced Secret unavailable''), w)
                  | (Inr obj, w) \<Rightarrow>
                      if om_Namespace (so_Meta obj) \<noteq> namespace \<or> om_Name (so_Meta obj) \<noteq> skr_Name ref
                         \<or> om_UID (so_Meta obj) = [] \<or> om_ResourceVersion (so_Meta obj) = []
                         \<or> om_DeletionTimestamp (so_Meta obj) \<noteq> None
                      then (Inl (errors_New ''referenced Secret identity invalid''), w)
                      else (Inr (obj, AList.update (skr_Name ref) obj objects), w)))
            (\<lambda>(obj, objects) w.
               case map_of (so_Data obj) (skr_Key ref) of
                 None \<Rightarrow> (Inl (errors_New ''referenced Secret key missing or empty''), w)
               | Some value \<Rightarrow>
                   if value = [] then (Inl (errors_New ''referenced Secret key missing or empty''), w)
                   else (Inr (value, objects), w)))"

definition github_token :: "github_authentication \<Rightarrow> string \<Rightarrow> err + string" where
  "github_token auth value =
     (if gha_Mode auth = ''pat'' then
        let token = strings_TrimSpace value in
        if token = [] \<or> strings_ContainsAny token [CHR 0x00, CHR 0x0D, CHR 0x0A]
        then Inl (errors_New ''invalid GitHub token'') else Inr token
      else Inr value)"

definition read_github ::
    "validators \<Rightarrow> 'w secrets_ops \<Rightarrow> resolved \<Rightarrow> bool \<Rightarrow> 'w \<Rightarrow> (err + string \<times> (string, secret_object) gomap) \<times> 'w" where
  "read_github v client r github w =
     (if \<not> github then (Inr ([], []), w)
      else attempt (read_secret v client (cfg_Namespace (rv_Config r)) (gha_SecretRef (rv_Auth r)) [] w)
        (\<lambda>(value, objects) w.
           case github_token (rv_Auth r) value of Inl e \<Rightarrow> (Inl e, w) | Inr token \<Rightarrow> (Inr (token, objects), w)))"

fun read_variables ::
    "validators \<Rightarrow> 'w secrets_ops \<Rightarrow> string \<Rightarrow> string \<Rightarrow> (string, secret_key_reference) gomap \<Rightarrow> (string, string) gomap
     \<Rightarrow> (string, secret_object) gomap \<Rightarrow> 'w \<Rightarrow> (err + (string, string) gomap \<times> (string, secret_object) gomap) \<times> 'w" where
  "read_variables v client namespace kind [] acc objects w = (Inr (acc, objects), w)"
| "read_variables v client namespace kind ((variable, ref) # refs) acc objects w =
     (if \<not> credentialVariable kind variable
      then (Inl (errors_New ''unsupported provider credential variable''), w)
      else attempt (read_secret v client namespace ref objects w)
        (\<lambda>(value, objects) w.
           if List.member value (CHR 0x00) then (Inl (errors_New ''invalid provider credential value''), w)
           else read_variables v client namespace kind refs (AList.update variable value acc) objects w))"

fun read_credentials ::
    "validators \<Rightarrow> 'w secrets_ops \<Rightarrow> config \<Rightarrow> (string, (string, secret_key_reference) gomap) gomap
     \<Rightarrow> (string, (string, string) gomap) gomap \<Rightarrow> (string, secret_object) gomap \<Rightarrow> 'w
     \<Rightarrow> (err + (string, (string, string) gomap) gomap \<times> (string, secret_object) gomap) \<times> 'w" where
  "read_credentials v client c [] acc objects w = (Inr (acc, objects), w)"
| "read_credentials v client c ((name, refs) # rest) acc objects w =
     (case map_of (cfg_Providers c) name of
        None \<Rightarrow> (Inl (errors_New ''credential provider is not configured''), w)
      | Some p \<Rightarrow>
          attempt (read_variables v client (cfg_Namespace c) (pc_Kind p) refs [] objects w)
            (\<lambda>(values, objects). read_credentials v client c rest (AList.update name values acc) objects))"

fun recheck_secrets ::
    "(string \<Rightarrow> string) \<Rightarrow> 'w secrets_ops \<Rightarrow> (string, secret_object) gomap \<Rightarrow> secret_revision list \<Rightarrow> 'w
     \<Rightarrow> (err + secret_revision list) \<times> 'w" where
  "recheck_secrets sha256 client [] revisions w = (Inr revisions, w)"
| "recheck_secrets sha256 client ((name, old) # objects) revisions w =
     (case se_Get client name w of
        (Inl _, w) \<Rightarrow> (Inl (errors_New ''referenced Secret recheck failed''), w)
      | (Inr current, w) \<Rightarrow>
          if om_Namespace (so_Meta current) \<noteq> om_Namespace (so_Meta old) \<or> om_Name (so_Meta current) \<noteq> om_Name (so_Meta old)
             \<or> om_UID (so_Meta current) \<noteq> om_UID (so_Meta old)
             \<or> om_ResourceVersion (so_Meta current) \<noteq> om_ResourceVersion (so_Meta old)
             \<or> om_DeletionTimestamp (so_Meta current) \<noteq> None
          then (Inl ErrChanged_error, w)
          else recheck_secrets sha256 client objects
            (revisions @ [\<lparr>sr_Name = name, sr_UID = om_UID (so_Meta current),
               sr_ResourceVersion = om_ResourceVersion (so_Meta current),
               sr_ContentHash = secretDataHash sha256 (so_Data current)\<rparr>]) w)"

definition resolveSecrets ::
    "validators \<Rightarrow> (string \<Rightarrow> string) \<Rightarrow> 'w secrets_ops \<Rightarrow> resolved \<Rightarrow> bool \<Rightarrow> 'w \<Rightarrow> (err + credentials) \<times> 'w" where
  "resolveSecrets v sha256 client r github w =
     attempt (read_github v client r github w)
       (\<lambda>(token, objects) w.
     attempt (read_credentials v client (rv_Config r) (rv_Credentials r) [] objects w)
       (\<lambda>(providers, objects) w.
     attempt (recheck_secrets sha256 client objects [] w)
       (\<lambda>revisions w. (Inr \<lparr>cr_GitHub = token, cr_Providers = providers,
          cr_Revisions = sort_key sr_Name revisions\<rparr>, w))))"

definition ResolveSecrets ::
    "validators \<Rightarrow> (string \<Rightarrow> string) \<Rightarrow> 'w secrets_ops \<Rightarrow> resolved \<Rightarrow> 'w \<Rightarrow> (err + credentials) \<times> 'w" where
  "ResolveSecrets v sha256 client r = resolveSecrets v sha256 client r True"

definition ResolveCleanupSecrets ::
    "validators \<Rightarrow> (string \<Rightarrow> string) \<Rightarrow> 'w secrets_ops \<Rightarrow> resolved \<Rightarrow> 'w \<Rightarrow> (err + credentials) \<times> 'w" where
  "ResolveCleanupSecrets v sha256 client r = resolveSecrets v sha256 client r False"

section \<open>Loading\<close>

record loaded =
  ld_Snapshot :: snapshot
  ld_Resolved :: resolved
  ld_Credentials :: credentials
  ld_Revisions :: "revision list"

definition Config_Load ::
    "validators \<Rightarrow> (string \<Rightarrow> string) \<Rightarrow> 'w reader \<Rightarrow> 'w secrets_ops \<Rightarrow> string \<Rightarrow> string \<Rightarrow> 'w \<Rightarrow> (err + loaded) \<times> 'w" where
  "Config_Load v sha256 reader secrets namespace name w =
     attempt (Read v reader namespace name w)
       (\<lambda>(s, revisions) w.
     case Compile v s of
       Inl e \<Rightarrow> (Inl e, w)
     | Inr r \<Rightarrow>
         attempt (ResolveSecrets v sha256 secrets r w)
           (\<lambda>credentials w.
         case Recheck reader namespace revisions w of
           (Some e, w) \<Rightarrow> (Inl e, w)
         | (None, w) \<Rightarrow> (Inr \<lparr>ld_Snapshot = s, ld_Resolved = r, ld_Credentials = credentials,
             ld_Revisions = revisions\<rparr>, w)))"

text \<open>
  \<open>Loaded.Key\<close>: the struct that is marshalled and hashed; marshalling and hashing are one parameter.
\<close>

record key_material =
  km_Config :: config
  km_Auth :: github_authentication
  km_References :: "(string, (string, secret_key_reference) gomap) gomap"
  km_Suspend :: bool
  km_Network :: "network_profile_spec option"
  km_Identities :: "(string \<times> string \<times> string) list"
  km_Secrets :: "(string \<times> string \<times> string) list"

definition Loaded_material :: "loaded \<Rightarrow> key_material" where
  "Loaded_material l =
     \<lparr>km_Config = rv_Config (ld_Resolved l), km_Auth = rv_Auth (ld_Resolved l),
      km_References = rv_Credentials (ld_Resolved l), km_Suspend = rv_Suspend (ld_Resolved l),
      km_Network = map_option np_Spec (sn_Network (ld_Snapshot l)),
      km_Identities = map (\<lambda>r. (rev_Resource r, rev_Name r, rev_UID r)) (ld_Revisions l),
      km_Secrets = map (\<lambda>r. (sr_Name r, sr_UID r, sr_ContentHash r)) (cr_Revisions (ld_Credentials l))\<rparr>"

definition Loaded_Key :: "(key_material \<Rightarrow> string) \<Rightarrow> loaded \<Rightarrow> string" where
  "Loaded_Key sha256_json l = sha256_json (Loaded_material l)"

end
