(* ===== verification/Config_Snapshot.thy ===== *)
theory Config_Snapshot
  imports Config_Read Config_Accept
begin

text \<open>
  What reading everything twice achieves. Other clients may change any object at any moment between
  two calls; still, when \<open>Load\<close> returns, there was one instant at which every configuration object and
  every Secret it used had exactly the content that was read.
\<close>

section \<open>A server whose objects change\<close>

text \<open>
  \<open>later\<close> orders the instants, \<open>cur\<close> gives the object stored under a key at an instant. A read
  returns what was stored at some instant between its call and its return. Within the life of one
  object (its UID) every change gives it a resource version it never had before, so that two instants
  with the same version enclose no change.
\<close>

definition reads_linear ::
    "('w \<Rightarrow> 'w \<Rightarrow> bool) \<Rightarrow> ('k \<Rightarrow> 'w \<Rightarrow> (err + 'o) \<times> 'w) \<Rightarrow> ('w \<Rightarrow> 'k \<Rightarrow> 'o option) \<Rightarrow> bool" where
  "reads_linear later get cur \<longleftrightarrow> (\<forall>k w r w'. get k w = (r, w') \<longrightarrow>
     (\<exists>m. later w m \<and> later m w' \<and> (\<forall>u. r = Inr u \<longrightarrow> cur m k = Some u)))"

definition same_version :: "object_meta \<Rightarrow> object_meta \<Rightarrow> bool" where
  "same_version a b \<longleftrightarrow> om_UID a = om_UID b \<and> om_ResourceVersion a = om_ResourceVersion b"

definition versions_fresh ::
    "('w \<Rightarrow> 'w \<Rightarrow> bool) \<Rightarrow> ('o \<Rightarrow> object_meta) \<Rightarrow> ('w \<Rightarrow> 'k \<Rightarrow> 'o option) \<Rightarrow> bool" where
  "versions_fresh later meta cur \<longleftrightarrow> (\<forall>k a b c x z. later a b \<longrightarrow> later b c \<longrightarrow> cur a k = Some x \<longrightarrow> cur c k = Some z
     \<longrightarrow> same_version (meta x) (meta z) \<longrightarrow> cur b k = Some x)"

definition server_contract ::
    "('w \<Rightarrow> 'w \<Rightarrow> bool) \<Rightarrow> ('o \<Rightarrow> object_meta) \<Rightarrow> ('k \<Rightarrow> 'w \<Rightarrow> (err + 'o) \<times> 'w) \<Rightarrow> ('w \<Rightarrow> 'k \<Rightarrow> 'o option) \<Rightarrow> bool" where
  "server_contract later meta get cur \<longleftrightarrow> reflp later \<and> transp later \<and> reads_linear later get cur
     \<and> versions_fresh later meta cur"

text \<open>An object was current at some instant of an interval.\<close>

definition current_in :: "('w \<Rightarrow> 'w \<Rightarrow> bool) \<Rightarrow> ('w \<Rightarrow> 'k \<Rightarrow> 'o option) \<Rightarrow> 'w \<Rightarrow> 'w \<Rightarrow> 'k \<Rightarrow> 'o \<Rightarrow> bool" where
  "current_in later cur a b k u \<longleftrightarrow> (\<exists>m. later a m \<and> later m b \<and> cur m k = Some u)"

lemma server_refl: "server_contract later meta get cur \<Longrightarrow> later w w"
  by (auto simp: server_contract_def dest: reflpD)

lemma server_trans: "server_contract later meta get cur \<Longrightarrow> later a b \<Longrightarrow> later b c \<Longrightarrow> later a c"
  by (auto simp: server_contract_def dest: transpD)

lemma server_get:
  assumes "server_contract later meta get cur" "get k w = (Inr u, w')"
  shows "later w w'" "current_in later cur w w' k u"
proof -
  have "reads_linear later get cur"
    using assms(1) by (simp add: server_contract_def)
  from this [unfolded reads_linear_def, rule_format, OF assms(2)]
  obtain m where "later w m" "later m w'" "cur m k = Some u"
    by blast
  then show "current_in later cur w w' k u"
    by (auto simp: current_in_def)
  show "later w w'"
    using server_trans [OF assms(1) \<open>later w m\<close> \<open>later m w'\<close>] .
qed

lemma current_in_widen:
  assumes "server_contract later meta get cur" "current_in later cur a b k u" "later a' a" "later b b'"
  shows "current_in later cur a' b' k u"
proof -
  from assms(2) obtain m where "later a m" "later m b" "cur m k = Some u"
    by (auto simp: current_in_def)
  then show ?thesis
    using server_trans [OF assms(1)] assms(3,4) unfolding current_in_def by blast
qed

text \<open>Read before an instant and found unchanged after it: current at that instant.\<close>

lemma pinned:
  assumes "server_contract later meta get cur" "current_in later cur a b k x" "current_in later cur b c k z"
    "same_version (meta x) (meta z)"
  shows "cur b k = Some x"
  using assms unfolding current_in_def server_contract_def versions_fresh_def by blast

section \<open>The collection\<close>

type_synonym read_key = "string \<times> string"

abbreviation reader_get :: "'w reader \<Rightarrow> string \<Rightarrow> read_key \<Rightarrow> 'w \<Rightarrow> (err + unstructured) \<times> 'w" where
  "reader_get reader namespace k \<equiv> rd_Get reader (fst k) namespace (snd k)"

text \<open>
  The objects read so far: the recorded revisions are theirs, and each was current at some instant of
  the interval.
\<close>

definition collected ::
    "('w \<Rightarrow> 'w \<Rightarrow> bool) \<Rightarrow> ('w \<Rightarrow> read_key \<Rightarrow> unstructured option) \<Rightarrow> 'w \<Rightarrow> 'w \<Rightarrow> revision list \<Rightarrow> (read_key \<times> unstructured) list \<Rightarrow> bool" where
  "collected later cur a b revisions reads \<longleftrightarrow> later a b
     \<and> revisions = map (\<lambda>(k, u). revision_of (fst k) (snd k) u) reads
     \<and> (\<forall>k u. (k, u) \<in> set reads \<longrightarrow> current_in later cur a b k u)"

lemma collected_current:
  "collected later cur a b revisions reads \<Longrightarrow> (k, u) \<in> set reads \<Longrightarrow> current_in later cur a b k u"
  unfolding collected_def by blast

definition piece ::
    "(read_key \<times> unstructured) set \<Rightarrow> string \<Rightarrow> string \<Rightarrow> string \<Rightarrow> string \<Rightarrow> (unstructured \<Rightarrow> 'a json) \<Rightarrow> 'a \<Rightarrow> bool" where
  "piece R namespace resource kind name content x \<longleftrightarrow>
     (\<exists>u. ((resource, name), u) \<in> R \<and> read_object namespace kind name content u = Inr x)"

lemma piece_mono: "piece R ns res kind name content x \<Longrightarrow> R \<subseteq> R' \<Longrightarrow> piece R' ns res kind name content x"
  by (auto simp: piece_def)

lemma read_get_collected:
  assumes c: "server_contract later un_Meta (reader_get reader ns) cur"
    and r: "read_get reader ns resource kind name content revisions w = (Inr (x, revisions'), w')"
    and a: "collected later cur a w revisions reads"
  obtains reads' where "collected later cur a w' revisions' reads'" "set reads \<subseteq> set reads'"
    "piece (set reads') ns resource kind name content x"
proof -
  from r obtain u where u: "rd_Get reader resource ns name w = (Inr u, w')"
    "read_object ns kind name content u = Inr x" "revisions' = revisions @ [revision_of resource name u]"
    by (auto simp: read_get_def split: prod.splits sum.splits)
  have get: "reader_get reader ns (resource, name) w = (Inr u, w')"
    using u(1) by simp
  have later: "later w w'" and new: "current_in later cur w w' (resource, name) u"
    using server_get [OF c get] by auto
  have "later a w"
    using a by (simp add: collected_def)
  have "later a w'"
    by (rule server_trans [OF c \<open>later a w\<close> later])
  moreover have "current_in later cur a w' k y" if "(k, y) \<in> set reads" for k y
    using that a by (intro current_in_widen [OF c collected_current server_refl [OF c] later])
  moreover have "current_in later cur a w' (resource, name) u"
    by (rule current_in_widen [OF c new \<open>later a w\<close> server_refl [OF c]])
  ultimately have "collected later cur a w' revisions' (reads @ [((resource, name), u)])"
    using a u(3) by (auto simp: collected_def)
  then show thesis
    using u(2) by (intro that [of "reads @ [((resource, name), u)]"]) (auto simp: piece_def)
qed

text \<open>The pieces of a snapshot, found among a set of objects.\<close>

definition snapshot_from :: "(read_key \<times> unstructured) set \<Rightarrow> string \<Rightarrow> string \<Rightarrow> snapshot \<Rightarrow> bool" where
  "snapshot_from R ns name s \<longleftrightarrow>
     piece R ns ''runnerscalesets'' ''RunnerScaleSet'' name un_ScaleSet (sn_ScaleSet s)
     \<and> piece R ns ''runnerclasses'' ''RunnerClass'' (lr_Name (rss_RunnerClassRef (rs_Spec (sn_ScaleSet s)))) un_Class (sn_Class s)
     \<and> piece R ns ''capacitycatalogs'' ''CapacityCatalog'' (lr_Name (rcs_CatalogRef (rc_Spec (sn_Class s)))) un_Catalog (sn_Catalog s)
     \<and> dom (map_of (sn_Providers s)) = lr_Name ` set (rcs_Providers (rc_Spec (sn_Class s)))
     \<and> (\<forall>n p. map_of (sn_Providers s) n = Some p \<longrightarrow> piece R ns ''providerconfigs'' ''ProviderConfig'' n un_Provider p)
     \<and> rel_option (\<lambda>ref. piece R ns ''networkprofiles'' ''NetworkProfile'' (lr_Name ref) un_Network)
         (rcs_NetworkRef (rc_Spec (sn_Class s))) (sn_Network s)
     \<and> rel_option (\<lambda>ref. piece R ns ''capacitybudgets'' ''CapacityBudget'' (lr_Name ref) un_Budget)
         (rss_BudgetRef (rs_Spec (sn_ScaleSet s))) (sn_Budget s)"

lemma snapshot_from_mono: "snapshot_from R ns name s \<Longrightarrow> R \<subseteq> R' \<Longrightarrow> snapshot_from R' ns name s"
  unfolding snapshot_from_def by (auto intro: piece_mono [where R = R] elim!: option.rel_mono_strong)

lemma read_providers_collected:
  assumes c: "server_contract later un_Meta (reader_get reader ns) cur"
    and "read_providers reader ns refs providers revisions w = (Inr (out, revisions'), w')"
    and "collected later cur a w revisions reads"
    and "\<forall>n p. map_of providers n = Some p \<longrightarrow> piece (set reads) ns ''providerconfigs'' ''ProviderConfig'' n un_Provider p"
  shows "\<exists>reads'. collected later cur a w' revisions' reads' \<and> set reads \<subseteq> set reads'
    \<and> dom (map_of out) = dom (map_of providers) \<union> lr_Name ` set refs
    \<and> (\<forall>n p. map_of out n = Some p \<longrightarrow> piece (set reads') ns ''providerconfigs'' ''ProviderConfig'' n un_Provider p)"
  using assms(2-4)
proof (induction refs arbitrary: providers revisions w reads)
  case Nil
  then show ?case by (intro exI [of _ reads]) simp
next
  case (Cons ref refs)
  from Cons.prems(1) obtain p revisions1 w1 where
    1: "read_get reader ns ''providerconfigs'' ''ProviderConfig'' (lr_Name ref) un_Provider revisions w = (Inr (p, revisions1), w1)"
      "read_providers reader ns refs (AList.update (lr_Name ref) p providers) revisions1 w1 = (Inr (out, revisions'), w')"
    by (auto simp: attempt_Inr_iff split: if_splits)
  obtain reads1 where u: "collected later cur a w1 revisions1 reads1" "set reads \<subseteq> set reads1"
    "piece (set reads1) ns ''providerconfigs'' ''ProviderConfig'' (lr_Name ref) un_Provider p"
    by (rule read_get_collected [OF c 1(1) Cons.prems(2)])
  have pieces: "piece (set reads1) ns ''providerconfigs'' ''ProviderConfig'' n un_Provider q"
    if "map_of (AList.update (lr_Name ref) p providers) n = Some q" for n q
    using that u Cons.prems(3) by (auto split: if_splits intro: piece_mono [where R = "set reads"])
  from Cons.IH [OF 1(2) u(1)] pieces obtain reads' where
    "collected later cur a w' revisions' reads'" "set reads1 \<subseteq> set reads'"
    "dom (map_of out) = dom (map_of (AList.update (lr_Name ref) p providers)) \<union> lr_Name ` set refs"
    "\<forall>n p. map_of out n = Some p \<longrightarrow> piece (set reads') ns ''providerconfigs'' ''ProviderConfig'' n un_Provider p"
    by blast
  then show ?case
    using u(2) by (intro exI [of _ reads']) (auto simp: update_conv')
qed

lemma read_optional_collected:
  assumes c: "server_contract later un_Meta (reader_get reader ns) cur"
    and "read_optional reader ns resource kind ref content revisions w = (Inr (x, revisions'), w')"
    and "collected later cur a w revisions reads"
  obtains reads' where "collected later cur a w' revisions' reads'" "set reads \<subseteq> set reads'"
    "rel_option (\<lambda>ref. piece (set reads') ns resource kind (lr_Name ref) content) ref x"
proof (cases ref)
  case None
  then show ?thesis
    using assms(2,3) by (intro that [of reads]) (auto simp: read_optional_def)
next
  case (Some r)
  with assms(2) obtain y where y: "x = Some y"
    "read_get reader ns resource kind (lr_Name r) content revisions w = (Inr (y, revisions'), w')"
    by (auto simp: read_optional_def attempt_Inr_iff)
  obtain reads' where "collected later cur a w' revisions' reads'" "set reads \<subseteq> set reads'"
    "piece (set reads') ns resource kind (lr_Name r) content y"
    by (rule read_get_collected [OF c y(2) assms(3)])
  then show ?thesis
    using Some y(1) by (intro that [of reads']) simp_all
qed

lemma read_collect_collected:
  assumes c: "server_contract later un_Meta (reader_get reader ns) cur"
    and r: "read_collect reader ns name w = (Inr (s, revisions), w')"
  obtains reads where "collected later cur w w' revisions reads" "snapshot_from (set reads) ns name s"
proof -
  from r obtain root cls catalog providers net budget r1 w1 r2 w2 r3 w3 r4 w4 r5 w5 where
    1: "read_get reader ns ''runnerscalesets'' ''RunnerScaleSet'' name un_ScaleSet [] w = (Inr (root, r1), w1)"
    and 2: "read_get reader ns ''runnerclasses'' ''RunnerClass'' (lr_Name (rss_RunnerClassRef (rs_Spec root))) un_Class r1 w1
      = (Inr (cls, r2), w2)"
    and 3: "read_get reader ns ''capacitycatalogs'' ''CapacityCatalog'' (lr_Name (rcs_CatalogRef (rc_Spec cls))) un_Catalog r2 w2
      = (Inr (catalog, r3), w3)"
    and 4: "read_providers reader ns (rcs_Providers (rc_Spec cls)) [] r3 w3 = (Inr (providers, r4), w4)"
    and 5: "read_optional reader ns ''networkprofiles'' ''NetworkProfile'' (rcs_NetworkRef (rc_Spec cls)) un_Network r4 w4
      = (Inr (net, r5), w5)"
    and 6: "read_optional reader ns ''capacitybudgets'' ''CapacityBudget'' (rss_BudgetRef (rs_Spec root)) un_Budget r5 w5
      = (Inr (budget, revisions), w')"
    and s: "s = \<lparr>sn_ScaleSet = root, sn_Class = cls, sn_Catalog = catalog, sn_Providers = providers,
      sn_Network = net, sn_Budget = budget\<rparr>"
    by (auto simp: read_collect_def attempt_Inr_iff split: if_splits)
  have start: "collected later cur w w [] []"
    by (simp add: collected_def server_refl [OF c])
  obtain R1 where R1: "collected later cur w w1 r1 R1" "set [] \<subseteq> set R1"
    "piece (set R1) ns ''runnerscalesets'' ''RunnerScaleSet'' name un_ScaleSet root"
    by (rule read_get_collected [OF c 1 start])
  obtain R2 where R2: "collected later cur w w2 r2 R2" "set R1 \<subseteq> set R2"
    "piece (set R2) ns ''runnerclasses'' ''RunnerClass'' (lr_Name (rss_RunnerClassRef (rs_Spec root))) un_Class cls"
    by (rule read_get_collected [OF c 2 R1(1)])
  obtain R3 where R3: "collected later cur w w3 r3 R3" "set R2 \<subseteq> set R3"
    "piece (set R3) ns ''capacitycatalogs'' ''CapacityCatalog'' (lr_Name (rcs_CatalogRef (rc_Spec cls))) un_Catalog catalog"
    by (rule read_get_collected [OF c 3 R2(1)])
  obtain R4 where R4: "collected later cur w w4 r4 R4" "set R3 \<subseteq> set R4"
    "dom (map_of providers) = lr_Name ` set (rcs_Providers (rc_Spec cls))"
    "\<forall>n p. map_of providers n = Some p \<longrightarrow> piece (set R4) ns ''providerconfigs'' ''ProviderConfig'' n un_Provider p"
    using read_providers_collected [OF c 4 R3(1)] by auto
  obtain R5 where R5: "collected later cur w w5 r5 R5" "set R4 \<subseteq> set R5"
    "rel_option (\<lambda>ref. piece (set R5) ns ''networkprofiles'' ''NetworkProfile'' (lr_Name ref) un_Network)
      (rcs_NetworkRef (rc_Spec cls)) net"
    by (rule read_optional_collected [OF c 5 R4(1)])
  obtain R where R: "collected later cur w w' revisions R" "set R5 \<subseteq> set R"
    "rel_option (\<lambda>ref. piece (set R) ns ''capacitybudgets'' ''CapacityBudget'' (lr_Name ref) un_Budget)
      (rss_BudgetRef (rs_Spec root)) budget"
    by (rule read_optional_collected [OF c 6 R5(1)])
  have sub: "set R4 \<subseteq> set R" "set R3 \<subseteq> set R" "set R2 \<subseteq> set R" "set R1 \<subseteq> set R"
    using R2(2) R3(2) R4(2) R5(2) R(2) by auto
  have "rel_option (\<lambda>ref. piece (set R) ns ''networkprofiles'' ''NetworkProfile'' (lr_Name ref) un_Network)
      (rcs_NetworkRef (rc_Spec cls)) net"
    using R5(3) by (rule option.rel_mono_strong) (rule piece_mono [OF _ R(2)])
  then have "snapshot_from (set R) ns name s"
    unfolding snapshot_from_def s
    using piece_mono [OF R1(3) sub(4)] piece_mono [OF R2(3) sub(3)] piece_mono [OF R3(3) sub(2)] R4(3) R(3)
      piece_mono [OF R4(4) [rule_format] sub(1)] by simp
  with R(1) show thesis by (rule that)
qed

section \<open>Rechecking\<close>

lemma Recheck_current:
  assumes c: "server_contract later un_Meta (reader_get reader ns) cur"
    and "Recheck reader ns revisions w = (None, w')"
  shows "later w w' \<and> (\<forall>r \<in> set revisions. \<exists>u. current_in later cur w w' (rev_Resource r, rev_Name r) u
    \<and> om_UID (un_Meta u) = rev_UID r \<and> om_ResourceVersion (un_Meta u) = rev_ResourceVersion r)"
  using assms(2)
proof (induction revisions arbitrary: w)
  case Nil
  then show ?case by (simp add: server_refl [OF c])
next
  case (Cons r revisions)
  then obtain u w1 where u: "rd_Get reader (rev_Resource r) ns (rev_Name r) w = (Inr u, w1)"
    "om_UID (un_Meta u) = rev_UID r" "om_ResourceVersion (un_Meta u) = rev_ResourceVersion r"
    "Recheck reader ns revisions w1 = (None, w')"
    by (auto split: prod.splits sum.splits if_splits)
  have get: "reader_get reader ns (rev_Resource r, rev_Name r) w = (Inr u, w1)"
    using u(1) by simp
  note first = server_get [OF c get]
  note rest = Cons.IH [OF u(4)]
  have "current_in later cur w w' (rev_Resource r, rev_Name r) u"
    by (rule current_in_widen [OF c first(2) server_refl [OF c]]) (use rest in blast)
  moreover have "\<exists>u. current_in later cur w w' (rev_Resource q, rev_Name q) u
      \<and> om_UID (un_Meta u) = rev_UID q \<and> om_ResourceVersion (un_Meta u) = rev_ResourceVersion q"
    if "q \<in> set revisions" for q
    using rest that current_in_widen [OF c _ first(1) server_refl [OF c]] by blast
  moreover have "later w w'"
    by (rule server_trans [OF c first(1)]) (use rest in blast)
  ultimately show ?case
    using u(2,3) by auto
qed

text \<open>Collected before an instant and rechecked after it.\<close>

lemma rechecked_current:
  assumes c: "server_contract later un_Meta (reader_get reader ns) cur"
    and "collected later cur a b revisions reads" "later b m"
    and "Recheck reader ns revisions w = (None, w')" "later m w"
  shows "set reads \<subseteq> {(k, u). cur m k = Some u}"
proof clarify
  fix res name u assume u: "((res, name), u) \<in> set reads"
  then have "revision_of res name u \<in> set revisions"
    using assms(2) by (force simp: collected_def)
  then obtain z where z: "current_in later cur w w' (res, name) z" "same_version (un_Meta u) (un_Meta z)"
    using Recheck_current [OF c assms(4)] by (auto simp: revision_of_def same_version_def)
  have "current_in later cur a m (res, name) u"
    by (rule current_in_widen [OF c collected_current [OF assms(2) u] server_refl [OF c] assms(3)])
  moreover have "current_in later cur m w' (res, name) z"
    by (rule current_in_widen [OF c z(1) assms(5) server_refl [OF c]])
  ultimately show "cur m (res, name) = Some u"
    using z(2) by (rule pinned [OF c])
qed

lemma Read_collected:
  assumes c: "server_contract later un_Meta (reader_get reader ns) cur"
    and "Read v reader ns name w = (Inr (s, revisions), w')"
  obtains reads b where "collected later cur w b revisions reads" "snapshot_from (set reads) ns name s"
    "Recheck reader ns revisions b = (None, w')" "later b w'" "\<not> isl (Compile v s)"
proof -
  from assms(2) obtain x b where "read_collect reader ns name w = (Inr x, b)"
    "(case x of (s, revisions) \<Rightarrow> case Recheck reader ns revisions b of (Some e, w) \<Rightarrow> (Inl e, w)
       | (None, w) \<Rightarrow> (case Compile v s of Inl e \<Rightarrow> (Inl e, w) | Inr _ \<Rightarrow> (Inr (s, revisions), w))) = (Inr (s, revisions), w')"
    unfolding Read_def attempt_Inr_iff by (auto simp: case_prod_beta)
  then have b: "read_collect reader ns name w = (Inr (s, revisions), b)"
    "Recheck reader ns revisions b = (None, w')" "\<not> isl (Compile v s)"
    by (auto split: prod.splits option.splits sum.splits)
  obtain reads where "collected later cur w b revisions reads" "snapshot_from (set reads) ns name s"
    by (rule read_collect_collected [OF c b(1)])
  then show thesis
    using b(2,3) Recheck_current [OF c b(2)] by (blast intro: that)
qed

section \<open>Secrets\<close>

text \<open>The Secrets fetched so far, each current at some instant of the interval.\<close>

definition fetched ::
    "('w \<Rightarrow> 'w \<Rightarrow> bool) \<Rightarrow> ('w \<Rightarrow> string \<Rightarrow> secret_object option) \<Rightarrow> 'w \<Rightarrow> 'w \<Rightarrow> (string, secret_object) gomap \<Rightarrow> bool" where
  "fetched later cur a b objects \<longleftrightarrow> later a b \<and> (\<forall>n o'. map_of objects n = Some o' \<longrightarrow> current_in later cur a b n o')"

definition secret_value :: "(string \<Rightarrow> secret_object option) \<Rightarrow> secret_key_reference \<Rightarrow> string \<Rightarrow> bool" where
  "secret_value at ref value \<longleftrightarrow> (\<exists>o'. at (skr_Name ref) = Some o' \<and> map_of (so_Data o') (skr_Key ref) = Some value)"

lemma secret_value_mono: "secret_value at ref value \<Longrightarrow> at \<subseteq>\<^sub>m at' \<Longrightarrow> secret_value at' ref value"
  unfolding secret_value_def map_le_def by (metis domI)

lemma fetched_later:
  assumes "server_contract later so_Meta (se_Get client) cur" "fetched later cur a b objects" "later b b'"
  shows "fetched later cur a b' objects"
  using assms(2) current_in_widen [OF assms(1) _ server_refl [OF assms(1)] assms(3)]
    server_trans [OF assms(1) _ assms(3)] unfolding fetched_def by blast

lemma read_secret_fetched:
  assumes c: "server_contract later so_Meta (se_Get client) cur"
    and r: "read_secret v client ns ref objects w = (Inr (value, objects'), w')"
    and f: "fetched later cur a w objects"
  shows "fetched later cur a w' objects' \<and> map_of objects \<subseteq>\<^sub>m map_of objects' \<and> secret_value (map_of objects') ref value"
proof (cases "map_of objects (skr_Name ref)")
  case (Some o')
  then show ?thesis
    using r f by (auto simp: read_secret_def secret_value_def split: option.splits if_splits)
next
  case None
  with r obtain o' where o': "se_Get client (skr_Name ref) w = (Inr o', w')"
    "objects' = AList.update (skr_Name ref) o' objects" "map_of (so_Data o') (skr_Key ref) = Some value"
    by (auto simp: read_secret_def attempt_Inr_iff split: option.splits prod.splits sum.splits if_splits)
  note get = server_get [OF c o'(1)]
  have "later a w"
    using f by (simp add: fetched_def)
  then have "current_in later cur a w' (skr_Name ref) o'"
    by (rule current_in_widen [OF c get(2) _ server_refl [OF c]])
  moreover have "fetched later cur a w' objects"
    by (rule fetched_later [OF c f get(1)])
  ultimately have "fetched later cur a w' objects'"
    by (auto simp: fetched_def o'(2))
  then show ?thesis
    using None o'(2,3) by (auto simp: secret_value_def map_le_def)
qed

lemma read_variables_fetched:
  assumes c: "server_contract later so_Meta (se_Get client) cur"
    and "read_variables v client ns kind refs acc objects w = (Inr (out, objects'), w')"
    and "fetched later cur a w objects"
  shows "fetched later cur a w' objects' \<and> map_of objects \<subseteq>\<^sub>m map_of objects'
    \<and> (\<forall>var value. map_of out var = Some value \<longrightarrow> map_of acc var = Some value
         \<or> (\<exists>ref. (var, ref) \<in> set refs \<and> secret_value (map_of objects') ref value))"
  using assms(2,3)
proof (induction refs arbitrary: acc objects w)
  case Nil
  then show ?case by simp
next
  case (Cons vr refs)
  obtain var ref where vr: "vr = (var, ref)"
    by (cases vr)
  with Cons.prems(1) obtain x objects1 w1 where
    1: "read_secret v client ns ref objects w = (Inr (x, objects1), w1)"
      "read_variables v client ns kind refs (AList.update var x acc) objects1 w1 = (Inr (out, objects'), w')"
    by (auto simp: attempt_Inr_iff split: if_splits)
  note first = read_secret_fetched [OF c 1(1) Cons.prems(2)]
  note rest = Cons.IH [OF 1(2) conjunct1 [OF first]]
  have "secret_value (map_of objects') ref x"
    using first rest by (blast intro: secret_value_mono)
  then have "map_of acc y = Some z \<or> (\<exists>ref. (y, ref) \<in> set (vr # refs) \<and> secret_value (map_of objects') ref z)"
    if "map_of out y = Some z" for y z
    using rest that unfolding vr by (cases "y = var") fastforce+
  then show ?case
    using first rest by (blast intro: map_le_trans)
qed

definition credentials_at ::
    "(string \<Rightarrow> secret_object option) \<Rightarrow> (string, (string, secret_key_reference) gomap) gomap
     \<Rightarrow> (string, (string, string) gomap) gomap \<Rightarrow> bool" where
  "credentials_at at refs out \<longleftrightarrow> (\<forall>name values var value. map_of out name = Some values \<longrightarrow> map_of values var = Some value
     \<longrightarrow> (\<exists>vars ref. (name, vars) \<in> set refs \<and> (var, ref) \<in> set vars \<and> secret_value at ref value))"

lemma credentials_at_mono:
  "credentials_at at refs out \<Longrightarrow> at \<subseteq>\<^sub>m at' \<Longrightarrow> set refs \<subseteq> set refs' \<Longrightarrow> credentials_at at' refs' out"
  unfolding credentials_at_def using secret_value_mono by blast

lemma credentials_at_update:
  assumes "credentials_at at refs out" "(name, vars) \<in> set refs"
    "\<forall>var value. map_of values var = Some value \<longrightarrow> (\<exists>ref. (var, ref) \<in> set vars \<and> secret_value at ref value)"
  shows "credentials_at at refs (AList.update name values out)"
  using assms unfolding credentials_at_def by (auto split: if_splits)

lemma read_credentials_fetched:
  assumes c: "server_contract later so_Meta (se_Get client) cur"
    and "read_credentials v client cfg refs acc objects w = (Inr (out, objects'), w')"
    and "fetched later cur a w objects" "credentials_at (map_of objects) (pre @ refs) acc"
  shows "fetched later cur a w' objects' \<and> map_of objects \<subseteq>\<^sub>m map_of objects'
    \<and> credentials_at (map_of objects') (pre @ refs) out"
  using assms(2-4)
proof (induction refs arbitrary: acc objects w pre)
  case Nil
  then show ?case by simp
next
  case (Cons nr refs)
  obtain name vars where nr: "nr = (name, vars)"
    by (cases nr)
  with Cons.prems(1) obtain p :: provider_config and vals objects1 w1 where
    1: "read_variables v client (cfg_Namespace cfg) (pc_Kind p) vars [] objects w = (Inr (vals, objects1), w1)"
      "read_credentials v client cfg refs (AList.update name vals acc) objects1 w1 = (Inr (out, objects'), w')"
    by (auto simp: attempt_Inr_iff split: option.splits)
  note first = read_variables_fetched [OF c 1(1) Cons.prems(2)]
  have "credentials_at (map_of objects1) (pre @ nr # refs) (AList.update name vals acc)"
    using first by (intro credentials_at_update [of _ _ _ _ vars] credentials_at_mono [OF Cons.prems(3)]) (auto simp: nr)
  then have "credentials_at (map_of objects1) ((pre @ [nr]) @ refs) (AList.update name vals acc)"
    by simp
  from Cons.IH [OF 1(2) conjunct1 [OF first] this] show ?case
    using first by (auto intro: map_le_trans)
qed

lemma recheck_secrets_current:
  assumes c: "server_contract later so_Meta (se_Get client) cur"
    and "recheck_secrets sha256 client objects revisions w = (Inr out, w')"
  shows "later w w' \<and> (\<forall>n o'. (n, o') \<in> set objects \<longrightarrow>
    (\<exists>z. current_in later cur w w' n z \<and> same_version (so_Meta o') (so_Meta z)))"
  using assms(2)
proof (induction objects arbitrary: revisions w)
  case Nil
  then show ?case by (simp add: server_refl [OF c])
next
  case (Cons no objects)
  obtain n o' where no: "no = (n, o')"
    by (cases no)
  with Cons.prems obtain z w1 rs where z: "se_Get client n w = (Inr z, w1)" "same_version (so_Meta o') (so_Meta z)"
    "recheck_secrets sha256 client objects rs w1 = (Inr out, w')"
    by (auto simp: same_version_def split: prod.splits sum.splits if_splits)
  note first = server_get [OF c z(1)]
  note rest = Cons.IH [OF z(3)]
  have "current_in later cur w w' n z"
    by (rule current_in_widen [OF c first(2) server_refl [OF c]]) (use rest in blast)
  moreover have "later w w'"
    by (rule server_trans [OF c first(1)]) (use rest in blast)
  ultimately show ?case
    using rest z(2) current_in_widen [OF c _ first(1) server_refl [OF c]] unfolding no by (auto; blast)
qed

lemma resolveSecrets_fetched:
  assumes c: "server_contract later so_Meta (se_Get client) cur"
    and r: "resolveSecrets v sha256 client r True w = (Inr creds, w')"
  obtains m token where "later w m" "later m w'" "secret_value (cur m) (gha_SecretRef (rv_Auth r)) token"
    "github_token (rv_Auth r) token = Inr (cr_GitHub creds)"
    "credentials_at (cur m) (rv_Credentials r) (cr_Providers creds)"
proof -
  from r obtain token objects1 w1 objects m rs where
    1: "read_github v client r True w = (Inr (cr_GitHub creds, objects1), w1)"
    and 2: "read_credentials v client (rv_Config r) (rv_Credentials r) [] objects1 w1 = (Inr (cr_Providers creds, objects), m)"
    and 3: "recheck_secrets sha256 client objects [] m = (Inr rs, w')"
    by (auto simp: resolveSecrets_def attempt_Inr_iff)
  from 1 obtain token where token:
    "read_secret v client (cfg_Namespace (rv_Config r)) (gha_SecretRef (rv_Auth r)) [] w = (Inr (token, objects1), w1)"
    "github_token (rv_Auth r) token = Inr (cr_GitHub creds)"
    by (auto simp: read_github_def elim!: attempt_Inr split: sum.splits)
  have "fetched later cur w w []"
    by (simp add: fetched_def server_refl [OF c])
  note first = read_secret_fetched [OF c token(1) this]
  have "credentials_at (map_of objects1) ([] @ rv_Credentials r) []"
    by (simp add: credentials_at_def)
  from read_credentials_fetched [OF c 2 conjunct1 [OF first] this]
  have rest: "fetched later cur w m objects" "map_of objects1 \<subseteq>\<^sub>m map_of objects"
    "credentials_at (map_of objects) (rv_Credentials r) (cr_Providers creds)"
    by auto
  note checked = recheck_secrets_current [OF c 3]
  have "map_of objects \<subseteq>\<^sub>m cur m"
    unfolding map_le_def
  proof
    fix n assume "n \<in> dom (map_of objects)"
    then obtain o' where o': "map_of objects n = Some o'"
      by auto
    then obtain z where "current_in later cur m w' n z" "same_version (so_Meta o') (so_Meta z)"
      using checked map_of_SomeD by metis
    moreover have "current_in later cur w m n o'"
      using rest(1) o' by (simp add: fetched_def)
    ultimately show "map_of objects n = cur m n"
      using pinned [OF c] o' by metis
  qed
  then show thesis
    using rest first checked token(2)
    by (intro that [of m token]) (auto simp: fetched_def intro: secret_value_mono map_le_trans credentials_at_mono)
qed

text \<open>
  Claim C32 (a loaded configuration is one consistent snapshot). Suppose other clients may change any
  configuration object and any Secret between the calls of \<open>Load\<close>. When it returns, there was an
  instant during the call at which every object of the snapshot and every Secret value had, all at
  once, exactly the content that is returned: the scale set, the class, the catalog, the providers, the
  network profile and budget it references, the GitHub token and each provider's credentials.
\<close>

theorem Load_consistent:
  assumes "server_contract later un_Meta (reader_get reader ns) cur"
    and "server_contract later so_Meta (se_Get secrets) scur"
    and "Config_Load v sha256 reader secrets ns name w = (Inr l, w')"
  shows "\<exists>m token. later w m \<and> later m w' \<and> snapshot_from {(k, u). cur m k = Some u} ns name (ld_Snapshot l)
    \<and> Compile v (ld_Snapshot l) = Inr (ld_Resolved l)
    \<and> secret_value (scur m) (gha_SecretRef (rv_Auth (ld_Resolved l))) token
    \<and> github_token (rv_Auth (ld_Resolved l)) token = Inr (cr_GitHub (ld_Credentials l))
    \<and> credentials_at (scur m) (rv_Credentials (ld_Resolved l)) (cr_Providers (ld_Credentials l))"
proof -
  from assms(3) obtain s revisions w1 r creds w2 where
    1: "Read v reader ns name w = (Inr (s, revisions), w1)" "Compile v s = Inr r"
      "resolveSecrets v sha256 secrets r True w1 = (Inr creds, w2)" "Recheck reader ns revisions w2 = (None, w')"
    and l: "l = \<lparr>ld_Snapshot = s, ld_Resolved = r, ld_Credentials = creds, ld_Revisions = revisions\<rparr>"
    by (auto simp: Config_Load_def ResolveSecrets_def elim!: attempt_Inr split: sum.splits prod.splits option.splits)
  obtain reads b where b: "collected later cur w b revisions reads" "snapshot_from (set reads) ns name s" "later b w1"
    by (rule Read_collected [OF assms(1) 1(1)])
  obtain m token where m: "later w1 m" "later m w2" "secret_value (scur m) (gha_SecretRef (rv_Auth r)) token"
    "github_token (rv_Auth r) token = Inr (cr_GitHub creds)" "credentials_at (scur m) (rv_Credentials r) (cr_Providers creds)"
    by (rule resolveSecrets_fetched [OF assms(2) 1(3)])
  note trans = server_trans [OF assms(1)]
  have "later b m"
    by (rule trans [OF b(3) m(1)])
  then have "set reads \<subseteq> {(k, u). cur m k = Some u}"
    by (rule rechecked_current [OF assms(1) b(1) _ 1(4) m(2)])
  then have "snapshot_from {(k, u). cur m k = Some u} ns name s"
    by (rule snapshot_from_mono [OF b(2)])
  moreover have "later w m"
    using b(1) \<open>later b m\<close> trans unfolding collected_def by blast
  moreover have "later m w'"
    using m(2) Recheck_current [OF assms(1) 1(4)] trans by blast
  ultimately show ?thesis
    using m 1(2) unfolding l by auto
qed

section \<open>A concrete server\<close>

definition demo_un :: "string \<Rightarrow> string \<Rightarrow> unstructured" where
  "demo_un kind name = \<lparr>un_Meta = demo_meta name, un_APIVersion = ''runnerscout.io/v1alpha1'', un_Kind = kind,
     un_Marshal = Some 100, un_ScaleSet = JsonBad (errors_New []), un_Class = JsonBad (errors_New []),
     un_Catalog = JsonBad (errors_New []), un_Provider = JsonBad (errors_New []), un_Network = JsonBad (errors_New []),
     un_Budget = JsonBad (errors_New []), un_Status = status_zero\<rparr>"

definition demo_objects :: "(read_key, unstructured) gomap" where
  "demo_objects =
     [((''runnerscalesets'', ''rs''), (demo_un ''RunnerScaleSet'' ''rs'')\<lparr>un_ScaleSet := JsonOf demo_scale_set\<rparr>),
      ((''runnerclasses'', ''c''), (demo_un ''RunnerClass'' ''c'')\<lparr>un_Class := JsonOf demo_runner_class\<rparr>),
      ((''capacitycatalogs'', ''k''), (demo_un ''CapacityCatalog'' ''k'')\<lparr>un_Catalog := JsonOf demo_capacity\<rparr>),
      ((''providerconfigs'', ''aws''), (demo_un ''ProviderConfig'' ''aws'')\<lparr>un_Provider := JsonOf demo_provider_object\<rparr>),
      ((''networkprofiles'', ''n''), (demo_un ''NetworkProfile'' ''n'')\<lparr>un_Network := JsonOf demo_network\<rparr>),
      ((''capacitybudgets'', ''b''), (demo_un ''CapacityBudget'' ''b'')\<lparr>un_Budget := JsonOf (the (sn_Budget demo_snapshot))\<rparr>)]"

definition demo_secret_objects :: "(string, secret_object) gomap" where
  "demo_secret_objects =
     [(''gh'', \<lparr>so_Meta = demo_meta ''gh'', so_Data = [(''token'', '' t '')]\<rparr>),
      (''cloud'', \<lparr>so_Meta = demo_meta ''cloud'', so_Data = [(''arn'', ''role'')]\<rparr>)]"

text \<open>Objects that stay as they are; the world counts the reads.\<close>

definition lookup_get :: "('k, 'o) gomap \<Rightarrow> 'k \<Rightarrow> nat \<Rightarrow> (err + 'o) \<times> nat" where
  "lookup_get m k w = (case map_of m k of None \<Rightarrow> Inl (Err [StatusNotFound] ''not found'') | Some u \<Rightarrow> Inr u, Suc w)"

definition demo_reader :: "nat reader" where
  "demo_reader = \<lparr>rd_Get = (\<lambda>resource ns name. lookup_get demo_objects (resource, name))\<rparr>"

definition demo_secrets :: "nat secrets_ops" where
  "demo_secrets = \<lparr>se_Get = lookup_get demo_secret_objects\<rparr>"

lemma lookup_contract: "server_contract (\<le>) meta (lookup_get m) (\<lambda>_. map_of m)"
proof -
  have "\<exists>n. w \<le> n \<and> n \<le> w' \<and> (\<forall>u. r = Inr u \<longrightarrow> map_of m k = Some u)" if "lookup_get m k w = (r, w')" for k w r w'
    using that by (intro exI [of _ w]) (auto simp: lookup_get_def split: option.splits)
  then show ?thesis
    by (auto simp: server_contract_def reads_linear_def versions_fresh_def intro: reflpI transpI)
qed

definition demo_loaded :: loaded where
  "demo_loaded = projr (fst (Config_Load demo_validators id demo_reader demo_secrets ''ns'' ''rs'' 0))"

lemma demo_config_loads: "Config_Load demo_validators id demo_reader demo_secrets ''ns'' ''rs'' 0 = (Inr demo_loaded, 22)"
proof -
  let ?r = "Config_Load demo_validators id demo_reader demo_secrets ''ns'' ''rs'' 0"
  have "(isl (fst ?r), snd ?r) = (False, 22)"
    by code_simp
  then have "\<not> isl (fst ?r)" "snd ?r = 22"
    by simp_all
  then show ?thesis
    by (metis demo_loaded_def prod.collapse sum.collapse(2))
qed

theorem Load_consistent_witness:
  "snapshot_from {(k, u). map_of demo_objects k = Some u} ''ns'' ''rs'' (ld_Snapshot demo_loaded)
   \<and> cr_GitHub (ld_Credentials demo_loaded) = ''t''"
proof -
  have "reader_get demo_reader ''ns'' = lookup_get demo_objects"
    by (simp add: demo_reader_def fun_eq_iff)
  then have "server_contract (\<le>) un_Meta (reader_get demo_reader ''ns'') (\<lambda>_. map_of demo_objects)"
    by (simp add: lookup_contract)
  moreover have "server_contract (\<le>) so_Meta (se_Get demo_secrets) (\<lambda>_. map_of demo_secret_objects)"
    by (simp add: demo_secrets_def lookup_contract)
  moreover have "cr_GitHub (ld_Credentials demo_loaded) = ''t''"
    by code_simp
  ultimately show ?thesis
    using Load_consistent [OF _ _ demo_config_loads] by blast
qed

end
