(* ===== verification/Config_Checkpoint.thy ===== *)
theory Config_Checkpoint
  imports Config_Snapshot
begin

text \<open>
  \<open>internal/configapi/checkpoint.go\<close>: the ConfigMap that keeps the last accepted configuration, so that
  an interrupted deletion can still be finished. Its text is represented by its bytes together with
  what strict decoding finds in them; the JSON printer, which fixes those bytes, and the hashes are
  parameters. All texts are taken to be valid UTF-8, which JSON preserves.
\<close>

section \<open>Data\<close>

text \<open>The library functions that the configuration code is parameterised by.\<close>

record libraries =
  lib_validators :: validators
  lib_print :: "snapshot \<Rightarrow> string"
  lib_binding_hash :: "config \<Rightarrow> string"
  lib_sha256 :: "string \<Rightarrow> string"
  lib_key_hash :: "key_material \<Rightarrow> string"

type_synonym snapshot_text = "string \<times> snapshot json"

record checkpoint_map =
  ckm_ObjectMeta :: object_meta
  ckm_Labels :: "(string, string) gomap"
  ckm_Annotations :: "(string, string) gomap"
  ckm_Data :: "(string, snapshot_text) gomap"

record 'w checkpoint_maps =
  cks_Get :: "string \<Rightarrow> 'w \<Rightarrow> (err + checkpoint_map) \<times> 'w"
  cks_Create :: "checkpoint_map \<Rightarrow> 'w \<Rightarrow> err option \<times> 'w"
  cks_Update :: "checkpoint_map \<Rightarrow> 'w \<Rightarrow> err option \<times> 'w"
  cks_Delete :: "string \<Rightarrow> string \<Rightarrow> string \<Rightarrow> 'w \<Rightarrow> err option \<times> 'w"
  cks_List :: "(string \<times> string) list \<Rightarrow> 'w \<Rightarrow> (err + nat) \<times> 'w"

record 'w checkpoints =
  ck_Maps :: "'w checkpoint_maps"
  ck_Namespace :: string
  ck_Name :: string

definition checkpointKind :: string where
  "checkpointKind = ''configuration''"

definition checkpointUID :: string where
  "checkpointUID = ''runnerscout.io/scale-set-uid''"

definition checkpointLimit :: int where
  "checkpointLimit = 900 * 2 ^ 10"

definition ErrCheckpointOwnership_error :: err where
  "ErrCheckpointOwnership_error = Err [ErrCheckpointOwnership] ''configuration checkpoint ownership mismatch''"

definition ErrBindingChange_error :: err where
  "ErrBindingChange_error = Err [ErrBindingChange] ''restore the accepted provider and class binding for cleanup''"

definition checkpoint_name :: "'w checkpoints \<Rightarrow> string" where
  "checkpoint_name c = ck_Name c @ ''-configuration''"

section \<open>JSON of a snapshot\<close>

text \<open>
  \<open>metav1.Time\<close> is written in seconds and in UTC, so a round trip drops the fraction of a second; a
  time outside the years 0 to 9999 is written but cannot be parsed again.
\<close>

definition second_time :: "time \<Rightarrow> time" where
  "second_time t = t div Second * Second"

definition json_meta :: "object_meta \<Rightarrow> object_meta" where
  "json_meta m = m\<lparr>om_DeletionTimestamp := map_option second_time (om_DeletionTimestamp m)\<rparr>"

definition json_offering :: "api_offering \<Rightarrow> api_offering" where
  "json_offering o' = o'\<lparr>ao_ObservedAt := second_time (ao_ObservedAt o')\<rparr>"

definition map_metas :: "(object_meta \<Rightarrow> object_meta) \<Rightarrow> snapshot \<Rightarrow> snapshot" where
  "map_metas f s =
     s\<lparr>sn_ScaleSet := (sn_ScaleSet s)\<lparr>rs_ObjectMeta := f (rs_ObjectMeta (sn_ScaleSet s))\<rparr>,
       sn_Class := (sn_Class s)\<lparr>rc_ObjectMeta := f (rc_ObjectMeta (sn_Class s))\<rparr>,
       sn_Catalog := (sn_Catalog s)\<lparr>cc_ObjectMeta := f (cc_ObjectMeta (sn_Catalog s))\<rparr>,
       sn_Providers := map (\<lambda>(n, p). (n, p\<lparr>pco_ObjectMeta := f (pco_ObjectMeta p)\<rparr>)) (sn_Providers s),
       sn_Network := map_option (\<lambda>n. n\<lparr>np_ObjectMeta := f (np_ObjectMeta n)\<rparr>) (sn_Network s),
       sn_Budget := map_option (\<lambda>b. b\<lparr>cb_ObjectMeta := f (cb_ObjectMeta b)\<rparr>) (sn_Budget s)\<rparr>"

definition clear_status :: "snapshot \<Rightarrow> snapshot" where
  "clear_status s =
     s\<lparr>sn_ScaleSet := (sn_ScaleSet s)\<lparr>rs_Status := status_zero\<rparr>,
       sn_Class := (sn_Class s)\<lparr>rc_Status := status_zero\<rparr>,
       sn_Catalog := (sn_Catalog s)\<lparr>cc_Status := status_zero\<rparr>,
       sn_Providers := map (\<lambda>(n, p). (n, p\<lparr>pco_Status := status_zero\<rparr>)) (sn_Providers s),
       sn_Network := map_option (\<lambda>n. n\<lparr>np_Status := status_zero\<rparr>) (sn_Network s),
       sn_Budget := map_option (\<lambda>b. b\<lparr>cb_Status := status_zero\<rparr>) (sn_Budget s)\<rparr>"

definition map_offerings :: "(api_offering \<Rightarrow> api_offering) \<Rightarrow> snapshot \<Rightarrow> snapshot" where
  "map_offerings f s = s\<lparr>sn_Catalog := (sn_Catalog s)\<lparr>cc_Spec := (cc_Spec (sn_Catalog s))
     \<lparr>ccs_Offerings := map f (ccs_Offerings (cc_Spec (sn_Catalog s)))\<rparr>\<rparr>\<rparr>"

definition json_snapshot :: "snapshot \<Rightarrow> snapshot" where
  "json_snapshot s = map_offerings json_offering (map_metas json_meta s)"

definition snapshot_metas :: "snapshot \<Rightarrow> object_meta list" where
  "snapshot_metas s = [rs_ObjectMeta (sn_ScaleSet s), rc_ObjectMeta (sn_Class s), cc_ObjectMeta (sn_Catalog s)]
     @ map (\<lambda>(n, p). pco_ObjectMeta p) (sn_Providers s)
     @ (case sn_Network s of None \<Rightarrow> [] | Some n \<Rightarrow> [np_ObjectMeta n])
     @ (case sn_Budget s of None \<Rightarrow> [] | Some b \<Rightarrow> [cb_ObjectMeta b])"

definition snapshot_times_ok :: "snapshot \<Rightarrow> bool" where
  "snapshot_times_ok s \<longleftrightarrow>
     list_all (\<lambda>m. case om_DeletionTimestamp m of None \<Rightarrow> True | Some t \<Rightarrow> json_time_ok t) (snapshot_metas s)
     \<and> list_all (\<lambda>o'. json_time_ok (ao_ObservedAt o')) (ccs_Offerings (cc_Spec (sn_Catalog s)))"

text \<open>\<open>json.Marshal\<close> of a snapshot: the bytes, and what decoding them finds.\<close>

definition Marshal_snapshot :: "libraries \<Rightarrow> snapshot \<Rightarrow> snapshot_text" where
  "Marshal_snapshot lib s = (lib_print lib s,
     if snapshot_times_ok s then JsonOf (json_snapshot s) else JsonBad (errors_New ''parsing time''))"

section \<open>Operations\<close>

definition text_length :: "snapshot_text \<Rightarrow> int" where
  "text_length t = int (length (fst t))"

definition empty_text :: snapshot_text where
  "empty_text = ([], JsonBad (errors_New ''EOF''))"

definition checkpoint_metadata :: "object_meta \<Rightarrow> object_meta" where
  "checkpoint_metadata m = \<lparr>om_Name = om_Name m, om_Namespace = om_Namespace m, om_UID = om_UID m,
     om_ResourceVersion = [], om_Generation = om_Generation m, om_DeletionTimestamp = None, om_Finalizers = []\<rparr>"

definition checkpointSnapshot :: "libraries \<Rightarrow> snapshot \<Rightarrow> err + snapshot" where
  "checkpointSnapshot lib s =
     (let data = Marshal_snapshot lib s in
      if text_length data > 4 * 2 ^ 20 then Inl (errors_New ''configuration exceeds checkpoint limits'')
      else case json_decode ''invalid character after top-level value'' (snd data) of
          Inl e \<Rightarrow> Inl e
        | Inr s \<Rightarrow> Inr (clear_status (map_metas checkpoint_metadata s)))"

definition checkpoint_decode :: "libraries \<Rightarrow> 'w checkpoints \<Rightarrow> checkpoint_map \<Rightarrow> err + snapshot" where
  "checkpoint_decode lib c cm =
     (if om_Namespace (ckm_ObjectMeta cm) \<noteq> ck_Namespace c \<or> om_Name (ckm_ObjectMeta cm) \<noteq> checkpoint_name c
         \<or> map_get [] (ckm_Labels cm) ''runnerscout/owner'' \<noteq> ck_Name c
         \<or> map_get [] (ckm_Labels cm) ''runnerscout/kind'' \<noteq> checkpointKind
      then Inl ErrCheckpointOwnership_error
      else let data = map_get empty_text (ckm_Data cm) ''snapshot'' in
      if text_length data = 0 \<or> text_length data > checkpointLimit
      then Inl (errors_New ''invalid configuration checkpoint size'')
      else case snd data of
          JsonBad _ \<Rightarrow> Inl (errors_New ''invalid configuration checkpoint'')
        | JsonTrailing _ \<Rightarrow> Inl (errors_New ''invalid configuration checkpoint trailer'')
        | JsonOf s \<Rightarrow>
            let root = rs_ObjectMeta (sn_ScaleSet s) in
            if om_Namespace root \<noteq> ck_Namespace c \<or> om_Name root \<noteq> ck_Name c \<or> om_UID root = []
               \<or> om_UID root \<noteq> map_get [] (ckm_Annotations cm) checkpointUID
            then Inl ErrCheckpointOwnership_error
            else case Compile (lib_validators lib) s of Inl e \<Rightarrow> Inl e | Inr _ \<Rightarrow> Inr s)"

definition checkpoint_Read :: "libraries \<Rightarrow> 'w checkpoints \<Rightarrow> 'w \<Rightarrow> (err + snapshot) \<times> 'w" where
  "checkpoint_Read lib c w =
     (case cks_Get (ck_Maps c) (checkpoint_name c) w of
        (Inl e, w) \<Rightarrow> (Inl e, w)
      | (Inr cm, w) \<Rightarrow> (checkpoint_decode lib c cm, w))"

definition new_checkpoint :: "'w checkpoints \<Rightarrow> snapshot \<Rightarrow> snapshot_text \<Rightarrow> checkpoint_map" where
  "new_checkpoint c s data =
     \<lparr>ckm_ObjectMeta = \<lparr>om_Name = checkpoint_name c, om_Namespace = ck_Namespace c, om_UID = [],
        om_ResourceVersion = [], om_Generation = 0, om_DeletionTimestamp = None, om_Finalizers = []\<rparr>,
      ckm_Labels = [(''runnerscout/owner'', ck_Name c), (''runnerscout/kind'', checkpointKind)],
      ckm_Annotations = [(checkpointUID, om_UID (rs_ObjectMeta (sn_ScaleSet s)))],
      ckm_Data = [(''snapshot'', data)]\<rparr>"

text \<open>The replacement of an existing checkpoint: same scale set, same binding.\<close>

definition checkpoint_replace ::
    "libraries \<Rightarrow> 'w checkpoints \<Rightarrow> checkpoint_map \<Rightarrow> snapshot \<Rightarrow> resolved \<Rightarrow> snapshot_text \<Rightarrow> 'w \<Rightarrow> err option \<times> 'w" where
  "checkpoint_replace lib c cm s r data w =
     (case checkpoint_decode lib c cm of
        Inl e \<Rightarrow> (Some e, w)
      | Inr old \<Rightarrow>
          if om_UID (rs_ObjectMeta (sn_ScaleSet old)) \<noteq> om_UID (rs_ObjectMeta (sn_ScaleSet s))
          then (Some ErrCheckpointOwnership_error, w)
          else case Compile (lib_validators lib) old of
              Inl e \<Rightarrow> (Some e, w)
            | Inr previous \<Rightarrow>
                if \<not> SameBinding (lib_binding_hash lib) (rv_Config previous) (rv_Config r)
                then (Some ErrBindingChange_error, w)
                else if map_get empty_text (ckm_Data cm) ''snapshot'' = data then (None, w)
                else cks_Update (ck_Maps c) (cm\<lparr>ckm_Data := AList.update ''snapshot'' data (ckm_Data cm)\<rparr>) w)"

definition checkpoint_write ::
    "libraries \<Rightarrow> 'w checkpoints \<Rightarrow> snapshot \<Rightarrow> resolved \<Rightarrow> 'w \<Rightarrow> err option \<times> 'w" where
  "checkpoint_write lib c s r w =
     (let data = Marshal_snapshot lib s in
      if text_length data > checkpointLimit then (Some (errors_New ''configuration exceeds checkpoint limits''), w)
      else case cks_Get (ck_Maps c) (checkpoint_name c) w of
          (Inl e, w) \<Rightarrow>
            if errors_Is e StatusNotFound then cks_Create (ck_Maps c) (new_checkpoint c s data) w
            else (Some e, w)
        | (Inr cm, w) \<Rightarrow> checkpoint_replace lib c cm s r data w)"

definition checkpoint_Save :: "libraries \<Rightarrow> 'w checkpoints \<Rightarrow> snapshot \<Rightarrow> 'w \<Rightarrow> err option \<times> 'w" where
  "checkpoint_Save lib c source w =
     (case Compile (lib_validators lib) source of
        Inl e \<Rightarrow> (Some e, w)
      | Inr _ \<Rightarrow>
          (case checkpointSnapshot lib source of
             Inl e \<Rightarrow> (Some e, w)
           | Inr s \<Rightarrow>
               let root = rs_ObjectMeta (sn_ScaleSet s) in
               if om_UID root = [] \<or> om_Namespace root \<noteq> ck_Namespace c \<or> om_Name root \<noteq> ck_Name c
               then (Some ErrCheckpointOwnership_error, w)
               else (case Compile (lib_validators lib) s of
                   Inl e \<Rightarrow> (Some e, w)
                 | Inr r \<Rightarrow> checkpoint_write lib c s r w)))"

definition checkpoint_Remove :: "libraries \<Rightarrow> 'w checkpoints \<Rightarrow> string \<Rightarrow> 'w \<Rightarrow> err option \<times> 'w" where
  "checkpoint_Remove lib c scaleSetUID w =
     (case cks_Get (ck_Maps c) (checkpoint_name c) w of
        (Inl e, w) \<Rightarrow> if errors_Is e StatusNotFound then (None, w) else (Some e, w)
      | (Inr cm, w) \<Rightarrow>
          (case checkpoint_decode lib c cm of
             Inl e \<Rightarrow> (Some e, w)
           | Inr s \<Rightarrow>
               if om_UID (rs_ObjectMeta (sn_ScaleSet s)) \<noteq> scaleSetUID \<or> om_UID (ckm_ObjectMeta cm) = []
                  \<or> om_ResourceVersion (ckm_ObjectMeta cm) = []
               then (Some ErrCheckpointOwnership_error, w)
               else cks_Delete (ck_Maps c) (om_Name (ckm_ObjectMeta cm)) (om_UID (ckm_ObjectMeta cm))
                      (om_ResourceVersion (ckm_ObjectMeta cm)) w))"

section \<open>What a checkpoint keeps\<close>

text \<open>
  A snapshot whose metadata and catalog times were rewritten, its status cleared. The rewriting keeps
  names and namespaces and never marks an object as being deleted.
\<close>

definition rewrite_snapshot :: "(object_meta \<Rightarrow> object_meta) \<Rightarrow> (api_offering \<Rightarrow> api_offering) \<Rightarrow> snapshot \<Rightarrow> snapshot" where
  "rewrite_snapshot f g s = clear_status (map_metas f (map_offerings g s))"

definition meta_rewrite :: "(object_meta \<Rightarrow> object_meta) \<Rightarrow> bool" where
  "meta_rewrite f \<longleftrightarrow> (\<forall>m. om_Name (f m) = om_Name m \<and> om_Namespace (f m) = om_Namespace m
     \<and> (om_DeletionTimestamp m = None \<longrightarrow> om_DeletionTimestamp (f m) = None))"

definition offering_rewrite :: "(api_offering \<Rightarrow> api_offering) \<Rightarrow> bool" where
  "offering_rewrite g \<longleftrightarrow> (\<forall>o'. ao_Provider (g o') = ao_Provider o' \<and> ao_Region (g o') = ao_Region o')"

lemma rewrite_snapshot_simps [simp]:
  "rs_ObjectMeta (sn_ScaleSet (rewrite_snapshot f g s)) = f (rs_ObjectMeta (sn_ScaleSet s))"
  "rs_Spec (sn_ScaleSet (rewrite_snapshot f g s)) = rs_Spec (sn_ScaleSet s)"
  "rc_ObjectMeta (sn_Class (rewrite_snapshot f g s)) = f (rc_ObjectMeta (sn_Class s))"
  "rc_Spec (sn_Class (rewrite_snapshot f g s)) = rc_Spec (sn_Class s)"
  "cc_ObjectMeta (sn_Catalog (rewrite_snapshot f g s)) = f (cc_ObjectMeta (sn_Catalog s))"
  "ccs_Offerings (cc_Spec (sn_Catalog (rewrite_snapshot f g s))) = map g (ccs_Offerings (cc_Spec (sn_Catalog s)))"
  "ccs_Complete (cc_Spec (sn_Catalog (rewrite_snapshot f g s))) = ccs_Complete (cc_Spec (sn_Catalog s))"
  "ccs_PriceRefresh (cc_Spec (sn_Catalog (rewrite_snapshot f g s))) = ccs_PriceRefresh (cc_Spec (sn_Catalog s))"
  "sn_Network (rewrite_snapshot f g s) = map_option
     (\<lambda>n. n\<lparr>np_ObjectMeta := f (np_ObjectMeta n), np_Status := status_zero\<rparr>) (sn_Network s)"
  "sn_Budget (rewrite_snapshot f g s) = map_option
     (\<lambda>b. b\<lparr>cb_ObjectMeta := f (cb_ObjectMeta b), cb_Status := status_zero\<rparr>) (sn_Budget s)"
  by (simp_all add: rewrite_snapshot_def clear_status_def map_metas_def map_offerings_def option.map_comp comp_def)

lemma rewrite_snapshot_providers [simp]:
  "map_of (sn_Providers (rewrite_snapshot f g s)) n = map_option
     (\<lambda>p. p\<lparr>pco_ObjectMeta := f (pco_ObjectMeta p), pco_Status := status_zero\<rparr>) (map_of (sn_Providers s) n)"
  by (simp add: rewrite_snapshot_def clear_status_def map_metas_def map_offerings_def map_of_map option.map_comp comp_def
      del: map_map)

lemma object_rewrite: "meta_rewrite f \<Longrightarrow> object v m ns name = None \<Longrightarrow> object v (f m) ns name = None"
  by (simp add: object_ok_iff meta_rewrite_def)

lemma meta_rewrite_names:
  "meta_rewrite f \<Longrightarrow> om_Name (f m) = om_Name m" "meta_rewrite f \<Longrightarrow> om_Namespace (f m) = om_Namespace m"
  by (simp_all add: meta_rewrite_def)

lemma compile_roots_rewrite:
  assumes "meta_rewrite f" "compile_roots v s = None"
  shows "compile_roots v (rewrite_snapshot f g s) = None"
  using assms(2) object_rewrite [OF assms(1)]
  by (simp add: compile_roots_def Let_def first_error_None_iff meta_rewrite_names [OF assms(1)])

lemma compile_provider_rewrite:
  assumes "meta_rewrite f" "compile_provider v s ref acc = Inr acc'"
  shows "compile_provider v (rewrite_snapshot f g s) ref acc = Inr acc'"
  using assms(2) object_rewrite [OF assms(1)]
  by (auto simp: compile_provider_def Let_def meta_rewrite_names [OF assms(1)] split: option.splits if_splits sum.splits)

lemma compile_providers_rewrite:
  "meta_rewrite f \<Longrightarrow> compile_providers v s refs acc = Inr acc'
     \<Longrightarrow> compile_providers v (rewrite_snapshot f g s) refs acc = Inr acc'"
  by (induction refs arbitrary: acc) (auto simp: compile_provider_rewrite split: sum.splits)

lemma network_rewrite:
  assumes "meta_rewrite f" "offering_rewrite g" "network v s ps = Inr x"
  shows "network v (rewrite_snapshot f g s) ps = Inr x"
proof -
  have "offerings_mapped ps regions seen (map g offs) = offerings_mapped ps regions seen offs" for regions seen offs
    using assms(2) by (simp add: offerings_mapped_def list_all_iff offering_rewrite_def)
  then show ?thesis
    using assms(3) object_rewrite [OF assms(1)]
    by (auto simp: network_def Let_def meta_rewrite_names [OF assms(1)] split: option.splits if_splits sum.splits)
qed

definition recatalog :: "(api_offering \<Rightarrow> api_offering) \<Rightarrow> snapshot \<Rightarrow> config \<Rightarrow> config" where
  "recatalog g s cfg = cfg\<lparr>cfg_Catalog := \<lparr>cat_Offerings = map (compile_offering \<circ> g) (ccs_Offerings (cc_Spec (sn_Catalog s))),
     cat_Complete = cat_Complete (cfg_Catalog cfg)\<rparr>\<rparr>"

lemma compile_budget_rewrite:
  assumes "meta_rewrite f" "compile_budget v s (compile_config s ps names p c) = Inr cfg"
  shows "compile_budget v (rewrite_snapshot f g s) (compile_config (rewrite_snapshot f g s) ps names p c) = Inr (recatalog g s cfg)"
proof -
  have "compile_config (rewrite_snapshot f g s) ps names p c = recatalog g s (compile_config s ps names p c)"
    by (simp add: compile_config_def Let_def recatalog_def meta_rewrite_names [OF assms(1)])
  then show ?thesis
    using assms(2) object_rewrite [OF assms(1)]
    by (auto simp: compile_budget_def recatalog_def meta_rewrite_names [OF assms(1)] split: option.splits if_splits)
qed

lemma validate_providers_catalog: "validate_providers (c\<lparr>cfg_Catalog := k\<rparr>) names = validate_providers c names"
  by (induction c names rule: validate_providers.induct) (simp_all split: option.split)

lemma Config_Validate_catalog: "Config_Validate is_label (recatalog g s c) = Config_Validate is_label c"
  by (simp add: recatalog_def Config_Validate_def validate_network_def validate_providers_catalog cong: option.case_cong if_cong)

text \<open>A rewritten snapshot resolves to the same configuration, its catalog rewritten.\<close>

lemma Compile_rewrite:
  assumes "meta_rewrite f" "offering_rewrite g" "Compile v s = Inr r"
  shows "Compile v (rewrite_snapshot f g s) = Inr (r\<lparr>rv_Config := recatalog g s (rv_Config r)\<rparr>)"
  using assms
  by (auto simp: Compile_def compile_roots_rewrite compile_providers_rewrite network_rewrite compile_budget_rewrite
      Config_Validate_catalog split: option.splits sum.splits)

end
