(* ===== verification/Config_Recover.thy ===== *)
theory Config_Recover
  imports Config_Checkpoint "HOL-Library.Sublist"
begin

text \<open>
  What a checkpoint guarantees: it resolves to the configuration that was accepted, and a scale set's
  checkpoint is replaced only by one of the same scale set and the same binding, whatever other
  clients do in between.
\<close>

section \<open>Fidelity\<close>

lemma status_meta_commute:
  "x\<lparr>rs_Status := a, rs_ObjectMeta := b\<rparr> = x\<lparr>rs_ObjectMeta := b, rs_Status := a\<rparr>"
  "y\<lparr>rc_Status := a, rc_ObjectMeta := b\<rparr> = y\<lparr>rc_ObjectMeta := b, rc_Status := a\<rparr>"
  "z\<lparr>cc_Status := a, cc_ObjectMeta := b\<rparr> = z\<lparr>cc_ObjectMeta := b, cc_Status := a\<rparr>"
  "z\<lparr>cc_Status := a, cc_Spec := k\<rparr> = z\<lparr>cc_Spec := k, cc_Status := a\<rparr>"
  "z\<lparr>cc_ObjectMeta := b, cc_Spec := k\<rparr> = z\<lparr>cc_Spec := k, cc_ObjectMeta := b\<rparr>"
  "p\<lparr>pco_Status := a, pco_ObjectMeta := b\<rparr> = p\<lparr>pco_ObjectMeta := b, pco_Status := a\<rparr>"
  "n\<lparr>np_Status := a, np_ObjectMeta := b\<rparr> = n\<lparr>np_ObjectMeta := b, np_Status := a\<rparr>"
  "q\<lparr>cb_Status := a, cb_ObjectMeta := b\<rparr> = q\<lparr>cb_ObjectMeta := b, cb_Status := a\<rparr>"
  by simp_all

lemma checkpointSnapshot_rewrite:
  assumes "checkpointSnapshot lib s = Inr s'"
  shows "s' = rewrite_snapshot (checkpoint_metadata \<circ> json_meta) json_offering s" "snapshot_times_ok s"
proof -
  from assms have ok: "snapshot_times_ok s" "s' = clear_status (map_metas checkpoint_metadata (json_snapshot s))"
    by (auto simp: checkpointSnapshot_def Let_def json_decode_def Marshal_snapshot_def split: if_splits)
  have "map_metas checkpoint_metadata (json_snapshot s) = map_metas (checkpoint_metadata \<circ> json_meta) (map_offerings json_offering s)"
    by (cases s) (simp add: json_snapshot_def map_metas_def map_offerings_def option.map_comp comp_def case_prod_beta
        status_meta_commute)
  with ok show "s' = rewrite_snapshot (checkpoint_metadata \<circ> json_meta) json_offering s" "snapshot_times_ok s"
    by (simp_all add: rewrite_snapshot_def)
qed

lemma checkpoint_meta_rewrite: "meta_rewrite (checkpoint_metadata \<circ> json_meta)"
  by (simp add: meta_rewrite_def checkpoint_metadata_def json_meta_def)

lemma json_offering_rewrite: "offering_rewrite json_offering"
  by (simp add: offering_rewrite_def json_offering_def)

lemma second_time_idem: "second_time (second_time t) = second_time t"
  by (simp add: second_time_def Second_def)

lemma second_time_le: "second_time t \<le> t"
  using div_mult_mod_eq [of t Second] pos_mod_sign [of Second t] by (simp add: second_time_def Second_def)

lemma second_time_ge: "k * Second \<le> t \<Longrightarrow> k * Second \<le> second_time t"
  using zdiv_mono1 [of "k * Second" t Second] by (simp add: second_time_def Second_def)

lemma second_time_ok: "json_time_ok t \<Longrightarrow> json_time_ok (second_time t)"
  using second_time_le [of t] second_time_ge [of "- (366 * 24 * 3600)" t]
  by (simp add: json_time_ok_def Second_def Minute_def Hour_def)

lemma json_meta_checkpoint: "json_meta (checkpoint_metadata m) = checkpoint_metadata m"
  by (simp add: json_meta_def checkpoint_metadata_def)

lemma json_offering_idem: "json_offering (json_offering o') = json_offering o'"
  by (simp add: json_offering_def second_time_idem)

text \<open>A checkpoint is unchanged by another round trip.\<close>

lemma json_snapshot_checkpoint:
  assumes "s = rewrite_snapshot (checkpoint_metadata \<circ> json_meta) json_offering s0"
  shows "json_snapshot s = s"
  unfolding assms rewrite_snapshot_def json_snapshot_def map_metas_def map_offerings_def clear_status_def
  by (cases s0) (simp add: json_meta_checkpoint json_offering_idem option.map_comp comp_def case_prod_beta
      status_meta_commute)

lemma checkpoint_times_ok:
  assumes "s = rewrite_snapshot (checkpoint_metadata \<circ> json_meta) json_offering s0" "snapshot_times_ok s0"
  shows "snapshot_times_ok s"
proof -
  have "om_DeletionTimestamp m = None" if "m \<in> set (snapshot_metas s)" for m
    using that unfolding assms(1) rewrite_snapshot_def
    by (auto simp: snapshot_metas_def map_metas_def clear_status_def map_offerings_def checkpoint_metadata_def
        split: option.splits)
  then show ?thesis
    using assms(2) by (auto simp: snapshot_times_ok_def list_all_iff assms(1) json_offering_def second_time_ok)
qed

text \<open>
  Claim C33 (a checkpoint recovers what was accepted). The snapshot kept in a checkpoint, with its
  metadata reduced and its status dropped, resolves whenever the accepted snapshot did, and to the same
  configuration, credentials, authentication and suspension; only the observation times of the catalog
  lose their fraction of a second. Its binding is therefore the accepted one.
\<close>

theorem checkpoint_resolves:
  assumes "Compile (lib_validators lib) s = Inr r" "checkpointSnapshot lib s = Inr s'"
  shows "\<exists>r'. Compile (lib_validators lib) s' = Inr r' \<and> r' = r\<lparr>rv_Config := recatalog json_offering s (rv_Config r)\<rparr>
    \<and> SameBinding (lib_binding_hash lib) (rv_Config r) (rv_Config r')"
proof -
  have "Compile (lib_validators lib) s' = Inr (r\<lparr>rv_Config := recatalog json_offering s (rv_Config r)\<rparr>)"
    unfolding checkpointSnapshot_rewrite(1) [OF assms(2)]
    by (rule Compile_rewrite [OF checkpoint_meta_rewrite json_offering_rewrite assms(1)])
  moreover have "SameBinding (lib_binding_hash lib) (rv_Config r) (recatalog json_offering s (rv_Config r))"
    by (simp add: SameBinding_def binding_def bindingWithLimit_def recatalog_def)
  ultimately show ?thesis
    by simp
qed

section \<open>Replacement\<close>

text \<open>
  What the code relies on for its writes: a create that succeeds found nothing under the name, an
  update that succeeds replaced exactly the version it was given, and both store the labels,
  annotations and data they were given under the same name and namespace.
\<close>

definition stores :: "checkpoint_map \<Rightarrow> checkpoint_map \<Rightarrow> bool" where
  "stores cm out \<longleftrightarrow> om_Name (ckm_ObjectMeta out) = om_Name (ckm_ObjectMeta cm)
     \<and> om_Namespace (ckm_ObjectMeta out) = om_Namespace (ckm_ObjectMeta cm) \<and> ckm_Labels out = ckm_Labels cm
     \<and> ckm_Annotations out = ckm_Annotations cm \<and> ckm_Data out = ckm_Data cm"

definition creates_fresh ::
    "('w \<Rightarrow> 'w \<Rightarrow> bool) \<Rightarrow> 'w checkpoint_maps \<Rightarrow> ('w \<Rightarrow> string \<Rightarrow> checkpoint_map option) \<Rightarrow> bool" where
  "creates_fresh later maps obj \<longleftrightarrow> (\<forall>cm w w'. cks_Create maps cm w = (None, w') \<longrightarrow>
     (\<exists>w1 w2 out. later w w1 \<and> later w1 w2 \<and> later w2 w' \<and> obj w1 (om_Name (ckm_ObjectMeta cm)) = None
        \<and> obj w2 (om_Name (ckm_ObjectMeta cm)) = Some out \<and> stores cm out))"

definition updates_versioned ::
    "('w \<Rightarrow> 'w \<Rightarrow> bool) \<Rightarrow> 'w checkpoint_maps \<Rightarrow> ('w \<Rightarrow> string \<Rightarrow> checkpoint_map option) \<Rightarrow> bool" where
  "updates_versioned later maps obj \<longleftrightarrow> (\<forall>cm w w'. cks_Update maps cm w = (None, w') \<longrightarrow>
     (\<exists>w1 w2 old out. later w w1 \<and> later w1 w2 \<and> later w2 w' \<and> obj w1 (om_Name (ckm_ObjectMeta cm)) = Some old
        \<and> same_version (ckm_ObjectMeta old) (ckm_ObjectMeta cm)
        \<and> obj w2 (om_Name (ckm_ObjectMeta cm)) = Some out \<and> stores cm out))"

lemma checkpoint_decode_stores: "stores cm out \<Longrightarrow> checkpoint_decode lib c out = checkpoint_decode lib c cm"
  unfolding checkpoint_decode_def stores_def by (elim conjE) (simp only:)

lemma checkpoint_decode_written:
  assumes "checkpointSnapshot lib s0 = Inr s" "Compile (lib_validators lib) s = Inr r"
    "om_UID (rs_ObjectMeta (sn_ScaleSet s)) \<noteq> []" "om_Namespace (rs_ObjectMeta (sn_ScaleSet s)) = ck_Namespace c"
    "om_Name (rs_ObjectMeta (sn_ScaleSet s)) = ck_Name c" "0 < text_length (Marshal_snapshot lib s)"
    "text_length (Marshal_snapshot lib s) \<le> checkpointLimit"
    and cm: "om_Name (ckm_ObjectMeta cm) = checkpoint_name c" "om_Namespace (ckm_ObjectMeta cm) = ck_Namespace c"
      "map_get [] (ckm_Labels cm) ''runnerscout/owner'' = ck_Name c"
      "map_get [] (ckm_Labels cm) ''runnerscout/kind'' = checkpointKind"
      "map_get [] (ckm_Annotations cm) checkpointUID = om_UID (rs_ObjectMeta (sn_ScaleSet s))"
      "map_get empty_text (ckm_Data cm) ''snapshot'' = Marshal_snapshot lib s"
  shows "checkpoint_decode lib c cm = Inr s"
proof -
  note rw = checkpointSnapshot_rewrite [OF assms(1)]
  have "snd (Marshal_snapshot lib s) = JsonOf s"
    using json_snapshot_checkpoint [OF rw(1)] checkpoint_times_ok [OF rw(1,2)] by (simp add: Marshal_snapshot_def)
  then show ?thesis
    using assms by (simp add: checkpoint_decode_def Let_def)
qed

text \<open>What a decoded checkpoint says about its map.\<close>

lemma checkpoint_decode_Inr:
  assumes "checkpoint_decode lib c cm = Inr s"
  shows "om_Name (ckm_ObjectMeta cm) = checkpoint_name c" "om_Namespace (ckm_ObjectMeta cm) = ck_Namespace c"
    "map_get [] (ckm_Labels cm) ''runnerscout/owner'' = ck_Name c"
    "map_get [] (ckm_Labels cm) ''runnerscout/kind'' = checkpointKind"
    "map_get [] (ckm_Annotations cm) checkpointUID = om_UID (rs_ObjectMeta (sn_ScaleSet s))"
    "om_UID (rs_ObjectMeta (sn_ScaleSet s)) \<noteq> []" "\<not> isl (Compile (lib_validators lib) s)"
  using assms by (auto simp: checkpoint_decode_def Let_def split: if_splits json.splits sum.splits)

text \<open>The checkpoint that is being replaced belongs to the same scale set and has the same binding.\<close>

definition supersedes :: "libraries \<Rightarrow> 'w checkpoints \<Rightarrow> snapshot \<Rightarrow> resolved \<Rightarrow> checkpoint_map \<Rightarrow> bool" where
  "supersedes lib c s r cm \<longleftrightarrow> (\<exists>old previous. checkpoint_decode lib c cm = Inr old
     \<and> Compile (lib_validators lib) old = Inr previous
     \<and> om_UID (rs_ObjectMeta (sn_ScaleSet old)) = om_UID (rs_ObjectMeta (sn_ScaleSet s))
     \<and> SameBinding (lib_binding_hash lib) (rv_Config previous) (rv_Config r))"

lemma checkpoint_replace_None:
  assumes "checkpoint_replace lib c cm s r data w = (None, w')"
  shows "supersedes lib c s r cm"
    "map_get empty_text (ckm_Data cm) ''snapshot'' = data \<and> w' = w
     \<or> cks_Update (ck_Maps c) (cm\<lparr>ckm_Data := AList.update ''snapshot'' data (ckm_Data cm)\<rparr>) w = (None, w')"
  using assms by (auto simp: checkpoint_replace_def supersedes_def split: sum.splits if_splits)

lemma checkpoint_Save_None:
  assumes "checkpoint_Save lib c source w = (None, w')"
  obtains s r where "checkpointSnapshot lib source = Inr s" "Compile (lib_validators lib) s = Inr r"
    "om_UID (rs_ObjectMeta (sn_ScaleSet s)) \<noteq> []" "om_Namespace (rs_ObjectMeta (sn_ScaleSet s)) = ck_Namespace c"
    "om_Name (rs_ObjectMeta (sn_ScaleSet s)) = ck_Name c" "checkpoint_write lib c s r w = (None, w')"
  using assms by (auto simp: checkpoint_Save_def Let_def split: sum.splits if_splits)

lemma checkpoint_write_None:
  assumes "checkpoint_write lib c s r w = (None, w')"
  obtains (create) e w1 where "cks_Get (ck_Maps c) (checkpoint_name c) w = (Inl e, w1)"
      "cks_Create (ck_Maps c) (new_checkpoint c s (Marshal_snapshot lib s)) w1 = (None, w')"
      "text_length (Marshal_snapshot lib s) \<le> checkpointLimit"
  | (replace) cm w1 where "cks_Get (ck_Maps c) (checkpoint_name c) w = (Inr cm, w1)"
      "checkpoint_replace lib c cm s r (Marshal_snapshot lib s) w1 = (None, w')"
      "text_length (Marshal_snapshot lib s) \<le> checkpointLimit"
  using assms by (auto simp: checkpoint_write_def Let_def split: sum.splits if_splits prod.splits)

text \<open>The writes of a save, by branch: what was stored before, and what is stored after.\<close>

lemma checkpoint_replace_writes:
  assumes c: "server_contract later ckm_ObjectMeta (cks_Get (ck_Maps c)) obj" "updates_versioned later (ck_Maps c) obj"
    and get: "cks_Get (ck_Maps c) (checkpoint_name c) w = (Inr cm, wg)"
    and r: "checkpoint_replace lib c cm s r data wg = (None, w')"
  shows "\<exists>w1 w2 out. later w w1 \<and> later w1 w2 \<and> later w2 w' \<and> obj w1 (checkpoint_name c) = Some cm
    \<and> obj w2 (checkpoint_name c) = Some out \<and> map_get empty_text (ckm_Data out) ''snapshot'' = data
    \<and> stores (cm\<lparr>ckm_Data := ckm_Data out\<rparr>) out"
proof -
  from server_get [OF c(1) get] obtain m where m: "later w m" "later m wg" "obj m (checkpoint_name c) = Some cm"
    by (auto simp: current_in_def)
  have name: "om_Name (ckm_ObjectMeta cm) = checkpoint_name c"
    using checkpoint_replace_None(1) [OF r] checkpoint_decode_Inr(1) by (auto simp: supersedes_def)
  from checkpoint_replace_None(2) [OF r] show ?thesis
  proof
    assume "map_get empty_text (ckm_Data cm) ''snapshot'' = data \<and> w' = wg"
    then show ?thesis
      using m server_refl [OF c(1)] by (intro exI [of _ m] exI [of _ m] exI [of _ cm]) (simp add: stores_def)
  next
    assume "cks_Update (ck_Maps c) (cm\<lparr>ckm_Data := AList.update ''snapshot'' data (ckm_Data cm)\<rparr>) wg = (None, w')"
    from c(2) [unfolded updates_versioned_def, rule_format, OF this] name
    obtain w1 w2 old out where u: "later wg w1" "later w1 w2" "later w2 w'" "obj w1 (checkpoint_name c) = Some old"
      "same_version (ckm_ObjectMeta old) (ckm_ObjectMeta cm)" "obj w2 (checkpoint_name c) = Some out"
      "stores (cm\<lparr>ckm_Data := AList.update ''snapshot'' data (ckm_Data cm)\<rparr>) out"
      by auto
    have "later m w1"
      by (rule server_trans [OF c(1) m(2) u(1)])
    have "obj w1 (checkpoint_name c) = Some cm"
    proof (rule pinned [OF c(1)])
      show "current_in later obj m w1 (checkpoint_name c) cm"
        using m(3) \<open>later m w1\<close> server_refl [OF c(1)] by (auto simp: current_in_def)
      show "current_in later obj w1 w1 (checkpoint_name c) old"
        using u(4) server_refl [OF c(1)] by (auto simp: current_in_def)
      show "same_version (ckm_ObjectMeta cm) (ckm_ObjectMeta old)"
        using u(5) by (simp add: same_version_def)
    qed
    moreover have "later w w1"
      by (rule server_trans [OF c(1) m(1) \<open>later m w1\<close>])
    ultimately show ?thesis
      using u by (intro exI [of _ w1] exI [of _ w2] exI [of _ out]) (auto simp: stores_def)
  qed
qed

text \<open>
  Claim C34 (checkpoint ownership and binding). With other clients acting between the calls, a save that
  succeeds leaves, at some instant, a checkpoint that decodes to exactly the reduced snapshot; and it
  replaced either nothing or a checkpoint of the same scale set, by UID, whose resolved configuration
  has the same binding. An accepted binding is never exchanged under running machines.
\<close>

theorem checkpoint_Save_safe:
  assumes "server_contract later ckm_ObjectMeta (cks_Get (ck_Maps c)) obj"
    and "creates_fresh later (ck_Maps c) obj" "updates_versioned later (ck_Maps c) obj"
    and "\<And>s. lib_print lib s \<noteq> []" and "checkpoint_Save lib c source w = (None, w')"
  shows "\<exists>s r w1 w2 cm. checkpointSnapshot lib source = Inr s \<and> Compile (lib_validators lib) s = Inr r
    \<and> later w w1 \<and> later w1 w2 \<and> later w2 w'
    \<and> (\<forall>previous. obj w1 (checkpoint_name c) = Some previous \<longrightarrow> supersedes lib c s r previous)
    \<and> obj w2 (checkpoint_name c) = Some cm \<and> checkpoint_decode lib c cm = Inr s"
proof -
  from assms(5) obtain s r where s: "checkpointSnapshot lib source = Inr s" "Compile (lib_validators lib) s = Inr r"
    "om_UID (rs_ObjectMeta (sn_ScaleSet s)) \<noteq> []" "om_Namespace (rs_ObjectMeta (sn_ScaleSet s)) = ck_Namespace c"
    "om_Name (rs_ObjectMeta (sn_ScaleSet s)) = ck_Name c" "checkpoint_write lib c s r w = (None, w')"
    by (rule checkpoint_Save_None)
  have pos: "0 < text_length (Marshal_snapshot lib s)"
    using assms(4) by (simp add: text_length_def Marshal_snapshot_def)
  note written = checkpoint_decode_written [OF s(1-5) pos]
  from s(6) show ?thesis
  proof (cases rule: checkpoint_write_None)
    case (create e w0)
    let ?new = "new_checkpoint c s (Marshal_snapshot lib s)"
    have name: "om_Name (ckm_ObjectMeta ?new) = checkpoint_name c"
      by (simp add: new_checkpoint_def)
    from assms(2) [unfolded creates_fresh_def, rule_format, OF create(2)] name
    obtain w1 w2 out where o': "later w0 w1" "later w1 w2" "later w2 w'" "obj w1 (checkpoint_name c) = None"
      "obj w2 (checkpoint_name c) = Some out" "stores ?new out"
      by auto
    have "later w w0"
      using assms(1) create(1) server_trans [OF assms(1)]
      unfolding server_contract_def reads_linear_def by blast
    then have "later w w1"
      by (rule server_trans [OF assms(1) _ o'(1)])
    moreover have "checkpoint_decode lib c ?new = Inr s"
      by (rule written [OF create(3)]) (simp_all add: new_checkpoint_def map_get_def)
    ultimately show ?thesis
      using s(1,2) o' checkpoint_decode_stores [OF o'(6), of lib c] by (intro exI [of _ s] exI [of _ r] exI [of _ w1] exI [of _ w2] exI [of _ out]) simp
  next
    case (replace cm w0)
    obtain w1 w2 out where o': "later w w1" "later w1 w2" "later w2 w'" "obj w1 (checkpoint_name c) = Some cm"
      "obj w2 (checkpoint_name c) = Some out" "map_get empty_text (ckm_Data out) ''snapshot'' = Marshal_snapshot lib s"
      "stores (cm\<lparr>ckm_Data := ckm_Data out\<rparr>) out"
      using checkpoint_replace_writes [OF assms(1,3) replace(1,2)] by blast
    have old: "supersedes lib c s r cm"
      by (rule checkpoint_replace_None(1) [OF replace(2)])
    then obtain prev where prev: "checkpoint_decode lib c cm = Inr prev"
      "om_UID (rs_ObjectMeta (sn_ScaleSet prev)) = om_UID (rs_ObjectMeta (sn_ScaleSet s))"
      by (auto simp: supersedes_def)
    have "checkpoint_decode lib c out = Inr s"
      by (rule written [OF replace(3)]) (use o'(6,7) checkpoint_decode_Inr [OF prev(1)] prev(2) in \<open>simp_all add: stores_def\<close>)
    then show ?thesis
      using s(1,2) o' old by (intro exI [of _ s] exI [of _ r] exI [of _ w1] exI [of _ w2] exI [of _ out]) simp
  qed
qed

section \<open>A concrete checkpoint\<close>

text \<open>A server for one ConfigMap: its world is the list of writes it accepted.\<close>

definition history_current :: "checkpoint_map list \<Rightarrow> checkpoint_map option" where
  "history_current w = (if w = [] then None
     else Some ((last w)\<lparr>ckm_ObjectMeta := (ckm_ObjectMeta (last w))\<lparr>om_UID := ''ck'', om_ResourceVersion := version_text (length w)\<rparr>\<rparr>))"

definition history_obj :: "checkpoint_map list \<Rightarrow> string \<Rightarrow> checkpoint_map option" where
  "history_obj w n = (case history_current w of None \<Rightarrow> None
     | Some cm \<Rightarrow> if om_Name (ckm_ObjectMeta cm) = n then Some cm else None)"

definition history_maps :: "checkpoint_map list checkpoint_maps" where
  "history_maps = \<lparr>
     cks_Get = (\<lambda>n w. (case history_obj w n of None \<Rightarrow> Inl (Err [StatusNotFound] ''not found'') | Some cm \<Rightarrow> Inr cm, w)),
     cks_Create = (\<lambda>cm w. if w = [] then (None, [cm]) else (Some (Err [StatusAlreadyExists] ''exists''), w)),
     cks_Update = (\<lambda>cm w. case history_obj w (om_Name (ckm_ObjectMeta cm)) of
         None \<Rightarrow> (Some (Err [StatusNotFound] ''not found''), w)
       | Some old \<Rightarrow> if om_UID (ckm_ObjectMeta old) = om_UID (ckm_ObjectMeta cm)
              \<and> om_ResourceVersion (ckm_ObjectMeta old) = om_ResourceVersion (ckm_ObjectMeta cm)
           then (None, w @ [cm]) else (Some (Err [StatusConflict] ''conflict''), w)),
     cks_Delete = (\<lambda>_ _ _ w. (None, w)), cks_List = (\<lambda>_ w. (Inr (length w), w))\<rparr>"

lemma history_contract: "server_contract prefix ckm_ObjectMeta (cks_Get history_maps) history_obj"
proof -
  have "history_obj b k = Some x"
    if "prefix a b" "prefix b c" "history_obj a k = Some x" "history_obj c k = Some z"
      "same_version (ckm_ObjectMeta x) (ckm_ObjectMeta z)" for a b c k x z
  proof -
    have "length a = length c"
      using that(3-5) by (auto simp: history_obj_def history_current_def same_version_def version_text_def split: if_splits)
    then have "a = b"
      using that(1,2) by (auto simp: prefix_def)
    then show ?thesis
      using that(3) by simp
  qed
  moreover have "reads_linear prefix (cks_Get history_maps) history_obj"
    by (auto simp: reads_linear_def history_maps_def split: option.splits)
  ultimately show ?thesis
    unfolding server_contract_def versions_fresh_def by (auto intro: reflpI transpI prefix_order.trans)
qed

lemma history_creates: "creates_fresh prefix history_maps history_obj"
  unfolding creates_fresh_def
proof (intro allI impI)
  fix cm w w' assume "cks_Create history_maps cm w = (None, w')"
  then show "\<exists>w1 w2 out. prefix w w1 \<and> prefix w1 w2 \<and> prefix w2 w' \<and> history_obj w1 (om_Name (ckm_ObjectMeta cm)) = None
      \<and> history_obj w2 (om_Name (ckm_ObjectMeta cm)) = Some out \<and> stores cm out"
    by (intro exI [of _ w] exI [of _ w']) (auto simp: history_maps_def history_obj_def history_current_def stores_def split: if_splits)
qed

lemma history_updates: "updates_versioned prefix history_maps history_obj"
  unfolding updates_versioned_def
proof (intro allI impI)
  fix cm w w' assume "cks_Update history_maps cm w = (None, w')"
  then show "\<exists>w1 w2 old out. prefix w w1 \<and> prefix w1 w2 \<and> prefix w2 w' \<and> history_obj w1 (om_Name (ckm_ObjectMeta cm)) = Some old
      \<and> same_version (ckm_ObjectMeta old) (ckm_ObjectMeta cm)
      \<and> history_obj w2 (om_Name (ckm_ObjectMeta cm)) = Some out \<and> stores cm out"
    by (intro exI [of _ w] exI [of _ w'])
      (auto simp: history_maps_def history_obj_def history_current_def stores_def same_version_def split: if_splits option.splits)
qed

definition demo_libraries :: libraries where
  "demo_libraries = \<lparr>lib_validators = demo_validators,
     lib_print = (\<lambda>s. if rss_Suspend (rs_Spec (sn_ScaleSet s)) then ''b'' else ''a''),
     lib_binding_hash = (\<lambda>_. ''h''), lib_sha256 = id, lib_key_hash = (\<lambda>_. ''k'')\<rparr>"

definition demo_checkpoints :: "checkpoint_map list checkpoints" where
  "demo_checkpoints = \<lparr>ck_Maps = history_maps, ck_Namespace = ''ns'', ck_Name = ''rs''\<rparr>"

definition demo_suspended :: snapshot where
  "demo_suspended = demo_snapshot\<lparr>sn_ScaleSet := demo_scale_set\<lparr>rs_Spec := (rs_Spec demo_scale_set)\<lparr>rss_Suspend := True\<rparr>\<rparr>\<rparr>"

definition demo_history :: "checkpoint_map list" where
  "demo_history = snd (checkpoint_Save demo_libraries demo_checkpoints demo_snapshot [])"

lemma demo_save:
  "fst (checkpoint_Save demo_libraries demo_checkpoints demo_suspended demo_history) = None"
  by code_simp

theorem checkpoint_Save_safe_witness:
  "\<exists>s r w1 w2 cm. checkpointSnapshot demo_libraries demo_suspended = Inr s
    \<and> (\<forall>previous. history_obj w1 ''rs-configuration'' = Some previous \<longrightarrow> supersedes demo_libraries demo_checkpoints s r previous)
    \<and> history_obj w2 ''rs-configuration'' = Some cm \<and> checkpoint_decode demo_libraries demo_checkpoints cm = Inr s"
proof -
  have maps: "ck_Maps demo_checkpoints = history_maps" "checkpoint_name demo_checkpoints = ''rs-configuration''"
    by (simp_all add: demo_checkpoints_def checkpoint_name_def)
  have "lib_print demo_libraries s \<noteq> []" for s
    by (simp add: demo_libraries_def)
  moreover obtain w' where "checkpoint_Save demo_libraries demo_checkpoints demo_suspended demo_history = (None, w')"
    by (metis demo_save prod.collapse)
  ultimately show ?thesis
    using checkpoint_Save_safe [of prefix demo_checkpoints history_obj demo_libraries demo_suspended demo_history, unfolded maps,
        OF history_contract history_creates history_updates] by blast
qed

theorem checkpoint_resolves_witness:
  "\<exists>s r. checkpointSnapshot demo_libraries demo_snapshot = Inr s \<and> Compile demo_validators s = Inr r
    \<and> SameBinding (\<lambda>_. ''h'') (rv_Config demo_resolved) (rv_Config r)"
proof -
  have lib: "lib_validators demo_libraries = demo_validators" "lib_binding_hash demo_libraries = (\<lambda>_. ''h'')"
    by (simp_all add: demo_libraries_def)
  have "\<not> isl (checkpointSnapshot demo_libraries demo_snapshot)"
    by code_simp
  then obtain s where "checkpointSnapshot demo_libraries demo_snapshot = Inr s"
    by (cases "checkpointSnapshot demo_libraries demo_snapshot") auto
  then show ?thesis
    using checkpoint_resolves [of demo_libraries demo_snapshot demo_resolved s, unfolded lib, OF demo_compiles] by blast
qed

end
