(* ===== verification/Config_Runtime.thy ===== *)
theory Config_Runtime
  imports Config_Recover Operator_Tick
begin

text \<open>
  \<open>internal/configapi/runtime.go\<close> and \<open>checks.go\<close>: the controller of one scale set in CRD mode. It runs
  at most one worker (a GitHub session, a recovery or a cleanup), keeps the accepted configuration in
  the checkpoint, and removes its finalizer from the scale set when nothing is left to clean up. The
  worker is an interface of the source and a parameter here, as are the API servers; a pass is a
  function of the runtime's state and the world.
\<close>

section \<open>Workers\<close>

datatype worker_mode = SessionMode | RecoveryMode | CleanupMode

text \<open>
  A worker is known by a handle. \<open>wk_Run\<close> starts its goroutine in a mode; \<open>wk_Done\<close> polls the done
  channel and gives the error of a worker that has returned; \<open>wk_Cancel\<close> cancels its context and waits
  for it; \<open>wk_Cleanup\<close> is the cleanup function returned together with it.
\<close>

record ('w, 'h) worker_ops =
  wk_New :: "resolved \<Rightarrow> credentials \<Rightarrow> worker_mode \<Rightarrow> 'w \<Rightarrow> (err + 'h) \<times> 'w"
  wk_Run :: "'h \<Rightarrow> worker_mode \<Rightarrow> 'w \<Rightarrow> 'w"
  wk_Done :: "'h \<Rightarrow> 'w \<Rightarrow> err option option \<times> 'w"
  wk_Cancel :: "'h \<Rightarrow> 'w \<Rightarrow> 'w"
  wk_Cleanup :: "'h \<Rightarrow> 'w \<Rightarrow> err option \<times> 'w"
  wk_Ready :: "'h \<Rightarrow> 'w \<Rightarrow> bool \<times> 'w"
  wk_PauseAdmissions :: "'h \<Rightarrow> bool \<Rightarrow> 'w \<Rightarrow> 'w"
  wk_Drain :: "'h \<Rightarrow> 'w \<Rightarrow> 'w"
  wk_Drained :: "'h \<Rightarrow> 'w \<Rightarrow> (err + bool) \<times> 'w"

record 'h active_worker =
  aw_worker :: 'h
  aw_key :: string
  aw_uid :: string
  aw_mode :: worker_mode

text \<open>The fixed part of \<open>Runtime\<close>, and the part it changes.\<close>

record ('w, 'h) runtime =
  rt_Namespace :: string
  rt_Name :: string
  rt_Maps :: "'w checkpoint_maps"
  rt_Secrets :: "'w secrets_ops"
  rt_Dynamic :: "'w dynamic_ops"
  rt_Readiness :: "bool \<Rightarrow> 'w \<Rightarrow> 'w"
  rt_Workers :: "('w, 'h) worker_ops"
  rt_Now :: "'w \<Rightarrow> string \<times> 'w"
  rt_lib :: libraries

record 'h runtime_state =
  rs_worker :: "'h active_worker option"
  rs_completedUID :: string
  rs_pendingCleanups :: "'h list"

definition Finalizer :: string where
  "Finalizer = ''runnerscout.io/runner-cleanup''"

definition scale_sets :: "string \<times> string \<times> string" where
  "scale_sets = (Group, Version, ''runnerscalesets'')"

definition roots_Get :: "('w, 'h) runtime \<Rightarrow> 'w \<Rightarrow> (err + unstructured) \<times> 'w" where
  "roots_Get r = dy_Get (rt_Dynamic r) scale_sets (rt_Namespace r) (rt_Name r)"

definition roots_Update :: "('w, 'h) runtime \<Rightarrow> unstructured \<Rightarrow> 'w \<Rightarrow> err option \<times> 'w" where
  "roots_Update r = dy_Update (rt_Dynamic r) scale_sets (rt_Namespace r)"

definition roots_UpdateStatus :: "('w, 'h) runtime \<Rightarrow> unstructured \<Rightarrow> 'w \<Rightarrow> err option \<times> 'w" where
  "roots_UpdateStatus r = dy_UpdateStatus (rt_Dynamic r) scale_sets (rt_Namespace r)"

definition runtime_checkpoints :: "('w, 'h) runtime \<Rightarrow> 'w checkpoints" where
  "runtime_checkpoints r = \<lparr>ck_Maps = rt_Maps r, ck_Namespace = rt_Namespace r, ck_Name = rt_Name r\<rparr>"

section \<open>Worker control\<close>

text \<open>\<open>stop\<close>: the handle is kept until its cleanup succeeds.\<close>

definition stop :: "('w, 'h) runtime \<Rightarrow> 'h runtime_state \<Rightarrow> 'w \<Rightarrow> err option \<times> 'h runtime_state \<times> 'w" where
  "stop r st w =
     (case rs_worker st of
        None \<Rightarrow> (None, st, w)
      | Some a \<Rightarrow>
          let w = wk_Cancel (rt_Workers r) (aw_worker a) w;
              w = rt_Readiness r False w in
          (case wk_Cleanup (rt_Workers r) (aw_worker a) w of
             (Some e, w) \<Rightarrow> (Some e, st, w)
           | (None, w) \<Rightarrow> (None, st\<lparr>rs_worker := None\<rparr>, w)))"

definition start ::
    "('w, 'h) runtime \<Rightarrow> 'h \<Rightarrow> string \<Rightarrow> string \<Rightarrow> worker_mode \<Rightarrow> 'h runtime_state \<Rightarrow> 'w \<Rightarrow> 'h runtime_state \<times> 'w" where
  "start r h key uid mode st w =
     (st\<lparr>rs_worker := Some \<lparr>aw_worker = h, aw_key = key, aw_uid = uid, aw_mode = mode\<rparr>\<rparr>,
      wk_Run (rt_Workers r) h mode w)"

definition pause_worker :: "('w, 'h) runtime \<Rightarrow> 'h runtime_state \<Rightarrow> 'w \<Rightarrow> 'w" where
  "pause_worker r st w = (case rs_worker st of None \<Rightarrow> w
     | Some a \<Rightarrow> wk_PauseAdmissions (rt_Workers r) (aw_worker a) True w)"

definition pause :: "('w, 'h) runtime \<Rightarrow> 'h runtime_state \<Rightarrow> 'w \<Rightarrow> 'w" where
  "pause r st w = pause_worker r st (rt_Readiness r False w)"

definition discard :: "('w, 'h) runtime \<Rightarrow> 'h \<Rightarrow> 'h runtime_state \<Rightarrow> 'w \<Rightarrow> 'h runtime_state \<times> 'w" where
  "discard r h st w =
     (case wk_Cleanup (rt_Workers r) h w of
        (None, w) \<Rightarrow> (st, w)
      | (Some _, w) \<Rightarrow> (st\<lparr>rs_pendingCleanups := rs_pendingCleanups st @ [h]\<rparr>, w))"

fun retry_each :: "('w, 'h) runtime \<Rightarrow> 'h list \<Rightarrow> 'w \<Rightarrow> 'h list \<times> 'w" where
  "retry_each r [] w = ([], w)"
| "retry_each r (h # hs) w =
     (case wk_Cleanup (rt_Workers r) h w of (e, w) \<Rightarrow>
      case retry_each r hs w of (pending, w) \<Rightarrow>
        (if e = None then pending else h # pending, w))"

definition retryCleanups :: "('w, 'h) runtime \<Rightarrow> 'h runtime_state \<Rightarrow> 'w \<Rightarrow> err option \<times> 'h runtime_state \<times> 'w" where
  "retryCleanups r st w =
     (case retry_each r (rs_pendingCleanups st) w of (pending, w) \<Rightarrow>
        (if pending \<noteq> [] then Some (errors_New ''provider credential cache cleanup incomplete'') else None,
         st\<lparr>rs_pendingCleanups := pending\<rparr>, w))"

section \<open>The scale set object\<close>

definition sameRootRevision :: "object_meta \<Rightarrow> object_meta \<Rightarrow> bool" where
  "sameRootRevision a b \<longleftrightarrow> om_UID a = om_UID b \<and> om_Generation a = om_Generation b
     \<and> om_DeletionTimestamp a = om_DeletionTimestamp b"

text \<open>The loop over the old conditions: \<open>None\<close> when the condition is already reported.\<close>

fun condition_loop ::
    "string \<Rightarrow> string \<Rightarrow> int \<Rightarrow> condition list \<Rightarrow> condition list \<Rightarrow> string \<Rightarrow> (condition list \<times> string) option" where
  "condition_loop status reason generation [] conditions since = Some (conditions, since)"
| "condition_loop status reason generation (c # old) conditions since =
     (if cond_Type c \<noteq> ''Ready'' then condition_loop status reason generation old (conditions @ [c]) since
      else if cond_Status c = status \<and> cond_Reason c = reason \<and> cond_ObservedGeneration c = generation then None
      else condition_loop status reason generation old conditions
        (if cond_Status c = status then cond_LastTransitionTime c else since))"

definition condition_status :: "unstructured \<Rightarrow> bool \<Rightarrow> string \<Rightarrow> string \<Rightarrow> configuration_status option" where
  "condition_status current ready reason now =
     (let status = (if ready then ''True'' else ''False'');
          generation = om_Generation (un_Meta current) in
      map_option (\<lambda>(conditions, since).
          \<lparr>cs_ObservedGeneration = generation,
           cs_Conditions = conditions @ [\<lparr>cond_Type = ''Ready'', cond_Status = status, cond_Reason = reason,
             cond_Message = reason, cond_ObservedGeneration = generation, cond_LastTransitionTime = since\<rparr>]\<rparr>)
        (condition_loop status reason generation (cs_Conditions (un_Status current)) [] now))"

text \<open>\<open>condition\<close> reports readiness last, from its result and from what it found.\<close>

definition set_condition ::
    "('w, 'h) runtime \<Rightarrow> unstructured option \<Rightarrow> bool \<Rightarrow> string \<Rightarrow> 'w \<Rightarrow> err option \<times> 'w" where
  "set_condition r root ready reason w =
     (case root of
        None \<Rightarrow> (None, rt_Readiness r False w)
      | Some root \<Rightarrow>
          (case roots_Get r w of
             (Inl e, w) \<Rightarrow>
               if errors_Is e StatusNotFound then (None, rt_Readiness r False w) else (Some e, rt_Readiness r False w)
           | (Inr current, w) \<Rightarrow>
               if \<not> sameRootRevision (un_Meta current) (un_Meta root)
               then (Some ErrChanged_error, rt_Readiness r False w)
               else (case rt_Now r w of (now, w) \<Rightarrow>
                   (case condition_status current ready reason now of
                      None \<Rightarrow> (None, rt_Readiness r ready w)
                    | Some status \<Rightarrow>
                        (case roots_UpdateStatus r (current\<lparr>un_Status := status\<rparr>) w of
                           (e, w) \<Rightarrow> (e, rt_Readiness r (e = None \<and> ready) w))))))"

definition add_finalizer :: "unstructured \<Rightarrow> unstructured" where
  "add_finalizer u = u\<lparr>un_Meta := (un_Meta u)\<lparr>om_Finalizers := om_Finalizers (un_Meta u) @ [Finalizer]\<rparr>\<rparr>"

definition remove_finalizer :: "unstructured \<Rightarrow> unstructured" where
  "remove_finalizer u = u\<lparr>un_Meta := (un_Meta u)\<lparr>om_Finalizers := filter (\<lambda>f. f \<noteq> Finalizer) (om_Finalizers (un_Meta u))\<rparr>\<rparr>"

definition protect :: "('w, 'h) runtime \<Rightarrow> unstructured \<Rightarrow> 'w \<Rightarrow> err option \<times> 'w" where
  "protect r root w =
     (if om_DeletionTimestamp (un_Meta root) \<noteq> None then (Some ErrChanged_error, w)
      else if List.member (om_Finalizers (un_Meta root)) Finalizer then (None, w)
      else roots_Update r (add_finalizer root) w)"

definition finalize :: "('w, 'h) runtime \<Rightarrow> unstructured option \<Rightarrow> string \<Rightarrow> 'w \<Rightarrow> err option \<times> 'w" where
  "finalize r root uid w =
     (case root of
        None \<Rightarrow> (None, w)
      | Some _ \<Rightarrow>
          (case roots_Get r w of
             (Inl e, w) \<Rightarrow> if errors_Is e StatusNotFound then (None, w) else (Some e, w)
           | (Inr current, w) \<Rightarrow>
               if om_UID (un_Meta current) \<noteq> uid \<or> om_DeletionTimestamp (un_Meta current) = None
               then (Some ErrCheckpointOwnership_error, w)
               else roots_Update r (remove_finalizer current) w))"

section \<open>Cleanup\<close>

type_synonym ('w, 'h) pass = "'h runtime_state \<Rightarrow> 'w \<Rightarrow> err option \<times> 'h runtime_state \<times> 'w"

definition report :: "('w, 'h) runtime \<Rightarrow> unstructured option \<Rightarrow> bool \<Rightarrow> string \<Rightarrow> ('w, 'h) pass" where
  "report r root ready reason st w = (case set_condition r root ready reason w of (e, w) \<Rightarrow> (e, st, w))"

text \<open>The end of a cleanup: the finalizer goes, unless the object is already a successor's.\<close>

definition conclude_cleanup :: "('w, 'h) runtime \<Rightarrow> unstructured option \<Rightarrow> string \<Rightarrow> ('w, 'h) pass" where
  "conclude_cleanup r root uid st w =
     (if (case root of None \<Rightarrow> False | Some u \<Rightarrow> om_UID (un_Meta u) \<noteq> uid)
      then report r root False ''PreviousOwnershipRetained'' st w
      else case finalize r root uid w of
          (Some e, w) \<Rightarrow> (Some e, st, w)
        | (None, w) \<Rightarrow> report r root False ''CleanupComplete'' st w)"

text \<open>Starting a cleanup worker; \<open>Some\<close> result ends the pass.\<close>

definition begin_cleanup ::
    "('w, 'h) runtime \<Rightarrow> unstructured option \<Rightarrow> snapshot \<Rightarrow> 'h runtime_state \<Rightarrow> 'w
     \<Rightarrow> err option option \<times> 'h runtime_state \<times> 'w" where
  "begin_cleanup r root s st w =
     (case Compile (lib_validators (rt_lib r)) s of
        Inl e \<Rightarrow> (Some (Some e), st, w)
      | Inr resolved \<Rightarrow>
          (case ResolveCleanupSecrets (lib_validators (rt_lib r)) (lib_sha256 (rt_lib r)) (rt_Secrets r) resolved w of
             (Inl _, w) \<Rightarrow>
               (case report r root False ''CleanupCredentialsUnavailable'' st w of (e, st, w) \<Rightarrow> (Some e, st, w))
           | (Inr credentials, w) \<Rightarrow>
               (case wk_New (rt_Workers r) resolved credentials CleanupMode w of
                  (Inl _, w) \<Rightarrow>
                    (case report r root False ''CleanupCredentialsInvalid'' st w of (e, st, w) \<Rightarrow> (Some e, st, w))
                | (Inr h, w) \<Rightarrow>
                    (case start r h ''cleanup'' (om_UID (rs_ObjectMeta (sn_ScaleSet s))) CleanupMode st
                            (wk_Drain (rt_Workers r) h w) of
                       (st, w) \<Rightarrow> (None, st, w)))))"

definition poll_cleanup :: "('w, 'h) runtime \<Rightarrow> unstructured option \<Rightarrow> string \<Rightarrow> 'h active_worker \<Rightarrow> ('w, 'h) pass" where
  "poll_cleanup r root uid a st w =
     (case wk_Done (rt_Workers r) (aw_worker a) w of
        (None, w) \<Rightarrow> report r root False ''CleanupPending'' st w
      | (Some (Some _), w) \<Rightarrow>
          (case stop r st w of (_, st, w) \<Rightarrow> report r root False ''CleanupPending'' st w)
      | (Some None, w) \<Rightarrow>
          (case wk_Drained (rt_Workers r) (aw_worker a) w of
             (Inr True, w) \<Rightarrow>
               (case stop r st w of
                  (Some e, st, w) \<Rightarrow> (Some e, st, w)
                | (None, st, w) \<Rightarrow> conclude_cleanup r root uid (st\<lparr>rs_completedUID := uid\<rparr>) w)
           | (_, w) \<Rightarrow> report r root False ''CleanupPending'' st w))"

definition reconcileCleanup :: "('w, 'h) runtime \<Rightarrow> unstructured option \<Rightarrow> snapshot \<Rightarrow> ('w, 'h) pass" where
  "reconcileCleanup r root s st w =
     (let uid = om_UID (rs_ObjectMeta (sn_ScaleSet s)) in
      if rs_completedUID st = uid then conclude_cleanup r root uid st w
      else case (case rs_worker st of
            Some a \<Rightarrow> if aw_mode a \<noteq> CleanupMode \<or> aw_uid a \<noteq> uid then stop r st w else (None, st, w)
          | None \<Rightarrow> (None, st, w)) of
        (Some e, st, w) \<Rightarrow> (Some e, st, w)
      | (None, st, w) \<Rightarrow>
          (case (if rs_worker st = None then begin_cleanup r root s st w else (None, st, w)) of
             (Some result, st, w) \<Rightarrow> (result, st, w)
           | (None, st, w) \<Rightarrow>
               (case rs_worker st of
                  None \<Rightarrow> (None, st, w)
                | Some a \<Rightarrow> poll_cleanup r root uid a st w)))"

section \<open>Recovery\<close>

definition begin_recovery :: "('w, 'h) runtime \<Rightarrow> unstructured option \<Rightarrow> snapshot \<Rightarrow> ('w, 'h) pass" where
  "begin_recovery r root s st w =
     (case Compile (lib_validators (rt_lib r)) s of
        Inl _ \<Rightarrow> report r root False ''CheckpointInvalid'' st w
      | Inr resolved \<Rightarrow>
          (case ResolveCleanupSecrets (lib_validators (rt_lib r)) (lib_sha256 (rt_lib r)) (rt_Secrets r) resolved w of
             (Inl _, w) \<Rightarrow> report r root False ''RecoveryCredentialsUnavailable'' st w
           | (Inr credentials, w) \<Rightarrow>
               (case wk_New (rt_Workers r) (resolved\<lparr>rv_Suspend := True\<rparr>) credentials RecoveryMode w of
                  (Inl _, w) \<Rightarrow> report r root False ''RecoveryCredentialsInvalid'' st w
                | (Inr h, w) \<Rightarrow>
                    (case start r h ''recovery'' (om_UID (rs_ObjectMeta (sn_ScaleSet s))) RecoveryMode st
                            (wk_PauseAdmissions (rt_Workers r) h True w) of
                       (st, w) \<Rightarrow> report r root False ''ConfigurationUnavailable'' st w))))"

definition recoverAccepted :: "('w, 'h) runtime \<Rightarrow> unstructured option \<Rightarrow> snapshot \<Rightarrow> ('w, 'h) pass" where
  "recoverAccepted r root s st w =
     (case rs_worker st of
        None \<Rightarrow> begin_recovery r root s st w
      | Some a \<Rightarrow>
          (case wk_Done (rt_Workers r) (aw_worker a) w of
             (None, w) \<Rightarrow>
               report r root False ''ConfigurationUnavailable'' st
                 (wk_PauseAdmissions (rt_Workers r) (aw_worker a) True w)
           | (Some _, w) \<Rightarrow>
               (case stop r st w of
                  (Some e, st, w) \<Rightarrow> (Some e, st, w)
                | (None, st, w) \<Rightarrow> begin_recovery r root s st w)))"

section \<open>Reconcile\<close>

text \<open>Handing over to a new session worker: checkpoint, observe, protect, stop the old one, start.\<close>

definition hand_over ::
    "('w, 'h) runtime \<Rightarrow> unstructured \<Rightarrow> (err + snapshot) \<Rightarrow> loaded \<Rightarrow> 'h \<Rightarrow> ('w, 'h) pass" where
  "hand_over r root checkpoint l h st w =
     (case checkpoint_Save (rt_lib r) (runtime_checkpoints r) (ld_Snapshot l) w of
        (Some e, w) \<Rightarrow>
          (case discard r h st w of (st, w) \<Rightarrow>
           let w = pause_worker r st w in
           (case (case checkpoint of
                    Inr s \<Rightarrow>
                      if errors_Is e ErrBindingChange \<and> List.member (om_Finalizers (un_Meta root)) Finalizer
                      then recoverAccepted r (Some root) s st w else (None, st, w)
                  | Inl _ \<Rightarrow> (None, st, w)) of
              (Some e, st, w) \<Rightarrow> (Some e, st, w)
            | (None, st, w) \<Rightarrow> report r (Some root) False ''BindingRejected'' st w))
      | (None, w) \<Rightarrow>
          (case checkpoint_Read (rt_lib r) (runtime_checkpoints r) w of
             (Inl _, w) \<Rightarrow> (case discard r h st w of (st, w) \<Rightarrow> (Some ErrChanged_error, st, w))
           | (Inr observed, w) \<Rightarrow>
               if om_UID (rs_ObjectMeta (sn_ScaleSet observed)) \<noteq> om_UID (rs_ObjectMeta (sn_ScaleSet (ld_Snapshot l)))
               then (case discard r h st w of (st, w) \<Rightarrow> (Some ErrChanged_error, st, w))
               else (case roots_Get r w of
                   (Inl _, w) \<Rightarrow> (case discard r h st w of (st, w) \<Rightarrow> (Some ErrChanged_error, st, w))
                 | (Inr current, w) \<Rightarrow>
                     if \<not> sameRootRevision (un_Meta current) (rs_ObjectMeta (sn_ScaleSet (ld_Snapshot l)))
                     then (case discard r h st w of (st, w) \<Rightarrow> (Some ErrChanged_error, st, w))
                     else (case protect r current w of
                         (Some e, w) \<Rightarrow> (case discard r h st w of (st, w) \<Rightarrow> (Some e, st, w))
                       | (None, w) \<Rightarrow>
                           (case stop r st w of
                              (Some e, st, w) \<Rightarrow> (case discard r h st w of (st, w) \<Rightarrow> (Some e, st, w))
                            | (None, st, w) \<Rightarrow>
                                (case start r h (Loaded_Key (lib_key_hash (rt_lib r)) l) (om_UID (un_Meta current))
                                        SessionMode st w of
                                   (st, w) \<Rightarrow> report r (Some current) False ''WaitingForSession'' st w))))))"

definition keep_worker :: "('w, 'h) runtime \<Rightarrow> unstructured \<Rightarrow> loaded \<Rightarrow> 'h active_worker \<Rightarrow> ('w, 'h) pass" where
  "keep_worker r root l a st w =
     (let suspend = rv_Suspend (ld_Resolved l);
          w = wk_PauseAdmissions (rt_Workers r) (aw_worker a) suspend w in
      case wk_Ready (rt_Workers r) (aw_worker a) w of (ready, w) \<Rightarrow>
        let ready = (ready \<and> \<not> suspend) in
        report r (Some root) ready
          (if ready then ''Reconciled'' else if suspend then ''Suspended'' else ''WaitingForSession'') st w)"

definition serve :: "('w, 'h) runtime \<Rightarrow> unstructured \<Rightarrow> (err + snapshot) \<Rightarrow> loaded \<Rightarrow> ('w, 'h) pass" where
  "serve r root checkpoint l st w =
     (case (case rs_worker st of
            None \<Rightarrow> (None, st, w)
          | Some a \<Rightarrow>
              (case wk_Done (rt_Workers r) (aw_worker a) w of
                 (None, w) \<Rightarrow> (None, st, w)
               | (Some _, w) \<Rightarrow> stop r st w)) of
        (Some e, st, w) \<Rightarrow> (Some e, st, w)
      | (None, st, w) \<Rightarrow>
          (case (case rs_worker st of None \<Rightarrow> None
               | Some a \<Rightarrow> if aw_key a = Loaded_Key (lib_key_hash (rt_lib r)) l then Some a else None) of
             Some a \<Rightarrow> keep_worker r root l a st w
           | None \<Rightarrow>
               (case wk_New (rt_Workers r) (ld_Resolved l) (ld_Credentials l) SessionMode w of
                  (Inl _, w) \<Rightarrow> report r (Some root) False ''CredentialsInvalid'' st (pause_worker r st w)
                | (Inr h, w) \<Rightarrow> hand_over r root checkpoint l h st w)))"

definition reconcile_live :: "('w, 'h) runtime \<Rightarrow> unstructured \<Rightarrow> (err + snapshot) \<Rightarrow> ('w, 'h) pass" where
  "reconcile_live r root checkpoint st w =
     (case Config_Load (lib_validators (rt_lib r)) (lib_sha256 (rt_lib r)) (KubernetesReader (rt_Dynamic r)) (rt_Secrets r)
             (rt_Namespace r) (rt_Name r) w of
        (Inl _, w) \<Rightarrow>
          let w = pause r st w in
          (case checkpoint of
             Inr s \<Rightarrow>
               if List.member (om_Finalizers (un_Meta root)) Finalizer then recoverAccepted r (Some root) s st w
               else report r (Some root) False ''ConfigurationUnavailable'' st w
           | Inl _ \<Rightarrow> report r (Some root) False ''ConfigurationUnavailable'' st w)
      | (Inr l, w) \<Rightarrow>
          if \<not> sameRootRevision (un_Meta root) (rs_ObjectMeta (sn_ScaleSet (ld_Snapshot l)))
          then (Some ErrChanged_error, st, pause r st w)
          else serve r root checkpoint l st w)"

text \<open>The decision between serving, cleaning up and refusing, from the object and the checkpoint.\<close>

definition is_deleting :: "unstructured option \<Rightarrow> (err + snapshot) \<Rightarrow> bool" where
  "is_deleting root checkpoint \<longleftrightarrow>
     (case root of
        None \<Rightarrow> True
      | Some u \<Rightarrow> om_DeletionTimestamp (un_Meta u) \<noteq> None
          \<or> (case checkpoint of Inl _ \<Rightarrow> False
             | Inr s \<Rightarrow> om_UID (un_Meta u) \<noteq> om_UID (rs_ObjectMeta (sn_ScaleSet s))))"

definition reconcile_checked :: "('w, 'h) runtime \<Rightarrow> unstructured option \<Rightarrow> (err + snapshot) \<Rightarrow> ('w, 'h) pass" where
  "reconcile_checked r root checkpoint st w =
     (case checkpoint of
        Inl e \<Rightarrow>
          if \<not> errors_Is e StatusNotFound then report r root False ''CheckpointInvalid'' st (pause r st w)
          else if rs_worker st \<noteq> None
                  \<or> (case root of None \<Rightarrow> False | Some u \<Rightarrow> List.member (om_Finalizers (un_Meta u)) Finalizer)
          then report r root False ''CheckpointUnavailable'' st (pause r st w)
          else (case root of
              None \<Rightarrow> report r root False ''CheckpointUnavailable'' st w
            | Some u \<Rightarrow>
                if is_deleting root checkpoint then report r root False ''CheckpointUnavailable'' st w
                else reconcile_live r u checkpoint st w)
      | Inr s \<Rightarrow>
          (case root of
             None \<Rightarrow> reconcileCleanup r root s st w
           | Some u \<Rightarrow>
               if is_deleting root checkpoint then reconcileCleanup r root s st w
               else reconcile_live r u checkpoint st w))"

definition Reconcile :: "('w, 'h) runtime \<Rightarrow> ('w, 'h) pass" where
  "Reconcile r st w =
     (case retryCleanups r st w of
        (Some e, st, w) \<Rightarrow> (Some e, st, pause r st w)
      | (None, st, w) \<Rightarrow>
          (case (case roots_Get r w of
                   (Inl e, w) \<Rightarrow> (if errors_Is e StatusNotFound then Inr None else Inl e, w)
                 | (Inr u, w) \<Rightarrow> (Inr (Some u), w)) of
             (Inl e, w) \<Rightarrow> (Some e, st, w)
           | (Inr root, w) \<Rightarrow>
               (case checkpoint_Read (rt_lib r) (runtime_checkpoints r) w of
                  (checkpoint, w) \<Rightarrow> reconcile_checked r root checkpoint st w)))"

section \<open>Run\<close>

text \<open>
  The callback of \<open>Run\<close>. \<open>wait\<close> is the \<open>select\<close> between the leader's context and the ticker: the
  context's error, or \<open>None\<close> for a tick. \<open>run_loop\<close> is \<open>None\<close> when the loop never ends.
\<close>

definition runtime_zero :: "'h runtime_state" where
  "runtime_zero = \<lparr>rs_worker = None, rs_completedUID = [], rs_pendingCleanups = []\<rparr>"

definition run_pass :: "('w, 'h) runtime \<Rightarrow> 'h runtime_state \<Rightarrow> 'w \<Rightarrow> 'h runtime_state \<times> 'w" where
  "run_pass r st w =
     (case Reconcile r st w of
        (None, st, w) \<Rightarrow> (st, w)
      | (Some _, st, w) \<Rightarrow> (st, pause r st w))"

partial_function (option) run_loop ::
    "('w, 'h) runtime \<Rightarrow> ('w \<Rightarrow> err option \<times> 'w) \<Rightarrow> 'h runtime_state \<Rightarrow> 'w \<Rightarrow> (err \<times> 'h runtime_state \<times> 'w) option" where
  "run_loop r wait st w =
     (case run_pass r st w of (st, w) \<Rightarrow>
      case wait w of
        (Some e, w) \<Rightarrow> Some (e, st, w)
      | (None, w) \<Rightarrow> run_loop r wait st w)"

definition run_deferred :: "('w, 'h) runtime \<Rightarrow> err \<Rightarrow> 'h runtime_state \<Rightarrow> 'w \<Rightarrow> err option \<times> 'h runtime_state \<times> 'w" where
  "run_deferred r result st w =
     (case stop r st w of (stopErr, st, w) \<Rightarrow>
      case retryCleanups r st w of (retryErr, st, w) \<Rightarrow>
        (case errors_Join (opt_list stopErr @ opt_list retryErr) of
           None \<Rightarrow> Some result
         | Some cleanupErr \<Rightarrow> errors_Join [result, cleanupErr], st, w))"

definition Runtime_Run ::
    "('w, 'h) runtime \<Rightarrow> ('w \<Rightarrow> err option \<times> 'w) \<Rightarrow> 'w \<Rightarrow> (err option \<times> 'h runtime_state \<times> 'w) option" where
  "Runtime_Run r wait w = map_option (\<lambda>(e, st, w). run_deferred r e st w) (run_loop r wait runtime_zero w)"

section \<open>Checks\<close>

definition CheckConfiguration :: "('w, 'h) runtime \<Rightarrow> 'w \<Rightarrow> err option \<times> 'w" where
  "CheckConfiguration r w =
     (case Config_Load (lib_validators (rt_lib r)) (lib_sha256 (rt_lib r)) (KubernetesReader (rt_Dynamic r)) (rt_Secrets r)
             (rt_Namespace r) (rt_Name r) w of
        (Inl e, w) \<Rightarrow> (Some e, w)
      | (Inr _, w) \<Rightarrow> (None, w))"

definition rootAbsent :: "('w, 'h) runtime \<Rightarrow> 'w \<Rightarrow> err option \<times> 'w" where
  "rootAbsent r w =
     (case roots_Get r w of
        (Inl e, w) \<Rightarrow> if errors_Is e StatusNotFound then (None, w) else (Some e, w)
      | (Inr _, w) \<Rightarrow>
          (Some (errors_New ''delete the RunnerScaleSet and wait for its cleanup finalizer before uninstalling the controller''), w))"

text \<open>
  \<open>operator.New\<close> as far as \<open>Drained\<close> uses it: the operator \<open>base\<close> holds the cluster's clients, the
  configuration gives the namespace, the name and the owner of the records.
\<close>

definition operator_New :: "'w operator \<Rightarrow> config \<Rightarrow> 'w operator" where
  "operator_New base c = base\<lparr>op_Config := c, op_Store := (op_Store base)\<lparr>k_Owner := cfg_Name c\<rparr>\<rparr>"

definition uninstall_state :: "('w, 'h) runtime \<Rightarrow> 'w operator \<Rightarrow> 'w \<Rightarrow> err option \<times> 'w" where
  "uninstall_state r base w =
     (case checkpoint_Read (rt_lib r) (runtime_checkpoints r) w of
        (Inl e, w) \<Rightarrow>
          if errors_Is e StatusNotFound
          then (case cks_List (rt_Maps r) [(''runnerscout/owner'', rt_Name r)] w of
              (Inl e, w) \<Rightarrow> (Some e, w)
            | (Inr n, w) \<Rightarrow>
                (if n \<noteq> 0
                 then Some (errors_New ''configuration checkpoint missing while owned state remains; restore cleanup ownership before uninstall'')
                 else None, w))
          else (Some e, w)
      | (Inr s, w) \<Rightarrow>
          (case Compile (lib_validators (rt_lib r)) s of
             Inl e \<Rightarrow> (Some e, w)
           | Inr resolved \<Rightarrow>
               (case Drained (operator_New base (rv_Config resolved)) w of
                  (Inl e, w) \<Rightarrow> (Some e, w)
                | (Inr drained, w) \<Rightarrow>
                    (if drained then None
                     else Some (errors_New ''cloud cleanup is unresolved; keep the controller running''), w))))"

definition CheckUninstall :: "('w, 'h) runtime \<Rightarrow> 'w operator \<Rightarrow> 'w \<Rightarrow> err option \<times> 'w" where
  "CheckUninstall r base w =
     (case rootAbsent r w of
        (Some e, w) \<Rightarrow> (Some e, w)
      | (None, w) \<Rightarrow>
          (case uninstall_state r base w of
             (Some e, w) \<Rightarrow> (Some e, w)
           | (None, w) \<Rightarrow> rootAbsent r w))"

end
