(* ===== verification/Config_Runtime_Monitor.thy ===== *)
theory Config_Runtime_Monitor
  imports Config_Runtime
begin

text \<open>
  The runtime watched from outside. The world keeps a history of the runtime's calls, and a monitor reads
  that history: it accepts a worker's start only when no other worker is live and, for a session, only
  when the accepted configuration was observed in the checkpoint and the finalizer is in place; it
  accepts the removal of the finalizer only when the cleanup of that very scale set was confirmed. The
  locale \<open>recorded_runtime\<close> is the environment with such a history; inside it every step of a pass is
  shown to keep the monitor and the runtime's state in agreement.
\<close>

section \<open>Histories\<close>

datatype 'h rt_event =
    RtCheckpoint checkpoint_map
  | RtRoot unstructured
  | RtRootUpdated unstructured
  | RtStarted 'h worker_mode
  | RtCancelled 'h
  | RtCleanup 'h bool
  | RtDrained 'h bool

definition root_events :: "string \<times> string \<times> string \<Rightarrow> err + unstructured \<Rightarrow> 'h rt_event list" where
  "root_events gvr x = (case x of Inr u \<Rightarrow> if gvr = scale_sets then [RtRoot u] else [] | Inl _ \<Rightarrow> [])"

definition checkpoint_events :: "err + checkpoint_map \<Rightarrow> 'h rt_event list" where
  "checkpoint_events x = (case x of Inr cm \<Rightarrow> [RtCheckpoint cm] | Inl _ \<Rightarrow> [])"

text \<open>
  The runtime's environment, with the calls of the history noted beside the world: a read of the scale
  set or of the checkpoint that succeeded, an update of the scale set that succeeded, and the start,
  the cancellation, the cleanup and the question for its drained state of a worker.
\<close>

definition unnoted :: "('w \<Rightarrow> 'a \<times> 'w) \<Rightarrow> 'w \<times> 'e list \<Rightarrow> 'a \<times> 'w \<times> 'e list" where
  "unnoted f wl = (case f (fst wl) of (x, w) \<Rightarrow> (x, w, snd wl))"

definition noting :: "('a \<Rightarrow> 'e list) \<Rightarrow> ('w \<Rightarrow> 'a \<times> 'w) \<Rightarrow> 'w \<times> 'e list \<Rightarrow> 'a \<times> 'w \<times> 'e list" where
  "noting ev f wl = (case f (fst wl) of (x, w) \<Rightarrow> (x, w, snd wl @ ev x))"

definition recording_workers :: "('w, 'h) worker_ops \<Rightarrow> ('w \<times> 'h rt_event list, 'h) worker_ops" where
  "recording_workers ops =
     \<lparr>wk_New = (\<lambda>x c m. unnoted (wk_New ops x c m)),
      wk_Run = (\<lambda>h m (w, l). (wk_Run ops h m w, l @ [RtStarted h m])),
      wk_Done = (\<lambda>h. unnoted (wk_Done ops h)),
      wk_Cancel = (\<lambda>h (w, l). (wk_Cancel ops h w, l @ [RtCancelled h])),
      wk_Cleanup = (\<lambda>h. noting (\<lambda>e. [RtCleanup h (e = None)]) (wk_Cleanup ops h)),
      wk_Ready = (\<lambda>h. unnoted (wk_Ready ops h)),
      wk_PauseAdmissions = (\<lambda>h b (w, l). (wk_PauseAdmissions ops h b w, l)),
      wk_Drain = (\<lambda>h (w, l). (wk_Drain ops h w, l)),
      wk_Drained = (\<lambda>h. noting (\<lambda>x. [RtDrained h (x = Inr True)]) (wk_Drained ops h))\<rparr>"

definition recording_dynamic :: "'w dynamic_ops \<Rightarrow> ('w \<times> 'h rt_event list) dynamic_ops" where
  "recording_dynamic d =
     \<lparr>dy_Get = (\<lambda>gvr ns n. noting (root_events gvr) (dy_Get d gvr ns n)),
      dy_Update = (\<lambda>gvr ns u. noting (\<lambda>e. if e = None then [RtRootUpdated u] else []) (dy_Update d gvr ns u)),
      dy_UpdateStatus = (\<lambda>gvr ns u. unnoted (dy_UpdateStatus d gvr ns u))\<rparr>"

definition recording_maps :: "'w checkpoint_maps \<Rightarrow> ('w \<times> 'h rt_event list) checkpoint_maps" where
  "recording_maps c =
     \<lparr>cks_Get = (\<lambda>n. noting checkpoint_events (cks_Get c n)),
      cks_Create = (\<lambda>cm. unnoted (cks_Create c cm)),
      cks_Update = (\<lambda>cm. unnoted (cks_Update c cm)),
      cks_Delete = (\<lambda>n uid version. unnoted (cks_Delete c n uid version)),
      cks_List = (\<lambda>s. unnoted (cks_List c s))\<rparr>"

definition recording :: "('w, 'h) runtime \<Rightarrow> ('w \<times> 'h rt_event list, 'h) runtime" where
  "recording r =
     \<lparr>rt_Namespace = rt_Namespace r, rt_Name = rt_Name r, rt_Maps = recording_maps (rt_Maps r),
      rt_Secrets = \<lparr>se_Get = (\<lambda>n. unnoted (se_Get (rt_Secrets r) n))\<rparr>,
      rt_Dynamic = recording_dynamic (rt_Dynamic r),
      rt_Readiness = (\<lambda>b (w, l). (rt_Readiness r b w, l)),
      rt_Workers = recording_workers (rt_Workers r),
      rt_Now = unnoted (rt_Now r), rt_lib = rt_lib r\<rparr>"

section \<open>The monitor\<close>

datatype 'h slot = Vacant | Occupied 'h worker_mode string bool

record 'h monitor =
  mo_slot :: "'h slot"
  mo_checkpoint :: "snapshot option"
  mo_root :: "unstructured option"
  mo_protected :: bool
  mo_drained :: "string set"

definition monitor_init :: "'h monitor" where
  "monitor_init = \<lparr>mo_slot = Vacant, mo_checkpoint = None, mo_root = None, mo_protected = False, mo_drained = {}\<rparr>"

definition checkpoint_uid :: "'h monitor \<Rightarrow> string" where
  "checkpoint_uid m = (case mo_checkpoint m of None \<Rightarrow> [] | Some s \<Rightarrow> om_UID (rs_ObjectMeta (sn_ScaleSet s)))"

text \<open>A session may start: the checkpoint last read and the live object are of one scale set.\<close>

definition session_allowed :: "'h monitor \<Rightarrow> bool" where
  "session_allowed m \<longleftrightarrow> mo_protected m \<and> (\<exists>s u. mo_checkpoint m = Some s \<and> mo_root m = Some u
     \<and> om_UID (un_Meta u) = om_UID (rs_ObjectMeta (sn_ScaleSet s)) \<and> om_DeletionTimestamp (un_Meta u) = None)"

fun monitor_step :: "libraries \<Rightarrow> 'w checkpoints \<Rightarrow> 'h monitor \<Rightarrow> 'h rt_event \<Rightarrow> 'h monitor option" where
  "monitor_step lib c m (RtCheckpoint cm) =
     Some (m\<lparr>mo_checkpoint := (case checkpoint_decode lib c cm of Inl _ \<Rightarrow> None | Inr s \<Rightarrow> Some s)\<rparr>)"
| "monitor_step lib c m (RtRoot u) =
     Some (m\<lparr>mo_root := Some u, mo_protected := (Finalizer \<in> set (om_Finalizers (un_Meta u)))\<rparr>)"
| "monitor_step lib c m (RtRootUpdated u) =
     (if Finalizer \<in> set (om_Finalizers (un_Meta u))
      then if (\<exists>v. mo_root m = Some v \<and> om_UID (un_Meta v) = om_UID (un_Meta u)) then Some (m\<lparr>mo_protected := True\<rparr>) else None
      else if om_UID (un_Meta u) \<in> mo_drained m \<and> om_DeletionTimestamp (un_Meta u) \<noteq> None
      then Some (m\<lparr>mo_protected := False\<rparr>) else None)"
| "monitor_step lib c m (RtStarted h mode) =
     (if mo_slot m = Vacant \<and> (mode = SessionMode \<longrightarrow> session_allowed m) \<and> (mode = CleanupMode \<longrightarrow> mo_checkpoint m \<noteq> None)
      then Some (m\<lparr>mo_slot := Occupied h mode (checkpoint_uid m) False\<rparr>) else None)"
| "monitor_step lib c m (RtCancelled h) =
     (case mo_slot m of
        Vacant \<Rightarrow> None
      | Occupied h' mode uid _ \<Rightarrow> if h' = h then Some (m\<lparr>mo_slot := Occupied h mode uid True\<rparr>) else None)"
| "monitor_step lib c m (RtCleanup h b) =
     (case mo_slot m of
        Occupied h' mode uid True \<Rightarrow>
          if h' = h then Some (m\<lparr>mo_slot := (if b then Vacant else Occupied h mode uid False)\<rparr>) else Some m
      | _ \<Rightarrow> Some m)"
| "monitor_step lib c m (RtDrained h b) =
     (case mo_slot m of
        Occupied h' CleanupMode uid _ \<Rightarrow>
          Some (if h' = h \<and> b then m\<lparr>mo_drained := insert uid (mo_drained m)\<rparr> else m)
      | _ \<Rightarrow> Some m)"

fun monitor_run :: "libraries \<Rightarrow> 'w checkpoints \<Rightarrow> 'h monitor \<Rightarrow> 'h rt_event list \<Rightarrow> 'h monitor option" where
  "monitor_run lib c m [] = Some m"
| "monitor_run lib c m (e # es) = (case monitor_step lib c m e of None \<Rightarrow> None | Some m \<Rightarrow> monitor_run lib c m es)"

lemma monitor_run_append:
  "monitor_run lib c m (es @ es') = (case monitor_run lib c m es of None \<Rightarrow> None | Some m \<Rightarrow> monitor_run lib c m es')"
  by (induction es arbitrary: m) (auto split: option.splits)

text \<open>The runtime's state agrees with what was seen.\<close>

definition agrees :: "'h runtime_state \<Rightarrow> 'h monitor \<Rightarrow> bool" where
  "agrees st m \<longleftrightarrow>
     (case rs_worker st of
        None \<Rightarrow> mo_slot m = Vacant
      | Some a \<Rightarrow> \<exists>uid. mo_slot m = Occupied (aw_worker a) (aw_mode a) uid False \<and> (aw_mode a = CleanupMode \<longrightarrow> uid = aw_uid a))
     \<and> (rs_completedUID st = [] \<or> rs_completedUID st \<in> mo_drained m)"

section \<open>Loading keeps what reads keep\<close>

definition kept :: "('w \<Rightarrow> bool) \<Rightarrow> ('w \<Rightarrow> 'a \<times> 'w) \<Rightarrow> bool" where
  "kept I f \<longleftrightarrow> (\<forall>w. I w \<longrightarrow> I (snd (f w)))"

named_theorems kept_intros

lemma keptD: "kept I f \<Longrightarrow> I w \<Longrightarrow> I (snd (f w))"
  by (simp add: kept_def)

lemma kept_return [kept_intros]: "kept I (Pair x)" "kept I (\<lambda>w. (x, w))"
  by (simp_all add: kept_def)

lemma kept_attempt [kept_intros]:
  assumes "kept I f" "\<And>x. kept I (k x)"
  shows "kept I (\<lambda>w. attempt (f w) k)"
  using assms by (force simp: kept_def attempt_def split: prod.splits sum.splits dest: spec)

lemma kept_case_prod [kept_intros]: "(\<And>a b. x = (a, b) \<Longrightarrow> kept I (k a b)) \<Longrightarrow> kept I (case x of (a, b) \<Rightarrow> k a b)"
  by (cases x) simp

lemma kept_if [kept_intros]: "(b \<Longrightarrow> kept I f) \<Longrightarrow> (\<not> b \<Longrightarrow> kept I g) \<Longrightarrow> kept I (\<lambda>w. if b then f w else g w)"
  by (cases b) simp_all

lemma kept_option [kept_intros]:
  "(x = None \<Longrightarrow> kept I f) \<Longrightarrow> (\<And>y. x = Some y \<Longrightarrow> kept I (g y)) \<Longrightarrow> kept I (\<lambda>w. case x of None \<Rightarrow> f w | Some y \<Rightarrow> g y w)"
  by (cases x) simp_all

lemma kept_sum [kept_intros]:
  "(\<And>e. x = Inl e \<Longrightarrow> kept I (f e)) \<Longrightarrow> (\<And>y. x = Inr y \<Longrightarrow> kept I (g y)) \<Longrightarrow> kept I (\<lambda>w. case x of Inl e \<Rightarrow> f e w | Inr y \<Rightarrow> g y w)"
  by (cases x) simp_all

lemma kept_call_sum [kept_intros]:
  assumes "kept I f" "\<And>e. kept I (g e)" "\<And>y. kept I (h y)"
  shows "kept I (\<lambda>w. case f w of (Inl e, w) \<Rightarrow> g e w | (Inr y, w) \<Rightarrow> h y w)"
  using assms by (force simp: kept_def split: prod.splits sum.splits)

lemma kept_call_option [kept_intros]:
  assumes "kept I f" "\<And>e. kept I (g e)" "kept I h"
  shows "kept I (\<lambda>w. case f w of (Some e, w) \<Rightarrow> g e w | (None, w) \<Rightarrow> h w)"
  using assms by (force simp: kept_def split: prod.splits option.splits)

lemma read_get_kept:
  assumes "\<And>resource n. kept I (rd_Get reader resource ns n)"
  shows "kept I (read_get reader ns resource kind n content revisions)"
  unfolding read_get_def [abs_def] by (intro kept_intros assms)

lemma read_providers_kept:
  assumes "\<And>resource n. kept I (rd_Get reader resource ns n)"
  shows "kept I (read_providers reader ns refs providers revisions)"
proof (induction refs arbitrary: providers revisions)
  case (Cons x xs)
  show ?case
    unfolding read_providers.simps [abs_def] by (intro kept_intros read_get_kept assms Cons.IH)
qed (simp add: kept_def)

lemma Recheck_kept:
  assumes "\<And>resource n. kept I (rd_Get reader resource ns n)"
  shows "kept I (Recheck reader ns revisions)"
proof (induction revisions)
  case (Cons x xs)
  show ?case
    unfolding Recheck.simps [abs_def] by (intro kept_intros assms Cons.IH)
qed (simp add: kept_def)

lemma read_collect_kept:
  assumes "\<And>resource n. kept I (rd_Get reader resource ns n)"
  shows "kept I (read_collect reader ns n)"
  unfolding read_collect_def [abs_def] read_optional_def
  by (intro kept_intros read_get_kept read_providers_kept assms)

lemma Read_kept:
  assumes "\<And>resource n. kept I (rd_Get reader resource ns n)"
  shows "kept I (Read v reader ns n)"
  unfolding Read_def [abs_def] by (intro kept_intros read_collect_kept Recheck_kept assms)

lemma read_secret_kept:
  assumes "\<And>n. kept I (se_Get client n)"
  shows "kept I (read_secret v client ns ref objects)"
  unfolding read_secret_def [abs_def] by (intro kept_intros assms)

lemma read_variables_kept:
  assumes "\<And>n. kept I (se_Get client n)"
  shows "kept I (read_variables v client ns kind refs acc objects)"
proof (induction refs arbitrary: acc objects)
  case (Cons x xs)
  show ?case
    by (cases x) (simp only: read_variables.simps [abs_def], intro kept_intros read_secret_kept assms Cons.IH)
qed (simp add: kept_def)

lemma read_credentials_kept:
  assumes "\<And>n. kept I (se_Get client n)"
  shows "kept I (read_credentials v client c refs acc objects)"
proof (induction refs arbitrary: acc objects)
  case (Cons x xs)
  show ?case
    by (cases x) (simp only: read_credentials.simps [abs_def], intro kept_intros read_variables_kept assms Cons.IH)
qed (simp add: kept_def)

lemma recheck_secrets_kept:
  assumes "\<And>n. kept I (se_Get client n)"
  shows "kept I (recheck_secrets sha256 client objects revisions)"
proof (induction objects arbitrary: revisions)
  case (Cons x xs)
  show ?case
    by (cases x) (simp only: recheck_secrets.simps [abs_def], intro kept_intros assms Cons.IH)
qed (simp add: kept_def)

lemma resolveSecrets_kept:
  assumes "\<And>n. kept I (se_Get client n)"
  shows "kept I (resolveSecrets v sha256 client x github)"
  unfolding resolveSecrets_def [abs_def] read_github_def
  by (intro kept_intros read_secret_kept read_credentials_kept recheck_secrets_kept assms)

lemma Config_Load_kept:
  assumes "\<And>resource n. kept I (rd_Get reader resource ns n)" "\<And>n. kept I (se_Get client n)"
  shows "kept I (Config_Load v sha256 reader client ns n)"
  unfolding Config_Load_def [abs_def] ResolveSecrets_def
  by (intro kept_intros Read_kept resolveSecrets_kept Recheck_kept assms)

section \<open>Passes under the monitor\<close>

text \<open>What the monitor knows in a world, and that it agrees with the runtime's state.\<close>

definition watched :: "('w, 'h) runtime \<Rightarrow> ('w \<Rightarrow> 'h rt_event list) \<Rightarrow> 'w \<Rightarrow> 'h monitor option" where
  "watched r hist w = monitor_run (rt_lib r) (runtime_checkpoints r) monitor_init (hist w)"

definition holds ::
    "('w, 'h) runtime \<Rightarrow> ('w \<Rightarrow> 'h rt_event list) \<Rightarrow> ('h monitor \<Rightarrow> bool) \<Rightarrow> 'h runtime_state \<Rightarrow> 'w \<Rightarrow> bool" where
  "holds r hist P st w \<longleftrightarrow> (\<exists>m. watched r hist w = Some m \<and> agrees st m \<and> P m)"

definition checkpointed :: "snapshot \<Rightarrow> 'h monitor \<Rightarrow> bool" where
  "checkpointed s m \<longleftrightarrow> mo_checkpoint m = Some s"

definition guarded :: "snapshot \<Rightarrow> unstructured \<Rightarrow> 'h monitor \<Rightarrow> bool" where
  "guarded s u m \<longleftrightarrow> mo_checkpoint m = Some s \<and> mo_root m = Some u \<and> mo_protected m"

definition anything :: "'h monitor \<Rightarrow> bool" where
  "anything m = True"

definition slot_free :: "('h monitor \<Rightarrow> bool) \<Rightarrow> bool" where
  "slot_free P \<longleftrightarrow> (\<forall>m x. P m \<longrightarrow> P (m\<lparr>mo_slot := x\<rparr>))"

definition root_free :: "('h monitor \<Rightarrow> bool) \<Rightarrow> bool" where
  "root_free P \<longleftrightarrow> (\<forall>m u b. P m \<longrightarrow> P (m\<lparr>mo_root := u, mo_protected := b\<rparr>))"

lemma slot_free_rules [simp]: "slot_free (checkpointed s)" "slot_free (guarded s u)" "slot_free anything"
  by (simp_all add: slot_free_def checkpointed_def guarded_def anything_def)

lemma root_free_rules [simp]: "root_free (checkpointed s)" "root_free anything"
  by (simp_all add: root_free_def checkpointed_def anything_def)

lemma holds_weaken: "holds r hist P st w \<Longrightarrow> holds r hist anything st w"
  by (auto simp: holds_def anything_def)

definition ends :: "('w, 'h) runtime \<Rightarrow> ('w \<Rightarrow> 'h rt_event list) \<Rightarrow> 'a \<times> 'h runtime_state \<times> 'w \<Rightarrow> bool" where
  "ends r hist x = (case x of (_, st, w) \<Rightarrow> holds r hist anything st w)"

text \<open>The interface: an environment of the runtime whose worlds keep the history of its calls.\<close>

locale recorded_runtime =
  fixes r :: "('w, 'h) runtime" and hist :: "'w \<Rightarrow> 'h rt_event list"
  assumes new [simp]: "hist (snd (wk_New (rt_Workers r) x c m w)) = hist w"
    and run [simp]: "hist (wk_Run (rt_Workers r) h m w) = hist w @ [RtStarted h m]"
    and done' [simp]: "hist (snd (wk_Done (rt_Workers r) h w)) = hist w"
    and cancel [simp]: "hist (wk_Cancel (rt_Workers r) h w) = hist w @ [RtCancelled h]"
    and cleanup [simp]: "hist (snd (wk_Cleanup (rt_Workers r) h w)) = hist w @ [RtCleanup h (fst (wk_Cleanup (rt_Workers r) h w) = None)]"
    and ready [simp]: "hist (snd (wk_Ready (rt_Workers r) h w)) = hist w"
    and pauses [simp]: "hist (wk_PauseAdmissions (rt_Workers r) h b w) = hist w"
    and drain [simp]: "hist (wk_Drain (rt_Workers r) h w) = hist w"
    and drained [simp]: "hist (snd (wk_Drained (rt_Workers r) h w)) = hist w @ [RtDrained h (fst (wk_Drained (rt_Workers r) h w) = Inr True)]"
    and gets [simp]: "hist (snd (dy_Get (rt_Dynamic r) gvr ns n w)) = hist w @ root_events gvr (fst (dy_Get (rt_Dynamic r) gvr ns n w))"
    and updates [simp]: "hist (snd (dy_Update (rt_Dynamic r) gvr ns u w))
          = hist w @ (if fst (dy_Update (rt_Dynamic r) gvr ns u w) = None then [RtRootUpdated u] else [])"
    and statuses [simp]: "hist (snd (dy_UpdateStatus (rt_Dynamic r) gvr ns u w)) = hist w"
    and maps [simp]: "hist (snd (cks_Get (rt_Maps r) n w)) = hist w @ checkpoint_events (fst (cks_Get (rt_Maps r) n w))"
    and creates [simp]: "hist (snd (cks_Create (rt_Maps r) cm w)) = hist w"
    and replaces [simp]: "hist (snd (cks_Update (rt_Maps r) cm w)) = hist w"
    and secrets [simp]: "hist (snd (se_Get (rt_Secrets r) n w)) = hist w"
    and readiness [simp]: "hist (rt_Readiness r b w) = hist w"
    and now [simp]: "hist (snd (rt_Now r w)) = hist w"
begin

lemma watched_append:
  "hist w' = hist w @ es \<Longrightarrow> watched r hist w'
     = (case watched r hist w of None \<Rightarrow> None | Some m \<Rightarrow> monitor_run (rt_lib r) (runtime_checkpoints r) m es)"
  by (simp add: watched_def monitor_run_append)

lemma holds_same: "hist w' = hist w \<Longrightarrow> holds r hist P st w' = holds r hist P st w"
  by (simp add: holds_def watched_def)

lemma kept_quiet: "(\<And>w. hist (snd (f w)) = hist w) \<Longrightarrow> kept (holds r hist P st) f"
  by (simp add: kept_def holds_def watched_def)

lemma kept_calls:
  "kept (holds r hist P st) (cks_Create (rt_Maps r) cm)"
  "kept (holds r hist P st) (cks_Update (rt_Maps r) cm)"
  "kept (holds r hist P st) (se_Get (rt_Secrets r) n)"
  "kept (holds r hist P st) (wk_New (rt_Workers r) x c mode)"
  by (simp_all add: kept_quiet)

lemma holds_append:
  assumes "holds r hist P st w" "hist w' = hist w @ es"
    "\<And>m. agrees st m \<Longrightarrow> P m \<Longrightarrow> \<exists>m'. monitor_run (rt_lib r) (runtime_checkpoints r) m es = Some m' \<and> agrees st' m' \<and> P' m'"
  shows "holds r hist P' st' w'"
  using assms(1,3) by (auto simp: holds_def watched_append [OF assms(2)])

lemma roots_Get_holds:
  assumes "holds r hist P st w" "root_free P"
  shows "holds r hist P st (snd (dy_Get (rt_Dynamic r) gvr ns n w))"
  by (rule holds_append [OF assms(1) gets])
    (use assms(2) in \<open>auto simp: root_events_def agrees_def root_free_def split: sum.splits option.splits\<close>)

lemma roots_Get_seen:
  assumes "holds r hist (checkpointed s) st w" "roots_Get r w = (Inr u, w')"
  shows "holds r hist (\<lambda>m. checkpointed s m \<and> mo_root m = Some u
    \<and> mo_protected m = (Finalizer \<in> set (om_Finalizers (un_Meta u)))) st w'"
  using assms gets [of scale_sets "rt_Namespace r" "rt_Name r" w]
  by (intro holds_append [where es = "[RtRoot u]", OF assms(1)])
    (auto simp: roots_Get_def root_events_def agrees_def checkpointed_def split: option.splits)

lemma cks_Get_holds:
  assumes "holds r hist P st w"
  shows "holds r hist anything st (snd (cks_Get (rt_Maps r) n w))"
  by (rule holds_append [OF assms maps])
    (auto simp: checkpoint_events_def agrees_def anything_def split: sum.splits option.splits)

lemma checkpoint_Read_holds:
  assumes "holds r hist P st w" "checkpoint_Read (rt_lib r) (runtime_checkpoints r) w = (x, w')"
  shows "holds r hist anything st w'" "x = Inr s \<Longrightarrow> holds r hist (checkpointed s) st w'"
proof -
  let ?n = "checkpoint_name (runtime_checkpoints r)"
  have m: "ck_Maps (runtime_checkpoints r) = rt_Maps r"
    by (simp add: runtime_checkpoints_def)
  have w': "w' = snd (cks_Get (rt_Maps r) ?n w)"
    using assms(2) by (auto simp: checkpoint_Read_def m split: prod.splits sum.splits)
  show "holds r hist anything st w'"
    unfolding w' by (rule cks_Get_holds [OF assms(1)])
  show "holds r hist (checkpointed s) st w'" if "x = Inr s"
  proof -
    from assms(2) that obtain cm where cm: "fst (cks_Get (rt_Maps r) ?n w) = Inr cm"
        "checkpoint_decode (rt_lib r) (runtime_checkpoints r) cm = Inr s"
      by (auto simp: checkpoint_Read_def m split: prod.splits sum.splits)
    show ?thesis
      unfolding w' by (rule holds_append [OF assms(1) maps])
        (auto simp: cm checkpoint_events_def agrees_def checkpointed_def split: option.splits)
  qed
qed

lemma checkpoint_Save_holds:
  assumes "holds r hist P st w"
  shows "holds r hist anything st (snd (checkpoint_Save (rt_lib r) (runtime_checkpoints r) s w))"
proof -
  have m: "ck_Maps (runtime_checkpoints r) = rt_Maps r"
    by (simp add: runtime_checkpoints_def)
  have "kept (holds r hist anything st) (checkpoint_Save (rt_lib r) (runtime_checkpoints r) s)"
    unfolding checkpoint_Save_def [abs_def] checkpoint_write_def checkpoint_replace_def Let_def m
    by (intro kept_intros kept_calls) (simp add: kept_def cks_Get_holds)
  from keptD [OF this holds_weaken [OF assms]] show ?thesis .
qed

lemma stop_holds:
  assumes "holds r hist P st w" "slot_free P" "stop r st w = (e, st', w')"
  shows "holds r hist P st' w'" "e = None \<Longrightarrow> rs_worker st' = None" "rs_completedUID st' = rs_completedUID st"
proof -
  show "e = None \<Longrightarrow> rs_worker st' = None" "rs_completedUID st' = rs_completedUID st"
    using assms(3) by (auto simp: stop_def Let_def split: option.splits prod.splits)
  show "holds r hist P st' w'"
  proof (cases "rs_worker st")
    case None
    with assms show ?thesis
      by (simp add: stop_def)
  next
    case (Some a)
    let ?w = "rt_Readiness r False (wk_Cancel (rt_Workers r) (aw_worker a) w)"
    let ?c = "wk_Cleanup (rt_Workers r) (aw_worker a) ?w"
    have st': "w' = snd ?c" "st' = (if fst ?c = None then st\<lparr>rs_worker := None\<rparr> else st)"
      using assms(3) Some by (auto simp: stop_def Let_def split: option.splits prod.splits)
    have "hist w' = hist w @ [RtCancelled (aw_worker a), RtCleanup (aw_worker a) (fst ?c = None)]"
      by (simp add: st')
    then show ?thesis
      by (rule holds_append [OF assms(1)])
        (use assms(2) Some in \<open>auto simp: st' agrees_def slot_free_def\<close>)
  qed
qed

lemma cleanup_holds:
  assumes "holds r hist P st w"
  shows "holds r hist P st (snd (wk_Cleanup (rt_Workers r) h w))"
  by (rule holds_append [OF assms cleanup]) (auto simp: agrees_def split: option.splits)

lemma holds_pending: "holds r hist P (st\<lparr>rs_pendingCleanups := x\<rparr>) w = holds r hist P st w"
  by (simp add: holds_def agrees_def)

lemma discard_holds:
  assumes "holds r hist P st w" "discard r h st w = (st', w')"
  shows "holds r hist P st' w'" "rs_worker st' = rs_worker st" "rs_completedUID st' = rs_completedUID st"
  using assms cleanup_holds [OF assms(1), of h]
  by (auto simp: discard_def holds_pending split: prod.splits option.splits)

lemma retry_each_holds:
  assumes "holds r hist P st w"
  shows "holds r hist P st (snd (retry_each r hs w))"
  using assms
proof (induction hs arbitrary: w)
  case (Cons h hs)
  from Cons.IH [OF cleanup_holds [OF Cons.prems, of h]] show ?case
    by (auto split: prod.splits)
qed simp

lemma retryCleanups_holds:
  assumes "holds r hist P st w" "retryCleanups r st w = (e, st', w')"
  shows "holds r hist P st' w'"
  using assms retry_each_holds [OF assms(1), of "rs_pendingCleanups st"]
  by (auto simp: retryCleanups_def holds_pending split: prod.splits)

lemma holds_quiet [simp]:
  "holds r hist P st (rt_Readiness r b w) = holds r hist P st w"
  "holds r hist P st (wk_PauseAdmissions (rt_Workers r) h b w) = holds r hist P st w"
  "holds r hist P st (wk_Drain (rt_Workers r) h w) = holds r hist P st w"
  "holds r hist P st (snd (wk_Done (rt_Workers r) h w)) = holds r hist P st w"
  "holds r hist P st (snd (wk_Ready (rt_Workers r) h w)) = holds r hist P st w"
  "holds r hist P st (snd (wk_New (rt_Workers r) x c mode w)) = holds r hist P st w"
  "holds r hist P st (snd (rt_Now r w)) = holds r hist P st w"
  "holds r hist P st (snd (dy_UpdateStatus (rt_Dynamic r) gvr ns u w)) = holds r hist P st w"
  by (simp_all add: holds_def watched_def)

lemma holds_pause [simp]:
  "holds r hist P st (pause_worker r st' w) = holds r hist P st w" "holds r hist P st (pause r st' w) = holds r hist P st w"
  by (auto simp: pause_def pause_worker_def split: option.split)

lemma ResolveCleanupSecrets_holds:
  assumes "holds r hist P st w"
  shows "holds r hist P st (snd (ResolveCleanupSecrets v sha256 (rt_Secrets r) x w))"
  unfolding ResolveCleanupSecrets_def by (rule keptD [where I = "holds r hist P st", OF resolveSecrets_kept assms]) (rule kept_calls)

lemma Config_Load_holds:
  assumes "holds r hist P st w"
  shows "holds r hist anything st
    (snd (Config_Load v sha256 (KubernetesReader (rt_Dynamic r)) (rt_Secrets r) ns n w))"
  by (rule keptD [where I = "holds r hist anything st", OF Config_Load_kept holds_weaken [OF assms]])
    (auto simp: kept_def KubernetesReader_def intro: roots_Get_holds keptD [OF kept_calls(3)])

lemma ends_report:
  assumes "holds r hist P st w"
  shows "ends r hist (report r root b reason st w)"
proof -
  have get: "holds r hist anything st (snd (roots_Get r w))"
    using roots_Get_holds [OF holds_weaken [OF assms]] by (simp add: roots_Get_def)
  show ?thesis
    using get holds_weaken [OF assms]
    by (auto simp: ends_def report_def set_condition_def roots_UpdateStatus_def split_beta split: option.split sum.split)
qed

lemma ends_stop:
  assumes "holds r hist P st w" "slot_free P"
    "\<And>st' w'. holds r hist P st' w' \<Longrightarrow> rs_worker st' = None \<Longrightarrow> rs_completedUID st' = rs_completedUID st \<Longrightarrow> ends r hist (k st' w')"
  shows "ends r hist (case stop r st w of (Some e, st, w) \<Rightarrow> (Some e, st, w) | (None, st, w) \<Rightarrow> k st w)"
proof -
  obtain e st' w' where "stop r st w = (e, st', w')"
    by (cases "stop r st w")
  with stop_holds [OF assms(1,2) this] assms(3) [of st' w'] show ?thesis
    by (cases e) (auto simp: ends_def intro: holds_weaken)
qed

lemma ends_discard:
  assumes "holds r hist P st w"
  shows "ends r hist (case discard r h st w of (st, w) \<Rightarrow> (e, st, w))"
  using discard_holds [OF assms] by (auto simp: ends_def split: prod.split intro: holds_weaken)

lemma start_holds:
  assumes "holds r hist P st w" "rs_worker st = None"
    "\<And>m. P m \<Longrightarrow> (mode = SessionMode \<longrightarrow> session_allowed m)
       \<and> (mode = CleanupMode \<longrightarrow> (\<exists>s. checkpointed s m \<and> uid = om_UID (rs_ObjectMeta (sn_ScaleSet s))))"
    "slot_free P" "start r h key uid mode st w = (st', w')"
  shows "holds r hist P st' w'"
proof -
  have "hist w' = hist w @ [RtStarted h mode]" and st': "st' = st\<lparr>rs_worker := Some \<lparr>aw_worker = h, aw_key = key, aw_uid = uid, aw_mode = mode\<rparr>\<rparr>"
    using assms(5) by (auto simp: start_def)
  then show ?thesis
    by (intro holds_append [OF assms(1)])
      (use assms(2-4) in \<open>fastforce simp: agrees_def slot_free_def checkpointed_def checkpoint_uid_def\<close>)+
qed

lemma protect_holds:
  assumes "holds r hist (\<lambda>m. checkpointed s m \<and> mo_root m = Some u
      \<and> mo_protected m = (Finalizer \<in> set (om_Finalizers (un_Meta u)))) st w"
    and "protect r u w = (e, w')"
  shows "holds r hist anything st w'" "e = None \<Longrightarrow> holds r hist (guarded s u) st w' \<and> om_DeletionTimestamp (un_Meta u) = None"
proof -
  have h: "holds r hist (guarded s u) st (snd (roots_Update r (add_finalizer u) w))"
    if "fst (roots_Update r (add_finalizer u) w) = None"
    unfolding roots_Update_def
    by (rule holds_append [OF assms(1) updates])
      (use that in \<open>auto simp: roots_Update_def add_finalizer_def agrees_def guarded_def checkpointed_def split: option.splits\<close>)
  have k: "holds r hist anything st (snd (roots_Update r (add_finalizer u) w))"
    if "fst (roots_Update r (add_finalizer u) w) \<noteq> None"
    unfolding roots_Update_def
    by (rule holds_append [OF assms(1) updates])
      (use that in \<open>auto simp: roots_Update_def anything_def\<close>)
  have "holds r hist (guarded s u) st w" if "Finalizer \<in> set (om_Finalizers (un_Meta u))"
    using assms(1) that by (auto simp: holds_def guarded_def checkpointed_def)
  with assms h k show "holds r hist anything st w'"
    "e = None \<Longrightarrow> holds r hist (guarded s u) st w' \<and> om_DeletionTimestamp (un_Meta u) = None"
    by (auto simp: protect_def split: if_splits intro: holds_weaken)
qed

lemma finalize_holds:
  assumes "holds r hist P st w" "rs_completedUID st = uid" "uid \<noteq> []"
  shows "holds r hist anything st (snd (finalize r root uid w))"
proof -
  have get: "holds r hist anything st w'" if "roots_Get r w = (x, w')" for x w'
    using roots_Get_holds [OF holds_weaken [OF assms(1)], of scale_sets] that by (metis root_free_rules(2) roots_Get_def snd_conv)
  have "holds r hist anything st (snd (roots_Update r (remove_finalizer u) w'))"
    if "holds r hist anything st w'" "om_UID (un_Meta u) = uid" "om_DeletionTimestamp (un_Meta u) \<noteq> None" for u w'
    unfolding roots_Update_def
    by (rule holds_append [OF that(1) updates])
      (use that(2,3) assms(2,3) in \<open>auto simp: remove_finalizer_def agrees_def anything_def split: option.splits\<close>)
  then show ?thesis
    using get holds_weaken [OF assms(1)] by (auto simp: finalize_def split: option.split prod.split sum.split)
qed

lemma ends_conclude:
  assumes "holds r hist P st w" "rs_completedUID st = uid" "uid \<noteq> []"
  shows "ends r hist (conclude_cleanup r root uid st w)"
proof -
  obtain e w' where f: "finalize r root uid w = (e, w')"
    by (cases "finalize r root uid w")
  with finalize_holds [OF assms, of root] have "holds r hist anything st w'"
    by simp
  with f ends_report [OF this] ends_report [OF assms(1)] show ?thesis
    by (cases e) (auto simp: conclude_cleanup_def ends_def)
qed

lemma ends_call:
  assumes "holds r hist P st w" "kept (holds r hist P st) f" "\<And>x w'. holds r hist P st w' \<Longrightarrow> ends r hist (k x w')"
  shows "ends r hist (case f w of (x, w) \<Rightarrow> k x w)"
  using assms by (cases "f w") (auto simp: kept_def)

lemma ends_map: "ends r hist x \<Longrightarrow> ends r hist (case x of (e, y) \<Rightarrow> (f e, y))"
  by (auto simp: ends_def split: prod.splits)

lemma kept_resolve: "kept (holds r hist P st) (ResolveCleanupSecrets v sha256 (rt_Secrets r) x)"
  by (simp add: kept_def ResolveCleanupSecrets_holds)

lemma ends_begin_cleanup:
  assumes "holds r hist (checkpointed s) st w" "rs_worker st = None"
  shows "ends r hist (begin_cleanup r root s st w)"
proof -
  have started: "ends r hist (x, start r h key (om_UID (rs_ObjectMeta (sn_ScaleSet s))) CleanupMode st (wk_Drain (rt_Workers r) h w'))"
    if "holds r hist (checkpointed s) st w'" for x h key w'
    using start_holds [of "checkpointed s" st "wk_Drain (rt_Workers r) h w'" CleanupMode "om_UID (rs_ObjectMeta (sn_ScaleSet s))" h key]
      that assms(2)
    by (auto simp: ends_def split: prod.split intro: holds_weaken)
  show ?thesis
    unfolding begin_cleanup_def
    by (auto split: sum.split intro!: ends_call [OF assms(1) kept_resolve] ends_call [OF _ kept_calls(4)] ends_map ends_report started
        simp: ends_def [of _ _ "(_, st, w)"] holds_weaken [OF assms(1)])
qed

lemma ends_poll_cleanup:
  assumes "holds r hist P st w" "slot_free P" "rs_worker st = Some a" "aw_mode a = CleanupMode" "aw_uid a = uid" "uid \<noteq> []"
  shows "ends r hist (poll_cleanup r root uid a st w)"
proof -
  have stopped: "ends r hist (case stop r st w' of (x, st, w) \<Rightarrow> report r root b reason st w)" if "holds r hist P st w'" for w' b reason
    using stop_holds(1) [OF that assms(2)] by (auto split: prod.split intro: ends_report)
  have drained: "holds r hist (\<lambda>m. anything m \<and> (x = Inr True \<longrightarrow> uid \<in> mo_drained m)) st w''"
    if "holds r hist P st w'" "wk_Drained (rt_Workers r) (aw_worker a) w' = (x, w'')" for x w' w''
    using that drained [of "aw_worker a" w'] assms(3-5)
    by (intro holds_append [OF that(1)]) (auto simp: agrees_def anything_def)
  have conclude: "ends r hist (case stop r st w' of (Some e, st, w) \<Rightarrow> (Some e, st, w)
      | (None, st, w) \<Rightarrow> conclude_cleanup r root uid (st\<lparr>rs_completedUID := uid\<rparr>) w)"
    if "holds r hist (\<lambda>m. anything m \<and> uid \<in> mo_drained m) st w'" for w'
    by (rule ends_stop [OF that], simp add: slot_free_def anything_def)
      (rule ends_conclude [where P = anything], auto simp: holds_def agrees_def anything_def assms(6))
  show ?thesis
    unfolding poll_cleanup_def
  proof (rule ends_call [OF assms(1)])
    show "kept (holds r hist P st) (wk_Done (rt_Workers r) (aw_worker a))"
      by (simp add: kept_def)
    fix x w1 assume w1: "holds r hist P st w1"
    obtain z w2 where z: "wk_Drained (rt_Workers r) (aw_worker a) w1 = (z, w2)"
      by (cases "wk_Drained (rt_Workers r) (aw_worker a) w1")
    show "ends r hist (case x of None \<Rightarrow> report r root False ''CleanupPending'' st w1
        | Some None \<Rightarrow> (case wk_Drained (rt_Workers r) (aw_worker a) w1 of
             (Inl _, w) \<Rightarrow> report r root False ''CleanupPending'' st w
           | (Inr True, w) \<Rightarrow> (case stop r st w of (None, st, w) \<Rightarrow> conclude_cleanup r root uid (st\<lparr>rs_completedUID := uid\<rparr>) w
                | (Some e, st, w) \<Rightarrow> (Some e, st, w))
           | (Inr False, w) \<Rightarrow> report r root False ''CleanupPending'' st w)
        | Some (Some _) \<Rightarrow> (case stop r st w1 of (_, st, w) \<Rightarrow> report r root False ''CleanupPending'' st w))"
      using ends_report [OF w1] ends_report [OF drained [OF w1 z]] stopped [OF w1] conclude [of w2] drained [OF w1 z]
      by (auto simp: z split: option.split sum.split bool.split)
  qed
qed

lemma begin_cleanup_worker:
  assumes "begin_cleanup r root s st w = (None, st', w')"
  obtains a where "rs_worker st' = Some a" "aw_mode a = CleanupMode" "aw_uid a = om_UID (rs_ObjectMeta (sn_ScaleSet s))"
  using assms by (auto simp: begin_cleanup_def start_def split: sum.splits prod.splits)

lemma ends_reconcileCleanup:
  assumes "holds r hist (checkpointed s) st w" "om_UID (rs_ObjectMeta (sn_ScaleSet s)) \<noteq> []"
  shows "ends r hist (reconcileCleanup r root s st w)"
proof -
  let ?uid = "om_UID (rs_ObjectMeta (sn_ScaleSet s))"
  have begun: "ends r hist (case begin_cleanup r root s st w of (Some result, st, w) \<Rightarrow> (result, st, w)
      | (None, st, w) \<Rightarrow> (case rs_worker st of None \<Rightarrow> (None, st, w) | Some a \<Rightarrow> poll_cleanup r root ?uid a st w))"
    if *: "holds r hist (checkpointed s) st w" "rs_worker st = None" for st w
  proof -
    obtain x st' w' where x: "begin_cleanup r root s st w = (x, st', w')"
      by (cases "begin_cleanup r root s st w")
    with ends_begin_cleanup [OF *, of root] have "holds r hist anything st' w'"
      by (simp add: ends_def)
    with x show ?thesis
      by (cases x) (auto simp: ends_def [of _ _ "(_, st', w')"] assms(2) elim: begin_cleanup_worker
          intro!: ends_poll_cleanup [where P = anything] split: option.split)
  qed
  let ?k = "\<lambda>st w. case if rs_worker st = None then begin_cleanup r root s st w else (None, st, w) of
      (None, st, w) \<Rightarrow> (case rs_worker st of None \<Rightarrow> (None, st, w) | Some a \<Rightarrow> poll_cleanup r root ?uid a st w)
    | (Some result, st, w) \<Rightarrow> (result, st, w)"
  have k: "ends r hist (?k st w)" if "holds r hist (checkpointed s) st w"
    "rs_worker st = None \<or> (\<exists>a. rs_worker st = Some a \<and> aw_mode a = CleanupMode \<and> aw_uid a = ?uid)" for st w
    using that begun [OF that(1)] ends_poll_cleanup [OF that(1)] assms(2) by auto
  have stopped: "ends r hist (case stop r st w of (Some e, st, w) \<Rightarrow> (Some e, st, w) | (None, st, w) \<Rightarrow> ?k st w)"
    by (rule ends_stop [OF assms(1)]) (simp, rule k, simp_all)
  show ?thesis
    using k [OF assms(1)] stopped ends_conclude [OF assms(1) _ assms(2)]
    by (auto simp: reconcileCleanup_def Let_def split: option.split)
qed

lemma ends_begin_recovery:
  assumes "holds r hist P st w" "rs_worker st = None"
  shows "ends r hist (begin_recovery r root s st w)"
proof -
  have w: "holds r hist anything st w"
    by (rule holds_weaken [OF assms(1)])
  have started: "ends r hist (case start r h key uid RecoveryMode st (wk_PauseAdmissions (rt_Workers r) h True w') of
      (st, w) \<Rightarrow> report r root b reason st w)" if "holds r hist anything st w'" for h key uid b reason w'
    using start_holds [of anything st "wk_PauseAdmissions (rt_Workers r) h True w'" RecoveryMode uid h key]
      that assms(2)
    by (auto split: prod.split intro: ends_report)
  show ?thesis
    unfolding begin_recovery_def
    by (auto split: sum.split intro!: ends_call [OF w kept_resolve] ends_call [OF _ kept_calls(4)] ends_report [OF w]
        ends_report started)
qed

lemma ends_recoverAccepted:
  assumes "holds r hist P st w"
  shows "ends r hist (recoverAccepted r root s st w)"
proof -
  have w: "holds r hist anything st w"
    by (rule holds_weaken [OF assms(1)])
  have stopped: "ends r hist (case stop r st w' of (Some e, st, w) \<Rightarrow> (Some e, st, w) | (None, st, w) \<Rightarrow> begin_recovery r root s st w)"
    if "holds r hist anything st w'" for w'
    by (rule ends_stop [OF that]) (auto intro: ends_begin_recovery)
  have quiet: "kept (holds r hist anything st) (wk_Done (rt_Workers r) h)" for h
    by (simp add: kept_def)
  show ?thesis
    unfolding recoverAccepted_def
    by (auto split: option.split intro!: ends_begin_recovery [OF w] ends_call [OF w quiet] stopped
        ends_report [where P = anything])
qed

lemma session_allowed_guarded:
  assumes "guarded s u m" "om_UID (un_Meta u) = om_UID (rs_ObjectMeta (sn_ScaleSet s))" "om_DeletionTimestamp (un_Meta u) = None"
  shows "session_allowed m"
  using assms by (auto simp: guarded_def session_allowed_def)

text \<open>The protected object, the old worker stopped, the new one started.\<close>

lemma ends_switch:
  assumes "holds r hist (guarded s u) st w" "om_UID (un_Meta u) = om_UID (rs_ObjectMeta (sn_ScaleSet s))"
    "om_DeletionTimestamp (un_Meta u) = None"
  shows "ends r hist (case stop r st w of
       (Some e, st, w) \<Rightarrow> (case discard r h st w of (st, w) \<Rightarrow> (Some e, st, w))
     | (None, st, w) \<Rightarrow> (case start r h key uid SessionMode st w of (st, w) \<Rightarrow> report r root b reason st w))"
proof -
  obtain e st' w' where stop: "stop r st w = (e, st', w')"
    by (cases "stop r st w")
  note st' = stop_holds [OF assms(1) _ stop, simplified]
  show ?thesis
  proof (cases e)
    case None
    obtain st2 w2 where start: "start r h key uid SessionMode st' w' = (st2, w2)"
      by (cases "start r h key uid SessionMode st' w'")
    have "holds r hist (guarded s u) st2 w2"
      by (rule start_holds [OF st'(1) st'(2) [OF None] _ _ start])
        (simp_all add: session_allowed_guarded [OF _ assms(2,3)])
    with start stop None ends_report [OF this] show ?thesis
      by simp
  qed (use stop ends_discard [OF st'(1)] in simp)
qed

lemma ends_rejected:
  assumes "holds r hist P st w"
  shows "ends r hist (case discard r h st w of (st, w) \<Rightarrow>
     let w = pause_worker r st w in
     case (case checkpoint of
             Inr s \<Rightarrow> if b then recoverAccepted r root s st w else (None, st, w)
           | Inl _ \<Rightarrow> (None, st, w)) of
       (Some e, st, w) \<Rightarrow> (Some e, st, w)
     | (None, st, w) \<Rightarrow> report r root False reason st w)"
proof -
  obtain st' w' where d: "discard r h st w = (st', w')"
    by (cases "discard r h st w")
  let ?w = "pause_worker r st' w'"
  have h: "holds r hist P st' ?w"
    using discard_holds(1) [OF assms d] by simp
  have "ends r hist (case x of (Some e, st, w) \<Rightarrow> (Some e, st, w) | (None, st, w) \<Rightarrow> report r root False reason st w)"
    if "ends r hist x" for x :: "err option \<times> 'h runtime_state \<times> 'w"
    using that by (auto simp: ends_def [of _ _ x] ends_def [of _ _ "(Some _, _)"] split: prod.splits option.split intro: ends_report)
  then show ?thesis
    using ends_recoverAccepted [OF h] ends_report [OF h] by (auto simp: d Let_def split: sum.split)
qed

lemma ends_hand_over:
  assumes "holds r hist P st w"
  shows "ends r hist (hand_over r root checkpoint l h st w)"
proof -
  let ?c = "runtime_checkpoints r"
  obtain e w1 where save: "checkpoint_Save (rt_lib r) ?c (ld_Snapshot l) w = (e, w1)"
    by (cases "checkpoint_Save (rt_lib r) ?c (ld_Snapshot l) w")
  with checkpoint_Save_holds [OF assms, of "ld_Snapshot l"] have w1: "holds r hist anything st w1"
    by simp
  obtain x w2 where read: "checkpoint_Read (rt_lib r) ?c w1 = (x, w2)"
    by (cases "checkpoint_Read (rt_lib r) ?c w1")
  obtain y w3 where get: "roots_Get r w2 = (y, w3)"
    by (cases "roots_Get r w2")
  note w2 = checkpoint_Read_holds [OF w1 read]
  have w3: "holds r hist anything st w3"
    using roots_Get_holds [OF w2(1), of scale_sets "rt_Namespace r" "rt_Name r"] get by (simp add: roots_Get_def)
  have switch: "ends r hist (case protect r u w3 of
      (Some e, w) \<Rightarrow> (case discard r h st w of (st, w) \<Rightarrow> (Some e, st, w))
    | (None, w) \<Rightarrow> (case stop r st w of
         (Some e, st, w) \<Rightarrow> (case discard r h st w of (st, w) \<Rightarrow> (Some e, st, w))
       | (None, st, w) \<Rightarrow> (case start r h key uid SessionMode st w of (st, w) \<Rightarrow> report r (Some u) False reason st w)))"
    if "x = Inr s" "y = Inr u" "om_UID (un_Meta u) = om_UID (rs_ObjectMeta (sn_ScaleSet s))" for s u key uid reason
  proof -
    obtain e2 w4 where p: "protect r u w3 = (e2, w4)"
      by (cases "protect r u w3")
    note w4 = protect_holds [OF roots_Get_seen [OF w2(2) [OF that(1)] get [unfolded that(2)]] p]
    show ?thesis
      using ends_discard [OF w4(1)] ends_switch [OF w4(2) [THEN conjunct1] that(3) w4(2) [THEN conjunct2]]
      by (cases e2) (simp_all add: p)
  qed
  show ?thesis
    using ends_rejected [OF w1] ends_discard [OF w2(1)] ends_discard [OF w3] switch
    by (auto simp: hand_over_def save read get sameRootRevision_def split: option.split sum.split)
qed

lemma ends_keep_worker:
  assumes "holds r hist P st w"
  shows "ends r hist (keep_worker r root l a st w)"
  unfolding keep_worker_def Let_def split_beta
  by (rule ends_report [where P = P]) (simp add: assms)

lemma ends_serve:
  assumes "holds r hist P st w"
  shows "ends r hist (serve r root checkpoint l st w)"
proof -
  let ?k = "\<lambda>st w. case (case rs_worker st of None \<Rightarrow> None
               | Some a \<Rightarrow> if aw_key a = Loaded_Key (lib_key_hash (rt_lib r)) l then Some a else None) of
             Some a \<Rightarrow> keep_worker r root l a st w
           | None \<Rightarrow>
               (case wk_New (rt_Workers r) (ld_Resolved l) (ld_Credentials l) SessionMode w of
                  (Inl _, w) \<Rightarrow> report r (Some root) False ''CredentialsInvalid'' st (pause_worker r st w)
                | (Inr h, w) \<Rightarrow> hand_over r root checkpoint l h st w)"
  have fresh: "ends r hist (case wk_New (rt_Workers r) (ld_Resolved l) (ld_Credentials l) SessionMode w of
      (Inl _, w) \<Rightarrow> report r (Some root) False ''CredentialsInvalid'' st (pause_worker r st w)
    | (Inr h, w) \<Rightarrow> hand_over r root checkpoint l h st w)" if "holds r hist anything st w" for st w
    by (rule ends_call [OF that kept_calls(4)])
      (auto split: sum.split intro: ends_report [where P = anything] ends_hand_over)
  have k: "ends r hist (?k st w)" if "holds r hist anything st w" for st w
    using fresh [OF that] ends_keep_worker [OF that] by (auto split: option.split)
  have stopped: "ends r hist (case stop r st w' of (Some e, st, w) \<Rightarrow> (Some e, st, w) | (None, st, w) \<Rightarrow> ?k st w)"
    if "holds r hist anything st w'" for w'
    by (rule ends_stop [OF that]) (simp, rule k)
  show ?thesis
  proof (cases "rs_worker st")
    case None
    with k [OF holds_weaken [OF assms]] show ?thesis
      by (simp add: serve_def)
  next
    case (Some a)
    obtain x w' where d: "wk_Done (rt_Workers r) (aw_worker a) w = (x, w')"
      by (cases "wk_Done (rt_Workers r) (aw_worker a) w")
    with holds_weaken [OF assms] holds_quiet(4) [of anything st "aw_worker a" w] have w': "holds r hist anything st w'"
      by simp
    show ?thesis
      using k [OF w'] stopped [OF w'] by (cases x) (simp_all add: serve_def Some d)
  qed
qed

lemma ends_reconcile_live:
  assumes "holds r hist P st w"
  shows "ends r hist (reconcile_live r root checkpoint st w)"
proof -
  let ?load = "Config_Load (lib_validators (rt_lib r)) (lib_sha256 (rt_lib r)) (KubernetesReader (rt_Dynamic r)) (rt_Secrets r)
    (rt_Namespace r) (rt_Name r)"
  have load: "kept (holds r hist anything st) ?load"
    by (simp add: kept_def Config_Load_holds)
  show ?thesis
    unfolding reconcile_live_def Let_def
    by (rule ends_call [OF holds_weaken [OF assms] load], auto simp: ends_def [of _ _ "(Some _, _)"] split: sum.split
        intro!: ends_recoverAccepted [where P = anything] ends_report [where P = anything] ends_serve [where P = anything])
qed

lemma ends_reconcile_checked:
  assumes "holds r hist anything st w" "\<And>s. checkpoint = Inr s \<Longrightarrow> holds r hist (checkpointed s) st w"
    "\<And>s. checkpoint = Inr s \<Longrightarrow> om_UID (rs_ObjectMeta (sn_ScaleSet s)) \<noteq> []"
  shows "ends r hist (reconcile_checked r root checkpoint st w)"
  using assms unfolding reconcile_checked_def
  by (auto split: sum.split option.split
      intro!: ends_report [where P = anything] ends_reconcile_live [where P = anything] ends_reconcileCleanup)

text \<open>A pass of the controller keeps the agreement with the monitor, which therefore accepts its calls.\<close>

lemma ends_Reconcile:
  assumes "holds r hist anything st w"
  shows "ends r hist (Reconcile r st w)"
proof -
  obtain e st' w1 where retry: "retryCleanups r st w = (e, st', w1)"
    by (cases "retryCleanups r st w")
  note w1 = retryCleanups_holds [OF assms retry]
  obtain x w2 where get: "roots_Get r w1 = (x, w2)"
    by (cases "roots_Get r w1")
  have w2: "holds r hist anything st' w2"
    using roots_Get_holds [OF w1, of scale_sets "rt_Namespace r" "rt_Name r"] get by (simp add: roots_Get_def)
  obtain c w3 where read: "checkpoint_Read (rt_lib r) (runtime_checkpoints r) w2 = (c, w3)"
    by (cases "checkpoint_Read (rt_lib r) (runtime_checkpoints r) w2")
  note w3 = checkpoint_Read_holds [OF w2 read]
  have "om_UID (rs_ObjectMeta (sn_ScaleSet s)) \<noteq> []" if "c = Inr s" for s
    using read that by (auto simp: checkpoint_Read_def checkpoint_decode_def Let_def
        split: prod.splits sum.splits if_splits json.splits)
  with w1 w2 w3 show ?thesis
    by (auto simp: Reconcile_def retry get read ends_def [of _ _ "(_, st', _)"] split: option.split sum.split
        intro!: ends_reconcile_checked)
qed

end

end
