(* ===== verification/Config_Runtime_Safety.thy ===== *)
theory Config_Runtime_Safety
  imports Config_Runtime_Monitor
begin

text \<open>
  Safety of the runtime over any number of passes, with arbitrary changes by others between the calls:
  every history of the loop of \<open>Run\<close> is accepted by the monitor, and what acceptance means for a
  worker's start and for the removal of the finalizer.
\<close>

section \<open>Runs of the controller\<close>

lemma snd_noting: "snd (snd (noting ev f wl)) = snd wl @ ev (fst (noting ev f wl))"
  by (simp add: noting_def split_beta)

lemma snd_unnoted: "snd (snd (unnoted f wl)) = snd wl"
  by (simp add: unnoted_def split_beta)

lemmas recording_defs = recording_def recording_workers_def recording_dynamic_def recording_maps_def

interpretation noted: recorded_runtime "recording r" "snd :: 'w \<times> 'h rt_event list \<Rightarrow> 'h rt_event list"
  for r :: "('w, 'h) runtime"
  by unfold_locales (simp_all add: recording_defs snd_noting snd_unnoted split_beta)

text \<open>The first \<open>n\<close> rounds of the loop of \<open>Run\<close>.\<close>

fun run_passes ::
    "('w, 'h) runtime \<Rightarrow> ('w \<Rightarrow> err option \<times> 'w) \<Rightarrow> nat \<Rightarrow> 'h runtime_state \<Rightarrow> 'w \<Rightarrow> 'h runtime_state \<times> 'w" where
  "run_passes r wait 0 st w = (st, w)"
| "run_passes r wait (Suc n) st w = (case run_pass r st w of (st, w) \<Rightarrow> run_passes r wait n st (snd (wait w)))"

lemma run_loop_passes:
  assumes "run_loop r wait st w = Some (e, st', w')"
  shows "\<exists>n. run_passes r wait n st w = (st', w')"
proof -
  have "\<exists>n. run_passes r wait n st w = (fst (snd x), snd (snd x))" if "run_loop r wait st w = Some x" for x
    using that
  proof (induction rule: run_loop.raw_induct [rotated, consumes 1])
    case (1 loop r wait st w x)
    obtain st1 w1 where p: "run_pass r st w = (st1, w1)"
      by (cases "run_pass r st w")
    obtain y w2 where q: "wait w1 = (y, w2)"
      by (cases "wait w1")
    show ?case
    proof (cases y)
      case None
      with 1(2) p q have "loop r wait st1 w2 = Some x"
        by simp
      from 1(1) [OF this] obtain n where "run_passes r wait n st1 w2 = (fst (snd x), snd (snd x))" ..
      with p q show ?thesis
        by (intro exI [of _ "Suc n"]) simp
    next
      case (Some e)
      with 1 p q show ?thesis
        by (intro exI [of _ 1]) auto
    qed
  qed
  from this [OF assms] show ?thesis
    by simp
qed

lemma run_pass_accepted:
  assumes "holds (recording r) snd anything st w" "run_pass (recording r) st w = (st', w')"
  shows "holds (recording r) snd anything st' w'"
  using noted.ends_Reconcile [OF assms(1)] assms(2)
  by (auto simp: run_pass_def ends_def split: prod.splits option.splits)

lemma run_passes_accepted:
  assumes "holds (recording r) snd anything st w" "run_passes (recording r) (unnoted wait) n st w = (st', w')"
  shows "holds (recording r) snd anything st' w'"
  using assms
proof (induction n arbitrary: st w)
  case (Suc n)
  obtain st1 w1 where p: "run_pass (recording r) st w = (st1, w1)"
    by (cases "run_pass (recording r) st w")
  have "holds (recording r) snd anything st1 (snd (unnoted wait w1))"
    using run_pass_accepted [OF Suc.prems(1) p] by (simp add: holds_def watched_def snd_unnoted)
  from Suc.IH [OF this] Suc.prems(2) p show ?case
    by simp
qed simp

text \<open>Every history the loop of \<open>Run\<close> produces from its initial state is accepted by the monitor.\<close>

lemma run_accepted:
  assumes "run_passes (recording r) (unnoted wait) n runtime_zero (w, []) = (st, w', es)"
  shows "\<exists>m. monitor_run (rt_lib r) (runtime_checkpoints (recording r)) monitor_init es = Some m"
proof -
  have "holds (recording r) snd anything runtime_zero (w, [])"
    by (simp add: holds_def watched_def agrees_def runtime_zero_def monitor_init_def anything_def)
  from run_passes_accepted [OF this assms] show ?thesis
    by (auto simp: holds_def watched_def recording_def)
qed

section \<open>What acceptance means\<close>

fun is_checkpoint_event :: "'h rt_event \<Rightarrow> bool" where
  "is_checkpoint_event (RtCheckpoint _) = True"
| "is_checkpoint_event _ = False"

fun is_root_event :: "'h rt_event \<Rightarrow> bool" where
  "is_root_event (RtRoot _) = True"
| "is_root_event _ = False"

text \<open>The last read of the checkpoint gave \<open>s\<close>; the last read of the scale set gave \<open>u\<close>.\<close>

definition last_checkpoint :: "libraries \<Rightarrow> 'w checkpoints \<Rightarrow> 'h rt_event list \<Rightarrow> snapshot \<Rightarrow> bool" where
  "last_checkpoint lib c es s \<longleftrightarrow> (\<exists>p cm q. es = p @ RtCheckpoint cm # q \<and> checkpoint_decode lib c cm = Inr s
     \<and> list_all (\<lambda>e. \<not> is_checkpoint_event e) q)"

definition last_root :: "'h rt_event list \<Rightarrow> unstructured \<Rightarrow> 'h rt_event list \<Rightarrow> bool" where
  "last_root es u q \<longleftrightarrow> (\<exists>p. es = p @ RtRoot u # q \<and> list_all (\<lambda>e. \<not> is_root_event e) q)"

text \<open>Since it was read, the scale set carries the finalizer.\<close>

definition carries_finalizer :: "unstructured \<Rightarrow> 'h rt_event list \<Rightarrow> bool" where
  "carries_finalizer u q \<longleftrightarrow> Finalizer \<in> set (om_Finalizers (un_Meta u))
     \<or> (\<exists>v. RtRootUpdated v \<in> set q \<and> om_UID (un_Meta v) = om_UID (un_Meta u) \<and> Finalizer \<in> set (om_Finalizers (un_Meta v)))"

text \<open>A worker of an earlier start was cancelled and its cleanup succeeded.\<close>

definition worker_ended :: "'h \<Rightarrow> 'h rt_event list \<Rightarrow> bool" where
  "worker_ended h q \<longleftrightarrow> (\<exists>q1 q2 q3. q = q1 @ RtCancelled h # q2 @ RtCleanup h True # q3)"

text \<open>A cleanup worker for the scale set \<open>uid\<close> was started from its checkpoint and reported drained.\<close>

definition cleanup_started :: "libraries \<Rightarrow> 'w checkpoints \<Rightarrow> 'h rt_event list \<Rightarrow> 'h \<Rightarrow> string \<Rightarrow> bool" where
  "cleanup_started lib c es h uid \<longleftrightarrow> (\<exists>p q s. es = p @ RtStarted h CleanupMode # q \<and> last_checkpoint lib c p s
     \<and> om_UID (rs_ObjectMeta (sn_ScaleSet s)) = uid)"

definition cleanup_confirmed :: "libraries \<Rightarrow> 'w checkpoints \<Rightarrow> 'h rt_event list \<Rightarrow> string \<Rightarrow> bool" where
  "cleanup_confirmed lib c es uid \<longleftrightarrow> (\<exists>p h q. es = p @ RtDrained h True # q \<and> cleanup_started lib c p h uid)"

lemma last_checkpoint_snoc:
  "last_checkpoint lib c es s \<Longrightarrow> \<not> is_checkpoint_event e \<Longrightarrow> last_checkpoint lib c (es @ [e]) s"
  "checkpoint_decode lib c cm = Inr s \<Longrightarrow> last_checkpoint lib c (es @ [RtCheckpoint cm]) s"
proof -
  show "last_checkpoint lib c (es @ [e]) s" if "last_checkpoint lib c es s" "\<not> is_checkpoint_event e"
  proof -
    from that(1) obtain p cm q where "es = p @ RtCheckpoint cm # q" "checkpoint_decode lib c cm = Inr s"
        "list_all (\<lambda>e. \<not> is_checkpoint_event e) q"
      by (auto simp: last_checkpoint_def)
    with that(2) have "es @ [e] = p @ RtCheckpoint cm # (q @ [e])" "list_all (\<lambda>e. \<not> is_checkpoint_event e) (q @ [e])"
      by simp_all
    with \<open>checkpoint_decode lib c cm = Inr s\<close> show ?thesis
      unfolding last_checkpoint_def by blast
  qed
  show "last_checkpoint lib c (es @ [RtCheckpoint cm]) s" if "checkpoint_decode lib c cm = Inr s"
    unfolding last_checkpoint_def using that by (intro exI [of _ es] exI [of _ cm] exI [of _ "[]"]) simp
qed

lemma last_root_snoc:
  "last_root es u q \<Longrightarrow> \<not> is_root_event e \<Longrightarrow> last_root (es @ [e]) u (q @ [e])"
  "last_root (es @ [RtRoot u]) u []"
  unfolding last_root_def by auto

lemma cleanup_started_snoc:
  "cleanup_started lib c es h uid \<Longrightarrow> cleanup_started lib c (es @ [e]) h uid"
  "last_checkpoint lib c es s \<Longrightarrow> om_UID (rs_ObjectMeta (sn_ScaleSet s)) = uid \<Longrightarrow>
     cleanup_started lib c (es @ [RtStarted h CleanupMode]) h uid"
  unfolding cleanup_started_def by (metis append_Cons append_assoc, blast)

lemma cleanup_confirmed_snoc:
  "cleanup_confirmed lib c es uid \<Longrightarrow> cleanup_confirmed lib c (es @ [e]) uid"
  "cleanup_started lib c es h uid \<Longrightarrow> cleanup_confirmed lib c (es @ [RtDrained h True]) uid"
  unfolding cleanup_confirmed_def by (metis append_Cons append_assoc, blast)

text \<open>Each field of the monitor, in terms of the history it has read.\<close>

lemma monitor_checkpoint:
  assumes "monitor_run lib c monitor_init es = Some m" "mo_checkpoint m = Some s"
  shows "last_checkpoint lib c es s"
  using assms
proof (induction es arbitrary: m s rule: rev_induct)
  case (snoc e es)
  then obtain m' where m': "monitor_run lib c monitor_init es = Some m'" "monitor_step lib c m' e = Some m"
    by (auto simp: monitor_run_append split: option.splits)
  show ?case
  proof (cases "is_checkpoint_event e")
    case True
    with m' snoc.prems show ?thesis
      by (cases e) (auto intro: last_checkpoint_snoc(2) split: sum.splits)
  next
    case False
    with m'(2) have "mo_checkpoint m' = mo_checkpoint m"
      by (cases e) (auto split: if_splits slot.splits bool.splits worker_mode.splits)
    with snoc m' False show ?thesis
      by (auto intro: last_checkpoint_snoc(1))
  qed
qed (auto simp: monitor_init_def)

lemma monitor_root:
  assumes "monitor_run lib c monitor_init es = Some m" "mo_root m = Some u"
  shows "\<exists>q. last_root es u q \<and> (mo_protected m \<longrightarrow> carries_finalizer u q)"
  using assms
proof (induction es arbitrary: m u rule: rev_induct)
  case (snoc e es)
  then obtain m' where m': "monitor_run lib c monitor_init es = Some m'" "monitor_step lib c m' e = Some m"
    by (auto simp: monitor_run_append split: option.splits)
  show ?case
  proof (cases "is_root_event e")
    case True
    with m' snoc.prems show ?thesis
      by (cases e) (auto simp: carries_finalizer_def intro!: exI [of _ "[]"] last_root_snoc(2))
  next
    case False
    with m'(2) have r: "mo_root m' = mo_root m" "mo_protected m \<Longrightarrow> mo_protected m'
        \<or> (\<exists>v. e = RtRootUpdated v \<and> om_UID (un_Meta v) = om_UID (un_Meta u) \<and> Finalizer \<in> set (om_Finalizers (un_Meta v)))"
      using snoc.prems(2)
      by (cases e; auto split: if_splits slot.splits bool.splits worker_mode.splits sum.splits)+
    with snoc.IH [OF m'(1)] snoc.prems(2) obtain q where q: "last_root es u q" "mo_protected m' \<longrightarrow> carries_finalizer u q"
      by auto
    show ?thesis
      using last_root_snoc(1) [OF q(1) False] q(2) r(2) by (intro exI [of _ "q @ [e]"]) (auto simp: carries_finalizer_def)
  qed
qed (auto simp: monitor_init_def)

text \<open>All workers but the one in the slot have ended.\<close>

definition all_ended :: "'h rt_event list \<Rightarrow> bool" where
  "all_ended es \<longleftrightarrow> (\<forall>p h mode q. es = p @ RtStarted h mode # q \<longrightarrow> worker_ended h q)"

fun slot_history :: "'h slot \<Rightarrow> 'h rt_event list \<Rightarrow> bool" where
  "slot_history Vacant es = all_ended es"
| "slot_history (Occupied h mode uid cancelled) es \<longleftrightarrow>
     (\<exists>p q. es = p @ RtStarted h mode # q \<and> all_ended p \<and> list_all (\<lambda>e. \<forall>h m. e \<noteq> RtStarted h m) q
        \<and> (cancelled \<longrightarrow> RtCancelled h \<in> set q))"

lemma worker_ended_append: "worker_ended h q \<Longrightarrow> worker_ended h (q @ q')"
  unfolding worker_ended_def by (metis append_Cons append_assoc)

lemma all_ended_snoc:
  assumes "all_ended es" "\<forall>h m. e \<noteq> RtStarted h m"
  shows "all_ended (es @ [e])"
  unfolding all_ended_def
proof (intro allI impI)
  fix p h mode q assume e: "es @ [e] = p @ RtStarted h mode # q"
  with assms(2) have "q \<noteq> []"
    by auto
  with e obtain q' where "q = q' @ [e]" "es = p @ RtStarted h mode # q'"
    by (cases q rule: rev_cases) auto
  with assms(1) show "worker_ended h q"
    by (auto simp: all_ended_def intro: worker_ended_append)
qed

lemma all_ended_append:
  assumes "all_ended p" "list_all (\<lambda>e. \<forall>h m. e \<noteq> RtStarted h m) q" "worker_ended h q"
  shows "all_ended (p @ RtStarted h mode # q)"
  unfolding all_ended_def
proof (intro allI impI)
  fix p' h' mode' q' assume e: "p @ RtStarted h mode # q = p' @ RtStarted h' mode' # q'"
  then consider us where "p = p' @ us" "us @ RtStarted h mode # q = RtStarted h' mode' # q'"
    | us where "p @ us = p'" "RtStarted h mode # q = us @ RtStarted h' mode' # q'"
    by (auto simp: append_eq_append_conv2)
  then show "worker_ended h' q'"
  proof cases
    case 1
    with assms show ?thesis
      by (cases us) (auto simp: all_ended_def intro: worker_ended_append)
  next
    case 2
    with assms show ?thesis
      by (cases us) auto
  qed
qed

lemma slot_history_snoc:
  assumes "slot_history s es" "\<forall>h m. e \<noteq> RtStarted h m"
  shows "slot_history s (es @ [e])"
proof (cases s)
  case Vacant
  with assms show ?thesis
    by (simp add: all_ended_snoc)
next
  case (Occupied h mode uid b)
  with assms obtain p q where "es = p @ RtStarted h mode # q" "all_ended p" "list_all (\<lambda>e. \<forall>h m. e \<noteq> RtStarted h m) q"
      "b \<longrightarrow> RtCancelled h \<in> set q"
    by auto
  with Occupied assms(2) show ?thesis
    by (simp, intro exI [of _ p] exI [of _ "q @ [e]"]) auto
qed

lemma slot_cleanup:
  assumes "slot_history (Occupied h mode uid True) es"
  shows "slot_history Vacant (es @ [RtCleanup h True])"
proof -
  from assms obtain p q where pq: "es = p @ RtStarted h mode # q" "all_ended p"
      "list_all (\<lambda>e. \<forall>h m. e \<noteq> RtStarted h m) q" "RtCancelled h \<in> set q"
    by auto
  from pq(4) obtain q1 q2 where "q = q1 @ RtCancelled h # q2"
    by (auto dest: split_list)
  then have "worker_ended h (q @ [RtCleanup h True])"
    by (auto simp: worker_ended_def)
  from all_ended_append [OF pq(2) _ this, of mode] pq(1,3) show ?thesis
    by simp
qed

lemma slot_cancel:
  assumes "slot_history (Occupied h mode uid b) es"
  shows "slot_history (Occupied h mode uid' True) (es @ [RtCancelled h])"
proof -
  from assms obtain p q where "es = p @ RtStarted h mode # q" "all_ended p" "list_all (\<lambda>e. \<forall>h m. e \<noteq> RtStarted h m) q"
    by auto
  then show ?thesis
    by (simp, intro exI [of _ p] exI [of _ "q @ [RtCancelled h]"]) auto
qed

lemma monitor_slot:
  assumes "monitor_run lib c monitor_init es = Some m"
  shows "slot_history (mo_slot m) es"
  using assms
proof (induction es arbitrary: m rule: rev_induct)
  case (snoc e es)
  then obtain m' where m': "monitor_run lib c monitor_init es = Some m'" "monitor_step lib c m' e = Some m"
    by (auto simp: monitor_run_append split: option.splits)
  note IH = snoc.IH [OF m'(1)]
  show ?case
  proof (cases e)
    case (RtStarted h mode)
    with m'(2) IH have "all_ended es" "mo_slot m = Occupied h mode (checkpoint_uid m') False"
      by (auto split: if_splits)
    with RtStarted show ?thesis
      by (simp, intro exI [of _ es] exI [of _ "[]"]) simp
  next
    case (RtCancelled h)
    with m'(2) IH slot_cancel [where h = h and es = es] show ?thesis
      by (auto split: slot.splits if_splits simp del: slot_history.simps)
  next
    case (RtCleanup h b)
    have weak: "slot_history (Occupied h mode uid False) es" if "slot_history (Occupied h mode uid True) es" for mode uid
      using that by auto
    show ?thesis
      using m'(2) IH slot_history_snoc [OF IH, of e] slot_history_snoc [OF weak, of _ _ e] slot_cleanup [of h _ _ es] RtCleanup
      by (auto split: slot.splits if_splits bool.splits simp del: slot_history.simps)
  qed (use m'(2) slot_history_snoc [OF IH, of e] in
      \<open>auto split: if_splits slot.splits worker_mode.splits simp del: slot_history.simps\<close>)
qed (auto simp: monitor_init_def all_ended_def)

lemma monitor_drained:
  assumes "monitor_run lib c monitor_init es = Some m"
  shows "(\<forall>h uid b. mo_slot m = Occupied h CleanupMode uid b \<longrightarrow> cleanup_started lib c es h uid)
    \<and> (\<forall>uid. uid \<in> mo_drained m \<longrightarrow> cleanup_confirmed lib c es uid)"
  using assms
proof (induction es arbitrary: m rule: rev_induct)
  case (snoc e es)
  then obtain m' where m': "monitor_run lib c monitor_init es = Some m'" "monitor_step lib c m' e = Some m"
    by (auto simp: monitor_run_append split: option.splits)
  note IH = snoc.IH [OF m'(1), THEN conjunct1, rule_format] snoc.IH [OF m'(1), THEN conjunct2, rule_format]
  note keep = cleanup_started_snoc(1) [OF IH(1), of _ _ _ e] cleanup_confirmed_snoc(1) [OF IH(2), of _ e]
  show ?case
  proof (cases e)
    case (RtStarted h mode)
    with m'(2) keep(2) show ?thesis
      by (auto split: if_splits simp: checkpoint_uid_def
          intro: cleanup_started_snoc(2) [OF monitor_checkpoint [OF m'(1)]])
  next
    case (RtDrained h b)
    with m'(2) keep show ?thesis
      by (auto split: slot.splits worker_mode.splits if_splits intro: cleanup_confirmed_snoc(2) [OF IH(1)])
  qed (use m'(2) keep in \<open>auto split: if_splits slot.splits bool.splits sum.splits\<close>)
qed (auto simp: monitor_init_def)

lemma decode_recording:
  "checkpoint_decode lib (runtime_checkpoints (recording r)) cm = checkpoint_decode lib (runtime_checkpoints r) cm"
  by (simp add: checkpoint_decode_def checkpoint_name_def runtime_checkpoints_def recording_def Let_def cong: json.case_cong)

lemma last_checkpoint_recording:
  "last_checkpoint lib (runtime_checkpoints (recording r)) = last_checkpoint lib (runtime_checkpoints r)"
  by (simp add: fun_eq_iff last_checkpoint_def decode_recording)

lemma cleanup_confirmed_recording:
  "cleanup_confirmed lib (runtime_checkpoints (recording r)) = cleanup_confirmed lib (runtime_checkpoints r)"
  by (simp add: fun_eq_iff cleanup_confirmed_def cleanup_started_def last_checkpoint_recording)

text \<open>
  Claim C35 (worker starts are guarded). In every history of the loop of \<open>Run\<close>, whatever the API server,
  the workers and the other clients do: when a worker is started, every worker started before has been
  cancelled and its credential cleanup has succeeded, so there is never more than one. When it is a
  session worker, the last read of the checkpoint found the accepted configuration of exactly the scale
  set that the last read of the object found, that object was not being deleted, and it carries the
  finalizer, as read or by an update that succeeded since. No job is accepted before its cleanup is
  guaranteed.
\<close>

theorem worker_starts_guarded:
  assumes "run_passes (recording r) (unnoted wait) n runtime_zero (w, []) = (st, w', pre @ RtStarted h mode # post)"
  shows "(\<forall>p h' mode' q. pre = p @ RtStarted h' mode' # q \<longrightarrow> worker_ended h' q)
    \<and> (mode = SessionMode \<longrightarrow> (\<exists>s u q. last_checkpoint (rt_lib r) (runtime_checkpoints r) pre s \<and> last_root pre u q
         \<and> om_UID (un_Meta u) = om_UID (rs_ObjectMeta (sn_ScaleSet s)) \<and> om_DeletionTimestamp (un_Meta u) = None
         \<and> carries_finalizer u q))"
proof -
  let ?c = "runtime_checkpoints (recording r)"
  obtain m m' where m: "monitor_run (rt_lib r) ?c monitor_init pre = Some m" "monitor_step (rt_lib r) ?c m (RtStarted h mode) = Some m'"
    using run_accepted [OF assms] by (auto simp: monitor_run_append split: option.splits)
  have "all_ended pre"
    using monitor_slot [OF m(1)] m(2) by (auto split: if_splits)
  moreover have "session_allowed m" if "mode = SessionMode"
    using m(2) that by (auto split: if_splits)
  ultimately show ?thesis
    using monitor_checkpoint [OF m(1)] monitor_root [OF m(1)]
    by (fastforce simp: all_ended_def session_allowed_def last_checkpoint_recording)
qed

text \<open>
  Claim C36 (the finalizer outlives the resources). In every history of the loop of \<open>Run\<close>, an update that
  leaves the scale set without the finalizer is made only on an object that is being deleted, and only
  after a cleanup worker, started from the checkpoint of that very scale set, has reported that nothing
  of it is left.
\<close>

theorem finalizer_after_cleanup:
  assumes "run_passes (recording r) (unnoted wait) n runtime_zero (w, []) = (st, w', pre @ RtRootUpdated u # post)"
    and "Finalizer \<notin> set (om_Finalizers (un_Meta u))"
  shows "om_DeletionTimestamp (un_Meta u) \<noteq> None
    \<and> cleanup_confirmed (rt_lib r) (runtime_checkpoints r) pre (om_UID (un_Meta u))"
proof -
  let ?c = "runtime_checkpoints (recording r)"
  obtain m m' where m: "monitor_run (rt_lib r) ?c monitor_init pre = Some m" "monitor_step (rt_lib r) ?c m (RtRootUpdated u) = Some m'"
    using run_accepted [OF assms(1)] by (auto simp: monitor_run_append split: option.splits)
  from monitor_drained [OF m(1)] m(2) assms(2) show ?thesis
    by (auto split: if_splits simp: cleanup_confirmed_recording)
qed

section \<open>A concrete run\<close>

text \<open>
  A cluster with the example configuration. The first pass starts a session; then the scale set is
  deleted, and the second pass replaces the session by a cleanup and removes the finalizer.
\<close>

record demo_cluster =
  dc_maps :: "checkpoint_map list"
  dc_root :: unstructured

definition on_maps :: "(checkpoint_map list \<Rightarrow> 'a \<times> checkpoint_map list) \<Rightarrow> demo_cluster \<Rightarrow> 'a \<times> demo_cluster" where
  "on_maps f w = (case f (dc_maps w) of (x, m) \<Rightarrow> (x, w\<lparr>dc_maps := m\<rparr>))"

definition demo_cluster_maps :: "demo_cluster checkpoint_maps" where
  "demo_cluster_maps = \<lparr>cks_Get = (\<lambda>n. on_maps (cks_Get history_maps n)), cks_Create = (\<lambda>cm. on_maps (cks_Create history_maps cm)),
     cks_Update = (\<lambda>cm. on_maps (cks_Update history_maps cm)), cks_Delete = (\<lambda>_ _ _ w. (None, w)),
     cks_List = (\<lambda>_ w. (Inr (length (dc_maps w)), w))\<rparr>"

definition found :: "'a option \<Rightarrow> err + 'a" where
  "found x = (case x of None \<Rightarrow> Inl (Err [StatusNotFound] ''not found'') | Some y \<Rightarrow> Inr y)"

definition demo_dynamic :: "demo_cluster dynamic_ops" where
  "demo_dynamic = \<lparr>dy_Get = (\<lambda>gvr ns n w. (if gvr = scale_sets then Inr (dc_root w) else found (map_of demo_objects (snd (snd gvr), n)), w)),
     dy_Update = (\<lambda>_ _ u w. (None, w\<lparr>dc_root := u\<rparr>)), dy_UpdateStatus = (\<lambda>_ _ u w. (None, w\<lparr>dc_root := u\<rparr>))\<rparr>"

definition demo_worker_ops :: "(demo_cluster, worker_mode) worker_ops" where
  "demo_worker_ops = \<lparr>wk_New = (\<lambda>_ _ mode w. (Inr mode, w)), wk_Run = (\<lambda>_ _ w. w),
     wk_Done = (\<lambda>h w. (if h = CleanupMode then Some None else None, w)), wk_Cancel = (\<lambda>_ w. w), wk_Cleanup = (\<lambda>_ w. (None, w)),
     wk_Ready = (\<lambda>_ w. (True, w)), wk_PauseAdmissions = (\<lambda>_ _ w. w), wk_Drain = (\<lambda>_ w. w),
     wk_Drained = (\<lambda>_ w. (Inr True, w))\<rparr>"

definition demo_runtime :: "(demo_cluster, worker_mode) runtime" where
  "demo_runtime = \<lparr>rt_Namespace = ''ns'', rt_Name = ''rs'', rt_Maps = demo_cluster_maps,
     rt_Secrets = \<lparr>se_Get = (\<lambda>n w. (found (map_of demo_secret_objects n), w))\<rparr>, rt_Dynamic = demo_dynamic,
     rt_Readiness = (\<lambda>_ w. w), rt_Workers = demo_worker_ops, rt_Now = Pair ''now'', rt_lib = demo_libraries\<rparr>"

definition demo_delete :: "demo_cluster \<Rightarrow> err option \<times> demo_cluster" where
  "demo_delete w = (None, w\<lparr>dc_root := (dc_root w)\<lparr>un_Meta := (un_Meta (dc_root w))\<lparr>om_DeletionTimestamp := Some 9\<rparr>\<rparr>\<rparr>)"

definition demo_start :: demo_cluster where
  "demo_start = \<lparr>dc_maps = [], dc_root = (demo_un ''RunnerScaleSet'' ''rs'')\<lparr>un_ScaleSet := JsonOf demo_scale_set\<rparr>\<rparr>"

definition demo_run :: "worker_mode runtime_state \<times> demo_cluster \<times> worker_mode rt_event list" where
  "demo_run = run_passes (recording demo_runtime) (unnoted demo_delete) 2 runtime_zero (demo_start, [])"

datatype event_tag = TagCheckpoint | TagRoot | TagUpdated bool | TagStarted worker_mode | TagCancelled | TagCleanup | TagDrained

fun event_tag_of :: "'h rt_event \<Rightarrow> event_tag" where
  "event_tag_of (RtCheckpoint _) = TagCheckpoint"
| "event_tag_of (RtRoot _) = TagRoot"
| "event_tag_of (RtRootUpdated u) = TagUpdated (Finalizer \<in> set (om_Finalizers (un_Meta u)))"
| "event_tag_of (RtStarted _ m) = TagStarted m"
| "event_tag_of (RtCancelled _) = TagCancelled"
| "event_tag_of (RtCleanup _ _) = TagCleanup"
| "event_tag_of (RtDrained _ _) = TagDrained"

lemma demo_run_tags:
  "map event_tag_of (snd (snd demo_run)) =
     [TagRoot, TagRoot, TagRoot, TagRoot, TagCheckpoint, TagRoot, TagUpdated True] @ TagStarted SessionMode #
     [TagRoot, TagRoot, TagCheckpoint, TagCancelled, TagCleanup, TagStarted CleanupMode, TagDrained, TagCancelled,
      TagCleanup, TagRoot] @ TagUpdated False # [TagRoot]"
  by code_simp

lemma tagged_split:
  assumes "map event_tag_of es = xs @ y # ys"
  obtains pre e post where "es = pre @ e # post" "event_tag_of e = y" "map event_tag_of pre = xs"
  using assms by (auto simp: map_eq_append_conv map_eq_Cons_conv)

lemma demo_run_split:
  assumes "map event_tag_of (snd (snd demo_run)) = xs @ y # ys"
  obtains pre e post where "event_tag_of e = y" "snd (snd demo_run) = pre @ e # post"
    "run_passes (recording demo_runtime) (unnoted demo_delete) 2 runtime_zero (demo_start, [])
       = (fst demo_run, fst (snd demo_run), pre @ e # post)"
  by (rule tagged_split [OF assms]) (metis demo_run_def prod.collapse)

lemma event_tag_cases:
  "event_tag_of e = TagStarted m \<Longrightarrow> \<exists>h. e = RtStarted h m"
  "event_tag_of e = TagUpdated b \<Longrightarrow> \<exists>u. e = RtRootUpdated u \<and> b = (Finalizer \<in> set (om_Finalizers (un_Meta u)))"
  by (cases e; simp)+

theorem worker_starts_guarded_witness:
  "\<exists>pre h post s u q. snd (snd demo_run) = pre @ RtStarted h SessionMode # post
     \<and> last_checkpoint demo_libraries (runtime_checkpoints demo_runtime) pre s \<and> last_root pre u q
     \<and> om_UID (un_Meta u) = om_UID (rs_ObjectMeta (sn_ScaleSet s)) \<and> carries_finalizer u q"
proof -
  obtain pre e post where e: "event_tag_of e = TagStarted SessionMode" "snd (snd demo_run) = pre @ e # post"
    and run: "run_passes (recording demo_runtime) (unnoted demo_delete) 2 runtime_zero (demo_start, [])
      = (fst demo_run, fst (snd demo_run), pre @ e # post)"
    using demo_run_split [OF demo_run_tags] by blast
  then obtain h where h: "e = RtStarted h SessionMode"
    using event_tag_cases(1) by blast
  have "rt_lib demo_runtime = demo_libraries"
    by (simp add: demo_runtime_def)
  with worker_starts_guarded [OF run [unfolded h]] e(2) h show ?thesis
    by auto
qed

theorem finalizer_after_cleanup_witness:
  "\<exists>pre u post. snd (snd demo_run) = pre @ RtRootUpdated u # post \<and> om_DeletionTimestamp (un_Meta u) \<noteq> None
     \<and> cleanup_confirmed demo_libraries (runtime_checkpoints demo_runtime) pre (om_UID (un_Meta u))"
proof -
  obtain pre e post where e: "event_tag_of e = TagUpdated False" "snd (snd demo_run) = pre @ e # post"
    and run: "run_passes (recording demo_runtime) (unnoted demo_delete) 2 runtime_zero (demo_start, [])
      = (fst demo_run, fst (snd demo_run), pre @ e # post)"
    using demo_run_split [OF demo_run_tags [unfolded append_Cons [symmetric] append_assoc [symmetric]]] by blast
  then obtain u where u: "e = RtRootUpdated u" "Finalizer \<notin> set (om_Finalizers (un_Meta u))"
    using event_tag_cases(2) by blast
  have "rt_lib demo_runtime = demo_libraries"
    by (simp add: demo_runtime_def)
  with finalizer_after_cleanup [OF run [unfolded u(1)] u(2)] e(2) u(1) show ?thesis
    by auto
qed

end
