(* ===== verification/Wireguard.thy ===== *)
theory Wireguard
  imports Lifecycle Base64 "HOL-Library.Word"
begin

unbundle bit_operations_syntax

text \<open>
  \<open>internal/wireguard/wireguard.go\<close>: identities, poll tokens and the peer snapshot of a network profile.
  The entropy source, the Curve25519 multiplication and SHA-256 are parameters; the clamping of a key,
  the encodings and the snapshot are modelled in full.
\<close>

section \<open>Keys\<close>

definition KeySize :: nat where
  "KeySize = 32"

record key_pair =
  kp_Private :: bytes
  kp_Public :: bytes

definition byte_word :: "char \<Rightarrow> 8 word" where
  "byte_word c = of_nat (of_char c)"

definition word_byte :: "8 word \<Rightarrow> char" where
  "word_byte b = char_of (unat b)"

definition clamp :: "bytes \<Rightarrow> bytes" where
  "clamp priv =
     (let priv = priv[0 := word_byte (byte_word (priv ! 0) AND 248)] in
      priv[31 := word_byte ((byte_word (priv ! 31) AND 127) OR 64)])"

record 'w key_source =
  ks_Read :: "nat \<Rightarrow> 'w \<Rightarrow> (err + bytes) \<times> 'w"
  ks_X25519_Basepoint :: "bytes \<Rightarrow> err + bytes"
  ks_sha256 :: "bytes \<Rightarrow> bytes"

definition wrap_err :: "string \<Rightarrow> err \<Rightarrow> err" where
  "wrap_err s e = Err (err_is e) (s @ err_text e)"

definition Generate :: "'w key_source \<Rightarrow> 'w \<Rightarrow> (err + key_pair) \<times> 'w" where
  "Generate ks w =
     (case ks_Read ks KeySize w of
        (Inl e, w) \<Rightarrow> (Inl (wrap_err ''wireguard: generate private key: '' e), w)
      | (Inr raw, w) \<Rightarrow>
          let priv = clamp raw in
          (case ks_X25519_Basepoint ks priv of
             Inl e \<Rightarrow> Inl (wrap_err ''wireguard: derive public key: '' e)
           | Inr pub \<Rightarrow> Inr \<lparr>kp_Private = priv, kp_Public = pub\<rparr>, w))"

section \<open>Poll tokens\<close>

definition PollTokenSize :: nat where
  "PollTokenSize = 32"

definition GeneratePollToken :: "'w key_source \<Rightarrow> 'w \<Rightarrow> (err + string \<times> bytes) \<times> 'w" where
  "GeneratePollToken ks w =
     (case ks_Read ks PollTokenSize w of
        (Inl e, w) \<Rightarrow> (Inl (wrap_err ''wireguard: generate poll token: '' e), w)
      | (Inr raw, w) \<Rightarrow> (Inr (hex_EncodeToString raw, ks_sha256 ks raw), w))"

definition HashPollToken :: "(bytes \<Rightarrow> bytes) \<Rightarrow> string \<Rightarrow> err + bytes" where
  "HashPollToken sha256 token =
     (case hex_DecodeString token of
        None \<Rightarrow> Inl (errors_New ''wireguard: decode poll token'')
      | Some raw \<Rightarrow> Inr (sha256 raw))"

definition DefaultListenPort :: nat where
  "DefaultListenPort = 51820"

section \<open>Peers\<close>

record peer =
  peer_AllocationID :: string
  peer_PublicKey :: string
  peer_OverlayAddress :: string
  peer_Endpoint :: string

definition peer_of :: "allocation \<Rightarrow> peer" where
  "peer_of a = \<lparr>peer_AllocationID = al_ID a, peer_PublicKey = base64_encode (al_WireGuardPublicKey a),
     peer_OverlayAddress = al_WireGuardOverlayAddress a, peer_Endpoint = al_WireGuardEndpoint a\<rparr>"

fun snapshot_loop :: "string \<Rightarrow> string \<Rightarrow> allocation list \<Rightarrow> peer list \<Rightarrow> peer list" where
  "snapshot_loop forID networkProfile [] peers = peers"
| "snapshot_loop forID networkProfile (a # allocations) peers =
     (if al_ID a = [] \<or> al_ID a = forID then snapshot_loop forID networkProfile allocations peers
      else if al_NetworkProfile a \<noteq> networkProfile \<or> al_Phase a \<noteq> Running
      then snapshot_loop forID networkProfile allocations peers
      else if al_WireGuardPublicKey a = [] \<or> al_WireGuardOverlayAddress a = []
      then snapshot_loop forID networkProfile allocations peers
      else snapshot_loop forID networkProfile allocations (peers @ [peer_of a]))"

definition Snapshot :: "string \<Rightarrow> string \<Rightarrow> allocation list \<Rightarrow> peer list" where
  "Snapshot forID networkProfile allocations =
     (if networkProfile = [] then []
      else sort_key peer_AllocationID (snapshot_loop forID networkProfile allocations []))"

record cloud_init_payload =
  cip_PrivateKey :: string
  cip_AllocationID :: string
  cip_ControllerURL :: string
  cip_PollToken :: string
  cip_OverlayAddress :: string
  cip_Peers :: "peer list"

section \<open>Correctness\<close>

lemma byte_word_inverse [simp]: "byte_word (word_byte b) = b"
proof -
  have "unat b < 256"
    using unsigned_less [of b] by simp
  then show ?thesis
    by (simp add: byte_word_def word_byte_def)
qed

text \<open>A clamped key is a canonical scalar, and clamping it again changes nothing.\<close>

lemma clamp_canonical:
  assumes "length raw = KeySize"
  shows "length (clamp raw) = KeySize" "byte_word (clamp raw ! 0) AND 7 = 0"
    "byte_word (clamp raw ! 31) AND 192 = 64" "clamp (clamp raw) = clamp raw"
proof -
  have and0: "(x AND 248) AND 7 = (0 :: 8 word)" "(x AND 248) AND 248 = x AND 248" for x :: "8 word"
    by (simp_all add: and.assoc)
  have and31: "((x AND 127) OR 64) AND 192 = (64 :: 8 word)" "(((x AND 127) OR 64) AND 127) OR 64 = (x AND 127) OR 64" for x :: "8 word"
    by (simp_all add: bit.conj_disj_distrib2 and.assoc or.assoc)
  show "length (clamp raw) = KeySize" "byte_word (clamp raw ! 0) AND 7 = 0"
    "byte_word (clamp raw ! 31) AND 192 = 64" "clamp (clamp raw) = clamp raw"
    using assms by (simp_all add: clamp_def Let_def KeySize_def and0 and31 list_update_swap)
qed

text \<open>The token a runner is given is the one whose hash the controller keeps.\<close>

lemma minted_token:
  assumes "GeneratePollToken ks w = (Inr (token, hash), w')"
  shows "HashPollToken (ks_sha256 ks) token = Inr hash"
  using assms by (auto simp: GeneratePollToken_def HashPollToken_def hex_decode_encode split: prod.splits sum.splits)

text \<open>The members of a profile other than \<open>forID\<close>.\<close>

definition member :: "string \<Rightarrow> string \<Rightarrow> allocation \<Rightarrow> bool" where
  "member forID networkProfile a \<longleftrightarrow> al_ID a \<noteq> [] \<and> al_ID a \<noteq> forID \<and> al_NetworkProfile a = networkProfile
     \<and> al_Phase a = Running \<and> al_WireGuardPublicKey a \<noteq> [] \<and> al_WireGuardOverlayAddress a \<noteq> []"

lemma snapshot_loop_filter:
  "snapshot_loop forID networkProfile allocations peers = peers @ map peer_of (filter (member forID networkProfile) allocations)"
  by (induction allocations arbitrary: peers) (auto simp: member_def)

lemma Snapshot_filter:
  "networkProfile \<noteq> [] \<Longrightarrow> Snapshot forID networkProfile allocations
     = sort_key peer_AllocationID (map peer_of (filter (member forID networkProfile) allocations))"
  by (simp add: Snapshot_def snapshot_loop_filter)

lemma Snapshot_set:
  "set (Snapshot forID networkProfile allocations)
     = (if networkProfile = [] then {} else peer_of ` {a \<in> set allocations. member forID networkProfile a})"
  by (auto simp: Snapshot_def snapshot_loop_filter)

lemma Snapshot_sorted: "sorted (map peer_AllocationID (Snapshot forID networkProfile allocations))"
  by (simp add: Snapshot_def)

lemma Snapshot_distinct:
  assumes "distinct (map al_ID allocations)"
  shows "distinct (map peer_AllocationID (Snapshot forID networkProfile allocations))"
proof -
  have "map peer_AllocationID (map peer_of as) = map al_ID as" for as
    by (simp add: peer_of_def)
  moreover from assms have "distinct (map al_ID (filter (member forID networkProfile) allocations))"
    by (rule distinct_map_filter)
  ultimately have "distinct (map peer_AllocationID (map peer_of (filter (member forID networkProfile) allocations)))"
    by metis
  then show ?thesis
    by (auto simp: Snapshot_def snapshot_loop_filter distinct_map inj_on_def)
qed

text \<open>The snapshot depends only on the membership, not on the order in which the records are listed.\<close>

lemma Snapshot_order_irrelevant:
  assumes "mset as = mset bs" "distinct (map al_ID as)"
  shows "Snapshot forID networkProfile as = Snapshot forID networkProfile bs"
proof (cases "networkProfile = []")
  case False
  have "inj_on peer_AllocationID (set (map peer_of (filter (member forID networkProfile) as)))"
    using assms(2) by (auto simp: inj_on_def peer_of_def distinct_map)
  moreover have "mset (map peer_of (filter (member forID networkProfile) as)) = mset (map peer_of (filter (member forID networkProfile) bs))"
    using assms(1) by (metis mset_filter mset_map)
  ultimately show ?thesis
    unfolding Snapshot_filter [OF False] by (intro sort_key_perm_unique)
qed (simp add: Snapshot_def)

end
