(* ===== verification/Tunnel.thy ===== *)
theory Tunnel
  imports Wireguard Overlay
begin

text \<open>
  \<open>internal/wireguard/tunnel\<close>: bringing up a device, adding and removing peers. The userspace WireGuard
  device is a third-party library and a parameter; the text of the configuration protocol that it is sent
  is modelled in full. What the agent relies on is the locale \<open>tunnel_device\<close>, which the tunnel provides over any
  device that follows the protocol.
\<close>

section \<open>Data\<close>

definition DefaultMTU :: nat where
  "DefaultMTU = 1420"

type_synonym addr_port = "addr \<times> nat"

text \<open>\<open>None\<close> is the zero \<open>netip.Addr\<close> or \<open>netip.AddrPort\<close>.\<close>

record tunnel_peer =
  tp_PublicKey :: bytes
  tp_OverlayAddress :: "addr option"
  tp_Endpoint :: "addr_port option"

record tunnel_config =
  tc_PrivateKey :: bytes
  tc_OverlayAddress :: "addr option"
  tc_ListenPort :: nat
  tc_Peers :: "tunnel_peer list"
  tc_MTU :: nat

record ('w, 'd) device_ops =
  dev_CreateNetTUN :: "addr \<Rightarrow> nat \<Rightarrow> 'w \<Rightarrow> (err + 'd) \<times> 'w"
  dev_IpcSet :: "'d \<Rightarrow> string \<Rightarrow> 'w \<Rightarrow> err option \<times> 'w"
  dev_Up :: "'d \<Rightarrow> 'w \<Rightarrow> err option \<times> 'w"
  dev_RemovePeer :: "'d \<Rightarrow> bytes \<Rightarrow> 'w \<Rightarrow> 'w"
  dev_Close :: "'d \<Rightarrow> 'w \<Rightarrow> 'w"

section \<open>The configuration text\<close>

definition newline :: char where
  "newline = CHR 0x0A"

definition AddrPort_String :: "addr_port \<Rightarrow> string" where
  "AddrPort_String p = (case p of
     (V4 v, n) \<Rightarrow> Addr_String (V4 v) @ '':'' @ digits_of 10 5 n
   | (V6 v, n) \<Rightarrow> ''['' @ Addr_String (V6 v) @ '']:'' @ digits_of 10 5 n)"

definition singleHostPrefix :: "addr \<Rightarrow> string" where
  "singleHostPrefix a = Addr_String a @ ''/'' @ digits_of 10 3 (BitLen a)"

definition addr_text :: "addr option \<Rightarrow> string" where
  "addr_text a = (case a of None \<Rightarrow> ''invalid Prefix'' | Some a \<Rightarrow> singleHostPrefix a)"

definition writePeerBlock :: "tunnel_peer \<Rightarrow> string" where
  "writePeerBlock p =
     ''public_key='' @ hex_EncodeToString (tp_PublicKey p) @ [newline]
     @ (case tp_Endpoint p of None \<Rightarrow> [] | Some e \<Rightarrow> ''endpoint='' @ AddrPort_String e @ [newline])
     @ ''allowed_ip='' @ addr_text (tp_OverlayAddress p) @ [newline]"

definition uapiConfig :: "tunnel_config \<Rightarrow> string" where
  "uapiConfig cfg =
     ''private_key='' @ hex_EncodeToString (tc_PrivateKey cfg) @ [newline]
     @ (if tc_ListenPort cfg \<noteq> 0 then ''listen_port='' @ digits_of 10 5 (tc_ListenPort cfg) @ [newline] else [])
     @ concat (map writePeerBlock (tc_Peers cfg))"

section \<open>Operations\<close>

definition no_overlay :: "bytes \<Rightarrow> err" where
  "no_overlay key = errors_New (''wireguard/tunnel: peer with public key '' @ base64_encode key @ '' has no overlay address'')"

fun bring_up_peers :: "tunnel_peer list \<Rightarrow> bytes list \<Rightarrow> err option" where
  "bring_up_peers [] seen = None"
| "bring_up_peers (p # ps) seen =
     (if tp_OverlayAddress p = None then Some (no_overlay (tp_PublicKey p))
      else if List.member seen (tp_PublicKey p)
      then Some (errors_New (''wireguard/tunnel: duplicate peer public key '' @ base64_encode (tp_PublicKey p)))
      else bring_up_peers ps (tp_PublicKey p # seen))"

definition BringUp :: "('w, 'd) device_ops \<Rightarrow> tunnel_config \<Rightarrow> 'w \<Rightarrow> (err + 'd) \<times> 'w" where
  "BringUp ops cfg w =
     (case tc_OverlayAddress cfg of
        None \<Rightarrow> (Inl (errors_New ''wireguard/tunnel: overlay address is required''), w)
      | Some overlay \<Rightarrow>
          (case bring_up_peers (tc_Peers cfg) [] of
             Some e \<Rightarrow> (Inl e, w)
           | None \<Rightarrow>
               (case dev_CreateNetTUN ops overlay (if tc_MTU cfg = 0 then DefaultMTU else tc_MTU cfg) w of
                  (Inl e, w) \<Rightarrow> (Inl (wrap_err ''wireguard/tunnel: create netstack TUN: '' e), w)
                | (Inr d, w) \<Rightarrow>
                    (case dev_IpcSet ops d (uapiConfig cfg) w of
                       (Some e, w) \<Rightarrow> (Inl (wrap_err ''wireguard/tunnel: configure device: '' e), dev_Close ops d w)
                     | (None, w) \<Rightarrow>
                         (case dev_Up ops d w of
                            (Some e, w) \<Rightarrow> (Inl (wrap_err ''wireguard/tunnel: bring device up: '' e), dev_Close ops d w)
                          | (None, w) \<Rightarrow> (Inr d, w))))))"

definition Tunnel_AddPeer :: "('w, 'd) device_ops \<Rightarrow> 'd \<Rightarrow> tunnel_peer \<Rightarrow> 'w \<Rightarrow> err option \<times> 'w" where
  "Tunnel_AddPeer ops d p w =
     (if tp_OverlayAddress p = None then (Some (no_overlay (tp_PublicKey p)), w)
      else case dev_IpcSet ops d (writePeerBlock p) w of
          (Some e, w) \<Rightarrow> (Some (wrap_err (''wireguard/tunnel: add peer '' @ base64_encode (tp_PublicKey p) @ '': '') e), w)
        | (None, w) \<Rightarrow> (None, w))"

definition Tunnel_RemovePeer :: "('w, 'd) device_ops \<Rightarrow> 'd \<Rightarrow> bytes \<Rightarrow> 'w \<Rightarrow> err option \<times> 'w" where
  "Tunnel_RemovePeer ops d key w = (None, dev_RemovePeer ops d key w)"

definition Tunnel_Close :: "('w, 'd) device_ops \<Rightarrow> 'd \<Rightarrow> 'w \<Rightarrow> err option \<times> 'w" where
  "Tunnel_Close ops d w = (None, dev_Close ops d w)"

text \<open>The interface the agent sees.\<close>

record 'w tunnel_ops =
  tn_AddPeer :: "tunnel_peer \<Rightarrow> 'w \<Rightarrow> err option \<times> 'w"
  tn_RemovePeer :: "bytes \<Rightarrow> 'w \<Rightarrow> err option \<times> 'w"
  tn_Close :: "'w \<Rightarrow> err option \<times> 'w"

definition tunnel_of :: "('w, 'd) device_ops \<Rightarrow> 'd \<Rightarrow> 'w tunnel_ops" where
  "tunnel_of ops d = \<lparr>tn_AddPeer = Tunnel_AddPeer ops d, tn_RemovePeer = Tunnel_RemovePeer ops d, tn_Close = Tunnel_Close ops d\<rparr>"

section \<open>Contracts\<close>

text \<open>
  \<open>configured\<close> are the public keys a device has as peers. A call that fails may have created the peer
  before it failed, and changes nothing else.
\<close>

locale tunnel_device =
  fixes t :: "'w tunnel_ops" and configured :: "'w \<Rightarrow> bytes set"
  assumes add_ok: "tn_AddPeer t p w = (None, w') \<Longrightarrow> configured w' = insert (tp_PublicKey p) (configured w)"
    and add_failed: "tn_AddPeer t p w = (Some e, w') \<Longrightarrow> configured w \<subseteq> configured w' \<and> configured w' \<subseteq> insert (tp_PublicKey p) (configured w)"
    and remove_ok: "tn_RemovePeer t key w = (None, w') \<Longrightarrow> configured w' = configured w - {key}"
    and remove_failed: "tn_RemovePeer t key w = (Some e, w') \<Longrightarrow> configured w' = configured w"

locale uapi_device =
  fixes ops :: "('w, 'd) device_ops" and d :: 'd and configured :: "'w \<Rightarrow> bytes set"
  assumes set_ok: "dev_IpcSet ops d (writePeerBlock p) w = (None, w') \<Longrightarrow> configured w' = insert (tp_PublicKey p) (configured w)"
    and set_failed: "dev_IpcSet ops d (writePeerBlock p) w = (Some e, w')
      \<Longrightarrow> configured w \<subseteq> configured w' \<and> configured w' \<subseteq> insert (tp_PublicKey p) (configured w)"
    and removed: "configured (dev_RemovePeer ops d key w) = configured w - {key}"
    and set_all: "dev_IpcSet ops d (uapiConfig cfg) w = (None, w') \<Longrightarrow> configured w' = configured w \<union> tp_PublicKey ` set (tc_Peers cfg)"

sublocale uapi_device \<subseteq> tunnel_device "tunnel_of ops d" configured
proof unfold_locales
  fix p w w'
  show "tn_AddPeer (tunnel_of ops d) p w = (None, w') \<Longrightarrow> configured w' = insert (tp_PublicKey p) (configured w)"
    by (auto simp: tunnel_of_def Tunnel_AddPeer_def dest: set_ok split: if_splits prod.splits option.splits)
next
  fix p w e w'
  show "tn_AddPeer (tunnel_of ops d) p w = (Some e, w')
      \<Longrightarrow> configured w \<subseteq> configured w' \<and> configured w' \<subseteq> insert (tp_PublicKey p) (configured w)"
    using set_failed by (fastforce simp: tunnel_of_def Tunnel_AddPeer_def split: if_splits prod.splits option.splits)
qed (auto simp: tunnel_of_def Tunnel_RemovePeer_def removed)

text \<open>Bringing up accepts exactly complete configurations without duplicate keys.\<close>

lemma bring_up_peers_iff:
  "bring_up_peers ps seen = None \<longleftrightarrow>
     (\<forall>p \<in> set ps. tp_OverlayAddress p \<noteq> None \<and> tp_PublicKey p \<notin> set seen) \<and> distinct (map tp_PublicKey ps)"
  by (induction ps arbitrary: seen) (auto simp: image_iff)

section \<open>A reference device\<close>

text \<open>
  A device that reads the protocol line by line and keeps the public keys it is given. The texts the
  tunnel sends have no line break inside a value, so they are read back as they were meant.
\<close>

definition public_key_line :: "string \<Rightarrow> bytes option" where
  "public_key_line l =
     (if strings_HasPrefix l ''public_key='' then hex_DecodeString (drop (length ''public_key='') l) else None)"

definition keys_of_text :: "string \<Rightarrow> bytes list" where
  "keys_of_text s = List.map_filter public_key_line (strings_Split s newline)"

definition reference_device :: "(bytes list, unit) device_ops" where
  "reference_device = \<lparr>dev_CreateNetTUN = (\<lambda>_ _ w. (Inr (), w)), dev_IpcSet = (\<lambda>_ s w. (None, keys_of_text s @ w)),
     dev_Up = (\<lambda>_ w. (None, w)), dev_RemovePeer = (\<lambda>_ key w. removeAll key w), dev_Close = (\<lambda>_ w. [])\<rparr>"

lemma Split_line: "sep \<notin> set l \<Longrightarrow> strings_Split (l @ sep # rest) sep = l # strings_Split rest sep"
  by (induction l) auto

lemma keys_of_line:
  "newline \<notin> set l \<Longrightarrow> keys_of_text (l @ newline # rest) = (case public_key_line l of None \<Rightarrow> [] | Some k \<Rightarrow> [k]) @ keys_of_text rest"
  by (simp add: keys_of_text_def Split_line List.map_filter_simps split: option.split)

lemma hex_digit_no_newline: "n < 16 \<Longrightarrow> hex_digit n \<noteq> newline"
  by (auto simp: hex_digit_def newline_def dest!: arg_cong [where f = "of_char :: char \<Rightarrow> nat"])

lemma digits_no_newline: "0 < base \<Longrightarrow> base \<le> 16 \<Longrightarrow> newline \<notin> set (digits_of base fuel n)"
proof (induction fuel arbitrary: n)
  case (Suc fuel)
  have "n mod base < 16"
    using Suc.prems by (meson mod_less_divisor order_less_le_trans)
  then show ?case
    using Suc hex_digit_no_newline [of n] hex_digit_no_newline [of "n mod base"] by auto
qed simp

lemma hex_no_newline: "newline \<notin> set (hex_EncodeToString s)"
proof -
  have "hex_char n \<noteq> newline" if "n < 16" for n
    using that by (auto simp: hex_char_def newline_def dest!: arg_cong [where f = "of_char :: char \<Rightarrow> nat"])
  moreover have "(of_char c :: nat) div 16 < 16" for c
    using of_char_less [of c] by linarith
  ultimately show ?thesis
    by (auto simp: hex_EncodeToString_def Let_def dest!: sym [of newline])
qed

lemma Addr_String_no_newline: "newline \<notin> set (Addr_String a)"
proof -
  have "newline \<notin> set (dotted bs)" for bs
    using digits_no_newline [of 10 3] by (auto simp: dotted_def decimal_byte_def newline_def)
  moreover have "newline \<notin> set (hex_groups gs)" for gs
    using digits_no_newline [of 16 4] by (auto simp: hex_groups_def newline_def)
  ultimately show ?thesis
    by (auto simp: Addr_String_def Let_def newline_def split: addr.split prod.split)
qed

lemma AddrPort_String_no_newline: "newline \<notin> set (AddrPort_String p)"
  using Addr_String_no_newline digits_no_newline [of 10 5]
  by (auto simp: AddrPort_String_def newline_def split: prod.split addr.split)

lemma addr_text_no_newline: "newline \<notin> set (addr_text a)"
  using Addr_String_no_newline digits_no_newline [of 10 3]
  by (auto simp: addr_text_def singleHostPrefix_def newline_def split: option.split)

lemma public_key_line_simps:
  "public_key_line (''public_key='' @ hex_EncodeToString k) = Some k"
  "public_key_line (''endpoint='' @ s) = None" "public_key_line (''allowed_ip='' @ s) = None"
  "public_key_line (''private_key='' @ s) = None" "public_key_line (''listen_port='' @ s) = None"
  by (simp_all add: public_key_line_def strings_HasPrefix_def hex_decode_encode)

lemma keys_of_value:
  assumes "newline \<notin> set label" "newline \<notin> set v"
  shows "keys_of_text (label @ v @ newline # rest)
    = (case public_key_line (label @ v) of None \<Rightarrow> [] | Some k \<Rightarrow> [k]) @ keys_of_text rest"
  using keys_of_line [of "label @ v" rest] assms by simp

lemma labels_no_newline:
  "newline \<notin> set ''public_key=''" "newline \<notin> set ''endpoint=''" "newline \<notin> set ''allowed_ip=''"
  "newline \<notin> set ''private_key=''" "newline \<notin> set ''listen_port=''"
  by (simp_all add: newline_def)

lemma keys_of_lines:
  "keys_of_text (''public_key='' @ hex_EncodeToString k @ newline # rest) = k # keys_of_text rest"
  "keys_of_text (''endpoint='' @ AddrPort_String e @ newline # rest) = keys_of_text rest"
  "keys_of_text (''allowed_ip='' @ addr_text a @ newline # rest) = keys_of_text rest"
  "keys_of_text (''private_key='' @ hex_EncodeToString k @ newline # rest) = keys_of_text rest"
  "keys_of_text (''listen_port='' @ digits_of 10 5 n @ newline # rest) = keys_of_text rest"
  unfolding keys_of_value [OF labels_no_newline(1) hex_no_newline] keys_of_value [OF labels_no_newline(2) AddrPort_String_no_newline]
    keys_of_value [OF labels_no_newline(3) addr_text_no_newline] keys_of_value [OF labels_no_newline(4) hex_no_newline]
    keys_of_value [OF labels_no_newline(5) digits_no_newline [of 10 5 n, simplified]] public_key_line_simps
  by simp_all

lemma line_end: "[newline] @ rest = newline # rest" "(newline # l) @ rest = newline # l @ rest"
  by simp_all

lemma keys_of_nothing: "keys_of_text [] = []"
  by (simp add: keys_of_text_def List.map_filter_simps public_key_line_def strings_HasPrefix_def)

lemma keys_of_block: "keys_of_text (writePeerBlock p @ rest) = tp_PublicKey p # keys_of_text rest"
  by (cases "tp_Endpoint p") (simp_all only: writePeerBlock_def append_assoc append_Nil line_end option.case keys_of_lines)

lemma keys_of_blocks: "keys_of_text (concat (map writePeerBlock ps)) = map tp_PublicKey ps"
  by (induction ps) (simp_all only: list.map concat.simps keys_of_block keys_of_nothing)

lemma keys_of_config: "keys_of_text (uapiConfig cfg) = map tp_PublicKey (tc_Peers cfg)"
  by (cases "tc_ListenPort cfg = 0") (simp_all only: uapiConfig_def if_True if_False not_True_eq_False not_False_eq_True simp_thms
      append_assoc append_Nil line_end keys_of_lines keys_of_blocks)

interpretation reference_tunnel: uapi_device reference_device "()" set
  by unfold_locales (use keys_of_block [of _ "[]"] in \<open>auto simp: reference_device_def keys_of_config keys_of_nothing\<close>)

end
