(* ===== verification/Health.thy ===== *)
theory Health
  imports Wireguard State_Store
begin

text \<open>
  \<open>internal/health\<close>: the probes, and the endpoint from which a runner refreshes its peer list. The
  routing of a request by \<open>http.ServeMux\<close> is taken as done; the store is the source's interface, with
  the Kubernetes store as its implementation.
\<close>

section \<open>Responses\<close>

datatype http_body = NoBody | TextBody string | PeersBody "peer list"

record http_response =
  hr_Status :: nat
  hr_ContentType :: string
  hr_Body :: http_body

definition StatusOK :: nat where "StatusOK = 200"
definition StatusUnauthorized :: nat where "StatusUnauthorized = 401"
definition StatusNotFoundCode :: nat where "StatusNotFoundCode = 404"
definition StatusInternalServerError :: nat where "StatusInternalServerError = 500"
definition StatusServiceUnavailable :: nat where "StatusServiceUnavailable = 503"

lemmas http_status_defs = StatusOK_def StatusUnauthorized_def StatusNotFoundCode_def StatusInternalServerError_def
  StatusServiceUnavailable_def

definition plain_text :: string where
  "plain_text = ''text/plain; charset=utf-8''"

section \<open>The peer endpoint\<close>

record 'w allocation_source =
  as_Load :: "string \<Rightarrow> 'w \<Rightarrow> (err + allocation) \<times> 'w"
  as_List :: "'w \<Rightarrow> (err + allocation list) \<times> 'w"

definition sha256_Size :: nat where
  "sha256_Size = 32"

definition decoyHash :: bytes where
  "decoyHash = replicate sha256_Size (CHR 0x00)"

definition bearer_prefix :: string where
  "bearer_prefix = ''Bearer ''"

definition extractBearerHash :: "(bytes \<Rightarrow> bytes) \<Rightarrow> string \<Rightarrow> bytes \<times> bool" where
  "extractBearerHash sha256 header =
     (if \<not> strings_HasPrefix header bearer_prefix then (decoyHash, False)
      else case HashPollToken sha256 (drop (length bearer_prefix) header) of
          Inl _ \<Rightarrow> (decoyHash, False)
        | Inr computed \<Rightarrow> (computed, True))"

definition unauthorized :: http_response where
  "unauthorized = \<lparr>hr_Status = StatusUnauthorized, hr_ContentType = [], hr_Body = NoBody\<rparr>"

definition poll_eligible :: "err + allocation \<Rightarrow> bool" where
  "poll_eligible x = (case x of Inl _ \<Rightarrow> False
     | Inr a \<Rightarrow> length (al_WireGuardPollTokenHash a) = sha256_Size \<and> al_Phase a \<noteq> Deleted \<and> al_Phase a \<noteq> TimedOut)"

definition peers_ServeHTTP ::
    "(bytes \<Rightarrow> bytes) \<Rightarrow> 'w allocation_source \<Rightarrow> string \<Rightarrow> string \<Rightarrow> 'w \<Rightarrow> http_response \<times> 'w" where
  "peers_ServeHTTP sha256 store pid authorization w =
     (case extractBearerHash sha256 authorization of (presented, tokenOK) \<Rightarrow>
      case as_Load store pid w of (loaded, w) \<Rightarrow>
      let eligible = poll_eligible loaded;
          expected = (case loaded of Inr a \<Rightarrow> if eligible then al_WireGuardPollTokenHash a else decoyHash | Inl _ \<Rightarrow> decoyHash);
          matching = (presented = expected) in
      if \<not> tokenOK \<or> \<not> eligible \<or> \<not> matching then (unauthorized, w)
      else case as_List store w of
          (Inl _, w) \<Rightarrow> (\<lparr>hr_Status = StatusInternalServerError, hr_ContentType = plain_text,
              hr_Body = TextBody (''peer snapshot unavailable'' @ [CHR 0x0A])\<rparr>, w)
        | (Inr allocations, w) \<Rightarrow>
            (\<lparr>hr_Status = StatusOK, hr_ContentType = ''application/json'',
              hr_Body = PeersBody (Snapshot pid (case loaded of Inr a \<Rightarrow> al_NetworkProfile a | Inl _ \<Rightarrow> []) allocations)\<rparr>, w))"

section \<open>Probes\<close>

datatype endpoint = Healthz | Readyz | WireGuardPeersOf string | OtherPath

definition not_found :: http_response where
  "not_found = \<lparr>hr_Status = StatusNotFoundCode, hr_ContentType = plain_text,
     hr_Body = TextBody (''404 page not found'' @ [CHR 0x0A])\<rparr>"

fun Status_Handler ::
    "bool \<Rightarrow> (string \<Rightarrow> string \<Rightarrow> 'w \<Rightarrow> http_response \<times> 'w) option \<Rightarrow> endpoint \<Rightarrow> string \<Rightarrow> 'w \<Rightarrow> http_response \<times> 'w" where
  "Status_Handler ready peers Healthz authorization w =
     (\<lparr>hr_Status = StatusOK, hr_ContentType = plain_text, hr_Body = TextBody (''alive'' @ [CHR 0x0A])\<rparr>, w)"
| "Status_Handler ready peers Readyz authorization w =
     (if \<not> ready
      then (\<lparr>hr_Status = StatusServiceUnavailable, hr_ContentType = plain_text, hr_Body = TextBody (''not ready'' @ [CHR 0x0A])\<rparr>, w)
      else (\<lparr>hr_Status = StatusOK, hr_ContentType = plain_text, hr_Body = TextBody (''ready'' @ [CHR 0x0A])\<rparr>, w))"
| "Status_Handler ready peers (WireGuardPeersOf pid) authorization w =
     (case peers of None \<Rightarrow> (not_found, w) | Some serve \<Rightarrow> serve pid authorization w)"
| "Status_Handler ready peers OtherPath authorization w = (not_found, w)"

section \<open>Authorization\<close>

lemma extractBearerHash_iff:
  "extractBearerHash sha256 header = (hash, True) \<longleftrightarrow>
     (\<exists>token raw. header = bearer_prefix @ token \<and> hex_DecodeString token = Some raw \<and> hash = sha256 raw)"
proof -
  have "strings_HasPrefix header bearer_prefix \<longleftrightarrow> (\<exists>token. header = bearer_prefix @ token)"
    unfolding strings_HasPrefix_def by (metis append_eq_conv_conj append_take_drop_id)
  then show ?thesis
    by (auto simp: extractBearerHash_def HashPollToken_def split: sum.splits option.splits)
qed

text \<open>A request proves that its sender holds the token of the allocation it names.\<close>

definition authorized :: "(bytes \<Rightarrow> bytes) \<Rightarrow> string \<Rightarrow> allocation \<Rightarrow> bool" where
  "authorized sha256 header a \<longleftrightarrow> (\<exists>token raw. header = bearer_prefix @ token \<and> hex_DecodeString token = Some raw
     \<and> sha256 raw = al_WireGuardPollTokenHash a \<and> length (al_WireGuardPollTokenHash a) = sha256_Size
     \<and> al_Phase a \<noteq> Deleted \<and> al_Phase a \<noteq> TimedOut)"

lemma peers_ServeHTTP_cases:
  "peers_ServeHTTP sha256 store pid header w =
     (case as_Load store pid w of
        (Inl _, w) \<Rightarrow> (unauthorized, w)
      | (Inr a, w) \<Rightarrow>
          if \<not> authorized sha256 header a then (unauthorized, w)
          else case as_List store w of
              (Inl _, w) \<Rightarrow> (\<lparr>hr_Status = StatusInternalServerError, hr_ContentType = plain_text,
                  hr_Body = TextBody (''peer snapshot unavailable'' @ [CHR 0x0A])\<rparr>, w)
            | (Inr allocations, w) \<Rightarrow> (\<lparr>hr_Status = StatusOK, hr_ContentType = ''application/json'',
                  hr_Body = PeersBody (Snapshot pid (al_NetworkProfile a) allocations)\<rparr>, w))"
proof -
  obtain presented ok where e: "extractBearerHash sha256 header = (presented, ok)"
    by (cases "extractBearerHash sha256 header")
  have "authorized sha256 header a \<longleftrightarrow> ok \<and> poll_eligible (Inr a) \<and> presented = al_WireGuardPollTokenHash a" for a
    using extractBearerHash_iff [of sha256 header presented] extractBearerHash_iff [of sha256 header "al_WireGuardPollTokenHash a"] e
    by (auto simp: authorized_def poll_eligible_def)
  then show ?thesis
    by (auto simp: peers_ServeHTTP_def e Let_def poll_eligible_def split: prod.split sum.split)
qed

text \<open>What the endpoint needs of the store: a record is loaded under its own name.\<close>

locale named_source =
  fixes store :: "'w allocation_source"
  assumes load_named: "as_Load store pid w = (Inr a, w') \<Longrightarrow> al_ID a = pid"
begin

lemma served_own_allocation:
  assumes "peers_ServeHTTP sha256 store pid header w = (r, w')" "hr_Status r \<noteq> StatusUnauthorized"
  obtains a w1 where "as_Load store pid w = (Inr a, w1)" "al_ID a = pid" "authorized sha256 header a"
  using assms unfolding peers_ServeHTTP_cases
  by (auto simp: unauthorized_def dest: load_named split: prod.splits sum.splits if_splits)

lemma served_iff:
  "peers_ServeHTTP sha256 store pid header w = (r, w') \<and> hr_Status r = StatusOK \<longleftrightarrow>
     (\<exists>a w1 allocations. as_Load store pid w = (Inr a, w1) \<and> al_ID a = pid \<and> authorized sha256 header a
        \<and> as_List store w1 = (Inr allocations, w')
        \<and> r = \<lparr>hr_Status = StatusOK, hr_ContentType = ''application/json'',
              hr_Body = PeersBody (Snapshot pid (al_NetworkProfile a) allocations)\<rparr>)"
  unfolding peers_ServeHTTP_cases
  by (auto simp: unauthorized_def http_status_defs dest: load_named split: prod.splits sum.splits if_splits)

end

definition kubernetes_source :: "'w kubernetes \<Rightarrow> 'w allocation_source" where
  "kubernetes_source s = \<lparr>as_Load = Load s, as_List = List_allocations s\<rparr>"

lemma Load_named: "Load s pid w = (Inr a, w') \<Longrightarrow> al_ID a = pid"
  by (auto simp: Load_def split: prod.splits sum.splits if_splits)

interpretation poll_source: named_source "kubernetes_source s" for s :: "'w kubernetes"
  by unfold_locales (auto simp: kubernetes_source_def intro: Load_named)

text \<open>
  Claim C37 (the peer list is served to its runner only). The endpoint over the Kubernetes store answers
  with a peer list exactly when the request carries, as \<open>Bearer\<close> and hexadecimal, a token whose hash is
  the one recorded for the very allocation named in the path, and that allocation is not terminal; every
  other request that does not fail after authorization gets the same empty 401, whether the allocation
  exists or not. The list is sorted and has one entry for each other running allocation of the same
  network profile that has a key and an address, and nothing else.
\<close>

theorem peers_endpoint:
  "(fst (peers_ServeHTTP sha256 (kubernetes_source s) pid header w) = unauthorized \<longleftrightarrow>
      (\<forall>a w1. Load s pid w = (Inr a, w1) \<longrightarrow> \<not> authorized sha256 header a))
   \<and> (\<forall>r peers w'. peers_ServeHTTP sha256 (kubernetes_source s) pid header w = (r, w') \<longrightarrow> hr_Body r = PeersBody peers \<longrightarrow>
      (\<exists>a w1 allocations. Load s pid w = (Inr a, w1) \<and> al_ID a = pid \<and> authorized sha256 header a
         \<and> List_allocations s w1 = (Inr allocations, w') \<and> hr_Status r = StatusOK
         \<and> sorted (map peer_AllocationID peers)
         \<and> set peers = (if al_NetworkProfile a = [] then {} else peer_of `
             {b \<in> set allocations. member pid (al_NetworkProfile a) b})))"
proof (intro conjI allI impI)
  show "fst (peers_ServeHTTP sha256 (kubernetes_source s) pid header w) = unauthorized \<longleftrightarrow>
      (\<forall>a w1. Load s pid w = (Inr a, w1) \<longrightarrow> \<not> authorized sha256 header a)"
    unfolding peers_ServeHTTP_cases
    by (auto simp: kubernetes_source_def unauthorized_def http_status_defs split: prod.split sum.split)
next
  fix r peers w'
  assume r: "peers_ServeHTTP sha256 (kubernetes_source s) pid header w = (r, w')" "hr_Body r = PeersBody peers"
  then have "hr_Status r = StatusOK"
    unfolding peers_ServeHTTP_cases by (auto simp: unauthorized_def split: prod.splits sum.splits if_splits)
  with r(1) poll_source.served_iff obtain a w1 allocations where
    a: "Load s pid w = (Inr a, w1)" "al_ID a = pid" "authorized sha256 header a" "List_allocations s w1 = (Inr allocations, w')"
      "r = \<lparr>hr_Status = StatusOK, hr_ContentType = ''application/json'', hr_Body = PeersBody (Snapshot pid (al_NetworkProfile a) allocations)\<rparr>"
    unfolding kubernetes_source_def by (metis allocation_source.select_convs)
  then show "\<exists>a w1 allocations. Load s pid w = (Inr a, w1) \<and> al_ID a = pid \<and> authorized sha256 header a
         \<and> List_allocations s w1 = (Inr allocations, w') \<and> hr_Status r = StatusOK
         \<and> sorted (map peer_AllocationID peers)
         \<and> set peers = (if al_NetworkProfile a = [] then {} else peer_of `
             {b \<in> set allocations. member pid (al_NetworkProfile a) b})"
    using r(2) Snapshot_sorted [of pid "al_NetworkProfile a" allocations] Snapshot_set [of pid "al_NetworkProfile a" allocations]
    by auto
qed

text \<open>The token minted at creation is accepted, for as long as the record is not terminal.\<close>

lemma minted_token_authorized:
  assumes "GeneratePollToken ks w = (Inr (token, hash), w')" "al_WireGuardPollTokenHash a = hash"
    "length hash = sha256_Size" "al_Phase a \<noteq> Deleted" "al_Phase a \<noteq> TimedOut"
  shows "authorized (ks_sha256 ks) (bearer_prefix @ token) a"
  using minted_token [OF assms(1)] assms(2-5) by (auto simp: authorized_def HashPollToken_def split: option.splits)

section \<open>A concrete request\<close>

definition demo_runner :: "string \<Rightarrow> phase \<Rightarrow> allocation" where
  "demo_runner n ph = (demo_allocation ph)\<lparr>al_ID := n, al_NetworkProfile := ''net'', al_WireGuardPublicKey := ''key'',
     al_WireGuardOverlayAddress := ''10.0.0.1'', al_WireGuardPollTokenHash := replicate 32 (CHR ''h'')\<rparr>"

definition demo_fleet_server :: "allocation json memory_server" where
  "demo_fleet_server = \<lparr>ms_objects = map (\<lambda>(n, ph). (n, allocation_map demo_kubernetes (demo_runner n ph) ''v'' (JsonOf (demo_runner n ph))))
     [(''a'', Running), (''c'', Running), (''b'', Running), (''d'', Deleting)], ms_version = 4\<rparr>"

definition demo_poll :: "string \<Rightarrow> http_response \<times> allocation json memory_server" where
  "demo_poll header = peers_ServeHTTP (\<lambda>_. replicate 32 (CHR ''h'')) (kubernetes_source demo_kubernetes) ''a'' header demo_fleet_server"

lemma demo_polls:
  "(hr_Body (fst (demo_poll ''Bearer 0f'')), demo_poll ''Basic 0f'', demo_poll ''Bearer 0'')
     = (PeersBody [peer_of (demo_runner ''b'' Running), peer_of (demo_runner ''c'' Running)],
        (unauthorized, demo_fleet_server), (unauthorized, demo_fleet_server))"
  by code_simp

theorem peers_endpoint_witness:
  "\<exists>a w1. Load demo_kubernetes ''a'' demo_fleet_server = (Inr a, w1)
     \<and> authorized (\<lambda>_. replicate 32 (CHR ''h'')) ''Bearer 0f'' a"
proof -
  let ?sha = "\<lambda>_ :: bytes. replicate 32 (CHR ''h'')"
  obtain r w' where r: "demo_poll ''Bearer 0f'' = (r, w')"
    by (cases "demo_poll ''Bearer 0f''")
  have body: "\<exists>peers. hr_Body r = PeersBody peers"
    using arg_cong [OF demo_polls, of fst] by (simp only: r prod.sel) blast
  from peers_endpoint [of ?sha demo_kubernetes "''a''" "''Bearer 0f''" demo_fleet_server, THEN conjunct2, rule_format,
      OF r [unfolded demo_poll_def]] body show ?thesis
    by blast
qed

end
