(* ===== verification/Agent.thy ===== *)
theory Agent
  imports Tunnel Health
begin

text \<open>
  \<open>internal/wireguard/agent\<close>: the agent on a runner. It brings up the tunnel from the payload that was
  delivered at boot, polls the controller for the current peer list and converges the device to it. The
  HTTP transport, the file system and the address parsers of \<open>net/netip\<close> are parameters.
\<close>

section \<open>Peers\<close>

record address_parser =
  ap_ParseAddr :: "string \<Rightarrow> err + addr"
  ap_ParseAddrPort :: "string \<Rightarrow> err + addr_port"

definition decode_key :: "string \<Rightarrow> bytes option" where
  "decode_key s = (case base64_decode s of None \<Rightarrow> None | Some raw \<Rightarrow> if length raw \<noteq> KeySize then None else Some raw)"

definition malformed :: "string \<Rightarrow> string \<Rightarrow> string" where
  "malformed pid what = ''agent: peer '' @ pid @ '' has a malformed '' @ what @ '': ''"

definition DecodePeer :: "address_parser \<Rightarrow> peer \<Rightarrow> err + tunnel_peer" where
  "DecodePeer ap p =
     (case decode_key (peer_PublicKey p) of
        None \<Rightarrow> Inl (errors_New (malformed (peer_AllocationID p) ''public key''))
      | Some pub \<Rightarrow>
          (case ap_ParseAddr ap (peer_OverlayAddress p) of
             Inl e \<Rightarrow> Inl (wrap_err (malformed (peer_AllocationID p) (''overlay address '' @ peer_OverlayAddress p)) e)
           | Inr overlay \<Rightarrow>
               if peer_Endpoint p = []
               then Inr \<lparr>tp_PublicKey = pub, tp_OverlayAddress = Some overlay, tp_Endpoint = None\<rparr>
               else (case ap_ParseAddrPort ap (peer_Endpoint p) of
                   Inl e \<Rightarrow> Inl (wrap_err (malformed (peer_AllocationID p) (''endpoint '' @ peer_Endpoint p)) e)
                 | Inr endpoint \<Rightarrow>
                     Inr \<lparr>tp_PublicKey = pub, tp_OverlayAddress = Some overlay, tp_Endpoint = Some endpoint\<rparr>)))"

section \<open>Reconcile\<close>

type_synonym membership = "(bytes, peer) gomap"

fun wanted_loop ::
    "address_parser \<Rightarrow> peer list \<Rightarrow> (bytes, peer \<times> tunnel_peer) gomap \<Rightarrow> err list \<Rightarrow> (bytes, peer \<times> tunnel_peer) gomap \<times> err list" where
  "wanted_loop ap [] wanted errs = (wanted, errs)"
| "wanted_loop ap (p # next_peers) wanted errs =
     (case DecodePeer ap p of
        Inl e \<Rightarrow> wanted_loop ap next_peers wanted (errs @ [e])
      | Inr decoded \<Rightarrow> wanted_loop ap next_peers (AList.update (tp_PublicKey decoded) (p, decoded) wanted) errs)"

fun add_loop ::
    "'w tunnel_ops \<Rightarrow> membership \<Rightarrow> (bytes, peer \<times> tunnel_peer) gomap \<Rightarrow> membership \<Rightarrow> err list \<Rightarrow> 'w \<Rightarrow> (membership \<times> err list) \<times> 'w" where
  "add_loop t current [] updated errs w = ((updated, errs), w)"
| "add_loop t current ((pub, p, decoded) # wanted) updated errs w =
     (if has_key current pub then add_loop t current wanted updated errs w
      else case tn_AddPeer t decoded w of
          (Some e, w) \<Rightarrow> add_loop t current wanted updated
            (errs @ [wrap_err (''agent: add peer '' @ peer_AllocationID p @ '': '') e]) w
        | (None, w) \<Rightarrow> add_loop t current wanted (AList.update pub p updated) errs w)"

fun remove_loop ::
    "'w tunnel_ops \<Rightarrow> (bytes, peer \<times> tunnel_peer) gomap \<Rightarrow> membership \<Rightarrow> membership \<Rightarrow> err list \<Rightarrow> 'w \<Rightarrow> (membership \<times> err list) \<times> 'w" where
  "remove_loop t wanted [] updated errs w = ((updated, errs), w)"
| "remove_loop t wanted ((pub, p) # current) updated errs w =
     (if has_key wanted pub then remove_loop t wanted current updated errs w
      else case tn_RemovePeer t pub w of
          (Some e, w) \<Rightarrow> remove_loop t wanted current updated
            (errs @ [wrap_err (''agent: remove peer '' @ peer_AllocationID p @ '': '') e]) w
        | (None, w) \<Rightarrow> remove_loop t wanted current (AList.delete pub updated) errs w)"

definition agent_Reconcile ::
    "address_parser \<Rightarrow> 'w tunnel_ops \<Rightarrow> membership \<Rightarrow> peer list \<Rightarrow> 'w \<Rightarrow> (membership \<times> err option) \<times> 'w" where
  "agent_Reconcile ap t current next_peers w =
     (case wanted_loop ap next_peers [] [] of (wanted, errs) \<Rightarrow>
      case add_loop t current wanted current errs w of ((updated, errs), w) \<Rightarrow>
      case remove_loop t wanted current updated errs w of ((updated, errs), w) \<Rightarrow>
        ((updated, errors_Join errs), w))"

section \<open>Polling\<close>

record 'w http_client =
  hc_NewRequest :: "string \<Rightarrow> err option"
  hc_Do :: "string \<Rightarrow> string \<Rightarrow> 'w \<Rightarrow> (err + nat \<times> peer list json) \<times> 'w"

text \<open>The body is decoded as one JSON value; what follows it is not looked at.\<close>

definition agent_Poll :: "'w http_client \<Rightarrow> string \<Rightarrow> string \<Rightarrow> string \<Rightarrow> 'w \<Rightarrow> (err + peer list) \<times> 'w" where
  "agent_Poll client controllerURL allocationID pollToken w =
     (let url = controllerURL @ ''/v1/wireguard/peers/'' @ allocationID in
      case hc_NewRequest client url of
        Some e \<Rightarrow> (Inl (wrap_err ''agent: build poll request: '' e), w)
      | None \<Rightarrow>
          (case hc_Do client url (''Bearer '' @ pollToken) w of
             (Inl e, w) \<Rightarrow> (Inl (wrap_err ''agent: poll request failed: '' e), w)
           | (Inr (status, body), w) \<Rightarrow>
               (if status \<noteq> 200 then Inl (errors_New (''agent: poll request returned status '' @ digits_of 10 5 status))
                else case body of
                    JsonBad e \<Rightarrow> Inl (wrap_err ''agent: decode poll response: '' e)
                  | JsonTrailing peers \<Rightarrow> Inr peers
                  | JsonOf peers \<Rightarrow> Inr peers, w)))"

section \<open>The agent\<close>

definition LoadPayload :: "('w \<Rightarrow> (err + cloud_init_payload json) \<times> 'w) \<Rightarrow> 'w \<Rightarrow> (err + cloud_init_payload) \<times> 'w" where
  "LoadPayload read_file w =
     (case read_file w of
        (Inl e, w) \<Rightarrow> (Inl (wrap_err ''agent: read payload file: '' e), w)
      | (Inr data, w) \<Rightarrow>
          (case json_decode ''invalid character after top-level value'' data of
             Inl e \<Rightarrow> Inl (wrap_err ''agent: decode payload: '' e)
           | Inr payload \<Rightarrow>
               if cip_PrivateKey payload = [] \<or> cip_OverlayAddress payload = [] \<or> cip_AllocationID payload = []
                  \<or> cip_ControllerURL payload = [] \<or> cip_PollToken payload = []
               then Inl (errors_New ''agent: payload missing a required field'')
               else Inr payload, w))"

fun initial_peers ::
    "address_parser \<Rightarrow> peer list \<Rightarrow> membership \<Rightarrow> tunnel_peer list \<Rightarrow> err list \<Rightarrow> membership \<times> tunnel_peer list \<times> err list" where
  "initial_peers ap [] current peers errs = (current, peers, errs)"
| "initial_peers ap (p # ps) current peers errs =
     (case DecodePeer ap p of
        Inl e \<Rightarrow> initial_peers ap ps current peers (errs @ [e])
      | Inr decoded \<Rightarrow> initial_peers ap ps (AList.update (tp_PublicKey decoded) p current) (peers @ [decoded]) errs)"

definition InitialConfig ::
    "address_parser \<Rightarrow> cloud_init_payload \<Rightarrow> err + (tunnel_config \<times> membership \<times> err option)" where
  "InitialConfig ap payload =
     (case decode_key (cip_PrivateKey payload) of
        None \<Rightarrow> Inl (errors_New ''agent: payload has a malformed private key'')
      | Some priv \<Rightarrow>
          (case ap_ParseAddr ap (cip_OverlayAddress payload) of
             Inl e \<Rightarrow> Inl (wrap_err ''agent: payload has a malformed overlay address: '' e)
           | Inr overlay \<Rightarrow>
               (case initial_peers ap (cip_Peers payload) [] [] [] of (current, peers, errs) \<Rightarrow>
                  Inr (\<lparr>tc_PrivateKey = priv, tc_OverlayAddress = Some overlay, tc_ListenPort = DefaultListenPort,
                        tc_Peers = peers, tc_MTU = 0\<rparr>, current, errors_Join errs))))"

definition agent_tick ::
    "address_parser \<Rightarrow> 'w http_client \<Rightarrow> cloud_init_payload \<Rightarrow> 'w tunnel_ops \<Rightarrow> membership \<Rightarrow> 'w \<Rightarrow> membership \<times> 'w" where
  "agent_tick ap client payload t current w =
     (case agent_Poll client (cip_ControllerURL payload) (cip_AllocationID payload) (cip_PollToken payload) w of
        (Inl _, w) \<Rightarrow> (current, w)
      | (Inr peers, w) \<Rightarrow> (case agent_Reconcile ap t current peers w of ((current, _), w) \<Rightarrow> (current, w)))"

text \<open>\<open>wait\<close> is the \<open>select\<close> between the context and the ticker.\<close>

partial_function (option) agent_loop ::
    "address_parser \<Rightarrow> 'w http_client \<Rightarrow> ('w \<Rightarrow> err option \<times> 'w) \<Rightarrow> cloud_init_payload \<Rightarrow> 'w tunnel_ops \<Rightarrow> membership \<Rightarrow> 'w
     \<Rightarrow> (err \<times> 'w) option" where
  "agent_loop ap client wait payload t current w =
     (case wait w of
        (Some e, w) \<Rightarrow> Some (e, w)
      | (None, w) \<Rightarrow>
          (case agent_tick ap client payload t current w of (current, w) \<Rightarrow>
             agent_loop ap client wait payload t current w))"

definition agent_Run ::
    "address_parser \<Rightarrow> 'w http_client \<Rightarrow> ('w \<Rightarrow> err option \<times> 'w) \<Rightarrow> ('w \<Rightarrow> (err + cloud_init_payload json) \<times> 'w)
     \<Rightarrow> (tunnel_config \<Rightarrow> 'w \<Rightarrow> (err + 'w tunnel_ops) \<times> 'w) \<Rightarrow> 'w \<Rightarrow> (err \<times> 'w) option" where
  "agent_Run ap client wait read_file bringUp w =
     (case LoadPayload read_file w of
        (Inl e, w) \<Rightarrow> Some (e, w)
      | (Inr payload, w) \<Rightarrow>
          (case InitialConfig ap payload of
             Inl e \<Rightarrow> Some (wrap_err ''agent: initial config: '' e, w)
           | Inr (cfg, current, _) \<Rightarrow>
               (case bringUp cfg w of
                  (Inl e, w) \<Rightarrow> Some (wrap_err ''agent: bring up tunnel: '' e, w)
                | (Inr t, w) \<Rightarrow>
                    map_option (\<lambda>(e, w). (e, snd (tn_Close t w))) (agent_loop ap client wait payload t current w))))"

definition agent_BringUp :: "('w, 'd) device_ops \<Rightarrow> tunnel_config \<Rightarrow> 'w \<Rightarrow> (err + 'w tunnel_ops) \<times> 'w" where
  "agent_BringUp ops cfg w =
     (case BringUp ops cfg w of (Inl e, w) \<Rightarrow> (Inl e, w) | (Inr d, w) \<Rightarrow> (Inr (tunnel_of ops d), w))"

text \<open>
  \<open>cmd/runnerscout-wireguard-agent\<close>: the options that \<open>flag\<close> parsed, with the positional arguments that
  were left.
\<close>

record agent_options =
  ago_payloadPath :: string
  ago_pollInterval :: int

definition agent_parseOptions :: "err + agent_options \<times> string list \<Rightarrow> err + agent_options" where
  "agent_parseOptions flags =
     (case flags of
        Inl e \<Rightarrow> Inl e
      | Inr (o', args) \<Rightarrow>
          if args \<noteq> [] then Inl (errors_New ''unexpected positional arguments'')
          else if ago_payloadPath o' = [] then Inl (errors_New ''-payload is required'')
          else if ago_pollInterval o' \<le> 0 then Inl (errors_New ''-poll-interval must be positive'')
          else Inr o')"

section \<open>What a reconciliation leaves configured\<close>




lemma wanted_loop_distinct: "distinct (keys wanted) \<Longrightarrow> distinct (keys (fst (wanted_loop ap ps wanted errs)))"
  by (induction ps arbitrary: wanted errs) (auto simp: distinct_keys_update split: sum.split)













section \<open>Convergence of the polling loop\<close>




















end
