(* ===== verification/Aws_Inventory.thy ===== *)
theory Aws_Inventory
  imports Wireguard Provider_Config Overlay
begin

text \<open>
  \<open>internal/provider/aws_sdk.go\<close> and \<open>aws_inventory.go\<close>: the session and the inventory of one allocation
  in EC2. The EC2 client of the SDK is the parameter \<open>ec2_ops\<close>. A pointer to a string is modelled as the
  string that \<open>aws.ToString\<close> reads from it, the empty one for \<open>nil\<close>; other pointers are options.
\<close>

section \<open>What EC2 reports\<close>

record aws_tag =
  tag_Key :: string
  tag_Value :: string

record aws_instance =
  in_InstanceId :: string
  in_ClientToken :: string
  in_Tags :: "aws_tag list"
  in_Placement :: "string option"
  in_State :: "string option"
  in_StateReason :: "string option"
  in_SubnetId :: string
  in_BlockDeviceMappings :: "(string \<times> string option) list"
  in_NetworkInterfaces :: "(string \<times> string) list"

record aws_volume =
  vo_VolumeId :: string
  vo_Tags :: "aws_tag list"
  vo_AvailabilityZone :: string
  vo_State :: string
  vo_Attachments :: "string list"

record aws_interface =
  ni_NetworkInterfaceId :: string
  ni_TagSet :: "aws_tag list"
  ni_OwnerId :: string
  ni_AvailabilityZone :: string
  ni_SubnetId :: string
  ni_Status :: string
  ni_Attachment :: "string option"

record aws_reservation =
  rv_OwnerId :: string
  rv_Instances :: "aws_instance list"

text \<open>\<open>pg_Known\<close>: the response metadata has a request ID (\<open>awsResponseKnown\<close>).\<close>

record 'a aws_page =
  pg_Items :: "'a list"
  pg_NextToken :: string
  pg_Known :: bool

record describe_request =
  dr_Filters :: "(string \<times> string list) list"
  dr_Ids :: "string list"
  dr_NextToken :: string

text \<open>An error of a call with the code of the \<open>smithy.APIError\<close> in its chain, if it has one.\<close>

type_synonym aws_err = "err \<times> string option"

record ebs_disk =
  ed_DeleteOnTermination :: "bool option"
  ed_Encrypted :: "bool option"
  ed_Settings :: string

type_synonym device_mapping = "string \<times> ebs_disk option"

record aws_image =
  im_ImageId :: string
  im_Architecture :: string
  im_State :: string
  im_Platform :: string
  im_RootDeviceType :: string
  im_RootDeviceName :: string
  im_ProductCodes :: "string list"
  im_BlockDeviceMappings :: "device_mapping list"

record interface_request =
  ir_DeviceIndex :: nat
  ir_SubnetId :: string
  ir_Groups :: "string list"
  ir_AssociatePublicIpAddress :: bool
  ir_AssociateCarrierIpAddress :: bool
  ir_DeleteOnTermination :: bool
  ir_Ipv6AddressCount :: nat

record metadata_options =
  mo_HttpEndpoint :: string
  mo_HttpTokens :: string
  mo_HttpPutResponseHopLimit :: nat
  mo_HttpProtocolIpv6 :: string
  mo_InstanceMetadataTags :: string

record market_options =
  mk_MarketType :: string
  mk_SpotInstanceType :: string
  mk_InstanceInterruptionBehavior :: string

record run_instances_input =
  ri_ImageId :: string
  ri_InstanceInitiatedShutdownBehavior :: string
  ri_InstanceType :: string
  ri_MinCount :: nat
  ri_MaxCount :: nat
  ri_ClientToken :: string
  ri_AvailabilityZone :: string
  ri_UserData :: string
  ri_BlockDeviceMappings :: "device_mapping list"
  ri_NetworkInterfaces :: "interface_request list"
  ri_MetadataOptions :: metadata_options
  ri_TagSpecifications :: "(string \<times> aws_tag list) list"
  ri_InstanceMarketOptions :: "market_options option"

record 'w ec2_ops =
  ec_DescribeInstances :: "describe_request \<Rightarrow> 'w \<Rightarrow> (aws_err + aws_reservation aws_page option) \<times> 'w"
  ec_DescribeVolumes :: "describe_request \<Rightarrow> 'w \<Rightarrow> (aws_err + aws_volume aws_page option) \<times> 'w"
  ec_DescribeNetworkInterfaces :: "describe_request \<Rightarrow> 'w \<Rightarrow> (aws_err + aws_interface aws_page option) \<times> 'w"
  ec_DescribeImages :: "string list \<Rightarrow> 'w \<Rightarrow> (aws_err + aws_image list option) \<times> 'w"
  ec_RunInstances :: "run_instances_input \<Rightarrow> 'w \<Rightarrow> (aws_err + (string \<times> aws_instance list) option) \<times> 'w"
  ec_TerminateInstances :: "string list \<Rightarrow> 'w \<Rightarrow> (aws_err + (string \<times> string option) list option) \<times> 'w"
  ec_DeleteVolume :: "string \<Rightarrow> 'w \<Rightarrow> aws_err option \<times> 'w"
  ec_DeleteNetworkInterface :: "string \<Rightarrow> 'w \<Rightarrow> aws_err option \<times> 'w"

section \<open>The session\<close>

record ('w, 'c) aws_sdk =
  sdk_Configured :: bool
  sdk_Retrieve :: "string \<Rightarrow> 'w \<Rightarrow> (err + 'c) \<times> 'w"
  sdk_GetCallerIdentity :: "string \<Rightarrow> 'c \<Rightarrow> 'w \<Rightarrow> (err + string option) \<times> 'w"
  sdk_CtxErr :: "'w \<Rightarrow> err option"
  sdk_Timer :: "'w \<Rightarrow> bool \<times> 'w"
  sdk_EC2 :: "string \<Rightarrow> 'c \<Rightarrow> 'w ec2_ops"

definition aws_session ::
    "('w, 'c) aws_sdk \<Rightarrow> provider_config \<Rightarrow> string \<Rightarrow> 'w \<Rightarrow> (err + 'w ec2_ops) \<times> 'w" where
  "aws_session sdk config region w =
     (if \<not> sdk_Configured sdk \<or> region = [] then (Inl (errors_New ''AWS SDK configuration unavailable''), w)
      else case sdk_Retrieve sdk region w of
          (Inl e, w) \<Rightarrow> (Inl e, w)
        | (Inr creds, w) \<Rightarrow>
            (case sdk_GetCallerIdentity sdk region creds w of (who, w) \<Rightarrow>
               (case sdk_CtxErr sdk w of
                  Some e \<Rightarrow> Inl e
                | None \<Rightarrow>
                    (case who of
                       Inl _ \<Rightarrow> Inl (errors_New ''AWS account identity unavailable'')
                     | Inr None \<Rightarrow> Inl (errors_New ''AWS account identity unavailable'')
                     | Inr (Some account) \<Rightarrow>
                         if account \<noteq> pc_AccountID config \<or> length (pc_AccountID config) \<noteq> 12
                         then Inl (errors_New ''AWS account identity mismatch'')
                         else Inr (sdk_EC2 sdk region creds)), w)))"

section \<open>The inventory\<close>

record aws_inventory =
  iv_instance :: "aws_instance option"
  iv_volumes :: "(string, aws_volume) gomap"
  iv_interfaces :: "(string, aws_interface) gomap"

fun tag_values :: "aws_tag list \<Rightarrow> (string, string) gomap \<Rightarrow> (string, string) gomap option" where
  "tag_values [] values = Some values"
| "tag_values (tag # tags) values =
     (if has_key values (tag_Key tag) then None
      else tag_values tags (AList.update (tag_Key tag) (tag_Value tag) values))"

definition awsOwned :: "aws_tag list \<Rightarrow> string \<Rightarrow> string \<Rightarrow> bool" where
  "awsOwned tags owner allocation =
     (case tag_values tags [] of
        None \<Rightarrow> False
      | Some values \<Rightarrow> map_get [] values ''runnerscout-owner'' = owner
          \<and> map_get [] values ''runnerscout-operation'' = allocation)"

definition awsOwnershipFilters :: "string \<Rightarrow> string \<Rightarrow> (string \<times> string list) list" where
  "awsOwnershipFilters owner allocation =
     [(''tag:runnerscout-owner'', [owner]), (''tag:runnerscout-operation'', [allocation])]"

definition awsMissing :: "aws_err + 'a \<Rightarrow> string \<Rightarrow> bool" where
  "awsMissing answer code = (case answer of Inl (_, Some c) \<Rightarrow> c = code | _ \<Rightarrow> False)"

text \<open>\<open>Inr None\<close>: no further page; \<open>Inr (Some seen)\<close>: one more page, with the tokens seen so far.\<close>

definition awsNext :: "string \<Rightarrow> string list \<Rightarrow> err + string list option" where
  "awsNext token seen =
     (if token = [] then Inr None
      else if List.member seen token \<or> length seen \<ge> 100
      then Inl (errors_New ''AWS inventory pagination invalid or excessive'')
      else Inr (Some (token # seen)))"

text \<open>
  The paging loop of the three listings. \<open>step\<close> requests the page of a token and folds it into the state; it
  returns the next token, or \<open>None\<close> to leave the loop.
\<close>

function awsPages ::
    "(string \<Rightarrow> 's \<Rightarrow> 'w \<Rightarrow> (err + 's \<times> string option) \<times> 'w) \<Rightarrow> string \<Rightarrow> string list \<Rightarrow> 's \<Rightarrow> 'w \<Rightarrow> (err + 's) \<times> 'w" where
  "awsPages step token seen s w =
     (case step token s w of
        (Inl e, w) \<Rightarrow> (Inl e, w)
      | (Inr (s, None), w) \<Rightarrow> (Inr s, w)
      | (Inr (s, Some next_token), w) \<Rightarrow>
          (case awsNext next_token seen of
             Inl e \<Rightarrow> (Inl e, w)
           | Inr None \<Rightarrow> (Inr s, w)
           | Inr (Some seen) \<Rightarrow> awsPages step next_token seen s w))"
  by pat_completeness auto
termination
  by (relation "measure (\<lambda>(step, token, seen, s, w). 100 - length seen)") (auto simp: awsNext_def split: if_splits)

declare awsPages.simps [simp del]

fun unsupported_dependency :: "resource_reference list \<Rightarrow> err option" where
  "unsupported_dependency [] = None"
| "unsupported_dependency (r # rs) =
     (if res_UID r \<noteq> [] then Some (errors_New ''unsupported AWS dependency generation'')
      else if res_Kind r \<noteq> ''aws-volume'' \<and> res_Kind r \<noteq> ''aws-network-interface''
      then Some (errors_New ''unsupported AWS dependency kind'')
      else unsupported_dependency rs)"

definition live_states :: "string list" where
  "live_states = [''pending'', ''running'', ''shutting-down'', ''terminated'', ''stopping'', ''stopped'']"

definition awsInstanceOwned :: "provider_config \<Rightarrow> allocation \<Rightarrow> aws_instance \<Rightarrow> bool" where
  "awsInstanceOwned p a i =
     (if in_InstanceId i = [] \<or> in_ClientToken i \<noteq> al_ID a \<or> \<not> awsOwned (in_Tags i) (pc_Owner p) (al_ID a)
         \<or> in_Placement i \<noteq> Some (off_Zone (al_Offering a)) \<or> in_State i = None then False
      else if in_State i \<noteq> Some ''terminated'' \<and> in_SubnetId i \<noteq> pc_Subnet p then False
      else list_ex (\<lambda>s. in_State i = Some s) live_states)"

fun take_instances :: "provider_config \<Rightarrow> allocation \<Rightarrow> aws_instance list \<Rightarrow> aws_instance option \<Rightarrow> err + aws_instance option" where
  "take_instances p a [] found = Inr found"
| "take_instances p a (i # instances) found =
     (if found \<noteq> None \<or> \<not> awsInstanceOwned p a i
      then Inl (errors_New ''AWS instance ownership or identity unconfirmed'')
      else take_instances p a instances (Some i))"

fun take_reservations :: "provider_config \<Rightarrow> allocation \<Rightarrow> aws_reservation list \<Rightarrow> aws_instance option \<Rightarrow> err + aws_instance option" where
  "take_reservations p a [] found = Inr found"
| "take_reservations p a (r # reservations) found =
     (if rv_OwnerId r \<noteq> pc_AccountID p then Inl (errors_New ''AWS reservation account mismatch'')
      else case take_instances p a (rv_Instances r) found of
          Inl e \<Rightarrow> Inl e
        | Inr found \<Rightarrow> take_reservations p a reservations found)"

definition instances_page ::
    "provider_config \<Rightarrow> 'w ec2_ops \<Rightarrow> allocation \<Rightarrow> string \<Rightarrow> aws_instance option \<Rightarrow> 'w
     \<Rightarrow> (err + aws_instance option \<times> string option) \<times> 'w" where
  "instances_page p c a token found w =
     (case ec_DescribeInstances c
             (if al_ResourceID a \<noteq> [] then \<lparr>dr_Filters = [], dr_Ids = [al_ResourceID a], dr_NextToken = token\<rparr>
              else \<lparr>dr_Filters = [(''client-token'', [al_ID a])], dr_Ids = [], dr_NextToken = token\<rparr>) w of (answer, w) \<Rightarrow>
        (if al_ResourceID a \<noteq> [] \<and> awsMissing answer ''InvalidInstanceID.NotFound'' then Inr (found, None)
         else case answer of
             Inr (Some page) \<Rightarrow>
               if \<not> pg_Known page then Inl (errors_New ''AWS instance inventory unavailable'')
               else if al_ResourceID a \<noteq> [] \<and> pg_Items page = []
               then Inl (errors_New ''AWS instance response omitted requested identity'')
               else (case take_reservations p a (pg_Items page) found of
                   Inl e \<Rightarrow> Inl e
                 | Inr found \<Rightarrow> Inr (found, Some (pg_NextToken page)))
           | _ \<Rightarrow> Inl (errors_New ''AWS instance inventory unavailable''), w))"

definition volume_owned :: "provider_config \<Rightarrow> allocation \<Rightarrow> aws_volume \<Rightarrow> bool" where
  "volume_owned p a v \<longleftrightarrow> awsOwned (vo_Tags v) (pc_Owner p) (al_ID a) \<and> vo_AvailabilityZone v = off_Zone (al_Offering a)"

definition interface_owned :: "provider_config \<Rightarrow> allocation \<Rightarrow> aws_interface \<Rightarrow> bool" where
  "interface_owned p a n \<longleftrightarrow> awsOwned (ni_TagSet n) (pc_Owner p) (al_ID a) \<and> ni_OwnerId n = pc_AccountID p
     \<and> ni_AvailabilityZone n = off_Zone (al_Offering a) \<and> ni_SubnetId n = pc_Subnet p"

fun take_volumes ::
    "provider_config \<Rightarrow> allocation \<Rightarrow> aws_volume list \<Rightarrow> (string, aws_volume) gomap \<Rightarrow> err + (string, aws_volume) gomap" where
  "take_volumes p a [] volumes = Inr volumes"
| "take_volumes p a (v # vs) volumes =
     (if has_key volumes (vo_VolumeId v) \<or> vo_VolumeId v = [] \<or> \<not> volume_owned p a v
      then Inl (errors_New ''AWS volume ownership unconfirmed'')
      else take_volumes p a vs (AList.update (vo_VolumeId v) v volumes))"

fun take_interfaces ::
    "provider_config \<Rightarrow> allocation \<Rightarrow> aws_interface list \<Rightarrow> (string, aws_interface) gomap \<Rightarrow> err + (string, aws_interface) gomap" where
  "take_interfaces p a [] interfaces = Inr interfaces"
| "take_interfaces p a (n # ns) interfaces =
     (if has_key interfaces (ni_NetworkInterfaceId n) \<or> ni_NetworkInterfaceId n = [] \<or> \<not> interface_owned p a n
      then Inl (errors_New ''AWS network interface ownership unconfirmed'')
      else take_interfaces p a ns (AList.update (ni_NetworkInterfaceId n) n interfaces))"

definition volumes_page ::
    "provider_config \<Rightarrow> 'w ec2_ops \<Rightarrow> allocation \<Rightarrow> string \<Rightarrow> (string, aws_volume) gomap \<Rightarrow> 'w
     \<Rightarrow> (err + (string, aws_volume) gomap \<times> string option) \<times> 'w" where
  "volumes_page p c a token volumes w =
     (case ec_DescribeVolumes c \<lparr>dr_Filters = awsOwnershipFilters (pc_Owner p) (al_ID a), dr_Ids = [], dr_NextToken = token\<rparr> w of
        (answer, w) \<Rightarrow>
          (case answer of
             Inr (Some page) \<Rightarrow>
               if \<not> pg_Known page then Inl (errors_New ''AWS volume inventory unavailable'')
               else (case take_volumes p a (pg_Items page) volumes of
                   Inl e \<Rightarrow> Inl e
                 | Inr volumes \<Rightarrow> Inr (volumes, Some (pg_NextToken page)))
           | _ \<Rightarrow> Inl (errors_New ''AWS volume inventory unavailable''), w))"

definition interfaces_page ::
    "provider_config \<Rightarrow> 'w ec2_ops \<Rightarrow> allocation \<Rightarrow> string \<Rightarrow> (string, aws_interface) gomap \<Rightarrow> 'w
     \<Rightarrow> (err + (string, aws_interface) gomap \<times> string option) \<times> 'w" where
  "interfaces_page p c a token interfaces w =
     (case ec_DescribeNetworkInterfaces c
             \<lparr>dr_Filters = awsOwnershipFilters (pc_Owner p) (al_ID a), dr_Ids = [], dr_NextToken = token\<rparr> w of
        (answer, w) \<Rightarrow>
          (case answer of
             Inr (Some page) \<Rightarrow>
               if \<not> pg_Known page then Inl (errors_New ''AWS network interface inventory unavailable'')
               else (case take_interfaces p a (pg_Items page) interfaces of
                   Inl e \<Rightarrow> Inl e
                 | Inr interfaces \<Rightarrow> Inr (interfaces, Some (pg_NextToken page)))
           | _ \<Rightarrow> Inl (errors_New ''AWS network interface inventory unavailable''), w))"

definition awsRecordedDependency ::
    "provider_config \<Rightarrow> 'w ec2_ops \<Rightarrow> allocation \<Rightarrow> resource_reference \<Rightarrow> aws_inventory \<Rightarrow> 'w \<Rightarrow> (err + aws_inventory) \<times> 'w" where
  "awsRecordedDependency p c a r iv w =
     (if res_Kind r = ''aws-volume'' then
        if \<not> strings_HasPrefix (res_ID r) ''vol-'' then (Inl (errors_New ''AWS recorded volume identity invalid''), w)
        else case ec_DescribeVolumes c \<lparr>dr_Filters = [], dr_Ids = [res_ID r], dr_NextToken = []\<rparr> w of (answer, w) \<Rightarrow>
          (if awsMissing answer ''InvalidVolume.NotFound''
           then Inr (iv\<lparr>iv_volumes := AList.delete (res_ID r) (iv_volumes iv)\<rparr>)
           else case answer of
               Inr (Some page) \<Rightarrow>
                 if \<not> pg_Known page then Inl (errors_New ''AWS recorded volume observation unavailable'')
                 else (case pg_Items page of
                     [v] \<Rightarrow> if vo_VolumeId v \<noteq> res_ID r \<or> \<not> volume_owned p a v
                            then Inl (errors_New ''AWS recorded volume ownership changed'')
                            else Inr (iv\<lparr>iv_volumes := AList.update (res_ID r) v (iv_volumes iv)\<rparr>)
                   | _ \<Rightarrow> Inl (errors_New ''AWS recorded volume observation unavailable''))
             | _ \<Rightarrow> Inl (errors_New ''AWS recorded volume observation unavailable''), w)
      else if res_Kind r = ''aws-network-interface'' then
        if \<not> strings_HasPrefix (res_ID r) ''eni-'' then (Inl (errors_New ''AWS recorded interface identity invalid''), w)
        else case ec_DescribeNetworkInterfaces c \<lparr>dr_Filters = [], dr_Ids = [res_ID r], dr_NextToken = []\<rparr> w of (answer, w) \<Rightarrow>
          (if awsMissing answer ''InvalidNetworkInterfaceID.NotFound''
           then Inr (iv\<lparr>iv_interfaces := AList.delete (res_ID r) (iv_interfaces iv)\<rparr>)
           else case answer of
               Inr (Some page) \<Rightarrow>
                 if \<not> pg_Known page then Inl (errors_New ''AWS recorded interface observation unavailable'')
                 else (case pg_Items page of
                     [n] \<Rightarrow> if ni_NetworkInterfaceId n \<noteq> res_ID r \<or> \<not> interface_owned p a n
                            then Inl (errors_New ''AWS recorded interface ownership changed'')
                            else Inr (iv\<lparr>iv_interfaces := AList.update (res_ID r) n (iv_interfaces iv)\<rparr>)
                   | _ \<Rightarrow> Inl (errors_New ''AWS recorded interface observation unavailable''))
             | _ \<Rightarrow> Inl (errors_New ''AWS recorded interface observation unavailable''), w)
      else (Inl (errors_New ''unsupported AWS dependency kind''), w))"

fun recorded_dependencies ::
    "provider_config \<Rightarrow> 'w ec2_ops \<Rightarrow> allocation \<Rightarrow> resource_reference list \<Rightarrow> aws_inventory \<Rightarrow> 'w \<Rightarrow> (err + aws_inventory) \<times> 'w" where
  "recorded_dependencies p c a [] iv w = (Inr iv, w)"
| "recorded_dependencies p c a (r # rs) iv w =
     (case awsRecordedDependency p c a r iv w of
        (Inl e, w) \<Rightarrow> (Inl e, w)
      | (Inr iv, w) \<Rightarrow> recorded_dependencies p c a rs iv w)"

definition volume_reference :: "string \<Rightarrow> resource_reference" where
  "volume_reference v = \<lparr>res_Kind = ''aws-volume'', res_ID = v, res_UID = []\<rparr>"

definition interface_reference :: "string \<Rightarrow> resource_reference" where
  "interface_reference n = \<lparr>res_Kind = ''aws-network-interface'', res_ID = n, res_UID = []\<rparr>"

definition instance_references :: "aws_instance option \<Rightarrow> resource_reference list" where
  "instance_references inst =
     (case inst of
        None \<Rightarrow> []
      | Some i \<Rightarrow> List.map_filter (\<lambda>(_, ebs). map_option volume_reference ebs) (in_BlockDeviceMappings i)
          @ map (interface_reference \<circ> fst) (in_NetworkInterfaces i))"

definition validateBindings :: "aws_inventory \<Rightarrow> string \<Rightarrow> err option" where
  "validateBindings iv instanceID =
     (let instanceID = (case iv_instance iv of None \<Rightarrow> instanceID | Some i \<Rightarrow> in_InstanceId i) in
      if list_ex (\<lambda>(_, v). list_ex (\<lambda>i. instanceID = [] \<or> i \<noteq> instanceID) (vo_Attachments v)) (iv_volumes iv)
      then Some (errors_New ''AWS volume attached outside its allocation'')
      else if list_ex (\<lambda>(_, n). case ni_Attachment n of None \<Rightarrow> False | Some i \<Rightarrow> instanceID = [] \<or> i \<noteq> instanceID) (iv_interfaces iv)
      then Some (errors_New ''AWS network interface attached outside its allocation'')
      else case iv_instance iv of
          None \<Rightarrow> None
        | Some i \<Rightarrow>
            if in_State i = Some ''terminated'' then None
            else if list_ex (\<lambda>(_, ebs). case ebs of None \<Rightarrow> False | Some v \<Rightarrow> \<not> has_key (iv_volumes iv) v) (in_BlockDeviceMappings i)
            then Some (errors_New ''AWS instance has an unowned or unobserved EBS attachment'')
            else if list_ex (\<lambda>(n, _). \<not> has_key (iv_interfaces iv) n) (in_NetworkInterfaces i)
            then Some (errors_New ''AWS instance has an unowned or unobserved network attachment'')
            else None)"

definition awsInventory ::
    "provider_config \<Rightarrow> 'w ec2_ops \<Rightarrow> allocation \<Rightarrow> 'w \<Rightarrow> (err + aws_inventory) \<times> 'w" where
  "awsInventory p c a w =
     (case unsupported_dependency (al_Resources a) of Some e \<Rightarrow> (Inl e, w) | None \<Rightarrow>
      case awsPages (instances_page p c a) [] [] None w of (Inl e, w) \<Rightarrow> (Inl e, w) | (Inr inst, w) \<Rightarrow>
      if (case inst of None \<Rightarrow> False | Some i \<Rightarrow> al_ResourceID a \<noteq> [] \<and> al_ResourceID a \<noteq> in_InstanceId i)
      then (Inl (errors_New ''AWS durable instance identity changed''), w)
      else case awsPages (volumes_page p c a) [] [] [] w of (Inl e, w) \<Rightarrow> (Inl e, w) | (Inr volumes, w) \<Rightarrow>
      case awsPages (interfaces_page p c a) [] [] [] w of (Inl e, w) \<Rightarrow> (Inl e, w) | (Inr interfaces, w) \<Rightarrow>
      case MergeResources [] (al_Resources a @ instance_references inst) of Inl e \<Rightarrow> (Inl e, w) | Inr (references, _) \<Rightarrow>
      case recorded_dependencies p c a references \<lparr>iv_instance = inst, iv_volumes = volumes, iv_interfaces = interfaces\<rparr> w of
        (Inl e, w) \<Rightarrow> (Inl e, w)
      | (Inr iv, w) \<Rightarrow>
          (case validateBindings iv (al_ResourceID a) of Some e \<Rightarrow> Inl e | None \<Rightarrow> Inr iv, w))"

definition instance_live :: "aws_inventory \<Rightarrow> bool" where
  "instance_live iv \<longleftrightarrow> (case iv_instance iv of None \<Rightarrow> False | Some i \<Rightarrow> in_State i \<noteq> Some ''terminated'')"

definition aws_observation :: "aws_inventory \<Rightarrow> allocation \<Rightarrow> err + observation" where
  "aws_observation iv a =
     (let rid = (case iv_instance iv of None \<Rightarrow> al_ResourceID a | Some i \<Rightarrow> in_InstanceId i);
          ex = (instance_live iv \<or> iv_volumes iv \<noteq> [] \<or> iv_interfaces iv \<noteq> []) in
      if ex \<and> rid = [] then Inl (errors_New ''AWS residual resources retain an unknown instance identity'')
      else if rid \<noteq> [] \<and> (\<not> strings_HasPrefix rid ''i-'' \<or> strings_ContainsAny rid [CHR '' '', CHR ''/'', CHR 0x0A, CHR 0x0D, CHR 0x09])
      then Inl (errors_New ''AWS durable instance identity invalid'')
      else case MergeResources [] (al_Resources a @ map (volume_reference \<circ> fst) (iv_volumes iv)
                  @ map (interface_reference \<circ> fst) (iv_interfaces iv)) of
          Inl e \<Rightarrow> Inl e
        | Inr (references, _) \<Rightarrow>
            Inr \<lparr>ob_Resources = references, ob_Exists = ex, ob_Known = True,
              ob_Interrupted = (\<not> ex \<and> off_Spot (al_Offering a) \<and> (case iv_instance iv of
                  None \<Rightarrow> False
                | Some i \<Rightarrow> in_State i = Some ''terminated'' \<and> in_StateReason i = Some ''Server.SpotInstanceTermination'')),
              ob_ResourceID = rid\<rparr>)"

end
