(* ===== verification/Aws_Adapter.thy ===== *)
theory Aws_Adapter
  imports Aws_Inventory
begin

text \<open>
  \<open>internal/provider/aws.go\<close>: creation, observation and deletion of the machine of an allocation in EC2.
  The call deadline of 30 seconds is part of the parameter: a call after it returns an error.
\<close>

section \<open>Creation\<close>

definition wireGuardEndpoint :: "string \<Rightarrow> string" where
  "wireGuardEndpoint privateIP =
     (if privateIP = [] then []
      else (if List.member privateIP (CHR '':'') then CHR ''['' # privateIP @ '']'' else privateIP)
        @ '':'' @ digits_of 10 5 DefaultListenPort)"

definition ErrNoEffect_error :: err where
  "ErrNoEffect_error = Err [ErrNoEffect] ''create preparation failed without cloud effects''"

definition ErrCapacity_error :: err where
  "ErrCapacity_error = Err [ErrCapacity] ''definitive capacity rejection''"

text \<open>The disks of the machine: encrypted and deleted with it. \<open>None\<close> refuses the image.\<close>

fun disk_mappings :: "device_mapping list \<Rightarrow> device_mapping list \<Rightarrow> string list \<Rightarrow> (device_mapping list \<times> string list) option" where
  "disk_mappings [] mappings expected = Some (mappings, expected)"
| "disk_mappings ((name, ebs) # rest) mappings expected =
     (case ebs of
        None \<Rightarrow> disk_mappings rest (mappings @ [(name, None)]) expected
      | Some disk \<Rightarrow>
          if name = [] \<or> List.member expected name then None
          else disk_mappings rest
            (mappings @ [(name, Some (disk\<lparr>ed_DeleteOnTermination := Some True, ed_Encrypted := Some True\<rparr>))]) (name # expected))"

definition image_architecture :: "string \<Rightarrow> string" where
  "image_architecture arch = (if arch = ''amd64'' then ''x86_64'' else if arch = ''arm64'' then ''arm64'' else [])"

definition image_usable :: "aws_image \<Rightarrow> string \<Rightarrow> bool" where
  "image_usable img arch \<longleftrightarrow> \<not> (image_architecture arch = [] \<or> im_Architecture img \<noteq> image_architecture arch
     \<or> im_State img \<noteq> ''available'' \<or> im_Platform img \<noteq> [] \<or> im_RootDeviceType img \<noteq> ''ebs''
     \<or> im_RootDeviceName img = [] \<or> im_ProductCodes img \<noteq> [])"

definition aws_tags :: "string \<Rightarrow> string \<Rightarrow> aws_tag list" where
  "aws_tags owner pid = [\<lparr>tag_Key = ''runnerscout-owner'', tag_Value = owner\<rparr>, \<lparr>tag_Key = ''runnerscout-operation'', tag_Value = pid\<rparr>]"

definition run_instances_request :: "provider_config \<Rightarrow> allocation \<Rightarrow> string \<Rightarrow> device_mapping list \<Rightarrow> run_instances_input" where
  "run_instances_request p a script mappings =
     (let tags = aws_tags (pc_Owner p) (al_ID a); o' = al_Offering a in
      \<lparr>ri_ImageId = off_Image o', ri_InstanceInitiatedShutdownBehavior = ''terminate'', ri_InstanceType = off_Machine o',
       ri_MinCount = 1, ri_MaxCount = 1, ri_ClientToken = al_ID a, ri_AvailabilityZone = off_Zone o',
       ri_UserData = base64_encode script, ri_BlockDeviceMappings = mappings,
       ri_NetworkInterfaces = [\<lparr>ir_DeviceIndex = 0, ir_SubnetId = pc_Subnet p, ir_Groups = [pc_SecurityGroup p],
          ir_AssociatePublicIpAddress = False, ir_AssociateCarrierIpAddress = False, ir_DeleteOnTermination = True,
          ir_Ipv6AddressCount = 0\<rparr>],
       ri_MetadataOptions = \<lparr>mo_HttpEndpoint = ''enabled'', mo_HttpTokens = ''required'', mo_HttpPutResponseHopLimit = 1,
          mo_HttpProtocolIpv6 = ''disabled'', mo_InstanceMetadataTags = ''disabled''\<rparr>,
       ri_TagSpecifications = [(''instance'', tags), (''volume'', tags), (''network-interface'', tags)],
       ri_InstanceMarketOptions = (if off_Spot o' then Some \<lparr>mk_MarketType = ''spot'', mk_SpotInstanceType = ''one-time'',
          mk_InstanceInterruptionBehavior = ''terminate''\<rparr> else None)\<rparr>)"

fun await_disks :: "nat \<Rightarrow> ('w \<Rightarrow> bool \<times> 'w) \<Rightarrow> 'w ec2_ops \<Rightarrow> aws_instance \<Rightarrow> 'w \<Rightarrow> aws_instance \<times> 'w" where
  "await_disks 0 timer c inst w = (inst, w)"
| "await_disks (Suc attempts) timer c inst w =
     (if in_BlockDeviceMappings inst \<noteq> [] then (inst, w)
      else case timer w of
          (False, w) \<Rightarrow> await_disks attempts timer c inst w
        | (True, w) \<Rightarrow>
            (case ec_DescribeInstances c \<lparr>dr_Filters = [], dr_Ids = [in_InstanceId inst], dr_NextToken = []\<rparr> w of (answer, w) \<Rightarrow>
               await_disks attempts timer c
                 (case answer of
                    Inr (Some page) \<Rightarrow>
                      (case pg_Items page of
                         [r] \<Rightarrow> (case rv_Instances r of [i] \<Rightarrow> i | _ \<Rightarrow> inst)
                       | _ \<Rightarrow> inst)
                  | _ \<Rightarrow> inst) w))"

definition aws_receipt :: "aws_instance \<Rightarrow> creation" where
  "aws_receipt i = creation_zero\<lparr>cr_ResourceID := in_InstanceId i,
     cr_Resources := map volume_reference (filter (\<lambda>v. v \<noteq> []) (List.map_filter snd (in_BlockDeviceMappings i)))
       @ map interface_reference (filter (\<lambda>n. n \<noteq> []) (map fst (in_NetworkInterfaces i))),
     cr_WireGuardEndpoint := (case in_NetworkInterfaces i of [(_, ip)] \<Rightarrow> wireGuardEndpoint ip | _ \<Rightarrow> [])\<rparr>"

definition aws_created :: "string list \<Rightarrow> aws_instance \<Rightarrow> creation \<times> err option" where
  "aws_created expected i =
     (let receipt = aws_receipt i;
          observed = map fst (filter (\<lambda>(_, ebs). ebs \<noteq> None) (in_BlockDeviceMappings i)) in
      case MergeResources [] (cr_Resources receipt) of
        Inl e \<Rightarrow> (receipt\<lparr>cr_Resources := []\<rparr>, Some e)
      | Inr (resources, _) \<Rightarrow>
          let receipt = receipt\<lparr>cr_Resources := resources\<rparr> in
          (receipt,
           if length (in_NetworkInterfaces i) \<noteq> 1 \<or> length (remdups observed) \<noteq> length expected \<or> length resources \<noteq> length expected + 1
           then Some (errors_New ''AWS creation dependencies incomplete'')
           else if list_ex (\<lambda>name. \<not> List.member observed name) expected
           then Some (errors_New ''AWS creation disk binding incomplete'')
           else None))"

definition run_instances ::
    "provider_config \<Rightarrow> ('w \<Rightarrow> bool \<times> 'w) \<Rightarrow> 'w ec2_ops \<Rightarrow> allocation \<Rightarrow> string \<Rightarrow> device_mapping list \<Rightarrow> string list \<Rightarrow> 'w
     \<Rightarrow> (creation \<times> err option) \<times> 'w" where
  "run_instances p timer c a script mappings expected w =
     (case ec_RunInstances c (run_instances_request p a script mappings) w of
        (Inl (e, code), w) \<Rightarrow>
          ((creation_zero, if code = Some ''InsufficientInstanceCapacity'' then Some ErrCapacity_error
            else Some (wrap_err ''AWS create commitment unknown: '' e)), w)
      | (Inr None, w) \<Rightarrow> ((creation_zero, Some (errors_New ''AWS create response ownership unconfirmed'')), w)
      | (Inr (Some (owner, instances)), w) \<Rightarrow>
          (case instances of
             [i] \<Rightarrow>
               if owner \<noteq> pc_AccountID p \<or> \<not> awsInstanceOwned p a i
               then ((creation_zero, Some (errors_New ''AWS create response ownership unconfirmed'')), w)
               else (case await_disks 3 timer c i w of (i, w) \<Rightarrow> (aws_created expected i, w))
           | _ \<Rightarrow> ((creation_zero, Some (errors_New ''AWS create response ownership unconfirmed'')), w)))"

definition createAWS ::
    "('w, 'c) aws_sdk \<Rightarrow> provider_config \<Rightarrow> allocation \<Rightarrow> string \<Rightarrow> 'w \<Rightarrow> (creation \<times> err option) \<times> 'w" where
  "createAWS sdk p a script w =
     (if al_ResourceID a \<noteq> [] \<or> al_Resources a \<noteq> []
      then ((creation_zero, Some (errors_New ''AWS create requires an unoccupied allocation'')), w)
      else case aws_session sdk p (off_Region (al_Offering a)) w of
          (Inl e, w) \<Rightarrow> ((creation_zero, Some e), w)
        | (Inr c, w) \<Rightarrow>
      case awsInventory p c a w of (inventory, w) \<Rightarrow>
      if (case inventory of Inl _ \<Rightarrow> True | Inr iv \<Rightarrow> iv_instance iv \<noteq> None \<or> iv_volumes iv \<noteq> [] \<or> iv_interfaces iv \<noteq> [])
      then ((creation_zero, Some (errors_New ''AWS allocation inventory is unknown or occupied'')), w)
      else case ec_DescribeImages c [off_Image (al_Offering a)] w of
          (Inr (Some [img]), w) \<Rightarrow>
            if im_ImageId img \<noteq> off_Image (al_Offering a) \<or> \<not> image_usable img (off_Architecture (al_Offering a))
            then ((creation_zero, Some ErrNoEffect_error), w)
            else (case disk_mappings (im_BlockDeviceMappings img) [] [] of
                None \<Rightarrow> ((creation_zero, Some ErrNoEffect_error), w)
              | Some (mappings, expected) \<Rightarrow>
                  if \<not> List.member expected (im_RootDeviceName img) then ((creation_zero, Some ErrNoEffect_error), w)
                  else run_instances p (sdk_Timer sdk) c a script mappings expected w)
        | (_, w) \<Rightarrow> ((creation_zero, Some ErrNoEffect_error), w))"

section \<open>Observation and deletion\<close>

definition observation_zero :: observation where
  "observation_zero = \<lparr>ob_Resources = [], ob_Exists = False, ob_Known = False, ob_Interrupted = False, ob_ResourceID = []\<rparr>"

definition observeAWS ::
    "('w, 'c) aws_sdk \<Rightarrow> provider_config \<Rightarrow> allocation \<Rightarrow> 'w \<Rightarrow> (observation \<times> err option) \<times> 'w" where
  "observeAWS sdk p a w =
     (case aws_session sdk p (off_Region (al_Offering a)) w of
        (Inl e, w) \<Rightarrow> ((observation_zero, Some e), w)
      | (Inr c, w) \<Rightarrow>
          (case awsInventory p c a w of
             (Inl e, w) \<Rightarrow> ((observation_zero, Some e), w)
           | (Inr iv, w) \<Rightarrow>
               (case aws_observation iv a of Inl e \<Rightarrow> (observation_zero, Some e) | Inr ob \<Rightarrow> (ob, None), w)))"

definition terminate_instance :: "'w ec2_ops \<Rightarrow> string \<Rightarrow> 'w \<Rightarrow> err option \<times> 'w" where
  "terminate_instance c rid w =
     (case ec_TerminateInstances c [rid] w of
        (Inl (e, _), w) \<Rightarrow> (Some (wrap_err ''AWS termination commitment unknown: '' e), w)
      | (Inr (Some [(i, current)]), w) \<Rightarrow>
          (if i \<noteq> rid \<or> current \<noteq> Some ''shutting-down'' \<and> current \<noteq> Some ''terminated''
           then Some (errors_New ''AWS termination identity or state unconfirmed'') else None, w)
      | (_, w) \<Rightarrow> (Some (errors_New ''AWS termination commitment unknown''), w))"

text \<open>\<open>Some r\<close> is a return from the loop with \<open>r\<close>; \<open>None\<close> means that nothing was deleted.\<close>

fun delete_volumes :: "'w ec2_ops \<Rightarrow> (string, aws_volume) gomap \<Rightarrow> string list \<Rightarrow> 'w \<Rightarrow> err option option \<times> 'w" where
  "delete_volumes c volumes [] w = (None, w)"
| "delete_volumes c volumes (v # ids) w =
     (case map_of volumes v of
        None \<Rightarrow> (Some (Some (errors_New ''AWS volume state unknown'')), w)
      | Some vol \<Rightarrow>
          if vo_Attachments vol \<noteq> [] then delete_volumes c volumes ids w
          else if vo_State vol = ''available'' then
            (case ec_DeleteVolume c v w of (e, w) \<Rightarrow>
               (case e of
                  None \<Rightarrow> Some None
                | Some x \<Rightarrow> if awsMissing (Inl x :: aws_err + unit) ''InvalidVolume.NotFound'' then Some None
                            else Some (Some (wrap_err ''AWS volume deletion commitment unknown: '' (fst x))), w))
          else if List.member [''creating'', ''in-use'', ''deleting'', ''deleted''] (vo_State vol) then delete_volumes c volumes ids w
          else (Some (Some (errors_New ''AWS volume state unknown'')), w))"

fun delete_interfaces :: "'w ec2_ops \<Rightarrow> (string, aws_interface) gomap \<Rightarrow> string list \<Rightarrow> 'w \<Rightarrow> err option option \<times> 'w" where
  "delete_interfaces c interfaces [] w = (None, w)"
| "delete_interfaces c interfaces (n # ids) w =
     (case map_of interfaces n of
        None \<Rightarrow> (Some (Some (errors_New ''AWS network interface state unknown'')), w)
      | Some net \<Rightarrow>
          if ni_Attachment net \<noteq> None then delete_interfaces c interfaces ids w
          else if ni_Status net = ''available'' then
            (case ec_DeleteNetworkInterface c n w of (e, w) \<Rightarrow>
               (case e of
                  None \<Rightarrow> Some None
                | Some x \<Rightarrow> if awsMissing (Inl x :: aws_err + unit) ''InvalidNetworkInterfaceID.NotFound'' then Some None
                            else Some (Some (wrap_err ''AWS network interface deletion commitment unknown: '' (fst x))), w))
          else if ni_Status net = ''in-use'' then delete_interfaces c interfaces ids w
          else (Some (Some (errors_New ''AWS network interface state unknown'')), w))"

definition delete_residues :: "'w ec2_ops \<Rightarrow> aws_inventory \<Rightarrow> 'w \<Rightarrow> err option \<times> 'w" where
  "delete_residues c iv w =
     (case delete_volumes c (iv_volumes iv) (sort (keys (iv_volumes iv))) w of
        (Some r, w) \<Rightarrow> (r, w)
      | (None, w) \<Rightarrow>
          (case delete_interfaces c (iv_interfaces iv) (sort (keys (iv_interfaces iv))) w of
             (Some r, w) \<Rightarrow> (r, w)
           | (None, w) \<Rightarrow> (None, w)))"

definition delete_observed :: "'w ec2_ops \<Rightarrow> allocation \<Rightarrow> aws_inventory \<Rightarrow> 'w \<Rightarrow> err option \<times> 'w" where
  "delete_observed c a iv w =
     (case aws_observation iv a of
        Inl e \<Rightarrow> (Some e, w)
      | Inr observed \<Rightarrow>
          if (case MergeResources (al_Resources a) (ob_Resources observed) of Inl _ \<Rightarrow> True | Inr (_, changed) \<Rightarrow> changed)
          then (Some (errors_New ''AWS dependencies require a durable checkpoint before deletion''), w)
          else if \<not> ob_Exists observed then (None, w)
          else if instance_live iv then
            if (case iv_instance iv of None \<Rightarrow> False | Some i \<Rightarrow> in_State i = Some ''shutting-down'') then (None, w)
            else terminate_instance c (ob_ResourceID observed) w
          else delete_residues c iv w)"

definition deleteAWS :: "('w, 'c) aws_sdk \<Rightarrow> provider_config \<Rightarrow> allocation \<Rightarrow> 'w \<Rightarrow> err option \<times> 'w" where
  "deleteAWS sdk p a w =
     (case aws_session sdk p (off_Region (al_Offering a)) w of
        (Inl e, w) \<Rightarrow> (Some e, w)
      | (Inr c, w) \<Rightarrow>
          (case awsInventory p c a w of
             (Inl e, w) \<Rightarrow> (Some e, w)
           | (Inr iv, w) \<Rightarrow> delete_observed c a iv w))"

end
