(* ===== verification/Cloud_Calls.thy ===== *)
theory Cloud_Calls
  imports Main
begin

text \<open>
  Recording of the calls that change a cloud: the world is extended by the list of such calls made so
  far. An operation that only reads is run \<open>quietly\<close>; a changing one is run \<open>noting\<close> itself.
\<close>

definition quietly :: "('w \<Rightarrow> 'a \<times> 'w) \<Rightarrow> 'w \<times> 'l list \<Rightarrow> 'a \<times> ('w \<times> 'l list)" where
  "quietly f = (\<lambda>(w, calls). case f w of (x, w) \<Rightarrow> (x, w, calls))"

definition noting :: "'l \<Rightarrow> ('w \<Rightarrow> 'a \<times> 'w) \<Rightarrow> 'w \<times> 'l list \<Rightarrow> 'a \<times> ('w \<times> 'l list)" where
  "noting call f = (\<lambda>(w, calls). case f w of (x, w) \<Rightarrow> (x, w, calls @ [call]))"

named_theorems calls_simps \<open>execution of recorded operations\<close>

lemma quietly_apply [calls_simps]: "quietly f (w, calls) = (case f w of (x, w) \<Rightarrow> (x, w, calls))"
  by (simp add: quietly_def)

lemma noting_apply [calls_simps]: "noting call f (w, calls) = (case f w of (x, w) \<Rightarrow> (x, w, calls @ [call]))"
  by (simp add: noting_def)

end
