(* ===== verification/Aws_Safety.thy ===== *)
theory Aws_Safety
  imports Aws_Adapter Cloud_Calls Lifecycle_Safety
begin

text \<open>
  What the adapter does to the cloud. The inventory of an allocation has only resources that EC2 reports
  with the ownership tags, account, zone and subnet of the allocation; the calls that change the cloud
  are recorded beside the world and justified by that inventory.
\<close>

section \<open>The inventory holds only owned resources\<close>

lemma awsPages_cases:
  assumes "awsPages step token seen s w = (Inr s', w')"
  obtains (last_page) nxt v where "step token s w = (Inr (s', nxt), v)"
  | (next_page) s1 t v seen' where "step token s w = (Inr (s1, Some t), v)" "awsNext t seen = Inr (Some seen')"
      "awsPages step t seen' s1 v = (Inr s', w')"
  using assms by (subst (asm) awsPages.simps) (auto split: prod.splits sum.splits option.splits)

lemma awsNext_length: "awsNext t seen = Inr (Some seen') \<Longrightarrow> 100 - length seen' < 100 - length seen"
  by (auto simp: awsNext_def split: if_splits)

lemma awsPages_invariant:
  assumes "awsPages step token seen s w = (Inr s', w')" "I s"
    and kept: "\<And>token s w s' nxt w'. step token s w = (Inr (s', nxt), w') \<Longrightarrow> I s \<Longrightarrow> I s'"
  shows "I s'"
  using assms(1,2)
proof (induction "100 - length seen" arbitrary: seen token s w rule: less_induct)
  case less
  from less.prems(1) show ?case
  proof (cases rule: awsPages_cases)
    case (last_page nxt v)
    then show ?thesis
      using kept less.prems(2) by blast
  next
    case (next_page s1 t v seen')
    then show ?thesis
      using kept less.prems(2) less.hyps [OF awsNext_length] by blast
  qed
qed

lemma take_instances_owned:
  assumes "take_instances p a insts found = Inr found'" "pred_option (awsInstanceOwned p a) found"
  shows "pred_option (awsInstanceOwned p a) found'"
  using assms by (induction insts arbitrary: found) (auto split: if_splits)

lemma take_reservations_owned:
  assumes "take_reservations p a rs found = Inr found'" "pred_option (awsInstanceOwned p a) found"
  shows "pred_option (awsInstanceOwned p a) found'"
  using assms
proof (induction rs arbitrary: found)
  case (Cons r rs)
  then obtain found1 where "take_instances p a (rv_Instances r) found = Inr found1" "take_reservations p a rs found1 = Inr found'"
    by (auto split: if_splits sum.splits)
  then show ?case
    using Cons.IH take_instances_owned Cons.prems(2) by blast
qed simp

definition volumes_owned :: "provider_config \<Rightarrow> allocation \<Rightarrow> (string, aws_volume) gomap \<Rightarrow> bool" where
  "volumes_owned p a volumes \<longleftrightarrow> (\<forall>k v. map_of volumes k = Some v \<longrightarrow> vo_VolumeId v = k \<and> volume_owned p a v)"

definition interfaces_owned :: "provider_config \<Rightarrow> allocation \<Rightarrow> (string, aws_interface) gomap \<Rightarrow> bool" where
  "interfaces_owned p a interfaces \<longleftrightarrow> (\<forall>k n. map_of interfaces k = Some n \<longrightarrow> ni_NetworkInterfaceId n = k \<and> interface_owned p a n)"

lemma volumes_owned_update: "volumes_owned p a volumes \<Longrightarrow> volume_owned p a v \<Longrightarrow> volumes_owned p a (AList.update (vo_VolumeId v) v volumes)"
  by (simp add: volumes_owned_def)

lemma interfaces_owned_update:
  "interfaces_owned p a interfaces \<Longrightarrow> interface_owned p a n \<Longrightarrow> interfaces_owned p a (AList.update (ni_NetworkInterfaceId n) n interfaces)"
  by (simp add: interfaces_owned_def)

lemma owned_delete:
  "volumes_owned p a volumes \<Longrightarrow> volumes_owned p a (AList.delete k volumes)"
  "interfaces_owned p a interfaces \<Longrightarrow> interfaces_owned p a (AList.delete k interfaces)"
  by (simp_all add: volumes_owned_def interfaces_owned_def)

lemma take_volumes_owned:
  assumes "take_volumes p a vs volumes = Inr volumes'" "volumes_owned p a volumes"
  shows "volumes_owned p a volumes'"
  using assms by (induction vs arbitrary: volumes) (simp_all add: volumes_owned_update split: if_splits)

lemma take_interfaces_owned:
  assumes "take_interfaces p a ns interfaces = Inr interfaces'" "interfaces_owned p a interfaces"
  shows "interfaces_owned p a interfaces'"
  using assms by (induction ns arbitrary: interfaces) (simp_all add: interfaces_owned_update split: if_splits)

lemma instances_page_owned:
  assumes "instances_page p c a token found w = (Inr (found', nxt), w')" "pred_option (awsInstanceOwned p a) found"
  shows "pred_option (awsInstanceOwned p a) found'"
proof -
  have "found' = found \<or> (\<exists>rs. take_reservations p a rs found = Inr found')"
    using assms(1) by (auto simp: instances_page_def split: prod.splits sum.splits option.splits if_splits)
  then show ?thesis
    using assms(2) take_reservations_owned by blast
qed

lemma volumes_page_owned:
  assumes "volumes_page p c a token volumes w = (Inr (volumes', nxt), w')" "volumes_owned p a volumes"
  shows "volumes_owned p a volumes'"
proof -
  have "\<exists>vs. take_volumes p a vs volumes = Inr volumes'"
    using assms(1) by (auto simp: volumes_page_def split: prod.splits sum.splits option.splits if_splits)
  then show ?thesis
    using assms(2) take_volumes_owned by blast
qed

lemma interfaces_page_owned:
  assumes "interfaces_page p c a token interfaces w = (Inr (interfaces', nxt), w')" "interfaces_owned p a interfaces"
  shows "interfaces_owned p a interfaces'"
proof -
  have "\<exists>ns. take_interfaces p a ns interfaces = Inr interfaces'"
    using assms(1) by (auto simp: interfaces_page_def split: prod.splits sum.splits option.splits if_splits)
  then show ?thesis
    using assms(2) take_interfaces_owned by blast
qed

definition inventory_owned :: "provider_config \<Rightarrow> allocation \<Rightarrow> aws_inventory \<Rightarrow> bool" where
  "inventory_owned p a iv \<longleftrightarrow> pred_option (awsInstanceOwned p a) (iv_instance iv)
     \<and> pred_option (\<lambda>i. al_ResourceID a = [] \<or> al_ResourceID a = in_InstanceId i) (iv_instance iv)
     \<and> volumes_owned p a (iv_volumes iv) \<and> interfaces_owned p a (iv_interfaces iv)"

lemma awsRecordedDependency_result:
  assumes "awsRecordedDependency p c a r iv w = (Inr iv', w')"
  obtains (volume) v where "volume_owned p a v" "iv' = iv\<lparr>iv_volumes := AList.update (vo_VolumeId v) v (iv_volumes iv)\<rparr>"
  | (no_volume) k where "iv' = iv\<lparr>iv_volumes := AList.delete k (iv_volumes iv)\<rparr>"
  | (network) n where "interface_owned p a n" "iv' = iv\<lparr>iv_interfaces := AList.update (ni_NetworkInterfaceId n) n (iv_interfaces iv)\<rparr>"
  | (no_network) k where "iv' = iv\<lparr>iv_interfaces := AList.delete k (iv_interfaces iv)\<rparr>"
  using assms
  by (auto simp: awsRecordedDependency_def split: if_splits prod.splits sum.splits option.splits list.splits)

lemma awsRecordedDependency_owned:
  assumes "awsRecordedDependency p c a r iv w = (Inr iv', w')" "inventory_owned p a iv"
  shows "inventory_owned p a iv'"
  using assms(1)
  by (cases rule: awsRecordedDependency_result)
    (use assms(2) in \<open>simp_all add: inventory_owned_def volumes_owned_update interfaces_owned_update owned_delete\<close>)

lemma recorded_dependencies_owned:
  assumes "recorded_dependencies p c a rs iv w = (Inr iv', w')" "inventory_owned p a iv"
  shows "inventory_owned p a iv'"
  using assms
proof (induction rs arbitrary: iv w)
  case (Cons r rs)
  then obtain iv1 w1 where first: "awsRecordedDependency p c a r iv w = (Inr iv1, w1)"
    and rest: "recorded_dependencies p c a rs iv1 w1 = (Inr iv', w')"
    by (auto split: prod.splits sum.splits)
  show ?case
    by (rule Cons.IH [OF rest awsRecordedDependency_owned [OF first Cons.prems(2)]])
qed simp

lemma awsInventory_owned:
  assumes "awsInventory p c a w = (Inr iv, w')"
  shows "inventory_owned p a iv"
proof -
  from assms obtain inst w1 volumes w2 interfaces w3 references w4 where
    inst: "awsPages (instances_page p c a) [] [] None w = (Inr inst, w1)"
      "\<not> (case inst of None \<Rightarrow> False | Some i \<Rightarrow> al_ResourceID a \<noteq> [] \<and> al_ResourceID a \<noteq> in_InstanceId i)"
    and volumes: "awsPages (volumes_page p c a) [] [] [] w1 = (Inr volumes, w2)"
    and interfaces: "awsPages (interfaces_page p c a) [] [] [] w2 = (Inr interfaces, w3)"
    and recorded: "recorded_dependencies p c a references \<lparr>iv_instance = inst, iv_volumes = volumes, iv_interfaces = interfaces\<rparr> w3 = (Inr iv, w4)"
    by (auto simp: awsInventory_def split: option.splits prod.splits sum.splits if_splits)
  have "pred_option (awsInstanceOwned p a) inst"
    by (rule awsPages_invariant [OF inst(1)]) (auto dest: instances_page_owned)
  moreover have "volumes_owned p a volumes"
    by (rule awsPages_invariant [OF volumes]) (auto simp: volumes_owned_def [of _ _ "[]"] dest: volumes_page_owned)
  moreover have "interfaces_owned p a interfaces"
    by (rule awsPages_invariant [OF interfaces]) (auto simp: interfaces_owned_def [of _ _ "[]"] dest: interfaces_page_owned)
  ultimately show ?thesis
    using recorded_dependencies_owned [OF recorded] inst(2) by (auto simp: inventory_owned_def split: option.splits)
qed

section \<open>The calls that change the cloud\<close>

datatype aws_call = Ran run_instances_input | Terminated "string list" | DeletedVolume string | DeletedInterface string

definition noted_ec2 :: "'w ec2_ops \<Rightarrow> ('w \<times> aws_call list) ec2_ops" where
  "noted_ec2 c = \<lparr>ec_DescribeInstances = (\<lambda>r. quietly (ec_DescribeInstances c r)),
     ec_DescribeVolumes = (\<lambda>r. quietly (ec_DescribeVolumes c r)),
     ec_DescribeNetworkInterfaces = (\<lambda>r. quietly (ec_DescribeNetworkInterfaces c r)),
     ec_DescribeImages = (\<lambda>r. quietly (ec_DescribeImages c r)),
     ec_RunInstances = (\<lambda>r. noting (Ran r) (ec_RunInstances c r)),
     ec_TerminateInstances = (\<lambda>r. noting (Terminated r) (ec_TerminateInstances c r)),
     ec_DeleteVolume = (\<lambda>r. noting (DeletedVolume r) (ec_DeleteVolume c r)),
     ec_DeleteNetworkInterface = (\<lambda>r. noting (DeletedInterface r) (ec_DeleteNetworkInterface c r))\<rparr>"

definition noted_sdk :: "('w, 'c) aws_sdk \<Rightarrow> ('w \<times> aws_call list, 'c) aws_sdk" where
  "noted_sdk sdk = \<lparr>sdk_Configured = sdk_Configured sdk, sdk_Retrieve = (\<lambda>r. quietly (sdk_Retrieve sdk r)),
     sdk_GetCallerIdentity = (\<lambda>r c. quietly (sdk_GetCallerIdentity sdk r c)), sdk_CtxErr = (\<lambda>(w, _). sdk_CtxErr sdk w),
     sdk_Timer = quietly (sdk_Timer sdk), sdk_EC2 = (\<lambda>r c. noted_ec2 (sdk_EC2 sdk r c))\<rparr>"

lemma noted_session:
  "aws_session (noted_sdk sdk) p r (w, calls) = (case aws_session sdk p r w of (x, w) \<Rightarrow> (map_sum id noted_ec2 x, w, calls))"
  by (auto simp: aws_session_def noted_sdk_def quietly_def split: prod.splits sum.splits option.splits)

lemma noted_pages:
  "awsPages (\<lambda>t s. quietly (step t s)) token seen s = (quietly (awsPages step token seen s) :: 'w \<times> 'l list \<Rightarrow> _)"
proof (induction "100 - length seen" arbitrary: seen token s rule: less_induct)
  case less
  have again: "awsPages (\<lambda>t s. quietly (step t s)) t seen' s1 (v, calls) = (case awsPages step t seen' s1 v of (x, v) \<Rightarrow> (x, v, calls))"
    if "awsNext t seen = Inr (Some seen')" for t seen' s1 v and calls :: "'l list"
    using less [OF awsNext_length [OF that]] by (simp add: quietly_apply)
  show ?case
    by (auto simp: fun_eq_iff quietly_apply awsPages.simps [of _ token seen s] again split: prod.split sum.split option.split)
qed

lemma noted_steps:
  "instances_page p (noted_ec2 c) a = (\<lambda>t s. quietly (instances_page p c a t s))"
  "volumes_page p (noted_ec2 c) a = (\<lambda>t s. quietly (volumes_page p c a t s))"
  "interfaces_page p (noted_ec2 c) a = (\<lambda>t s. quietly (interfaces_page p c a t s))"
  by (simp_all add: fun_eq_iff instances_page_def volumes_page_def interfaces_page_def noted_ec2_def quietly_apply split: prod.split)

lemma noted_dependency: "awsRecordedDependency p (noted_ec2 c) a r iv = quietly (awsRecordedDependency p c a r iv)"
  by (simp add: fun_eq_iff awsRecordedDependency_def noted_ec2_def quietly_apply split: prod.split)

lemma noted_dependencies: "recorded_dependencies p (noted_ec2 c) a rs iv = quietly (recorded_dependencies p c a rs iv)"
proof (induction rs arbitrary: iv)
  case (Cons r rs)
  then show ?case
    by (simp add: fun_eq_iff noted_dependency quietly_apply split: prod.split sum.split)
qed (simp add: fun_eq_iff quietly_apply)

lemma noted_inventory: "awsInventory p (noted_ec2 c) a = quietly (awsInventory p c a)"
  by (auto simp: fun_eq_iff awsInventory_def noted_steps noted_pages noted_dependencies quietly_apply split: prod.split sum.split option.split)

section \<open>Deletion\<close>

text \<open>
  What the inventory must say before a call is made: a live machine is terminated alone, a disk or network
  interface is deleted only when it is free, already in the durable record, and no machine is live.
\<close>

fun aws_justified :: "provider_config \<Rightarrow> allocation \<Rightarrow> aws_inventory \<Rightarrow> aws_call \<Rightarrow> bool" where
  "aws_justified p a iv (Ran _) \<longleftrightarrow> False"
| "aws_justified p a iv (Terminated ids) \<longleftrightarrow>
     (case iv_instance iv of
        None \<Rightarrow> False
      | Some i \<Rightarrow> ids = [in_InstanceId i] \<and> awsInstanceOwned p a i \<and> (al_ResourceID a = [] \<or> al_ResourceID a = in_InstanceId i)
          \<and> in_State i \<noteq> Some ''terminated'' \<and> in_State i \<noteq> Some ''shutting-down'')"
| "aws_justified p a iv (DeletedVolume v) \<longleftrightarrow>
     (case map_of (iv_volumes iv) v of
        None \<Rightarrow> False
      | Some vol \<Rightarrow> vo_VolumeId vol = v \<and> volume_owned p a vol \<and> vo_Attachments vol = [] \<and> vo_State vol = ''available''
          \<and> volume_reference v \<in> set (al_Resources a) \<and> \<not> instance_live iv)"
| "aws_justified p a iv (DeletedInterface n) \<longleftrightarrow>
     (case map_of (iv_interfaces iv) n of
        None \<Rightarrow> False
      | Some net \<Rightarrow> ni_NetworkInterfaceId net = n \<and> interface_owned p a net \<and> ni_Attachment net = None \<and> ni_Status net = ''available''
          \<and> interface_reference n \<in> set (al_Resources a) \<and> \<not> instance_live iv)"

lemma terminate_call:
  "terminate_instance (noted_ec2 c) rid (w, calls) = (r, w', calls') \<Longrightarrow> calls' = calls @ [Terminated [rid]]"
  by (auto simp: terminate_instance_def noted_ec2_def noting_def split: prod.splits sum.splits option.splits list.splits)

lemma delete_volumes_call:
  assumes "delete_volumes (noted_ec2 c) volumes ids (w, calls) = (r, w', calls')"
  shows "calls' = calls \<or> r \<noteq> None \<and> (\<exists>v vol. map_of volumes v = Some vol \<and> vo_Attachments vol = []
    \<and> vo_State vol = ''available'' \<and> calls' = calls @ [DeletedVolume v])"
  using assms
  by (induction ids) (auto simp: noted_ec2_def noting_def split: prod.splits option.splits if_splits)

lemma delete_interfaces_call:
  assumes "delete_interfaces (noted_ec2 c) interfaces ids (w, calls) = (r, w', calls')"
  shows "calls' = calls \<or> (\<exists>n net. map_of interfaces n = Some net \<and> ni_Attachment net = None
    \<and> ni_Status net = ''available'' \<and> calls' = calls @ [DeletedInterface n])"
  using assms
  by (induction ids) (auto simp: noted_ec2_def noting_def split: prod.splits option.splits if_splits)

lemma delete_residues_call:
  assumes "delete_residues (noted_ec2 c) iv (w, calls) = (r, w', calls')"
  obtains (unchanged) "calls' = calls"
  | (volume) v vol where "map_of (iv_volumes iv) v = Some vol" "vo_Attachments vol = []" "vo_State vol = ''available''"
      "calls' = calls @ [DeletedVolume v]"
  | (network) n net where "map_of (iv_interfaces iv) n = Some net" "ni_Attachment net = None" "ni_Status net = ''available''"
      "calls' = calls @ [DeletedInterface n]"
proof -
  obtain r1 w1 calls1 where volumes: "delete_volumes (noted_ec2 c) (iv_volumes iv) (sort (keys (iv_volumes iv))) (w, calls) = (r1, w1, calls1)"
    by (metis surj_pair)
  show thesis
  proof (cases r1)
    case (Some x)
    then have "calls' = calls1"
      using assms volumes by (simp add: delete_residues_def)
    with delete_volumes_call [OF volumes] that(1,2) show thesis
      by blast
  next
    case None
    then have "calls1 = calls"
      using delete_volumes_call [OF volumes] by blast
    moreover obtain r2 w2 calls2 where interfaces:
      "delete_interfaces (noted_ec2 c) (iv_interfaces iv) (sort (keys (iv_interfaces iv))) (w1, calls1) = (r2, w2, calls2)"
      by (metis surj_pair)
    moreover have "calls' = calls2"
      using assms volumes None interfaces by (cases r2) (simp_all add: delete_residues_def)
    ultimately show thesis
      using delete_interfaces_call [OF interfaces] that(1,3) by blast
  qed
qed

lemma aws_observation_fields:
  assumes "aws_observation iv a = Inr ob"
  shows "iv_instance iv = Some i \<Longrightarrow> ob_ResourceID ob = in_InstanceId i"
    and "ob_Exists ob \<longleftrightarrow> instance_live iv \<or> iv_volumes iv \<noteq> [] \<or> iv_interfaces iv \<noteq> []"
    and "\<exists>changed. MergeResources [] (al_Resources a @ map (volume_reference \<circ> fst) (iv_volumes iv)
      @ map (interface_reference \<circ> fst) (iv_interfaces iv)) = Inr (ob_Resources ob, changed)"
  using assms by (auto simp: aws_observation_def Let_def split: if_splits sum.splits prod.splits)

lemma aws_observation_resources:
  assumes "aws_observation iv a = Inr ob"
  shows "set (al_Resources a) \<subseteq> set (ob_Resources ob)"
    and "map_of (iv_volumes iv) v = Some vol \<Longrightarrow> volume_reference v \<in> set (ob_Resources ob)"
    and "map_of (iv_interfaces iv) n = Some net \<Longrightarrow> interface_reference n \<in> set (ob_Resources ob)"
proof -
  have "set (ob_Resources ob) = set (al_Resources a @ map (volume_reference \<circ> fst) (iv_volumes iv)
      @ map (interface_reference \<circ> fst) (iv_interfaces iv))"
    using aws_observation_fields(3) [OF assms] by (auto simp only: MergeResources_success list.set Un_empty_left)
  then show "set (al_Resources a) \<subseteq> set (ob_Resources ob)"
    "map_of (iv_volumes iv) v = Some vol \<Longrightarrow> volume_reference v \<in> set (ob_Resources ob)"
    "map_of (iv_interfaces iv) n = Some net \<Longrightarrow> interface_reference n \<in> set (ob_Resources ob)"
    by (force dest: map_of_SomeD)+
qed

lemma delete_observed_cases:
  assumes "delete_observed c a iv w = (r, w')"
  obtains (nothing) "w = w'"
  | (machine) ob m i where "aws_observation iv a = Inr ob" "MergeResources (al_Resources a) (ob_Resources ob) = Inr (m, False)"
      "iv_instance iv = Some i" "in_State i \<noteq> Some ''terminated''" "in_State i \<noteq> Some ''shutting-down''"
      "terminate_instance c (ob_ResourceID ob) w = (r, w')"
  | (residue) ob m where "aws_observation iv a = Inr ob" "MergeResources (al_Resources a) (ob_Resources ob) = Inr (m, False)"
      "\<not> instance_live iv" "delete_residues c iv w = (r, w')"
proof (cases "aws_observation iv a")
  case (Inl e)
  with assms have "w = w'"
    by (simp add: delete_observed_def)
  then show thesis
    by (rule nothing)
next
  case (Inr ob)
  consider "w = w'" | m where "MergeResources (al_Resources a) (ob_Resources ob) = Inr (m, False)" "ob_Exists ob"
    using assms Inr by (cases "MergeResources (al_Resources a) (ob_Resources ob)") (auto simp: delete_observed_def split: if_splits)
  then show thesis
  proof cases
    case 1
    then show thesis
      by (rule nothing)
  next
    case (2 m)
    show thesis
    proof (cases "instance_live iv")
      case False
      with 2 Inr assms residue show thesis
        by (simp add: delete_observed_def)
    next
      case True
      then obtain i where i: "iv_instance iv = Some i" "in_State i \<noteq> Some ''terminated''"
        by (auto simp: instance_live_def split: option.splits)
      show thesis
      proof (cases "in_State i = Some ''shutting-down''")
        case True
        with \<open>instance_live iv\<close> i(1) 2 Inr assms have "w = w'"
          by (simp add: delete_observed_def)
        then show thesis
          by (rule nothing)
      next
        case False
        with \<open>instance_live iv\<close> i(1) 2 Inr assms have "terminate_instance c (ob_ResourceID ob) w = (r, w')"
          by (simp add: delete_observed_def)
        then show thesis
          by (rule machine [OF Inr 2(1) i False])
      qed
    qed
  qed
qed

lemma delete_observed_call:
  assumes "inventory_owned p a iv" "delete_observed (noted_ec2 c) a iv (w, calls) = (r, w', calls')"
  shows "calls' = calls \<or> (\<exists>call. calls' = calls @ [call] \<and> aws_justified p a iv call)"
  using assms(2)
proof (cases rule: delete_observed_cases)
  case (machine ob m i)
  then show ?thesis
    using terminate_call [OF machine(6)] aws_observation_fields(1) [OF machine(1,3)] assms(1)
    by (auto simp: inventory_owned_def)
next
  case (residue ob m)
  have recorded: "set (ob_Resources ob) \<subseteq> set (al_Resources a)"
    using iffD1 [OF MergeResources_success residue(2)] by blast
  from residue(4) show ?thesis
  proof (cases rule: delete_residues_call)
    case (volume v vol)
    then have "volume_reference v \<in> set (al_Resources a)"
      using recorded aws_observation_resources(2) [OF residue(1)] by blast
    with volume residue(3) assms(1) show ?thesis
      by (simp add: inventory_owned_def volumes_owned_def)
  next
    case (network n net)
    then have "interface_reference n \<in> set (al_Resources a)"
      using recorded aws_observation_resources(3) [OF residue(1)] by blast
    with network residue(3) assms(1) show ?thesis
      by (simp add: inventory_owned_def interfaces_owned_def)
  qed simp
qed simp

section \<open>Creation\<close>

text \<open>The tags a creation sends are the ones the inventory looks for.\<close>

lemma aws_tags_owned: "awsOwned (aws_tags owner pid) owner pid"
  by (simp add: awsOwned_def aws_tags_def map_get_def)

text \<open>The disks of an accepted image are all encrypted and deleted with the machine, and named apart.\<close>

lemma disk_mappings_safe:
  assumes "disk_mappings ms mappings expected = Some (mappings', expected')" "distinct expected"
    and "\<forall>(name, ebs) \<in> set mappings. \<forall>disk. ebs = Some disk \<longrightarrow> ed_Encrypted disk = Some True \<and> ed_DeleteOnTermination disk = Some True"
  shows "distinct expected' \<and> (\<forall>(name, ebs) \<in> set mappings'. \<forall>disk. ebs = Some disk \<longrightarrow>
    ed_Encrypted disk = Some True \<and> ed_DeleteOnTermination disk = Some True)"
  using assms
proof (induction ms arbitrary: mappings expected)
  case (Cons m ms)
  show ?case
  proof (cases m)
    case (Pair name ebs)
    show ?thesis
    proof (cases ebs)
      case None
      with Cons.prems Pair show ?thesis
        by (intro Cons.IH [where mappings = "mappings @ [(name, None)]"]) auto
    next
      case (Some disk)
      with Cons.prems Pair show ?thesis
        by (intro Cons.IH [where expected = "name # expected"
            and mappings = "mappings @ [(name, Some (disk\<lparr>ed_DeleteOnTermination := Some True, ed_Encrypted := Some True\<rparr>))]"])
          (auto split: if_splits)
    qed
  qed
qed simp

lemma noted_disks: "await_disks n (quietly timer) (noted_ec2 c) i = quietly (await_disks n timer c i)"
proof (induction n arbitrary: i)
  case (Suc n)
  then show ?case
    by (simp add: fun_eq_iff quietly_apply noted_ec2_def split: prod.split bool.split)
qed (simp add: fun_eq_iff quietly_apply)

lemma run_instances_call:
  assumes "run_instances p (quietly timer) (noted_ec2 c) a script mappings expected (w, calls) = (r, w', calls')"
  shows "calls' = calls @ [Ran (run_instances_request p a script mappings)]"
proof -
  obtain x v where run: "ec_RunInstances c (run_instances_request p a script mappings) w = (x, v)"
    by fastforce
  then have "ec_RunInstances (noted_ec2 c) (run_instances_request p a script mappings) (w, calls)
      = (x, v, calls @ [Ran (run_instances_request p a script mappings)])"
    by (simp add: noted_ec2_def noting_def)
  with assms show ?thesis
    by (auto simp: run_instances_def noted_disks quietly_apply split: sum.splits option.splits list.splits if_splits prod.splits)
qed

text \<open>
  A creation makes at most one changing call: it requests one machine under the allocation's name as its
  idempotency token, and only when the inventory of the allocation was read and is empty.
\<close>

lemma createAWS_once:
  assumes "createAWS (noted_sdk sdk) p a script (w, []) = (r, w', calls)"
  shows "calls = [] \<or> (\<exists>c w1 iv w2 mappings. aws_session sdk p (off_Region (al_Offering a)) w = (Inr c, w1)
    \<and> awsInventory p c a w1 = (Inr iv, w2) \<and> iv_instance iv = None \<and> iv_volumes iv = [] \<and> iv_interfaces iv = []
    \<and> calls = [Ran (run_instances_request p a script mappings)])"
proof -
  obtain x w1 where session: "aws_session sdk p (off_Region (al_Offering a)) w = (x, w1)"
    by fastforce
  show ?thesis
  proof (cases "(al_ResourceID a \<noteq> [] \<or> al_Resources a \<noteq> []) \<or> isl x")
    case True
    with session assms show ?thesis
      by (cases x) (auto simp: createAWS_def noted_session split: if_splits)
  next
    case False
    then obtain c where c: "x = Inr c"
      by (cases x) auto
    obtain y w2 where inventory: "awsInventory p c a w1 = (y, w2)"
      by fastforce
    obtain images w3 where images: "ec_DescribeImages c [off_Image (al_Offering a)] w2 = (images, w3)"
      by fastforce
    have ops: "ec_DescribeImages (noted_ec2 c) = (\<lambda>r. quietly (ec_DescribeImages c r))" "sdk_Timer (noted_sdk sdk) = quietly (sdk_Timer sdk)"
      by (simp_all add: noted_ec2_def noted_sdk_def)
    show ?thesis
      using assms False session c inventory images
      by (auto simp: createAWS_def noted_session noted_inventory quietly_apply ops dest!: run_instances_call
          split: sum.splits option.splits list.splits if_splits prod.splits)
  qed
qed

section \<open>Absence\<close>

text \<open>
  A machine is reported absent only when no live machine, disk or interface is left; a recorded dependency
  is dropped only on the cloud's own answer that it does not exist.
\<close>

lemma dependency_confirmed:
  assumes "awsRecordedDependency p c a r iv w = (Inr iv', w')"
  shows "res_Kind r = ''aws-volume'' \<Longrightarrow> has_key (iv_volumes iv') (res_ID r) \<or> (\<exists>e w'.
      ec_DescribeVolumes c \<lparr>dr_Filters = [], dr_Ids = [res_ID r], dr_NextToken = []\<rparr> w = (Inl (e, Some ''InvalidVolume.NotFound''), w'))"
    and "res_Kind r = ''aws-network-interface'' \<Longrightarrow> has_key (iv_interfaces iv') (res_ID r) \<or> (\<exists>e w'.
      ec_DescribeNetworkInterfaces c \<lparr>dr_Filters = [], dr_Ids = [res_ID r], dr_NextToken = []\<rparr> w
        = (Inl (e, Some ''InvalidNetworkInterfaceID.NotFound''), w'))"
  using assms
  by (auto simp: awsRecordedDependency_def awsMissing_def split: if_splits prod.splits sum.splits option.splits list.splits)

lemma observeAWS_absent:
  assumes "observeAWS sdk p a w = ((ob, None), w')" "\<not> ob_Exists ob"
  shows "\<exists>c w1 iv. aws_session sdk p (off_Region (al_Offering a)) w = (Inr c, w1) \<and> awsInventory p c a w1 = (Inr iv, w')
    \<and> \<not> instance_live iv \<and> iv_volumes iv = [] \<and> iv_interfaces iv = []"
  using assms aws_observation_fields(2)
  by (fastforce simp: observeAWS_def split: prod.splits sum.splits)

text \<open>
  Claim C39 (the AWS adapter deletes only what is its own and recorded): in one deletion the adapter makes
  at most one call that changes the cloud, and only after a session of the configured account read the
  inventory: the termination of the allocation's own live machine, which has the recorded identity
  if there is one, or, when no machine is live, the deletion of one free disk or network interface that has the
  tags and place of the allocation and is already in its durable record.
\<close>

theorem deleteAWS_owned:
  assumes "deleteAWS (noted_sdk sdk) p a (w, []) = (r, w', calls)"
  shows "calls = [] \<or> (\<exists>c w1 iv w2 call. aws_session sdk p (off_Region (al_Offering a)) w = (Inr c, w1)
    \<and> awsInventory p c a w1 = (Inr iv, w2) \<and> calls = [call] \<and> aws_justified p a iv call)"
proof -
  obtain x w1 where session: "aws_session sdk p (off_Region (al_Offering a)) w = (x, w1)"
    by fastforce
  show ?thesis
  proof (cases x)
    case (Inl e)
    with session assms show ?thesis
      by (simp add: deleteAWS_def noted_session)
  next
    case (Inr c)
    obtain y w2 where inventory: "awsInventory p c a w1 = (y, w2)"
      by fastforce
    show ?thesis
    proof (cases y)
      case (Inl e)
      with session Inr inventory assms show ?thesis
        by (simp add: deleteAWS_def noted_session noted_inventory quietly_apply)
    next
      case iv: (Inr iv)
      then have "delete_observed (noted_ec2 c) a iv (w2, []) = (r, w', calls)"
        using session Inr inventory assms by (simp add: deleteAWS_def noted_session noted_inventory quietly_apply)
      from delete_observed_call [OF awsInventory_owned [OF inventory [unfolded iv]] this] session Inr inventory iv show ?thesis
        by auto
    qed
  qed
qed

definition demo_aws_config :: provider_config where
  "demo_aws_config = \<lparr>pc_AccountID = ''123456789012'', pc_Subscription = [], pc_ResourceGroup = [], pc_SSHPublicKey = [],
     pc_Kind = ''aws'', pc_Project = [], pc_Profile = [], pc_Subnet = ''subnet-1'', pc_SecurityGroup = ''sg-1'', pc_Owner = ''rs'',
     pc_WireGuardControllerURL = [], pc_AzureDiskControllerType = []\<rparr>"

definition demo_aws_allocation :: allocation where
  "demo_aws_allocation = (demo_allocation Deleting)\<lparr>al_ResourceID := ''i-1'', al_Resources := [volume_reference ''vol-1'']\<rparr>"

definition demo_aws_volume :: aws_volume where
  "demo_aws_volume = \<lparr>vo_VolumeId = ''vol-1'', vo_Tags = aws_tags ''rs'' (al_ID demo_aws_allocation),
     vo_AvailabilityZone = off_Zone (al_Offering demo_aws_allocation), vo_State = ''available'', vo_Attachments = []\<rparr>"

definition demo_page :: "'a list \<Rightarrow> 'a aws_page" where
  "demo_page xs = \<lparr>pg_Items = xs, pg_NextToken = [], pg_Known = True\<rparr>"

text \<open>The machine is gone and its disk was left behind.\<close>

definition demo_ec2 :: "unit ec2_ops" where
  "demo_ec2 = \<lparr>ec_DescribeInstances = (\<lambda>_ w. (Inl (errors_New ''no such instance'', Some ''InvalidInstanceID.NotFound''), w)),
     ec_DescribeVolumes = (\<lambda>_ w. (Inr (Some (demo_page [demo_aws_volume])), w)),
     ec_DescribeNetworkInterfaces = (\<lambda>_ w. (Inr (Some (demo_page [])), w)),
     ec_DescribeImages = (\<lambda>_ w. (Inr None, w)), ec_RunInstances = (\<lambda>_ w. (Inr None, w)),
     ec_TerminateInstances = (\<lambda>_ w. (Inr None, w)), ec_DeleteVolume = (\<lambda>_ w. (None, w)),
     ec_DeleteNetworkInterface = (\<lambda>_ w. (None, w))\<rparr>"

definition demo_aws_sdk :: "(unit, unit) aws_sdk" where
  "demo_aws_sdk = \<lparr>sdk_Configured = True, sdk_Retrieve = (\<lambda>_ w. (Inr (), w)),
     sdk_GetCallerIdentity = (\<lambda>_ _ w. (Inr (Some ''123456789012''), w)), sdk_CtxErr = (\<lambda>_. None),
     sdk_Timer = (\<lambda>w. (True, w)), sdk_EC2 = (\<lambda>_ _. demo_ec2)\<rparr>"

lemma demo_deletion: "deleteAWS (noted_sdk demo_aws_sdk) demo_aws_config demo_aws_allocation ((), []) = (None, (), [DeletedVolume ''vol-1''])"
  by code_simp

theorem deleteAWS_owned_witness:
  "deleteAWS (noted_sdk demo_aws_sdk) demo_aws_config demo_aws_allocation ((), []) = (None, (), [DeletedVolume ''vol-1''])
    \<and> (\<exists>(c :: unit ec2_ops) w1 iv w2. aws_session demo_aws_sdk demo_aws_config ''us-east-1'' () = (Inr c, w1)
      \<and> awsInventory demo_aws_config c demo_aws_allocation w1 = (Inr iv, w2)
      \<and> aws_justified demo_aws_config demo_aws_allocation iv (DeletedVolume ''vol-1''))"
proof -
  have "off_Region (al_Offering demo_aws_allocation) = ''us-east-1''"
    by code_simp
  then show ?thesis
    using demo_deletion deleteAWS_owned [OF demo_deletion] by simp
qed

end
