(* ===== verification/Gcp_Adapter.thy ===== *)
theory Gcp_Adapter
  imports Aws_Adapter Operator_Fleet
begin

text \<open>
  \<open>internal/provider/gcp_sdk.go\<close>: creation, observation and deletion of the machine of an allocation in
  Compute Engine. The client of the API, the parser of URLs and the name-based UUIDs are parameters. A wait is
  a recursion over the seconds that are left until the deadline of the call, since every round waits a second.
\<close>

section \<open>What Compute Engine reports\<close>

record gcp_attached_disk =
  ga_Boot :: bool
  ga_AutoDelete :: bool
  ga_Source :: string

record gcp_vm =
  gv_Name :: string
  gv_Id :: nat
  gv_SelfLink :: string
  gv_Labels :: "(string, string) gomap"
  gv_Disks :: "gcp_attached_disk option list"
  gv_NetworkInterfaces :: "string option list"

record gcp_disk =
  gd_Name :: string
  gd_Id :: nat
  gd_SelfLink :: string
  gd_Labels :: "(string, string) gomap"
  gd_Users :: "string list"

record gcp_operation =
  go_Name :: string
  go_ClientOperationId :: string
  go_OperationType :: string
  go_TargetLink :: string
  go_Status :: string
  go_Error :: "string option list option"
  go_HttpErrorStatusCode :: nat

record gcp_operation_page =
  gp_Kind :: string
  gp_Items :: "gcp_operation option list"

record gcp_scheduling =
  sch_ProvisioningModel :: string
  sch_InstanceTerminationAction :: string
  sch_OnHostMaintenance :: string
  sch_AutomaticRestart :: bool

record gcp_boot_disk =
  bd_Boot :: bool
  bd_AutoDelete :: bool
  bd_Type :: string
  bd_DiskName :: string
  bd_SourceImage :: string
  bd_Labels :: "(string, string) gomap"

record gcp_instance_request =
  gr_Name :: string
  gr_MachineType :: string
  gr_Labels :: "(string, string) gomap"
  gr_Subnetworks :: "string list"
  gr_ServiceAccounts :: "string list"
  gr_Disks :: "gcp_boot_disk list"
  gr_Metadata :: "(string, string) gomap"
  gr_Scheduling :: "gcp_scheduling option"

text \<open>An error of a call with the HTTP code of the \<open>googleapi.Error\<close> in its chain, if it has one.\<close>

type_synonym gcp_err = "err \<times> nat option"

text \<open>
  \<open>gs_ListOperations\<close> gives the pages that \<open>Pages\<close> delivers to its callback, with the error that ended the
  listing, if any. A callback that fails ends it early; the result is an error in both cases.
\<close>

record 'w gcp_service =
  gs_GetInstance :: "string \<Rightarrow> string \<Rightarrow> string \<Rightarrow> 'w \<Rightarrow> (gcp_err + gcp_vm) \<times> 'w"
  gs_GetDisk :: "string \<Rightarrow> string \<Rightarrow> string \<Rightarrow> 'w \<Rightarrow> (gcp_err + gcp_disk) \<times> 'w"
  gs_ListOperations :: "string \<Rightarrow> string \<Rightarrow> string \<Rightarrow> 'w \<Rightarrow> (gcp_operation_page list \<times> err option) \<times> 'w"
  gs_GetOperation :: "string \<Rightarrow> string \<Rightarrow> string \<Rightarrow> 'w \<Rightarrow> (gcp_err + gcp_operation option) \<times> 'w"
  gs_InsertInstance :: "string \<Rightarrow> string \<Rightarrow> gcp_instance_request \<Rightarrow> string \<Rightarrow> 'w \<Rightarrow> (gcp_err + gcp_operation option) \<times> 'w"
  gs_DeleteInstance :: "string \<Rightarrow> string \<Rightarrow> string \<Rightarrow> string \<Rightarrow> 'w \<Rightarrow> (gcp_err + gcp_operation option) \<times> 'w"
  gs_DeleteDisk :: "string \<Rightarrow> string \<Rightarrow> string \<Rightarrow> string \<Rightarrow> 'w \<Rightarrow> (gcp_err + gcp_operation option) \<times> 'w"

record 'w gcp_sdk =
  gk_Service :: "'w gcp_service option"
  gk_ParseURL :: "string \<Rightarrow> parsed_url option"
  gk_UUID :: "string \<Rightarrow> string"
  gk_Timer :: "'w \<Rightarrow> bool \<times> 'w"

section \<open>Identity\<close>

definition gcp_unavailable :: err where
  "gcp_unavailable = errors_New ''GCP credential scope unavailable''"

definition gcpResource :: "provider_config \<Rightarrow> allocation \<Rightarrow> string \<Rightarrow> string \<Rightarrow> string" where
  "gcpResource p a kind name = ''projects/'' @ pc_Project p @ ''/zones/'' @ off_Zone (al_Offering a) @ ''/'' @ kind @ ''/'' @ name"

definition gcpMatches :: "'w gcp_sdk \<Rightarrow> string \<Rightarrow> string \<Rightarrow> bool" where
  "gcpMatches g link resource =
     (case gk_ParseURL g link of
        None \<Rightarrow> False
      | Some u \<Rightarrow>
          if url_Scheme u \<noteq> [] then
            if url_Scheme u \<noteq> ''https'' \<or> (url_Host u \<noteq> ''www.googleapis.com'' \<and> url_Host u \<noteq> ''compute.googleapis.com'')
               \<or> url_RawQuery u \<noteq> [] \<or> url_Fragment u \<noteq> [] then False
            else url_Path u = ''/compute/v1/'' @ resource
          else link = resource)"

definition gcpRequestID :: "'w gcp_sdk \<Rightarrow> provider_config \<Rightarrow> allocation \<Rightarrow> string \<Rightarrow> string" where
  "gcpRequestID g p a action =
     gk_UUID g (''runnerscout/'' @ pc_Owner p @ ''/'' @ gcpResource p a ''instances'' (al_ID a) @ ''/'' @ action)"

definition missingGCP :: "gcp_err + 'a \<Rightarrow> bool" where
  "missingGCP answer = (case answer of Inl (_, Some code) \<Rightarrow> code = 404 | _ \<Rightarrow> False)"

definition gcpCapacityFailure :: "gcp_operation \<Rightarrow> bool" where
  "gcpCapacityFailure op' =
     (case go_Error op' of
        None \<Rightarrow> False
      | Some errs \<Rightarrow> list_ex (\<lambda>e. e = Some ''ZONE_RESOURCE_POOL_EXHAUSTED'' \<or> e = Some ''ZONE_RESOURCE_POOL_EXHAUSTED_WITH_DETAILS'') errs)"

definition gcpLabels :: "provider_config \<Rightarrow> allocation \<Rightarrow> (string, string) gomap" where
  "gcpLabels p a = [(''runnerscout-owner'', pc_Owner p), (''runnerscout-operation'', al_ID a)]"

definition ownsGCP :: "provider_config \<Rightarrow> allocation \<Rightarrow> (string, string) gomap \<Rightarrow> bool" where
  "ownsGCP p a labels \<longleftrightarrow> map_get [] labels ''runnerscout-owner'' = pc_Owner p
     \<and> map_get [] labels ''runnerscout-operation'' = al_ID a"

section \<open>The inventory\<close>

record gcp_inventory =
  gi_vm :: "gcp_vm option"
  gi_disk :: "gcp_disk option"

definition gcp_vm_owned :: "'w gcp_sdk \<Rightarrow> provider_config \<Rightarrow> allocation \<Rightarrow> gcp_vm \<Rightarrow> bool" where
  "gcp_vm_owned g p a vm \<longleftrightarrow> gv_Name vm = al_ID a \<and> gv_Id vm \<noteq> 0
     \<and> gcpMatches g (gv_SelfLink vm) (gcpResource p a ''instances'' (al_ID a)) \<and> ownsGCP p a (gv_Labels vm)"

definition gcp_vm_disk_bound :: "'w gcp_sdk \<Rightarrow> provider_config \<Rightarrow> allocation \<Rightarrow> gcp_vm \<Rightarrow> bool" where
  "gcp_vm_disk_bound g p a vm =
     (case gv_Disks vm of
        [Some d] \<Rightarrow> ga_Boot d \<and> ga_AutoDelete d \<and> gcpMatches g (ga_Source d) (gcpResource p a ''disks'' (al_ID a))
      | _ \<Rightarrow> False)"

definition gcp_disk_owned :: "'w gcp_sdk \<Rightarrow> provider_config \<Rightarrow> allocation \<Rightarrow> gcp_disk \<Rightarrow> bool" where
  "gcp_disk_owned g p a disk \<longleftrightarrow> gd_Name disk = al_ID a \<and> gd_Id disk \<noteq> 0
     \<and> gcpMatches g (gd_SelfLink disk) (gcpResource p a ''disks'' (al_ID a)) \<and> ownsGCP p a (gd_Labels disk)"

definition gcp_read_disk :: "'w gcp_sdk \<Rightarrow> 'w gcp_service \<Rightarrow> provider_config \<Rightarrow> allocation \<Rightarrow> gcp_vm option \<Rightarrow> 'w \<Rightarrow> (err + gcp_inventory) \<times> 'w" where
  "gcp_read_disk g s p a vm w =
     (case gs_GetDisk s (pc_Project p) (off_Zone (al_Offering a)) (al_ID a) w of (answer, w) \<Rightarrow>
        (case answer of
           Inl (e, _) \<Rightarrow> if missingGCP answer then Inr \<lparr>gi_vm = vm, gi_disk = None\<rparr>
             else Inl (wrap_err ''GCP disk inventory unavailable: '' e)
         | Inr disk \<Rightarrow>
             if \<not> gcp_disk_owned g p a disk then Inl (errors_New ''GCP disk ownership unconfirmed'')
             else if list_ex (\<lambda>user. \<not> gcpMatches g user (gcpResource p a ''instances'' (al_ID a))) (gd_Users disk)
             then Inl (errors_New ''GCP disk attached outside its allocation'')
             else Inr \<lparr>gi_vm = vm, gi_disk = Some disk\<rparr>, w))"

definition gcpInventory :: "'w gcp_sdk \<Rightarrow> provider_config \<Rightarrow> allocation \<Rightarrow> 'w \<Rightarrow> (err + gcp_inventory) \<times> 'w" where
  "gcpInventory g p a w =
     (case gk_Service g of None \<Rightarrow> (Inl gcp_unavailable, w) | Some s \<Rightarrow>
      case gs_GetInstance s (pc_Project p) (off_Zone (al_Offering a)) (al_ID a) w of (answer, w) \<Rightarrow>
      case answer of
        Inl (e, _) \<Rightarrow> if missingGCP answer then gcp_read_disk g s p a None w
          else (Inl (wrap_err ''GCP VM inventory unavailable: '' e), w)
      | Inr vm \<Rightarrow>
          if \<not> gcp_vm_owned g p a vm then (Inl (errors_New ''GCP VM ownership unconfirmed''), w)
          else if \<not> gcp_vm_disk_bound g p a vm then (Inl (errors_New ''GCP VM disk binding changed; cleanup retained''), w)
          else gcp_read_disk g s p a (Some vm) w)"

section \<open>Operations\<close>

definition gcp_create_done :: "'w gcp_sdk \<Rightarrow> provider_config \<Rightarrow> allocation \<Rightarrow> gcp_operation option \<Rightarrow> bool" where
  "gcp_create_done g p a item =
     (case item of
        None \<Rightarrow> False
      | Some op' \<Rightarrow> \<not> (go_Name op' = [] \<or> go_ClientOperationId op' \<noteq> gcpRequestID g p a ''create'' \<or> go_OperationType op' \<noteq> ''insert''
          \<or> \<not> gcpMatches g (go_TargetLink op') (gcpResource p a ''instances'' (al_ID a)) \<or> go_Status op' \<noteq> ''DONE''))"

fun gcp_count_items :: "(gcp_operation option \<Rightarrow> bool) \<Rightarrow> gcp_operation option list \<Rightarrow> nat \<Rightarrow> nat option" where
  "gcp_count_items ok [] n = Some n"
| "gcp_count_items ok (item # items) n = (if n + 1 > 1 \<or> \<not> ok item then None else gcp_count_items ok items (n + 1))"

fun gcp_count_pages :: "(gcp_operation option \<Rightarrow> bool) \<Rightarrow> gcp_operation_page list \<Rightarrow> nat \<Rightarrow> nat option" where
  "gcp_count_pages ok [] n = Some n"
| "gcp_count_pages ok (page # pages) n =
     (if gp_Kind page \<noteq> ''compute#operationList'' then None
      else case gcp_count_items ok (gp_Items page) n of None \<Rightarrow> None | Some n \<Rightarrow> gcp_count_pages ok pages n)"

definition gcpCreateTerminal :: "'w gcp_sdk \<Rightarrow> provider_config \<Rightarrow> allocation \<Rightarrow> 'w \<Rightarrow> err option \<times> 'w" where
  "gcpCreateTerminal g p a w =
     (case gk_Service g of None \<Rightarrow> (Some gcp_unavailable, w) | Some s \<Rightarrow>
      case gs_ListOperations s (pc_Project p) (off_Zone (al_Offering a))
             (''clientOperationId = '' @ [CHR 0x22] @ gcpRequestID g p a ''create'' @ [CHR 0x22]) w of ((pages, failure), w) \<Rightarrow>
        (case gcp_count_pages (gcp_create_done g p a) pages 0 of
           None \<Rightarrow> Some (errors_New ''GCP create commitment unconfirmed'')
         | Some n \<Rightarrow>
             if failure \<noteq> None \<or> (n = 0 \<and> al_ResourceID a = []) then Some (errors_New ''GCP create commitment unconfirmed'')
             else None, w))"

definition gcp_operation_identified ::
    "'w gcp_sdk \<Rightarrow> provider_config \<Rightarrow> allocation \<Rightarrow> string \<Rightarrow> string \<Rightarrow> string \<Rightarrow> string \<Rightarrow> gcp_operation \<Rightarrow> bool" where
  "gcp_operation_identified g p a operationName action kind name op' \<longleftrightarrow>
     \<not> (go_OperationType op' \<noteq> (if action = ''create'' then ''insert'' else ''delete'') \<or> go_Name op' = []
        \<or> (operationName \<noteq> [] \<and> go_Name op' \<noteq> operationName) \<or> go_ClientOperationId op' \<noteq> gcpRequestID g p a action
        \<or> \<not> gcpMatches g (go_TargetLink op') (gcpResource p a kind name))"

definition gcp_operation_failed :: "'w gcp_sdk \<Rightarrow> provider_config \<Rightarrow> allocation \<Rightarrow> string \<Rightarrow> gcp_operation \<Rightarrow> 'w \<Rightarrow> err option \<times> 'w" where
  "gcp_operation_failed g p a action op' w =
     (if action = ''create'' \<and> gcpCapacityFailure op' then
        (case gcpInventory g p a w of
           (Inr inventory, w) \<Rightarrow>
             if gi_vm inventory = None \<and> gi_disk inventory = None then (Some ErrCapacity_error, w)
             else (Some (errors_New ''GCP operation failed; reconcile ownership''), w)
         | (Inl _, w) \<Rightarrow> (Some (errors_New ''GCP operation failed; reconcile ownership''), w))
      else (Some (errors_New ''GCP operation failed; reconcile ownership''), w))"

fun waitGCPOperation ::
    "nat \<Rightarrow> 'w gcp_sdk \<Rightarrow> 'w gcp_service \<Rightarrow> provider_config \<Rightarrow> allocation \<Rightarrow> string \<Rightarrow> gcp_operation option \<Rightarrow> string \<Rightarrow> string \<Rightarrow> string \<Rightarrow> 'w
     \<Rightarrow> err option \<times> 'w" where
  "waitGCPOperation seconds g s p a operationName op' action kind name w =
     (case op' of
        None \<Rightarrow> (Some (errors_New ''GCP operation identity unconfirmed''), w)
      | Some op' \<Rightarrow>
          if \<not> gcp_operation_identified g p a operationName action kind name op'
          then (Some (errors_New ''GCP operation identity unconfirmed''), w)
          else if go_Status op' = ''DONE'' then
            if go_Error op' \<noteq> None \<or> go_HttpErrorStatusCode op' \<noteq> 0 then gcp_operation_failed g p a action op' w
            else (None, w)
          else if go_Status op' \<noteq> ''PENDING'' \<and> go_Status op' \<noteq> ''RUNNING'' then (Some (errors_New ''GCP operation state unknown''), w)
          else (case seconds of
              0 \<Rightarrow> (Some (errors_New ''GCP operation commitment unknown''), w)
            | Suc seconds \<Rightarrow>
                (case gk_Timer g w of
                   (False, w) \<Rightarrow> (Some (errors_New ''GCP operation commitment unknown''), w)
                 | (True, w) \<Rightarrow>
                     (case gs_GetOperation s (pc_Project p) (off_Zone (al_Offering a)) (go_Name op') w of
                        (Inl (e, _), w) \<Rightarrow> (Some (wrap_err ''GCP operation observation unavailable: '' e), w)
                      | (Inr op2, w) \<Rightarrow> waitGCPOperation seconds g s p a (go_Name op') op2 action kind name w))))"

declare waitGCPOperation.simps [simp del]

section \<open>Creation\<close>

definition gcp_instance :: "provider_config \<Rightarrow> allocation \<Rightarrow> string \<Rightarrow> gcp_instance_request" where
  "gcp_instance p a script =
     (let o' = al_Offering a;
          machine = (if \<not> strings_Contains (off_Machine o') ''/'' then gcpResource p a ''machineTypes'' (off_Machine o') else off_Machine o');
          subnet = (if \<not> strings_Contains (pc_Subnet p) ''/''
            then ''projects/'' @ pc_Project p @ ''/regions/'' @ off_Region o' @ ''/subnetworks/'' @ pc_Subnet p else pc_Subnet p) in
      \<lparr>gr_Name = al_ID a, gr_MachineType = machine, gr_Labels = gcpLabels p a, gr_Subnetworks = [subnet], gr_ServiceAccounts = [],
       gr_Disks = [\<lparr>bd_Boot = True, bd_AutoDelete = True, bd_Type = ''PERSISTENT'', bd_DiskName = al_ID a,
         bd_SourceImage = off_Image o', bd_Labels = gcpLabels p a\<rparr>],
       gr_Metadata = [(''startup-script'', script)],
       gr_Scheduling = (if off_Spot o' then Some \<lparr>sch_ProvisioningModel = ''SPOT'', sch_InstanceTerminationAction = ''DELETE'',
         sch_OnHostMaintenance = ''TERMINATE'', sch_AutomaticRestart = False\<rparr> else None)\<rparr>)"

definition gcpCaptureWireGuardEndpoint :: "'w gcp_service \<Rightarrow> provider_config \<Rightarrow> allocation \<Rightarrow> 'w \<Rightarrow> string \<times> 'w" where
  "gcpCaptureWireGuardEndpoint s p a w =
     (case gs_GetInstance s (pc_Project p) (off_Zone (al_Offering a)) (al_ID a) w of
        (Inl _, w) \<Rightarrow> ([], w)
      | (Inr vm, w) \<Rightarrow> (case gv_NetworkInterfaces vm of [Some ip] \<Rightarrow> wireGuardEndpoint ip | _ \<Rightarrow> [], w))"

text \<open>The deadline of a creation is five minutes, that of a deletion one.\<close>

definition createGCP :: "'w gcp_sdk \<Rightarrow> provider_config \<Rightarrow> allocation \<Rightarrow> string \<Rightarrow> 'w \<Rightarrow> (creation \<times> err option) \<times> 'w" where
  "createGCP g p a script w =
     (case gk_Service g of None \<Rightarrow> ((creation_zero, Some gcp_unavailable), w) | Some s \<Rightarrow>
      case gcpInventory g p a w of (inventory, w) \<Rightarrow>
      if (case inventory of Inl _ \<Rightarrow> True | Inr iv \<Rightarrow> gi_vm iv \<noteq> None \<or> gi_disk iv \<noteq> None)
      then ((creation_zero, Some (errors_New ''GCP create requires an unoccupied allocation identity'')), w)
      else case gs_InsertInstance s (pc_Project p) (off_Zone (al_Offering a)) (gcp_instance p a script) (gcpRequestID g p a ''create'') w of
          (Inl (e, _), w) \<Rightarrow> ((creation_zero, Some (wrap_err ''GCP creation commitment unknown: '' e)), w)
        | (Inr op', w) \<Rightarrow>
            (case waitGCPOperation 300 g s p a [] op' ''create'' ''instances'' (al_ID a) w of
               (Some e, w) \<Rightarrow> ((creation_zero, Some e), w)
             | (None, w) \<Rightarrow>
                 if al_NetworkProfile a \<noteq> [] then
                   (case gcpCaptureWireGuardEndpoint s p a w of (endpoint, w) \<Rightarrow>
                      ((creation_zero\<lparr>cr_ResourceID := al_ID a, cr_WireGuardEndpoint := endpoint\<rparr>, None), w))
                 else ((creation_zero\<lparr>cr_ResourceID := al_ID a\<rparr>, None), w)))"

section \<open>Observation and deletion\<close>

definition gcpConfirmedPreemption :: "'w gcp_sdk \<Rightarrow> provider_config \<Rightarrow> allocation \<Rightarrow> 'w \<Rightarrow> bool \<times> 'w" where
  "gcpConfirmedPreemption g p a w =
     (case gk_Service g of None \<Rightarrow> (False, w) | Some s \<Rightarrow>
      case gs_ListOperations s (pc_Project p) (off_Zone (al_Offering a))
             (''operationType = '' @ [CHR 0x22] @ ''compute.instances.preempted'' @ [CHR 0x22]) w of ((pages, failure), w) \<Rightarrow>
        (failure = None \<and> list_all (\<lambda>page. gp_Kind page = ''compute#operationList'') pages
         \<and> list_ex (\<lambda>page. list_ex (\<lambda>item. case item of
               None \<Rightarrow> False
             | Some op' \<Rightarrow> go_OperationType op' = ''compute.instances.preempted''
                 \<and> gcpMatches g (go_TargetLink op') (gcpResource p a ''instances'' (al_ID a))) (gp_Items page)) pages, w))"

definition observeGCP :: "'w gcp_sdk \<Rightarrow> provider_config \<Rightarrow> allocation \<Rightarrow> 'w \<Rightarrow> (observation \<times> err option) \<times> 'w" where
  "observeGCP g p a w =
     (if al_ResourceID a \<noteq> [] \<and> al_ResourceID a \<noteq> al_ID a
      then ((observation_zero, Some (errors_New ''GCP durable resource identity mismatch'')), w)
      else case gcpCreateTerminal g p a w of (Some e, w) \<Rightarrow> ((observation_zero, Some e), w) | (None, w) \<Rightarrow>
      case gcpInventory g p a w of (Inl e, w) \<Rightarrow> ((observation_zero, Some e), w) | (Inr iv, w) \<Rightarrow>
        let ex = (gi_vm iv \<noteq> None \<or> gi_disk iv \<noteq> None) in
        case (if \<not> ex \<and> off_Spot (al_Offering a) then gcpConfirmedPreemption g p a w else (False, w)) of (interrupted, w) \<Rightarrow>
          ((\<lparr>ob_Resources = [], ob_Exists = ex, ob_Known = True, ob_Interrupted = interrupted, ob_ResourceID = al_ID a\<rparr>, None), w))"

definition gcp_deletion ::
    "'w gcp_sdk \<Rightarrow> 'w gcp_service \<Rightarrow> provider_config \<Rightarrow> allocation \<Rightarrow> string \<Rightarrow> string \<Rightarrow> (gcp_err + gcp_operation option) \<times> 'w \<Rightarrow> err option \<times> 'w" where
  "gcp_deletion g s p a action kind answered =
     (case answered of (answer, w) \<Rightarrow>
        if missingGCP answer then (None, w)
        else case answer of
            Inl (e, _) \<Rightarrow> (Some (wrap_err ''GCP deletion commitment unknown: '' e), w)
          | Inr op' \<Rightarrow> waitGCPOperation 60 g s p a [] op' action kind (al_ID a) w)"

definition deleteGCP :: "'w gcp_sdk \<Rightarrow> provider_config \<Rightarrow> allocation \<Rightarrow> 'w \<Rightarrow> err option \<times> 'w" where
  "deleteGCP g p a w =
     (case gcpCreateTerminal g p a w of (Some e, w) \<Rightarrow> (Some e, w) | (None, w) \<Rightarrow>
      case gcpInventory g p a w of (Inl e, w) \<Rightarrow> (Some e, w) | (Inr iv, w) \<Rightarrow>
      case gk_Service g of None \<Rightarrow> (Some gcp_unavailable, w) | Some s \<Rightarrow>
      if gi_vm iv \<noteq> None then
        gcp_deletion g s p a ''delete-vm'' ''instances''
          (gs_DeleteInstance s (pc_Project p) (off_Zone (al_Offering a)) (al_ID a) (gcpRequestID g p a ''delete-vm'') w)
      else case gi_disk iv of
          None \<Rightarrow> (None, w)
        | Some disk \<Rightarrow>
            if gd_Users disk \<noteq> [] then (Some (errors_New ''GCP disk attachment remains; cleanup retained''), w)
            else gcp_deletion g s p a ''delete-disk'' ''disks''
              (gs_DeleteDisk s (pc_Project p) (off_Zone (al_Offering a)) (al_ID a) (gcpRequestID g p a ''delete-disk'') w))"

end
