(* ===== verification/Gcp_Safety.thy ===== *)
theory Gcp_Safety
  imports Gcp_Adapter Cloud_Calls Lifecycle_Safety
begin

text \<open>
  What the Compute Engine adapter does to the cloud: a creation or deletion makes at most one changing
  call, justified by the inventory read before it.
\<close>

datatype gcp_call = InsertedInstance string string gcp_instance_request string
  | DeletedInstance string string string string | DeletedDisk string string string string

definition noted_service :: "'w gcp_service \<Rightarrow> ('w \<times> gcp_call list) gcp_service" where
  "noted_service s = \<lparr>gs_GetInstance = (\<lambda>p z n. quietly (gs_GetInstance s p z n)), gs_GetDisk = (\<lambda>p z n. quietly (gs_GetDisk s p z n)),
     gs_ListOperations = (\<lambda>p z f. quietly (gs_ListOperations s p z f)), gs_GetOperation = (\<lambda>p z n. quietly (gs_GetOperation s p z n)),
     gs_InsertInstance = (\<lambda>p z i r. noting (InsertedInstance p z i r) (gs_InsertInstance s p z i r)),
     gs_DeleteInstance = (\<lambda>p z n r. noting (DeletedInstance p z n r) (gs_DeleteInstance s p z n r)),
     gs_DeleteDisk = (\<lambda>p z n r. noting (DeletedDisk p z n r) (gs_DeleteDisk s p z n r))\<rparr>"

definition noted_gcp :: "'w gcp_sdk \<Rightarrow> ('w \<times> gcp_call list) gcp_sdk" where
  "noted_gcp g = \<lparr>gk_Service = map_option noted_service (gk_Service g), gk_ParseURL = gk_ParseURL g, gk_UUID = gk_UUID g,
     gk_Timer = quietly (gk_Timer g)\<rparr>"

section \<open>Recording changes nothing else\<close>

lemma noted_gcp_identity:
  "gcpMatches (noted_gcp g) = gcpMatches g" "gcpRequestID (noted_gcp g) = gcpRequestID g"
  "gcp_vm_owned (noted_gcp g) = gcp_vm_owned g" "gcp_vm_disk_bound (noted_gcp g) = gcp_vm_disk_bound g"
  "gcp_disk_owned (noted_gcp g) = gcp_disk_owned g" "gcp_create_done (noted_gcp g) = gcp_create_done g"
  "gcp_operation_identified (noted_gcp g) = gcp_operation_identified g"
proof -
  show matches: "gcpMatches (noted_gcp g) = gcpMatches g" and request: "gcpRequestID (noted_gcp g) = gcpRequestID g"
    by (simp_all add: fun_eq_iff gcpMatches_def gcpRequestID_def noted_gcp_def)
  show "gcp_vm_owned (noted_gcp g) = gcp_vm_owned g" "gcp_vm_disk_bound (noted_gcp g) = gcp_vm_disk_bound g"
    "gcp_disk_owned (noted_gcp g) = gcp_disk_owned g" "gcp_create_done (noted_gcp g) = gcp_create_done g"
    "gcp_operation_identified (noted_gcp g) = gcp_operation_identified g"
    unfolding fun_eq_iff gcp_vm_owned_def gcp_vm_disk_bound_def gcp_disk_owned_def gcp_create_done_def
      gcp_operation_identified_def matches request by simp_all
qed

lemma noted_gcp_parts:
  "gk_Service (noted_gcp g) = map_option noted_service (gk_Service g)" "gk_Timer (noted_gcp g) = quietly (gk_Timer g)"
  "gs_GetInstance (noted_service s) q z n = quietly (gs_GetInstance s q z n)" "gs_GetDisk (noted_service s) q z n = quietly (gs_GetDisk s q z n)"
  "gs_ListOperations (noted_service s) q z f = quietly (gs_ListOperations s q z f)"
  "gs_GetOperation (noted_service s) q z n = quietly (gs_GetOperation s q z n)"
  "gs_InsertInstance (noted_service s) q z i r = noting (InsertedInstance q z i r) (gs_InsertInstance s q z i r)"
  "gs_DeleteInstance (noted_service s) q z n r = noting (DeletedInstance q z n r) (gs_DeleteInstance s q z n r)"
  "gs_DeleteDisk (noted_service s) q z n r = noting (DeletedDisk q z n r) (gs_DeleteDisk s q z n r)"
  by (simp_all add: noted_gcp_def noted_service_def)

lemmas noted_gcp_simps = noted_gcp_identity noted_gcp_parts calls_simps

lemma noted_gcp_disk: "gcp_read_disk (noted_gcp g) (noted_service s) p a vm = quietly (gcp_read_disk g s p a vm)"
  by (auto simp: fun_eq_iff gcp_read_disk_def noted_gcp_simps split: prod.split sum.split)

lemma noted_gcp_inventory: "gcpInventory (noted_gcp g) p a = quietly (gcpInventory g p a)"
  by (auto simp: fun_eq_iff gcpInventory_def noted_gcp_simps noted_gcp_disk split: prod.split option.split sum.split)

lemma noted_gcp_terminal: "gcpCreateTerminal (noted_gcp g) p a = quietly (gcpCreateTerminal g p a)"
  by (auto simp: fun_eq_iff gcpCreateTerminal_def noted_gcp_simps split: prod.split option.split)

lemma noted_gcp_failed: "gcp_operation_failed (noted_gcp g) p a action op' = quietly (gcp_operation_failed g p a action op')"
  by (auto simp: fun_eq_iff gcp_operation_failed_def noted_gcp_inventory quietly_apply split: prod.split sum.split)

lemma noted_gcp_wait:
  "waitGCPOperation n (noted_gcp g) (noted_service s) p a name op' action kind target
    = quietly (waitGCPOperation n g s p a name op' action kind target)"
proof (induction n arbitrary: name op')
  case 0
  show ?case
    by (auto simp: fun_eq_iff waitGCPOperation.simps [of 0] noted_gcp_simps noted_gcp_failed split: option.split prod.split)
next
  case (Suc n)
  show ?case
    by (auto simp: fun_eq_iff waitGCPOperation.simps [of "Suc n"] noted_gcp_simps noted_gcp_failed Suc.IH
        split: option.split prod.split sum.split bool.split)
qed

section \<open>Deletion\<close>

lemma gcp_deletion_quiet:
  "gcp_deletion (noted_gcp g) (noted_service s) p a action kind (x, w, calls) = (r, w', calls') \<Longrightarrow> calls' = calls"
  by (auto simp: gcp_deletion_def noted_gcp_wait calls_simps split: if_splits sum.splits prod.splits)

lemma gcpInventory_owned:
  assumes "gcpInventory g p a w = (Inr iv, w')"
  shows "pred_option (\<lambda>vm. gcp_vm_owned g p a vm \<and> gcp_vm_disk_bound g p a vm) (gi_vm iv)"
    and "pred_option (\<lambda>disk. gcp_disk_owned g p a disk
      \<and> list_all (\<lambda>user. gcpMatches g user (gcpResource p a ''instances'' (al_ID a))) (gd_Users disk)) (gi_disk iv)"
  using assms
  by (auto simp: gcpInventory_def gcp_read_disk_def list_ex_iff list_all_iff split: option.splits prod.splits sum.splits if_splits)

fun gcp_justified :: "'w gcp_sdk \<Rightarrow> provider_config \<Rightarrow> allocation \<Rightarrow> gcp_inventory \<Rightarrow> gcp_call \<Rightarrow> bool" where
  "gcp_justified g p a iv (InsertedInstance _ _ _ _) \<longleftrightarrow> False"
| "gcp_justified g p a iv (DeletedInstance project zone name request) \<longleftrightarrow>
     project = pc_Project p \<and> zone = off_Zone (al_Offering a) \<and> name = al_ID a \<and> request = gcpRequestID g p a ''delete-vm''
     \<and> (case gi_vm iv of None \<Rightarrow> False | Some vm \<Rightarrow> gcp_vm_owned g p a vm \<and> gcp_vm_disk_bound g p a vm)"
| "gcp_justified g p a iv (DeletedDisk project zone name request) \<longleftrightarrow>
     project = pc_Project p \<and> zone = off_Zone (al_Offering a) \<and> name = al_ID a \<and> request = gcpRequestID g p a ''delete-disk''
     \<and> gi_vm iv = None \<and> (case gi_disk iv of None \<Rightarrow> False | Some disk \<Rightarrow> gcp_disk_owned g p a disk \<and> gd_Users disk = [])"

lemma deleteGCP_calls:
  assumes "deleteGCP (noted_gcp g) p a (w, []) = (r, w', calls)" "calls \<noteq> []"
  shows "\<exists>w1 iv w2 call. gcpCreateTerminal g p a w = (None, w1) \<and> gcpInventory g p a w1 = (Inr iv, w2)
    \<and> calls = [call] \<and> gcp_justified g p a iv call"
proof -
  obtain x w1 where terminal: "gcpCreateTerminal g p a w = (x, w1)"
    by fastforce
  obtain y w2 where inventory: "gcpInventory g p a w1 = (y, w2)"
    by fastforce
  have "x = None"
    using assms terminal by (cases x) (auto simp: deleteGCP_def noted_gcp_terminal calls_simps)
  moreover obtain iv where iv: "y = Inr iv"
    using assms terminal \<open>x = None\<close> inventory
    by (cases y) (auto simp: deleteGCP_def noted_gcp_terminal noted_gcp_inventory calls_simps)
  moreover obtain s where s: "gk_Service g = Some s"
    using inventory iv by (cases "gk_Service g") (auto simp: gcpInventory_def)
  note run = assms(1) [unfolded deleteGCP_def noted_gcp_terminal noted_gcp_inventory]
  have "\<exists>call. calls = [call] \<and> gcp_justified g p a iv call"
  proof (cases "gi_vm iv")
    case (Some vm)
    obtain z w3 where "gs_DeleteInstance s (pc_Project p) (off_Zone (al_Offering a)) (al_ID a) (gcpRequestID g p a ''delete-vm'') w2 = (z, w3)"
      by fastforce
    with run terminal inventory \<open>x = None\<close> iv s Some gcpInventory_owned(1) [OF inventory [unfolded iv]] show ?thesis
      by (auto simp: noted_gcp_simps dest!: gcp_deletion_quiet)
  next
    case None
    then obtain disk where disk: "gi_disk iv = Some disk" "gd_Users disk = []"
      using run terminal inventory \<open>x = None\<close> iv s assms(2) by (auto simp: noted_gcp_simps split: option.splits if_splits)
    obtain z w3 where "gs_DeleteDisk s (pc_Project p) (off_Zone (al_Offering a)) (al_ID a) (gcpRequestID g p a ''delete-disk'') w2 = (z, w3)"
      by fastforce
    with run terminal inventory \<open>x = None\<close> iv s None disk gcpInventory_owned(2) [OF inventory [unfolded iv]] show ?thesis
      by (auto simp: noted_gcp_simps dest!: gcp_deletion_quiet)
  qed
  ultimately show ?thesis
    using terminal inventory by blast
qed

text \<open>
  Claim C40 (the GCP adapter deletes only what is its own): in one deletion the adapter makes at most one call
  that changes the cloud, and only after the creation is confirmed to have ended and the inventory was read: the deletion of the
  allocation's own machine, whose only disk is its boot disk and goes with it, or, when the machine is gone, of
  its own disk that nothing uses. The request ID is derived from the allocation, so a repeated call is the same request.
\<close>

theorem deleteGCP_owned:
  assumes "deleteGCP (noted_gcp g) p a (w, []) = (r, w', calls)"
  shows "calls = [] \<or> (\<exists>w1 iv w2 call. gcpCreateTerminal g p a w = (None, w1) \<and> gcpInventory g p a w1 = (Inr iv, w2)
    \<and> calls = [call] \<and> gcp_justified g p a iv call)"
  using deleteGCP_calls [OF assms] by blast

definition demo_gcp_config :: provider_config where
  "demo_gcp_config = \<lparr>pc_AccountID = [], pc_Subscription = [], pc_ResourceGroup = [], pc_SSHPublicKey = [],
     pc_Kind = ''gcp'', pc_Project = ''p1'', pc_Profile = [], pc_Subnet = ''s1'', pc_SecurityGroup = [], pc_Owner = ''rs'',
     pc_WireGuardControllerURL = [], pc_AzureDiskControllerType = []\<rparr>"

definition demo_gcp_allocation :: allocation where
  "demo_gcp_allocation = (demo_allocation Deleting)\<lparr>al_ResourceID := ''a1''\<rparr>"

definition demo_gcp_disk :: gcp_disk where
  "demo_gcp_disk = \<lparr>gd_Name = ''a1'', gd_Id = 7, gd_SelfLink = gcpResource demo_gcp_config demo_gcp_allocation ''disks'' ''a1'',
     gd_Labels = gcpLabels demo_gcp_config demo_gcp_allocation, gd_Users = []\<rparr>"

text \<open>The machine was preempted and its disk was left behind; the deletion is answered by an operation that is done.\<close>

definition demo_gcp_service :: "unit gcp_service" where
  "demo_gcp_service = \<lparr>gs_GetInstance = (\<lambda>_ _ _ w. (Inl (errors_New ''not found'', Some 404), w)),
     gs_GetDisk = (\<lambda>_ _ _ w. (Inr demo_gcp_disk, w)),
     gs_ListOperations = (\<lambda>_ _ _ w. (([\<lparr>gp_Kind = ''compute#operationList'', gp_Items = []\<rparr>], None), w)),
     gs_GetOperation = (\<lambda>_ _ _ w. (Inr None, w)), gs_InsertInstance = (\<lambda>_ _ _ _ w. (Inr None, w)),
     gs_DeleteInstance = (\<lambda>_ _ _ _ w. (Inr None, w)),
     gs_DeleteDisk = (\<lambda>_ _ _ request w. (Inr (Some \<lparr>go_Name = ''op-1'', go_ClientOperationId = request, go_OperationType = ''delete'',
       go_TargetLink = gcpResource demo_gcp_config demo_gcp_allocation ''disks'' ''a1'', go_Status = ''DONE'', go_Error = None,
       go_HttpErrorStatusCode = 0\<rparr>), w))\<rparr>"

definition demo_gcp_sdk :: "unit gcp_sdk" where
  "demo_gcp_sdk = \<lparr>gk_Service = Some demo_gcp_service,
     gk_ParseURL = (\<lambda>s. Some \<lparr>url_Scheme = [], url_Host = [], url_User = False, url_RawQuery = [], url_Fragment = [], url_Path = s\<rparr>),
     gk_UUID = (\<lambda>s. s), gk_Timer = (\<lambda>w. (True, w))\<rparr>"

lemma demo_gcp_deletion:
  "deleteGCP (noted_gcp demo_gcp_sdk) demo_gcp_config demo_gcp_allocation ((), [])
    = (None, (), [DeletedDisk ''p1'' ''us-east-1a'' ''a1'' (gcpRequestID demo_gcp_sdk demo_gcp_config demo_gcp_allocation ''delete-disk'')])"
  by code_simp

theorem deleteGCP_owned_witness:
  "\<exists>w1 iv w2. gcpInventory demo_gcp_sdk demo_gcp_config demo_gcp_allocation w1 = (Inr iv, w2)
    \<and> gcp_justified demo_gcp_sdk demo_gcp_config demo_gcp_allocation iv
      (DeletedDisk ''p1'' ''us-east-1a'' ''a1'' (gcpRequestID demo_gcp_sdk demo_gcp_config demo_gcp_allocation ''delete-disk''))"
  using deleteGCP_owned [OF demo_gcp_deletion] by auto

section \<open>Creation\<close>

text \<open>The labels a creation sends are the ones the inventory looks for.\<close>

lemma gcpLabels_owned: "ownsGCP p a (gcpLabels p a)"
  by (simp add: ownsGCP_def gcpLabels_def map_get_def)

lemma noted_gcp_capture: "gcpCaptureWireGuardEndpoint (noted_service s) p a = quietly (gcpCaptureWireGuardEndpoint s p a)"
  by (auto simp: fun_eq_iff gcpCaptureWireGuardEndpoint_def noted_gcp_simps split: prod.split sum.split)

text \<open>A creation makes at most one changing call, and only when the machine and disk of that name are absent.\<close>

lemma createGCP_once:
  assumes "createGCP (noted_gcp g) p a script (w, []) = (r, w', calls)"
  shows "calls = [] \<or> (\<exists>iv w1. gcpInventory g p a w = (Inr iv, w1) \<and> gi_vm iv = None \<and> gi_disk iv = None
    \<and> calls = [InsertedInstance (pc_Project p) (off_Zone (al_Offering a)) (gcp_instance p a script) (gcpRequestID g p a ''create'')])"
proof -
  obtain y w1 where inventory: "gcpInventory g p a w = (y, w1)"
    by fastforce
  show ?thesis
    using assms inventory
    by (auto simp: createGCP_def noted_gcp_inventory noted_gcp_wait noted_gcp_capture noted_gcp_simps
        split: option.splits sum.splits prod.splits if_splits)
qed

end
