(* ===== verification/Spec2Isabelle.thy ===== *)
theory Spec2Isabelle
  imports Lifecycle_Safety State_Store Operator_Pass Operator_Prices Config_Accept Config_Runtime_Safety Agent
    Aws_Safety Gcp_Safety
begin

text \<open>
  RunnerScout: an autoscaler of GitHub Actions runners on cloud virtual machines. This development
  models the Go program under \<open>src/\<close> and proves the properties its safety rests on.

  \<^bold>\<open>The program.\<close> A scale set is a group of ephemeral runners for one GitHub Actions scale set. GitHub
  reports how many jobs wait; \<open>internal/operator\<close> admits that demand against its limits
  (\<open>internal/admission\<close>) and a daily budget, keeps the admissions in a fleet record, and turns each into an
  allocation record (\<open>internal/state\<close>: one ConfigMap per allocation). A reconciliation pass steps every record
  through the state machine of \<open>internal/lifecycle\<close>, which chooses a pool (\<open>internal/placement\<close>), calls a
  cloud provider (\<open>internal/provider\<close>) and deregisters the runner before a record becomes terminal. Jobs
  interrupted by the cloud (\<open>internal/azureevents\<close>, \<open>internal/azurequeue\<close>) are run again within a policy
  (\<open>internal/recovery\<close>); prices are refreshed before a choice (\<open>internal/prices\<close>); wireguard-mode runners
  get an overlay address (\<open>internal/wireguard\<close>), and an agent on each keeps its peers in step with the list that \<open>internal/health\<close> serves. In CRD mode \<open>internal/configapi\<close> reads the configuration
  objects (\<open>api/v1alpha1\<close>) and their Secrets, compiles and checkpoints them, and runs at most one worker
  for the scale set: a session, a recovery or a cleanup.

  \<^bold>\<open>How Go is modelled.\<close> \<open>Go_Prelude\<close> has times and durations in nanoseconds with the saturation of
  \<open>Time.Sub\<close>, errors as a text with the sentinels \<open>errors.Is\<close> finds in it, 64-bit integers with their
  wrap-around, maps as association lists in their iteration order (theorems hold for every order), strings,
  and sorting. Structs are records with the field names of the source, interfaces are records of operations.
  Every operation with effects takes and returns a world \<open>'w\<close>, which stands for everything outside
  the function: API servers, clouds, clocks, and other clients that act between two calls. The theorems hold for
  every type of worlds and every implementation of the interfaces, unless a contract is stated. \<open>Kube\<close> has the
  ConfigMap operations, JSON texts by the outcome of decoding them, and a reference server that meets the
  contract of a Kubernetes API server (optimistic concurrency on the resource version).

  \<^bold>\<open>Placement\<close> (\<open>placement.go\<close>) in \<open>Placement\<close>: offerings, requirements, eligibility and \<open>Choose\<close>. The choice is
  the cheapest eligible pool in the order of the source, with its error exactly when no pool is eligible
  or the observations are incomplete, and it does not depend on the order of the catalog.

  \<^bold>\<open>Lifecycle\<close> (\<open>lifecycle.go\<close>, \<open>resources.go\<close>) in \<open>Lifecycle\<close> and \<open>Resources\<close>: every phase of \<open>Controller.Step\<close>
  over an arbitrary store, provider and deregistrar. \<open>Lifecycle_Calls\<close> computes the sequences of calls a step
  can make; \<open>Lifecycle_Safety\<close> reads off them that a create is preceded by its durable commitment, that a record
  becomes terminal only after a confirmed absence and deregistration, that a step makes at most one mutating
  provider call, and that the steps refine the documented phase machine. The locale
  \<open>allocation_store\<close> is the contract the lifecycle needs of its store.

  \<^bold>\<open>Allocation store\<close> (\<open>kubernetes.go\<close>) in \<open>State_Store\<close>: \<open>Load\<close>, \<open>Save\<close>, \<open>Delete\<close> and \<open>List\<close>. It interprets \<open>allocation_store\<close>;
  a save never overwrites a version the caller has not seen and never drops a recorded cloud dependency, and a
  saved record is loaded back.

  \<^bold>\<open>Operator\<close> (\<open>operator.go\<close>, \<open>budget.go\<close>, \<open>control.go\<close>, \<open>retry.go\<close>, \<open>prices.go\<close>, \<open>runners.go\<close>,
  \<open>azure_interruptions.go\<close>) in \<open>Operator_Fleet\<close> (configuration, validation, fleet record, budget arithmetic on 64-bit
  integers), \<open>Operator\<close> (fleet storage, price refresh and the demand handler) and \<open>Operator_Tick\<close> (job events,
  retries, pruning, and a pass \<open>Tick\<close> in which the steps of the records interleave in every order the
  goroutines allow). \<open>Operator_Admission\<close> and \<open>Operator_Safety\<close> show the bounds on admissions, the daily budget as
  an invariant, and that overlay addresses are never shared; \<open>Operator_Trace\<close> that pruning is ordered after
  deregistration and the saved fleet; \<open>Operator_Retry\<close> that reruns are justified and counted; \<open>Operator_Pass\<close>
  that admissions become records, that every record is stepped once, that slots are released once, and when a
  scale set is drained; \<open>Operator_Prices\<close> that no stale price is chosen. \<open>Operator_Demo\<close> has the example operator
  of the witnesses. \<open>Admission\<close>, \<open>Recovery\<close>, \<open>Overlay\<close>, \<open>Prices\<close>, \<open>Provider_Config\<close> and \<open>Azure_Events\<close> model the
  packages the operator calls.

  \<^bold>\<open>Configuration\<close> (\<open>types.go\<close>, \<open>compile.go\<close>, \<open>read.go\<close>, \<open>secrets.go\<close>, \<open>load.go\<close>, \<open>checkpoint.go\<close>) in \<open>Config_API\<close>
  (the objects and their validation markers), \<open>Config_Compile\<close>, \<open>Config_Read\<close> and \<open>Config_Checkpoint\<close>.
  \<open>Config_Accept\<close> shows what an accepted configuration satisfies: disjoint network blocks that cover every
  provider, only live objects of the namespace, and all markers of the schema. \<open>Config_Snapshot\<close> shows that a
  loaded configuration with its credentials held as a whole at one instant although others write meanwhile;
  \<open>Config_Recover\<close> that a checkpoint resolves to what was accepted and is replaced only within its binding.

  \<^bold>\<open>Runtime\<close> (\<open>runtime.go\<close>, \<open>checks.go\<close>) in \<open>Config_Runtime\<close>: a pass \<open>Reconcile\<close> with every branch, the loop of \<open>Run\<close>
  as a \<open>partial_function\<close> (\<open>None\<close> when it never ends), and the uninstall checks. \<open>Config_Runtime_Monitor\<close> keeps a
  history of the calls beside the world and reads it with a monitor, in the locale \<open>recorded_runtime\<close>;
  \<open>Config_Runtime_Safety\<close> interprets that locale on every runtime and shows that workers start one at a time and
  guarded, and that the finalizer outlives the cloud resources.

  \<^bold>\<open>Overlay network\<close> (\<open>wireguard.go\<close>, \<open>wireguard_peers.go\<close>, \<open>health.go\<close>, \<open>tunnel.go\<close>, \<open>agent\<close>) in \<open>Wireguard\<close> (keys, poll
  tokens, peer lists), \<open>Health\<close> (the HTTP handlers), \<open>Tunnel\<close> (the configuration protocol of the device) and \<open>Agent\<close>
  (the polling loop on a runner), over \<open>Base64\<close>. A peer list is served only to the holder of the token of a live
  allocation, and the first answered poll makes the configured peers exactly that list. The contract of the
  device is the locale \<open>uapi_device\<close>, which gives \<open>tunnel_device\<close>, with \<open>steady_device\<close> and \<open>steady_uapi\<close> for devices that take every peer;
  they are interpreted on the tunnel of the source over a reference device that reads the texts it sends.

  \<^bold>\<open>Cloud adapters\<close> (\<open>aws_sdk.go\<close>, \<open>aws_inventory.go\<close>, \<open>aws.go\<close>, \<open>gcp_sdk.go\<close>) in \<open>Aws_Inventory\<close>, \<open>Aws_Adapter\<close> and
  \<open>Gcp_Adapter\<close>, over parameter clients. \<open>Cloud_Calls\<close> records the calls that change the cloud beside the world;
  \<open>Aws_Safety\<close> and \<open>Gcp_Safety\<close> show that a creation or deletion makes at most one such call, justified by the ownership
  and identity the inventory confirmed just before.

  \<^bold>\<open>Bounds and fuel.\<close> Loops are structural recursion over the lists they range over;
  the scan of \<open>NextOverlayAddress\<close> has a termination proof on the remaining addresses; a pass of the operator is total for
  every schedule; only the endless loops of \<open>Run\<close> (of the
  runtime and of the agent) are partial, and their properties are shown for any number of rounds. The paging of the AWS inventory
  ends after 100 tokens, as in the source. Three numbers are budgets: the seconds until the deadline in
  \<open>waitGCPOperation\<close> (300 for a creation and 60 for a deletion, one per round of the source), the three attempts of
  \<open>await_disks\<close>, and the digits of \<open>digits_of\<close> (3 for a byte, 4 for a group of an address, 5 for a port or an HTTP status), which are
  enough for every value there.
  Integers of the source are 64-bit where they can overflow (budget arithmetic) and unbounded where the
  source bounds them first.

  \<^bold>\<open>Parameters.\<close> SHA-256, JSON printing, the Kubernetes name and label validators, UUIDs, clocks, and the results of
  parsing URLs and CIDRs are parameters. Contracts on parameters are the named predicates
  \<open>validators_contract\<close>, \<open>server_contract\<close>, \<open>creates_fresh\<close>, \<open>updates_versioned\<close> and
  \<open>kube_contract\<close> of \<open>Kube\<close>; each has an instance in the witnesses.

  \<^bold>\<open>Not modelled.\<close> The Azure adapter (\<open>azure*.go\<close>), which handles untyped ARM documents and compares names by Unicode case
  folding, and with it the dispatch of \<open>command.go\<close> to the three adapters and its bootstrap script; the credential
  sources and the XML envelope check below the SDKs; the price and GitHub clients, whose answers are parameters;
  leader election and the construction of clients (\<open>leadership.go\<close>, \<open>operator/credentials.go\<close>, \<open>newWorker\<close>);
  the command line programs apart from the option checks of the agent; generated code, logging and redaction. Wall-clock
  deadlines of calls are errors that a call may return.
\<close>

end
